(* ===== verification/Prelude.thy ===== *)
theory Prelude
  imports Main
begin

text \<open>
  Shared vocabulary of the development: the collections that carry the component
  proofs, the SQL-style row operations on association-free tables (a table is the list
  of its rows in insertion order), and the generic list lemmas the components share.
\<close>

named_theorems wf_intros \<open>introduction rules for the well-formedness invariants\<close>
named_theorems frame_simps \<open>what an operation leaves unchanged\<close>
named_theorems step_defs \<open>definitions a component's step proofs unfold\<close>

section \<open>Results\<close>

text \<open>A fallible operation returns \<open>Inl\<close> of its error or \<open>Inr\<close> of its value.\<close>

type_synonym ('e, 'a) result = "'e + 'a"

lemma case_sum_Inr_iff:
  "(case r of Inl e \<Rightarrow> Inl (f e) | Inr a \<Rightarrow> g a) = Inr y \<longleftrightarrow> (\<exists>a. r = Inr a \<and> g a = Inr y)"
  by (cases r) auto

lemma case_option_Some_iff:
  "(case r of None \<Rightarrow> None | Some a \<Rightarrow> g a) = Some y \<longleftrightarrow> (\<exists>a. r = Some a \<and> g a = Some y)"
  by (cases r) auto

section \<open>Tables\<close>

text \<open>\<open>SELECT ... WHERE p LIMIT 1\<close> in row order.\<close>

definition select1 :: "('r \<Rightarrow> bool) \<Rightarrow> 'r list \<Rightarrow> 'r option" where
  "select1 p rows = List.find p rows"

text \<open>\<open>UPDATE ... SET f WHERE p\<close>.\<close>

definition update_where :: "('r \<Rightarrow> bool) \<Rightarrow> ('r \<Rightarrow> 'r) \<Rightarrow> 'r list \<Rightarrow> 'r list" where
  "update_where p f rows = map (\<lambda>r. if p r then f r else r) rows"

lemma select1_Nil [simp]: "select1 p [] = None"
  by (simp add: select1_def)

lemma select1_Cons [simp]: "select1 p (x # xs) = (if p x then Some x else select1 p xs)"
  by (simp add: select1_def)

lemma select1_SomeD: "select1 p rows = Some r \<Longrightarrow> r \<in> set rows \<and> p r"
  by (induction rows) (auto split: if_splits)

lemma select1_None_iff: "select1 p rows = None \<longleftrightarrow> (\<forall>r \<in> set rows. \<not> p r)"
  by (induction rows) auto

lemma select1_append:
  "select1 p (xs @ ys) = (case select1 p xs of None \<Rightarrow> select1 p ys | Some r \<Rightarrow> Some r)"
  by (induction xs) auto

text \<open>Where the rows that satisfy the query are all one row, the query finds that row.\<close>

lemma select1_unique:
  assumes "r \<in> set rows" "p r" "\<And>r'. r' \<in> set rows \<Longrightarrow> p r' \<Longrightarrow> r' = r"
  shows "select1 p rows = Some r"
proof (cases "select1 p rows")
  case None
  with assms(1,2) show ?thesis by (auto simp: select1_None_iff)
next
  case (Some r')
  with assms(3) show ?thesis by (auto dest: select1_SomeD)
qed

lemma select1_update_other:
  assumes "\<And>r. r \<in> set rows \<Longrightarrow> q r \<Longrightarrow> \<not> p r \<and> \<not> p (f r)"
  shows "select1 p (update_where q f rows) = select1 p rows"
  using assms by (induction rows) (auto simp: update_where_def)

lemma set_update_where:
  "set (update_where p f rows) = f ` {r \<in> set rows. p r} \<union> {r \<in> set rows. \<not> p r}"
  by (auto simp: update_where_def)

lemma update_where_append [simp]:
  "update_where p f (xs @ ys) = update_where p f xs @ update_where p f ys"
  by (simp add: update_where_def)

lemma update_where_none: "\<forall>r \<in> set rows. \<not> p r \<Longrightarrow> update_where p f rows = rows"
  by (induction rows) (auto simp: update_where_def)

lemma length_update_where [simp]: "length (update_where p f rows) = length rows"
  by (simp add: update_where_def)

text \<open>A column that no update writes.\<close>

lemma map_update_where:
  assumes "\<And>r. r \<in> set rows \<Longrightarrow> p r \<Longrightarrow> g (f r) = g r"
  shows "map g (update_where p f rows) = map g rows"
  using assms by (auto simp: update_where_def)

text \<open>Two rows with one key are one row.\<close>

lemma distinct_map_eqD:
  "distinct (map k rows) \<Longrightarrow> r \<in> set rows \<Longrightarrow> r' \<in> set rows \<Longrightarrow> k r = k r' \<Longrightarrow> r = r'"
  by (auto simp: distinct_map dest: inj_onD)

lemma select1_by_key:
  assumes "distinct (map k rows)" "r \<in> set rows"
  shows "select1 (\<lambda>x. k x = k r) rows = Some r"
  using assms by (intro select1_unique) (auto dest: distinct_map_eqD)

lemma filter_singletonI:
  assumes "distinct rows" "r \<in> set rows" "p r" "\<forall>r' \<in> set rows. p r' \<longrightarrow> r' = r"
  shows "filter p rows = [r]"
proof -
  obtain xs ys where rows: "rows = xs @ r # ys" using assms(2) by (auto simp: in_set_conv_decomp)
  then have "r \<notin> set xs" "r \<notin> set ys" using assms(1) by auto
  then have "\<forall>x \<in> set xs. \<not> p x" "\<forall>y \<in> set ys. \<not> p y"
    using assms(4) rows by (metis UnCI set_append list.set_intros(2))+
  then show ?thesis using rows assms(3) by simp
qed

section \<open>Association lists as Go maps\<close>

text \<open>
  A Go map literal is modelled as the list of its pairs; assignment replaces the pair with
  that key or appends one, so the list keeps one pair for each key.
\<close>

fun assoc_set :: "'k \<Rightarrow> 'v \<Rightarrow> ('k \<times> 'v) list \<Rightarrow> ('k \<times> 'v) list" where
  "assoc_set k v [] = [(k, v)]"
| "assoc_set k v ((k', v') # m) = (if k' = k then (k, v) # m else (k', v') # assoc_set k v m)"

definition assoc_del :: "'k \<Rightarrow> ('k \<times> 'v) list \<Rightarrow> ('k \<times> 'v) list" where
  "assoc_del k m = filter (\<lambda>p. fst p \<noteq> k) m"

lemma map_of_assoc_set [simp]: "map_of (assoc_set k v m) = (map_of m)(k \<mapsto> v)"
  by (induction k v m rule: assoc_set.induct) auto

lemma keys_assoc_set: "fst ` set (assoc_set k v m) = insert k (fst ` set m)"
  by (induction k v m rule: assoc_set.induct) auto

lemma distinct_assoc_set:
  "distinct (map fst m) \<Longrightarrow> distinct (map fst (assoc_set k v m))"
proof (induction k v m rule: assoc_set.induct)
  case (2 k v k' v' m)
  then show ?case using keys_assoc_set [of k v m] by (cases "k' = k") auto
qed simp

lemma set_assoc_set_subset: "set (assoc_set k v m) \<subseteq> insert (k, v) (set m)"
  by (induction k v m rule: assoc_set.induct) auto

lemma map_of_assoc_del [simp]: "map_of (assoc_del k m) = (map_of m)(k := None)"
  by (induction m) (auto simp: assoc_del_def)

lemma set_assoc_del_subset: "set (assoc_del k m) \<subseteq> set m"
  by (auto simp: assoc_del_def)

end
