(* ===== verification/Go_Text.thy ===== *)
theory Go_Text
  imports Prelude "HOL-Library.Char_ord" "HOL-Library.List_Lexorder"
begin

text \<open>
  The parts of Go's \<open>strings\<close>, \<open>strconv\<close>, \<open>unicode\<close> and \<open>unicode/utf8\<close> packages that
  the program uses. A Go string is its list of bytes, so a \<open>char\<close> is a byte and
  \<open>length\<close> is Go's \<open>len\<close>; a rune is a \<open>nat\<close>. Lexicographic order on byte lists is Go's
  \<open><\<close> on strings (\<open>sort.Strings\<close>).
\<close>

section \<open>Bytes and runes\<close>

definition byte :: "char \<Rightarrow> nat" where
  "byte c = of_char c"

definition chr :: "nat \<Rightarrow> char" where
  "chr n = char_of n"

lemma byte_less_256: "byte c < 256"
  by (simp add: byte_def)

lemma chr_byte [simp]: "chr (byte c) = c"
  by (simp add: chr_def byte_def)

lemma byte_chr: "n < 256 \<Longrightarrow> byte (chr n) = n"
  by (simp add: chr_def byte_def)

definition rune_error :: nat where
  "rune_error = 65533"

definition is_cont :: "nat \<Rightarrow> bool" where
  "is_cont b \<longleftrightarrow> 128 \<le> b \<and> b \<le> 191"

text \<open>
  \<open>utf8.DecodeRuneInString\<close>: the rune at the front and its width in bytes; an invalid or
  truncated sequence is \<open>rune_error\<close> of width 1. The second byte's range depends on the
  first (no overlong forms, no surrogates, nothing above 0x10FFFF).
\<close>

definition second_ok :: "nat \<Rightarrow> nat \<Rightarrow> bool" where
  "second_ok p b =
     (if p = 224 then 160 \<le> b \<and> b \<le> 191
      else if p = 237 then 128 \<le> b \<and> b \<le> 159
      else if p = 240 then 144 \<le> b \<and> b \<le> 191
      else if p = 244 then 128 \<le> b \<and> b \<le> 143
      else is_cont b)"

fun decode_rune :: "string \<Rightarrow> nat \<times> nat" where
  "decode_rune [] = (rune_error, 0)"
| "decode_rune (c # cs) =
     (let p = byte c in
      if p < 128 then (p, 1)
      else if 194 \<le> p \<and> p \<le> 223 then
        (case map byte (take 1 cs) of
           [b1] \<Rightarrow> if is_cont b1 then ((p - 192) * 64 + (b1 - 128), 2) else (rune_error, 1)
         | _ \<Rightarrow> (rune_error, 1))
      else if 224 \<le> p \<and> p \<le> 239 then
        (case map byte (take 2 cs) of
           [b1, b2] \<Rightarrow>
             if second_ok p b1 \<and> is_cont b2
             then ((p - 224) * 4096 + (b1 - 128) * 64 + (b2 - 128), 3) else (rune_error, 1)
         | _ \<Rightarrow> (rune_error, 1))
      else if 240 \<le> p \<and> p \<le> 244 then
        (case map byte (take 3 cs) of
           [b1, b2, b3] \<Rightarrow>
             if second_ok p b1 \<and> is_cont b2 \<and> is_cont b3
             then ((p - 240) * 262144 + (b1 - 128) * 4096 + (b2 - 128) * 64 + (b3 - 128), 4)
             else (rune_error, 1)
         | _ \<Rightarrow> (rune_error, 1))
      else (rune_error, 1))"

text \<open>\<open>for _, r := range s\<close>: the runes of a string in order.\<close>

fun runes :: "string \<Rightarrow> nat list" where
  "runes [] = []"
| "runes (c # cs) = (let (r, w) = decode_rune (c # cs) in r # runes (drop (w - 1) cs))"

text \<open>\<open>utf8.EncodeRune\<close>: surrogates and values out of range encode as \<open>rune_error\<close>.\<close>

definition encode_rune :: "nat \<Rightarrow> string" where
  "encode_rune r0 =
     (let r = (if 1114111 < r0 \<or> (55296 \<le> r0 \<and> r0 \<le> 57343) then rune_error else r0) in
      if r < 128 then [chr r]
      else if r < 2048 then [chr (192 + r div 64), chr (128 + r mod 64)]
      else if r < 65536 then
        [chr (224 + r div 4096), chr (128 + r div 64 mod 64), chr (128 + r mod 64)]
      else
        [chr (240 + r div 262144), chr (128 + r div 4096 mod 64), chr (128 + r div 64 mod 64),
         chr (128 + r mod 64)])"

text \<open>\<open>utf8.ValidString\<close>: no position decodes to an error of width one.\<close>

fun valid_utf8 :: "string \<Rightarrow> bool" where
  "valid_utf8 [] = True"
| "valid_utf8 (c # cs) =
     (let (r, w) = decode_rune (c # cs)
      in \<not> (r = rune_error \<and> w = 1) \<and> valid_utf8 (drop (w - 1) cs))"

definition is_ascii :: "string \<Rightarrow> bool" where
  "is_ascii s \<longleftrightarrow> list_all (\<lambda>c. byte c < 128) s"

text \<open>\<open>unicode.IsControl\<close>.\<close>

definition is_control :: "nat \<Rightarrow> bool" where
  "is_control r \<longleftrightarrow> r < 32 \<or> (127 \<le> r \<and> r \<le> 159)"

lemma is_ascii_Cons [simp]: "is_ascii (c # cs) \<longleftrightarrow> byte c < 128 \<and> is_ascii cs"
  by (simp add: is_ascii_def)

lemma is_ascii_Nil [simp]: "is_ascii []"
  by (simp add: is_ascii_def)

lemma runes_ascii: "is_ascii s \<Longrightarrow> runes s = map byte s"
  by (induction s) (auto simp: Let_def)

section \<open>Case\<close>

definition lower_byte :: "char \<Rightarrow> char" where
  "lower_byte c = (if 65 \<le> byte c \<and> byte c \<le> 90 then chr (byte c + 32) else c)"

text \<open>
  Unicode's simple lower-case mapping beyond ASCII, as (first, last, stride, offset): the
  runes first, first + stride, ..., last map to themselves plus the offset.
\<close>

definition lower_ranges :: "(nat \<times> nat \<times> nat \<times> int) list" where
  "lower_ranges =
   [(192, 214, 1, 32), (216, 222, 1, 32), (256, 302, 2, 1), (304, 304, 1, - 199),
    (306, 310, 2, 1), (313, 327, 2, 1), (330, 374, 2, 1), (376, 376, 1, - 121),
    (377, 381, 2, 1), (385, 385, 1, 210), (386, 388, 2, 1), (390, 390, 1, 206),
    (391, 391, 1, 1), (393, 394, 1, 205), (395, 395, 1, 1), (398, 398, 1, 79),
    (399, 399, 1, 202), (400, 400, 1, 203), (401, 401, 1, 1), (403, 403, 1, 205),
    (404, 404, 1, 207), (406, 406, 1, 211), (407, 407, 1, 209), (408, 408, 1, 1),
    (412, 412, 1, 211), (413, 413, 1, 213), (415, 415, 1, 214), (416, 420, 2, 1),
    (422, 422, 1, 218), (423, 423, 1, 1), (425, 425, 1, 218), (428, 428, 1, 1),
    (430, 430, 1, 218), (431, 431, 1, 1), (433, 434, 1, 217), (435, 437, 2, 1),
    (439, 439, 1, 219), (440, 440, 1, 1), (444, 444, 1, 1), (452, 452, 1, 2), (453, 453, 1, 1),
    (455, 455, 1, 2), (456, 456, 1, 1), (458, 458, 1, 2), (459, 475, 2, 1), (478, 494, 2, 1),
    (497, 497, 1, 2), (498, 500, 2, 1), (502, 502, 1, - 97), (503, 503, 1, - 56),
    (504, 542, 2, 1), (544, 544, 1, - 130), (546, 562, 2, 1), (570, 570, 1, 10795),
    (571, 571, 1, 1), (573, 573, 1, - 163), (574, 574, 1, 10792), (577, 577, 1, 1),
    (579, 579, 1, - 195), (580, 580, 1, 69), (581, 581, 1, 71), (582, 590, 2, 1),
    (880, 882, 2, 1), (886, 886, 1, 1), (895, 895, 1, 116), (902, 902, 1, 38),
    (904, 906, 1, 37), (908, 908, 1, 64), (910, 911, 1, 63), (913, 929, 1, 32),
    (931, 939, 1, 32), (975, 975, 1, 8), (984, 1006, 2, 1), (1012, 1012, 1, - 60),
    (1015, 1015, 1, 1), (1017, 1017, 1, - 7), (1018, 1018, 1, 1), (1021, 1023, 1, - 130),
    (1024, 1039, 1, 80), (1040, 1071, 1, 32), (1120, 1152, 2, 1), (1162, 1214, 2, 1),
    (1216, 1216, 1, 15), (1217, 1229, 2, 1), (1232, 1326, 2, 1), (1329, 1366, 1, 48),
    (4256, 4293, 1, 7264), (4295, 4295, 1, 7264), (4301, 4301, 1, 7264),
    (5024, 5103, 1, 38864), (5104, 5109, 1, 8), (7312, 7354, 1, - 3008),
    (7357, 7359, 1, - 3008), (7680, 7828, 2, 1), (7838, 7838, 1, - 7615), (7840, 7934, 2, 1),
    (7944, 7951, 1, - 8), (7960, 7965, 1, - 8), (7976, 7983, 1, - 8), (7992, 7999, 1, - 8),
    (8008, 8013, 1, - 8), (8025, 8031, 2, - 8), (8040, 8047, 1, - 8), (8072, 8079, 1, - 8),
    (8088, 8095, 1, - 8), (8104, 8111, 1, - 8), (8120, 8121, 1, - 8), (8122, 8123, 1, - 74),
    (8124, 8124, 1, - 9), (8136, 8139, 1, - 86), (8140, 8140, 1, - 9), (8152, 8153, 1, - 8),
    (8154, 8155, 1, - 100), (8168, 8169, 1, - 8), (8170, 8171, 1, - 112), (8172, 8172, 1, - 7),
    (8184, 8185, 1, - 128), (8186, 8187, 1, - 126), (8188, 8188, 1, - 9),
    (8486, 8486, 1, - 7517), (8490, 8490, 1, - 8383), (8491, 8491, 1, - 8262),
    (8498, 8498, 1, 28), (8544, 8559, 1, 16), (8579, 8579, 1, 1), (9398, 9423, 1, 26),
    (11264, 11311, 1, 48), (11360, 11360, 1, 1), (11362, 11362, 1, - 10743),
    (11363, 11363, 1, - 3814), (11364, 11364, 1, - 10727), (11367, 11371, 2, 1),
    (11373, 11373, 1, - 10780), (11374, 11374, 1, - 10749), (11375, 11375, 1, - 10783),
    (11376, 11376, 1, - 10782), (11378, 11378, 1, 1), (11381, 11381, 1, 1),
    (11390, 11391, 1, - 10815), (11392, 11490, 2, 1), (11499, 11501, 2, 1),
    (11506, 11506, 1, 1), (42560, 42604, 2, 1), (42624, 42650, 2, 1), (42786, 42798, 2, 1),
    (42802, 42862, 2, 1), (42873, 42875, 2, 1), (42877, 42877, 1, - 35332),
    (42878, 42886, 2, 1), (42891, 42891, 1, 1), (42893, 42893, 1, - 42280),
    (42896, 42898, 2, 1), (42902, 42920, 2, 1), (42922, 42922, 1, - 42308),
    (42923, 42923, 1, - 42319), (42924, 42924, 1, - 42315), (42925, 42925, 1, - 42305),
    (42926, 42926, 1, - 42308), (42928, 42928, 1, - 42258), (42929, 42929, 1, - 42282),
    (42930, 42930, 1, - 42261), (42931, 42931, 1, 928), (42932, 42946, 2, 1),
    (42948, 42948, 1, - 48), (42949, 42949, 1, - 42307), (42950, 42950, 1, - 35384),
    (42951, 42953, 2, 1), (42960, 42960, 1, 1), (42966, 42968, 2, 1), (42997, 42997, 1, 1),
    (65313, 65338, 1, 32), (66560, 66599, 1, 40), (66736, 66771, 1, 40), (66928, 66938, 1, 39),
    (66940, 66954, 1, 39), (66956, 66962, 1, 39), (66964, 66965, 1, 39), (68736, 68786, 1, 64),
    (71840, 71871, 1, 32), (93760, 93791, 1, 32), (125184, 125217, 1, 34)]"

definition lower_rune :: "nat \<Rightarrow> nat" where
  "lower_rune r =
     (if r < 128 then (if 65 \<le> r \<and> r \<le> 90 then r + 32 else r)
      else case List.find (\<lambda>(lo, hi, st, d). lo \<le> r \<and> r \<le> hi \<and> (r - lo) mod st = 0)
                  lower_ranges of
             None \<Rightarrow> r
           | Some (lo, hi, st, d) \<Rightarrow> nat (int r + d))"

text \<open>\<open>strings.ToLower\<close>: bytewise on ASCII strings, rune by rune on all others.\<close>

definition to_lower :: "string \<Rightarrow> string" where
  "to_lower s = (if is_ascii s then map lower_byte s
                 else concat (map (\<lambda>r. encode_rune (lower_rune r)) (runes s)))"

text \<open>
  \<open>strings.EqualFold\<close> where one side is an ASCII constant: besides the ASCII letters, the
  only runes that fold to ASCII are U+212A (to k) and U+017F (to s).
\<close>

definition fold_rune :: "nat \<Rightarrow> nat" where
  "fold_rune r = (if r = 8490 then 107 else if r = 383 then 115
                  else if 65 \<le> r \<and> r \<le> 90 then r + 32 else r)"

definition equal_fold_const :: "string \<Rightarrow> string \<Rightarrow> bool" where
  "equal_fold_const s const \<longleftrightarrow> map fold_rune (runes s) = map fold_rune (map byte const)"

text \<open>For evaluation: one-byte runes first.\<close>

lemma fold_rune_code [code]:
  "fold_rune r = (if r < 128 then (if 65 \<le> r \<and> r \<le> 90 then r + 32 else r)
                  else if r = 8490 then 107 else if r = 383 then 115 else r)"
  by (simp add: fold_rune_def)

section \<open>White space\<close>

text \<open>
  \<open>unicode.IsSpace\<close> on encodings: the one-byte, two-byte and three-byte runes with the
  property White\_Space. Suffixes are tested on the reversed string: a suffix that spells one
  of these encodings is the last rune, because its first byte is the only rune start in it.
\<close>

definition space1 :: "char \<Rightarrow> bool" where
  "space1 a \<longleftrightarrow> byte a = 32 \<or> (9 \<le> byte a \<and> byte a \<le> 13)"

definition space2 :: "char \<Rightarrow> char \<Rightarrow> bool" where
  "space2 a b \<longleftrightarrow> byte a = 194 \<and> (byte b = 133 \<or> byte b = 160)"

definition space3 :: "char \<Rightarrow> char \<Rightarrow> char \<Rightarrow> bool" where
  "space3 a b c \<longleftrightarrow>
     (byte a = 225 \<and> byte b = 154 \<and> byte c = 128)
   \<or> (byte a = 226 \<and> byte b = 128 \<and>
        (128 \<le> byte c \<and> byte c \<le> 138 \<or> byte c = 168 \<or> byte c = 169 \<or> byte c = 175))
   \<or> (byte a = 226 \<and> byte b = 129 \<and> byte c = 159)
   \<or> (byte a = 227 \<and> byte b = 128 \<and> byte c = 128)"

fun trim_left :: "string \<Rightarrow> string" where
  "trim_left (a # b # c # s) =
     (if space1 a then trim_left (b # c # s)
      else if space2 a b then trim_left (c # s)
      else if space3 a b c then trim_left s
      else a # b # c # s)"
| "trim_left [a, b] = (if space1 a then trim_left [b] else if space2 a b then [] else [a, b])"
| "trim_left [a] = (if space1 a then [] else [a])"
| "trim_left [] = []"

fun trim_left_rev :: "string \<Rightarrow> string" where
  "trim_left_rev (c # b # a # s) =
     (if space1 c then trim_left_rev (b # a # s)
      else if space2 b c then trim_left_rev (a # s)
      else if space3 a b c then trim_left_rev s
      else c # b # a # s)"
| "trim_left_rev [c, b] = (if space1 c then trim_left_rev [b] else if space2 b c then [] else [c, b])"
| "trim_left_rev [c] = (if space1 c then [] else [c])"
| "trim_left_rev [] = []"

text \<open>\<open>strings.TrimSpace\<close>.\<close>

definition trim_space :: "string \<Rightarrow> string" where
  "trim_space s = rev (trim_left_rev (rev (trim_left s)))"

lemma length_trim_left: "length (trim_left s) \<le> length s"
  by (induction s rule: trim_left.induct) auto

lemma length_trim_left_rev: "length (trim_left_rev s) \<le> length s"
  by (induction s rule: trim_left_rev.induct) auto

lemma length_trim_space: "length (trim_space s) \<le> length s"
  unfolding trim_space_def
  using length_trim_left [of s] length_trim_left_rev [of "rev (trim_left s)"] by simp

text \<open>A printable ASCII string has nothing to trim.\<close>

definition plain_ascii :: "string \<Rightarrow> bool" where
  "plain_ascii s \<longleftrightarrow> list_all (\<lambda>c. 33 \<le> byte c \<and> byte c \<le> 126) s"

lemma plain_asciiD: "plain_ascii s \<Longrightarrow> c \<in> set s \<Longrightarrow> 33 \<le> byte c \<and> byte c \<le> 126"
  by (simp add: plain_ascii_def list_all_iff)

lemma trim_left_plain: "plain_ascii s \<Longrightarrow> trim_left s = s"
  by (induction s rule: trim_left.induct)
     (auto simp: plain_ascii_def space1_def space2_def space3_def)

lemma trim_left_rev_plain: "plain_ascii s \<Longrightarrow> trim_left_rev s = s"
  by (induction s rule: trim_left_rev.induct)
     (auto simp: plain_ascii_def space1_def space2_def space3_def)

lemma trim_space_plain: "plain_ascii s \<Longrightarrow> trim_space s = s"
  by (simp add: trim_space_def trim_left_plain trim_left_rev_plain plain_ascii_def)

section \<open>Searching and splitting\<close>

definition has_prefix :: "string \<Rightarrow> string \<Rightarrow> bool" where
  "has_prefix s p \<longleftrightarrow> take (length p) s = p"

definition has_suffix :: "string \<Rightarrow> string \<Rightarrow> bool" where
  "has_suffix s p \<longleftrightarrow> has_prefix (rev s) (rev p)"

text \<open>\<open>strings.Index\<close>: the offset of the first occurrence.\<close>

fun index_of :: "string \<Rightarrow> string \<Rightarrow> nat option" where
  "index_of [] p = (if p = [] then Some 0 else None)"
| "index_of (c # s) p =
     (if has_prefix (c # s) p then Some 0 else map_option Suc (index_of s p))"

definition str_contains :: "string \<Rightarrow> string \<Rightarrow> bool" where
  "str_contains s p \<longleftrightarrow> index_of s p \<noteq> None"

text \<open>\<open>strings.Cut\<close>: before, after, found.\<close>

definition str_cut :: "string \<Rightarrow> string \<Rightarrow> string \<times> string \<times> bool" where
  "str_cut s sep = (case index_of s sep of
       None \<Rightarrow> (s, [], False)
     | Some i \<Rightarrow> (take i s, drop (i + length sep) s, True))"

text \<open>\<open>strings.Split\<close> on a one-byte separator.\<close>

fun split_on :: "char \<Rightarrow> string \<Rightarrow> string list" where
  "split_on sep [] = [[]]"
| "split_on sep (c # s) =
     (if c = sep then [] # split_on sep s
      else case split_on sep s of [] \<Rightarrow> [[c]] | w # ws \<Rightarrow> (c # w) # ws)"

definition contains_any :: "string \<Rightarrow> string \<Rightarrow> bool" where
  "contains_any s chars \<longleftrightarrow> list_ex (\<lambda>c. c \<in> set chars) s"

fun str_join :: "string \<Rightarrow> string list \<Rightarrow> string" where
  "str_join sep [] = []"
| "str_join sep [x] = x"
| "str_join sep (x # y # xs) = x @ sep @ str_join sep (y # xs)"

lemma split_on_nonempty: "split_on sep s \<noteq> []"
  by (induction s) (auto split: list.splits)

lemma has_prefix_append [simp]: "has_prefix (p @ s) p"
  by (simp add: has_prefix_def)

lemma has_prefixD: "has_prefix s p \<Longrightarrow> s = p @ drop (length p) s"
  by (metis append_take_drop_id has_prefix_def)

lemma index_of_SomeD:
  "index_of s p = Some i \<Longrightarrow> s = take i s @ p @ drop (i + length p) s"
proof (induction s p arbitrary: i rule: index_of.induct)
  case (1 p)
  then show ?case by (auto split: if_splits)
next
  case (2 c s p)
  show ?case
  proof (cases "has_prefix (c # s) p")
    case True
    with 2 show ?thesis using has_prefixD by fastforce
  next
    case False
    with 2 show ?thesis by auto
  qed
qed

lemma str_cut_found: "str_cut s sep = (a, b, True) \<Longrightarrow> s = a @ sep @ b"
  by (auto simp: str_cut_def split: option.splits dest: index_of_SomeD)

section \<open>Numbers\<close>

definition digit :: "nat \<Rightarrow> char" where
  "digit d = chr (48 + d)"

definition digit_value :: "char \<Rightarrow> nat option" where
  "digit_value c = (if 48 \<le> byte c \<and> byte c \<le> 57 then Some (byte c - 48) else None)"

fun show_nat :: "nat \<Rightarrow> string" where
  "show_nat n = (if n < 10 then [digit n] else show_nat (n div 10) @ [digit (n mod 10)])"

declare show_nat.simps [simp del]

text \<open>\<open>strconv.FormatInt(n, 10)\<close>.\<close>

definition show_int :: "int \<Rightarrow> string" where
  "show_int n = (if n < 0 then CHR ''-'' # show_nat (nat (- n)) else show_nat (nat n))"

fun read_digits :: "nat \<Rightarrow> string \<Rightarrow> nat option" where
  "read_digits acc [] = Some acc"
| "read_digits acc (c # s) =
     (case digit_value c of None \<Rightarrow> None | Some d \<Rightarrow> read_digits (10 * acc + d) s)"

text \<open>\<open>strconv.Atoi\<close> on a 64-bit platform: an optional sign, at least one digit, in range.\<close>

definition atoi :: "string \<Rightarrow> int option" where
  "atoi s =
     (let (neg, ds) = (case s of
          [] \<Rightarrow> (False, [])
        | c # cs \<Rightarrow> if c = CHR ''-'' then (True, cs) else if c = CHR ''+'' then (False, cs)
                    else (False, s))
      in if ds = [] then None
         else case read_digits 0 ds of
                None \<Rightarrow> None
              | Some n \<Rightarrow>
                  (if neg then (if n \<le> 2 ^ 63 then Some (- int n) else None)
                   else (if n < 2 ^ 63 then Some (int n) else None)))"

text \<open>For evaluation: over the binary integers.\<close>

fun read_int_digits :: "int \<Rightarrow> string \<Rightarrow> int option" where
  "read_int_digits acc [] = Some acc"
| "read_int_digits acc (c # s) =
     (case digit_value c of None \<Rightarrow> None | Some d \<Rightarrow> read_int_digits (10 * acc + int d) s)"

lemma read_int_digits: "read_int_digits (int acc) s = map_option int (read_digits acc s)"
proof (induction acc s rule: read_digits.induct)
  case (2 acc c s)
  show ?case
  proof (cases "digit_value c")
    case (Some d)
    have "10 * int acc + int d = int (10 * acc + d)" by simp
    with 2 Some show ?thesis by (simp only: read_int_digits.simps read_digits.simps option.case)
  qed simp
qed simp

lemma atoi_code [code]:
  "atoi s =
     (let (neg, ds) = (case s of
          [] \<Rightarrow> (False, [])
        | c # cs \<Rightarrow> if c = CHR ''-'' then (True, cs) else if c = CHR ''+'' then (False, cs)
                    else (False, s))
      in if ds = [] then None
         else case read_int_digits 0 ds of
                None \<Rightarrow> None
              | Some n \<Rightarrow>
                  (if neg then (if n \<le> 9223372036854775808 then Some (- n) else None)
                   else (if n < 9223372036854775808 then Some n else None)))"
proof -
  have "read_int_digits 0 ds = map_option int (read_digits 0 ds)" for ds
    using read_int_digits [of 0 ds] by simp
  then show ?thesis
    by (auto simp: atoi_def Let_def split: prod.splits option.splits list.splits if_splits)
qed

lemma digit_value_digit: "d < 10 \<Longrightarrow> digit_value (digit d) = Some d"
  by (simp add: digit_value_def digit_def byte_chr)

lemma read_digits_append:
  "read_digits acc (s @ t) = (case read_digits acc s of None \<Rightarrow> None | Some n \<Rightarrow> read_digits n t)"
  by (induction acc s rule: read_digits.induct) (auto split: option.splits)

lemma read_show_nat: "read_digits 0 (show_nat n) = Some n"
proof (induction n rule: show_nat.induct)
  case (1 n)
  show ?case
  proof (cases "n < 10")
    case True
    then show ?thesis by (simp add: show_nat.simps [of n] digit_value_digit)
  next
    case False
    with 1 show ?thesis
      by (simp add: show_nat.simps [of n] read_digits_append digit_value_digit)
  qed
qed

lemma show_nat_digits: "c \<in> set (show_nat n) \<Longrightarrow> 48 \<le> byte c \<and> byte c \<le> 57"
proof (induction n rule: show_nat.induct)
  case (1 n)
  then show ?case
    by (auto simp: show_nat.simps [of n] digit_def byte_chr split: if_splits)
qed

lemma show_nat_nonempty: "show_nat n \<noteq> []"
  by (simp add: show_nat.simps [of n])

lemma byte_minus: "byte (CHR ''-'') = 45" and byte_plus: "byte (CHR ''+'') = 43"
  by (simp_all add: byte_def)

text \<open>Reading what was shown gives the number back, on the whole \<open>int64\<close> range.\<close>

lemma atoi_show_int:
  assumes "- (2 ^ 63) \<le> n" "n < 2 ^ 63"
  shows "atoi (show_int n) = Some n"
proof (cases "n < 0")
  case True
  have "nat (- n) \<le> 2 ^ 63" using assms(1) by simp
  with True show ?thesis
    by (simp add: atoi_def show_int_def read_show_nat show_nat_nonempty)
next
  case False
  obtain c cs where c: "show_nat (nat n) = c # cs"
    using show_nat_nonempty by (cases "show_nat (nat n)") auto
  then have "c \<noteq> CHR ''-''" "c \<noteq> CHR ''+''"
    using show_nat_digits [of c "nat n"] by (auto simp: byte_minus byte_plus)
  moreover have "nat n < 2 ^ 63" using assms(2) False by simp
  ultimately show ?thesis
    using False read_show_nat [of "nat n"] by (simp add: atoi_def show_int_def c)
qed

section \<open>Sorting and truncation\<close>

text \<open>\<open>sort.Strings\<close> on byte strings.\<close>

definition sort_strings :: "string list \<Rightarrow> string list" where
  "sort_strings = sort"

lemma set_sort_strings [simp]: "set (sort_strings xs) = set xs"
  by (simp add: sort_strings_def)

lemma length_sort_strings [simp]: "length (sort_strings xs) = length xs"
  by (simp add: sort_strings_def)

lemma sorted_sort_strings: "sorted (sort_strings xs)"
  by (simp add: sort_strings_def)

text \<open>\<open>if len(s) <= max { return s }; return s[:max]\<close>, which three packages repeat.\<close>

definition truncate_to :: "nat \<Rightarrow> string \<Rightarrow> string" where
  "truncate_to n s = (if length s \<le> n then s else take n s)"

lemma length_truncate_to [simp]: "length (truncate_to n s) = min n (length s)"
  by (simp add: truncate_to_def)

section \<open>Identifier shapes\<close>

text \<open>
  The fixed patterns of the source are anchored ASCII classes, one for the first byte and one
  for the others: \<open>^[first][rest]*$\<close>. Go's \<open>$\<close> matches at the end of the text only.
\<close>

definition is_lower_alnum :: "char \<Rightarrow> bool" where
  "is_lower_alnum c \<longleftrightarrow> (97 \<le> byte c \<and> byte c \<le> 122) \<or> (48 \<le> byte c \<and> byte c \<le> 57)"

definition is_alnum :: "char \<Rightarrow> bool" where
  "is_alnum c \<longleftrightarrow> is_lower_alnum c \<or> (65 \<le> byte c \<and> byte c \<le> 90)"

definition matches_shape :: "(char \<Rightarrow> bool) \<Rightarrow> (char \<Rightarrow> bool) \<Rightarrow> string \<Rightarrow> bool" where
  "matches_shape first rest s =
     (case s of [] \<Rightarrow> False | c # cs \<Rightarrow> first c \<and> list_all rest cs)"

lemma alnum_plain: "is_alnum c \<Longrightarrow> 33 \<le> byte c \<and> byte c \<le> 126"
  by (auto simp: is_alnum_def is_lower_alnum_def)

end
