(* ===== verification/Audit_Model.thy ===== *)
theory Audit_Model
  imports Go_Text
begin

text \<open>
  The records of \<open>internal/store/model.go\<close>, the closed vocabulary of audit details with its
  validation, and the interface through which every other component writes audit rows
  (\<open>AppendAudit\<close>), as the locale \<open>audit_sink\<close>. Times are nanoseconds since the epoch, an
  \<open>int\<close>; the zero \<open>time.Time\<close> is \<open>None\<close>.
\<close>

section \<open>Records\<close>

record identity =
  id_node :: string
  id_name :: string
  id_user :: string

record machine =
  m_id :: string
  m_name :: string
  m_os :: string
  m_node_id :: string
  m_node_name :: string
  m_cred_hash :: string
  m_cred_version :: int
  m_created :: int
  m_updated :: int

datatype grant_state = GrantActive | GrantRevoked

record grant =
  g_id :: string
  g_machine :: string
  g_harness :: string
  g_caps :: "string list"
  g_state :: grant_state
  g_token_hash :: string
  g_created :: int
  g_revoked_at :: "int option"
  g_reason :: string

text \<open>The three known actor kinds, and any other text a caller may carry (the empty one too).\<close>

datatype actor_kind = ActorMachine | ActorOperator | ActorSystem | ActorText string

datatype outcome = OutcomeAllowed | OutcomeDenied

datatype event =
    EventEnrolment | EventCredentialRotation | EventGrantIssued | EventGrantSuperseded
  | EventGrantRevoked | EventAuthDenied | EventSecretImported | EventAuditQueried
  | EventCredentialFlowStarted | EventCredentialFlowCommitted | EventCredentialFlowFailed
  | EventConnectorToolCall | EventConnectorToolResult | EventConnectorDenied
  | EventPolicyViolation

record audit_event =
  ev_id :: int
  ev_ts :: "int option"
  ev_event :: event
  ev_actor :: actor_kind
  ev_obs_node :: string
  ev_obs_name :: string
  ev_machine :: string
  ev_harness :: string
  ev_grant :: string
  ev_class :: string
  ev_tool :: string
  ev_artifact :: string
  ev_outcome :: outcome
  ev_reason :: string
  ev_fingerprint :: string
  ev_detail :: "(string \<times> string) list"

text \<open>An event whose other fields have Go's zero values.\<close>

definition mk_event :: "event \<Rightarrow> actor_kind \<Rightarrow> outcome \<Rightarrow> audit_event" where
  "mk_event e a oc =
     \<lparr>ev_id = 0, ev_ts = None, ev_event = e, ev_actor = a, ev_obs_node = [], ev_obs_name = [],
      ev_machine = [], ev_harness = [], ev_grant = [], ev_class = [], ev_tool = [],
      ev_artifact = [], ev_outcome = oc, ev_reason = [], ev_fingerprint = [], ev_detail = []\<rparr>"

record secret =
  s_ref :: string
  s_cipher :: string
  s_gen :: int
  s_created :: int
  s_updated :: int

section \<open>The detail vocabulary\<close>

definition allowed_detail_keys :: "string list" where
  "allowed_detail_keys =
     [''machine_name'', ''os'', ''capabilities'', ''requested_capabilities'',
      ''superseded_grant_id'', ''superseded_by_grant_id'', ''target_machine_id'',
      ''bound_machine_id'', ''secret_ref'', ''secret_generation'', ''flow_id'',
      ''credential_version'', ''source'', ''since'', ''limit'', ''path'', ''method'',
      ''http_status'', ''observed_addr'', ''provider'', ''args_digest'', ''call_id'',
      ''required_capability'', ''exclusion_reason'']"

definition max_detail_value_len :: nat where
  "max_detail_value_len = 256"

datatype detail_error = KeyNotAllowed string | ValueTooLong string

text \<open>
  \<open>ValidateDetail\<close> ranges over a Go map, so which of several faults it names is not
  determined; that it names one is. The model names the first in list order.
\<close>

fun validate_detail :: "(string \<times> string) list \<Rightarrow> detail_error option" where
  "validate_detail [] = None"
| "validate_detail ((k, v) # detail) =
     (if k \<notin> set allowed_detail_keys then Some (KeyNotAllowed k)
      else if max_detail_value_len < length v then Some (ValueTooLong k)
      else validate_detail detail)"

lemma validate_detail_None_iff:
  "validate_detail d = None \<longleftrightarrow>
     (\<forall>(k, v) \<in> set d. k \<in> set allowed_detail_keys \<and> length v \<le> max_detail_value_len)"
  by (induction d rule: validate_detail.induct) auto

section \<open>Rows\<close>

text \<open>
  The detail column holds the map's JSON text, and \<open>json.Marshal\<close> replaces every invalid byte
  of a value by U+FFFD: what is read back is the value with those bytes replaced.
\<close>

definition utf8_coerce :: "string \<Rightarrow> string" where
  "utf8_coerce s = concat (map encode_rune (runes s))"

definition row_of :: "int \<Rightarrow> int \<Rightarrow> audit_event \<Rightarrow> audit_event" where
  "row_of i now e = e\<lparr>ev_id := i, ev_ts := Some (case ev_ts e of None \<Rightarrow> now | Some t \<Rightarrow> t),
                      ev_detail := map (\<lambda>(k, v). (k, utf8_coerce v)) (ev_detail e)\<rparr>"

text \<open>A row records an event when it is that event with an id and a time filled in.\<close>

definition records :: "audit_event \<Rightarrow> audit_event \<Rightarrow> bool" where
  "records r e \<longleftrightarrow> (\<exists>i now. r = row_of i now e)"

lemma records_fields:
  assumes "records r e"
  shows "ev_event r = ev_event e" "ev_actor r = ev_actor e" "ev_obs_node r = ev_obs_node e"
    "ev_machine r = ev_machine e" "ev_harness r = ev_harness e" "ev_grant r = ev_grant e"
    "ev_class r = ev_class e" "ev_tool r = ev_tool e" "ev_artifact r = ev_artifact e"
    "ev_outcome r = ev_outcome e" "ev_reason r = ev_reason e"
    "ev_fingerprint r = ev_fingerprint e" "map fst (ev_detail r) = map fst (ev_detail e)"
  using assms by (auto simp: records_def row_of_def)

lemma records_row_of [intro]: "records (row_of i now e) e"
  by (auto simp: records_def)

lemma length_encode_rune: "r < 2048 \<Longrightarrow> length (encode_rune r) \<le> 2"
  and length_encode_rune3: "r < 65536 \<Longrightarrow> length (encode_rune r) \<le> 3"
  and length_encode_rune4: "length (encode_rune r) \<le> 4"
  by (auto simp: encode_rune_def Let_def rune_error_def)

lemma take_eq_length: "take n xs = ys \<Longrightarrow> length ys \<le> length xs"
  by auto

lemma decode_rune_bound:
  assumes "decode_rune s = (r, w)" "s \<noteq> []"
  shows "1 \<le> w \<and> w \<le> length s \<and> length (encode_rune r) \<le> 3 * w"
proof -
  obtain c cs where s: "s = c # cs" using assms(2) by (cases s) auto
  have e: "length (encode_rune rune_error) \<le> 3" by (simp add: length_encode_rune3 rune_error_def)
  have l: "length (encode_rune r) \<le> 4" by (rule length_encode_rune4)
  consider "w = 1" "r = rune_error \<or> r = byte c" | "2 \<le> w"
    using assms(1) s by (auto simp: Let_def split: if_splits list.splits)
  then show ?thesis
  proof cases
    case 1
    have "byte c < 2048" using byte_less_256 [of c] by simp
    with 1 e length_encode_rune [of "byte c"] s show ?thesis by auto
  next
    case 2
    moreover have "w \<le> length s"
      using assms(1) s
      by (auto simp: Let_def split: if_splits list.splits dest!: take_eq_length)
    ultimately show ?thesis using l by linarith
  qed
qed

lemma length_utf8_coerce: "length (utf8_coerce s) \<le> 3 * length s"
proof (induction s rule: runes.induct)
  case (2 c cs)
  obtain r w where rw: "decode_rune (c # cs) = (r, w)" by fastforce
  then have b: "1 \<le> w" "w \<le> Suc (length cs)" "length (encode_rune r) \<le> 3 * w"
    using decode_rune_bound [OF rw] by auto
  have "length (utf8_coerce (drop (w - 1) cs)) \<le> 3 * length (drop (w - 1) cs)"
    using "2.IH" [OF rw [symmetric]] by simp
  with rw b show ?case by (simp add: utf8_coerce_def del: decode_rune.simps)
qed (simp add: utf8_coerce_def)

lemma utf8_coerce_ascii: "is_ascii s \<Longrightarrow> utf8_coerce s = s"
proof -
  assume a: "is_ascii s"
  then have "\<forall>c \<in> set s. encode_rune (byte c) = [c]"
    by (auto simp: is_ascii_def list_all_iff encode_rune_def)
  then have "concat (map (\<lambda>c. encode_rune (byte c)) s) = s" by (induction s) auto
  with a show ?thesis by (simp add: utf8_coerce_def runes_ascii comp_def)
qed

text \<open>The evaluation rule that the concrete instances use.\<close>

lemma utf8_coerce_code [code]:
  "utf8_coerce s = (if is_ascii s then s else concat (map encode_rune (runes s)))"
  using utf8_coerce_ascii by (simp add: utf8_coerce_def)

section \<open>The audit interface\<close>

text \<open>
  What a component relies on when it holds an \<open>AuditSink\<close>: a successful append adds exactly
  one row that records the event at the end of the log, and a failed one changes nothing.
  The first argument is whatever decides whether the write fails.
\<close>

locale audit_sink =
  fixes append :: "'f \<Rightarrow> int \<Rightarrow> audit_event \<Rightarrow> 's \<Rightarrow> ('x + unit) \<times> 's"
    and log :: "'s \<Rightarrow> audit_event list"
  assumes append_ok: "append f now e s = (Inr u, s') \<Longrightarrow> \<exists>r. log s' = log s @ [r] \<and> records r e"
    and append_err: "append f now e s = (Inl x, s') \<Longrightarrow> s' = s"
begin

lemma append_log_cases:
  assumes "append f now e s = (res, s')"
  obtains (written) r where "res = Inr ()" "log s' = log s @ [r]" "records r e"
    | (failed) x where "res = Inl x" "s' = s"
proof (cases res)
  case (Inl x)
  with assms failed show ?thesis by (auto dest: append_err)
next
  case (Inr u)
  with assms written show ?thesis by (auto dest: append_ok)
qed

lemma append_log_prefix: "append f now e s = (res, s') \<Longrightarrow> \<exists>rows. log s' = log s @ rows"
  by (erule append_log_cases) auto

end

text \<open>
  The connector edge's store: the audit log, and the two lookups that turn a presented token
  into a grant and a grant into its machine. A lookup by token yields a grant that is active
  now and whose stored hash is the one asked for; a lookup by id yields that machine.
\<close>

locale grant_directory = audit_sink append log
  for append :: "'f \<Rightarrow> int \<Rightarrow> audit_event \<Rightarrow> 's \<Rightarrow> ('x + unit) \<times> 's" and log +
  fixes by_token :: "'f \<Rightarrow> string \<Rightarrow> 's \<Rightarrow> 'x + grant"
    and by_machine_id :: "'f \<Rightarrow> string \<Rightarrow> 's \<Rightarrow> 'x + machine"
    and grants_of :: "'s \<Rightarrow> grant list"
    and machines_of :: "'s \<Rightarrow> machine list"
  assumes by_token_active:
      "by_token f h s = Inr g \<Longrightarrow> g \<in> set (grants_of s) \<and> g_token_hash g = h \<and> g_state g = GrantActive"
    and by_machine_id_row: "by_machine_id f i s = Inr m \<Longrightarrow> m \<in> set (machines_of s) \<and> m_id m = i"

text \<open>
  The credential broker's secret store: a read returns the stored secret, and a compare-and-swap
  that succeeds saw the generation it expected, replaces the secret with the next generation and
  appends the audit rows of its callback; one that fails changes nothing.
\<close>

locale cas_secrets =
  fixes get :: "'f \<Rightarrow> string \<Rightarrow> 's \<Rightarrow> 'x + secret"
    and cas :: "'f \<Rightarrow> int \<Rightarrow> string \<Rightarrow> string \<Rightarrow> int \<Rightarrow> (int \<Rightarrow> audit_event list) option
      \<Rightarrow> 's \<Rightarrow> ('x + int) \<times> 's"
    and generation :: "string \<Rightarrow> 's \<Rightarrow> int"
    and cipher_at :: "string \<Rightarrow> 's \<Rightarrow> string option"
    and log :: "'s \<Rightarrow> audit_event list"
  assumes get_current: "get f ref s = Inr sec \<Longrightarrow> generation ref s = s_gen sec \<and> cipher_at ref s = Some (s_cipher sec)"
    and cas_ok: "cas f now ref c n (Some au) s = (Inr k, s') \<Longrightarrow>
        generation ref s = n \<and> k = n + 1 \<and> generation ref s' = k \<and> cipher_at ref s' = Some c
        \<and> (\<exists>rows. log s' = log s @ rows \<and> list_all2 records rows (au k))"
    and cas_other: "cas f now ref c n aud s = (Inr k, s') \<Longrightarrow> ref' \<noteq> ref \<Longrightarrow> cipher_at ref' s' = cipher_at ref' s"
    and cas_err: "cas f now ref c n aud s = (Inl x, s') \<Longrightarrow> s' = s"

end
