(* ===== verification/Go_Crypto.thy ===== *)
theory Go_Crypto
  imports Go_Text "HOL-Library.Word"
begin

text \<open>
  The parts of \<open>crypto/sha256\<close>, \<open>encoding/hex\<close> and \<open>encoding/base64\<close> the program uses. No
  theorem of the development depends on collision resistance: what is proved about hashed
  credentials is stated on the hashes. \<open>crypto/rand\<close> is not modelled as a function; an
  operation that draws random bytes takes them as an argument.
\<close>

unbundle bit_operations_syntax

type_synonym w32 = "32 word"

section \<open>SHA-256\<close>

definition rotr32 :: "nat \<Rightarrow> w32 \<Rightarrow> w32" where
  "rotr32 n x = drop_bit n x OR push_bit (32 - n) x"

definition sig_big0 :: "w32 \<Rightarrow> w32" where
  "sig_big0 x = rotr32 2 x XOR rotr32 13 x XOR rotr32 22 x"

definition sig_big1 :: "w32 \<Rightarrow> w32" where
  "sig_big1 x = rotr32 6 x XOR rotr32 11 x XOR rotr32 25 x"

definition sig_small0 :: "w32 \<Rightarrow> w32" where
  "sig_small0 x = rotr32 7 x XOR rotr32 18 x XOR drop_bit 3 x"

definition sig_small1 :: "w32 \<Rightarrow> w32" where
  "sig_small1 x = rotr32 17 x XOR rotr32 19 x XOR drop_bit 10 x"

text \<open>The fractional parts of the cube roots of the first 64 primes, in decimal.\<close>

definition round_consts :: "w32 list" where
  "round_consts =
     [1116352408, 1899447441, 3049323471, 3921009573, 961987163, 1508970993, 2453635748,
      2870763221, 3624381080, 310598401, 607225278, 1426881987, 1925078388, 2162078206,
      2614888103, 3248222580, 3835390401, 4022224774, 264347078, 604807628, 770255983,
      1249150122, 1555081692, 1996064986, 2554220882, 2821834349, 2952996808, 3210313671,
      3336571891, 3584528711, 113926993, 338241895, 666307205, 773529912, 1294757372,
      1396182291, 1695183700, 1986661051, 2177026350, 2456956037, 2730485921, 2820302411,
      3259730800, 3345764771, 3516065817, 3600352804, 4094571909, 275423344, 430227734,
      506948616, 659060556, 883997877, 958139571, 1322822218, 1537002063, 1747873779,
      1955562222, 2024104815, 2227730452, 2361852424, 2428436474, 2756734187, 3204031479,
      3329325298]"

text \<open>The fractional parts of the square roots of the first eight primes, in decimal.\<close>

definition hash_init :: "w32 list" where
  "hash_init =
     [1779033703, 3144134277, 1013904242, 2773480762,
      1359893119, 2600822924, 528734635, 1541459225]"

definition be_bytes :: "nat \<Rightarrow> nat \<Rightarrow> string" where
  "be_bytes k n = map (\<lambda>i. chr (n div 256 ^ i mod 256)) (rev [0..<k])"

definition sha_pad :: "string \<Rightarrow> string" where
  "sha_pad s = s @ [chr 128] @ replicate ((119 - length s mod 64) mod 64) (chr 0)
                 @ be_bytes 8 (8 * length s)"

fun be_words :: "string \<Rightarrow> w32 list" where
  "be_words (a # b # c # d # s) =
     of_nat (((byte a * 256 + byte b) * 256 + byte c) * 256 + byte d) # be_words s"
| "be_words _ = []"

text \<open>The message schedule, newest word first: \<open>n\<close> further words.\<close>

fun sha_extend :: "nat \<Rightarrow> w32 list \<Rightarrow> w32 list" where
  "sha_extend 0 ws = ws"
| "sha_extend (Suc n) ws =
     sha_extend n ((sig_small1 (ws ! 1) + ws ! 6 + sig_small0 (ws ! 14) + ws ! 15) # ws)"

definition sha_round :: "w32 list \<Rightarrow> w32 \<times> w32 \<Rightarrow> w32 list" where
  "sha_round st kw = (case st of
       [a, b, c, d, e, f, g, h] \<Rightarrow>
         (let t1 = h + sig_big1 e + ((e AND f) XOR (NOT e AND g)) + fst kw + snd kw;
              t2 = sig_big0 a + ((a AND b) XOR (a AND c) XOR (b AND c))
          in [t1 + t2, a, b, c, d + t1, e, f, g])
     | _ \<Rightarrow> st)"

definition sha_block :: "w32 list \<Rightarrow> w32 list \<Rightarrow> w32 list" where
  "sha_block st block =
     map2 (+) st (foldl sha_round st (zip round_consts (rev (sha_extend 48 (rev block)))))"

fun sha_blocks :: "nat \<Rightarrow> w32 list \<Rightarrow> w32 list \<Rightarrow> w32 list" where
  "sha_blocks 0 st ws = st"
| "sha_blocks (Suc n) st ws = sha_blocks n (sha_block st (take 16 ws)) (drop 16 ws)"

definition sha256 :: "string \<Rightarrow> string" where
  "sha256 s =
     (let ws = be_words (sha_pad s)
      in concat (map (\<lambda>w. be_bytes 4 (unat w)) (sha_blocks (length ws div 16) hash_init ws)))"

section \<open>Hexadecimal and base64\<close>

definition hex_digit :: "nat \<Rightarrow> char" where
  "hex_digit n = (if n < 10 then chr (48 + n) else chr (87 + n))"

text \<open>\<open>hex.EncodeToString\<close>.\<close>

definition hex_encode :: "string \<Rightarrow> string" where
  "hex_encode s = concat (map (\<lambda>c. [hex_digit (byte c div 16), hex_digit (byte c mod 16)]) s)"

text \<open>The two base64 alphabets differ in the last two characters.\<close>

definition b64_char :: "bool \<Rightarrow> nat \<Rightarrow> char" where
  "b64_char url n =
     (if n < 26 then chr (65 + n) else if n < 52 then chr (71 + n) else if n < 62 then chr (n - 4)
      else if n = 62 then (if url then CHR ''-'' else CHR ''+'')
      else (if url then CHR ''_'' else CHR ''/''))"

text \<open>\<open>base64.RawURLEncoding.EncodeToString\<close>.\<close>

fun b64_raw_url :: "string \<Rightarrow> string" where
  "b64_raw_url (a # b # c # s) =
     (let n = (byte a * 256 + byte b) * 256 + byte c
      in [b64_char True (n div 262144), b64_char True (n div 4096 mod 64),
          b64_char True (n div 64 mod 64), b64_char True (n mod 64)] @ b64_raw_url s)"
| "b64_raw_url [a, b] =
     (let n = byte a * 256 + byte b
      in [b64_char True (n div 1024), b64_char True (n div 16 mod 64), b64_char True (n * 4 mod 64)])"
| "b64_raw_url [a] = [b64_char True (byte a div 4), b64_char True (byte a * 16 mod 64)]"
| "b64_raw_url [] = []"

section \<open>Lengths\<close>

lemma length_be_bytes [simp]: "length (be_bytes k n) = k"
  by (simp add: be_bytes_def)

lemma length_sha_round: "length (sha_round st kw) = length st"
  by (auto simp: sha_round_def Let_def split: list.splits)

lemma length_foldl_sha_round: "length (foldl sha_round st kws) = length st"
  by (induction kws arbitrary: st) (simp_all add: length_sha_round)

lemma length_sha_block: "length (sha_block st block) = length st"
  by (simp add: sha_block_def length_foldl_sha_round)

lemma length_sha_blocks: "length (sha_blocks n st ws) = length st"
  by (induction n arbitrary: st ws) (simp_all add: length_sha_block)

lemma length_concat_const:
  "(\<And>x. x \<in> set xs \<Longrightarrow> length (f x) = k) \<Longrightarrow> length (concat (map f xs)) = k * length xs"
  by (induction xs) auto

lemma length_sha256: "length (sha256 s) = 32"
  by (simp add: sha256_def Let_def length_concat_const length_sha_blocks hash_init_def)

lemma length_hex_encode: "length (hex_encode s) = 2 * length s"
  by (simp add: hex_encode_def length_concat_const)

lemma hex_digit_plain: "n < 16 \<Longrightarrow> is_lower_alnum (hex_digit n)"
  by (auto simp: hex_digit_def is_lower_alnum_def byte_chr)

lemma hex_encode_plain: "list_all is_lower_alnum (hex_encode s)"
proof -
  have "byte c div 16 < 16" for c
    using byte_less_256 [of c] by linarith
  then show ?thesis
    by (auto simp: hex_encode_def list_all_iff intro: hex_digit_plain)
qed


end
