(* ===== verification/Cred.thy ===== *)
theory Cred
  imports Go_Crypto
begin

text \<open>
  \<open>internal/cred\<close>: minting, hashing, verifying and fingerprinting of bearer credentials. The
  random bytes of \<open>New\<close> are an argument (\<open>None\<close> when the generator fails).
\<close>

definition token_bytes :: nat where
  "token_bytes = 32"

definition cred_hash :: "string \<Rightarrow> string" where
  "cred_hash plaintext = hex_encode (sha256 plaintext)"

definition cred_new :: "string option \<Rightarrow> (string \<times> string) option" where
  "cred_new rnd = (case rnd of
       None \<Rightarrow> None
     | Some buf \<Rightarrow> let plaintext = b64_raw_url buf in Some (plaintext, cred_hash plaintext))"

definition cred_verify :: "string \<Rightarrow> string \<Rightarrow> bool" where
  "cred_verify plaintext stored_hash \<longleftrightarrow> cred_hash plaintext = stored_hash"

definition fingerprint_domain :: string where
  "fingerprint_domain = ''homeplane/audit-token-fingerprint'' @ [chr 0]"

definition fingerprint_len :: nat where
  "fingerprint_len = 12"

definition cred_fingerprint :: "string \<Rightarrow> string" where
  "cred_fingerprint plaintext =
     take fingerprint_len (hex_encode (sha256 (fingerprint_domain @ plaintext)))"

lemma length_cred_hash: "length (cred_hash tok) = 64"
  by (simp add: cred_hash_def length_hex_encode length_sha256)

lemma length_cred_fingerprint: "length (cred_fingerprint tok) = 12"
  by (simp add: cred_fingerprint_def fingerprint_len_def length_hex_encode length_sha256)

lemma cred_hash_neq_short: "length s \<noteq> 64 \<Longrightarrow> cred_hash tok \<noteq> s"
  using length_cred_hash by auto

lemma cred_new_verifies: "cred_new rnd = Some (tok, h) \<Longrightarrow> cred_verify tok h"
  by (auto simp: cred_new_def cred_verify_def Let_def split: option.splits)

end
