(* ===== verification/Store.thy ===== *)
theory Store
  imports Audit_Model Cred "HOL-Library.Product_Lexorder"
begin

text \<open>
  \<open>internal/store/sqlite.go\<close>: the SQLite-backed registry of machines and grants, the
  append-only audit log and the secret store. A table is the list of its rows; the schema's
  keys, unique indexes and foreign key are checked by the inserts. Any statement may fail: an
  operation takes the set of statements that do (\<open>faults\<close>), the time it reads and the random
  bytes it draws. It returns its result and the database, which a rolled-back transaction
  leaves as it was.
\<close>

record db =
  db_machines :: "machine list"
  db_grants :: "grant list"
  db_audit :: "audit_event list"
  db_audit_seq :: int
  db_secrets :: "secret list"

definition empty_db :: db where
  "empty_db = \<lparr>db_machines = [], db_grants = [], db_audit = [], db_audit_seq = 0, db_secrets = []\<rparr>"

datatype stmt = SBegin | SLookup | SRevokePrior | SInsert | SUpdate | SAudit nat | SCommit | SQuery

type_synonym faults = "stmt \<Rightarrow> bool"

definition no_faults :: faults where
  "no_faults = (\<lambda>_. False)"

datatype store_error =
    ErrNotFound
  | ErrAuditCallbackRequired
  | ErrGenerationConflict string int int
  | ErrDetail detail_error
  | ErrRandom
  | ErrStmt stmt

type_synonym 'a store_op = "db \<Rightarrow> (store_error + 'a) \<times> db"

section \<open>Identifiers and audit rows\<close>

text \<open>\<open>newID\<close>: the random bytes are eight; \<open>None\<close> when the generator fails.\<close>

definition new_id :: "string \<Rightarrow> string option \<Rightarrow> string option" where
  "new_id prefix rnd = (case rnd of None \<Rightarrow> None | Some b \<Rightarrow> Some (prefix @ ''-'' @ hex_encode b))"

definition insert_audit :: "int \<Rightarrow> audit_event \<Rightarrow> db \<Rightarrow> db" where
  "insert_audit now e db =
     (let i = db_audit_seq db + 1
      in db\<lparr>db_audit := db_audit db @ [row_of i now e], db_audit_seq := i\<rparr>)"

text \<open>\<open>appendAudit\<close>, against the database or a transaction's copy of it.\<close>

definition append_audit_row :: "faults \<Rightarrow> nat \<Rightarrow> int \<Rightarrow> audit_event \<Rightarrow> db \<Rightarrow> store_error + db" where
  "append_audit_row fl i now e db =
     (case validate_detail (ev_detail e) of
        Some err \<Rightarrow> Inl (ErrDetail err)
      | None \<Rightarrow> if fl (SAudit i) then Inl (ErrStmt (SAudit i)) else Inr (insert_audit now e db))"

definition append_audit :: "faults \<Rightarrow> int \<Rightarrow> audit_event \<Rightarrow> unit store_op" where
  "append_audit fl now e db =
     (case append_audit_row fl 0 now e db of Inl err \<Rightarrow> (Inl err, db) | Inr db' \<Rightarrow> (Inr (), db'))"

fun append_audit_tx :: "faults \<Rightarrow> nat \<Rightarrow> int \<Rightarrow> audit_event list \<Rightarrow> db \<Rightarrow> store_error + db" where
  "append_audit_tx fl i now [] tx = Inr tx"
| "append_audit_tx fl i now (e # es) tx =
     (case append_audit_row fl i now e tx of
        Inl err \<Rightarrow> Inl err
      | Inr tx' \<Rightarrow> append_audit_tx fl (Suc i) now es tx')"

text \<open>
  The end every mutation shares: the audit events go into the transaction, then it commits.
  \<open>db\<close> is the database the transaction began on, \<open>tx\<close> its copy with the mutation applied.
\<close>

definition audit_and_commit :: "faults \<Rightarrow> int \<Rightarrow> audit_event list \<Rightarrow> 'a \<Rightarrow> db \<Rightarrow> db
    \<Rightarrow> (store_error + 'a) \<times> db" where
  "audit_and_commit fl now events res db tx =
     (case append_audit_tx fl 0 now events tx of
        Inl err \<Rightarrow> (Inl err, db)
      | Inr tx' \<Rightarrow> if fl SCommit then (Inl (ErrStmt SCommit), db) else (Inr res, tx'))"

section \<open>Machines\<close>

definition insert_machine :: "faults \<Rightarrow> machine \<Rightarrow> db \<Rightarrow> db option" where
  "insert_machine fl m db =
     (if fl SInsert \<or> m_id m \<in> m_id ` set (db_machines db)
         \<or> m_node_id m \<in> m_node_id ` set (db_machines db)
      then None else Some (db\<lparr>db_machines := db_machines db @ [m]\<rparr>))"

text \<open>The record a first enrolment inserts, and the one a re-enrolment rewrites.\<close>

definition new_machine :: "int \<Rightarrow> string \<Rightarrow> identity \<Rightarrow> string \<Rightarrow> string \<Rightarrow> string \<Rightarrow> machine" where
  "new_machine now mid ident name os_name credential_hash =
     \<lparr>m_id = mid, m_name = name, m_os = os_name, m_node_id = id_node ident,
      m_node_name = id_name ident, m_cred_hash = credential_hash, m_cred_version = 1,
      m_created = now, m_updated = now\<rparr>"

definition rotate_machine :: "int \<Rightarrow> identity \<Rightarrow> string \<Rightarrow> string \<Rightarrow> string \<Rightarrow> machine \<Rightarrow> machine" where
  "rotate_machine now ident name os_name credential_hash m =
     m\<lparr>m_name := name, m_os := os_name, m_node_name := id_name ident,
       m_cred_hash := credential_hash, m_cred_version := m_cred_version m + 1, m_updated := now\<rparr>"

definition enrol :: "faults \<Rightarrow> int \<Rightarrow> string option \<Rightarrow> identity \<Rightarrow> string \<Rightarrow> string \<Rightarrow> string
    \<Rightarrow> (machine \<Rightarrow> bool \<Rightarrow> audit_event list) option \<Rightarrow> (machine \<times> bool) store_op" where
  "enrol fl now rnd ident name os_name credential_hash audit db =
     (case audit of
        None \<Rightarrow> (Inl ErrAuditCallbackRequired, db)
      | Some au \<Rightarrow>
          if fl SBegin then (Inl (ErrStmt SBegin), db)
          else if fl SLookup then (Inl (ErrStmt SLookup), db)
          else (case select1 (\<lambda>m. m_node_id m = id_node ident) (db_machines db) of
             None \<Rightarrow>
               (case new_id ''m'' rnd of
                  None \<Rightarrow> (Inl ErrRandom, db)
                | Some mid \<Rightarrow>
                    let m = new_machine now mid ident name os_name credential_hash
                    in (case insert_machine fl m db of
                          None \<Rightarrow> (Inl (ErrStmt SInsert), db)
                        | Some tx \<Rightarrow> audit_and_commit fl now (au m False) (m, False) db tx))
           | Some m0 \<Rightarrow>
               let m = rotate_machine now ident name os_name credential_hash m0
               in if fl SUpdate then (Inl (ErrStmt SUpdate), db)
                  else audit_and_commit fl now (au m True) (m, True) db
                    (db\<lparr>db_machines := update_where (\<lambda>r. m_id r = m_id m0) (\<lambda>_. m) (db_machines db)\<rparr>)))"

definition query1 :: "faults \<Rightarrow> ('r \<Rightarrow> bool) \<Rightarrow> 'r list \<Rightarrow> store_error + 'r" where
  "query1 fl p rows =
     (if fl SQuery then Inl (ErrStmt SQuery)
      else case select1 p rows of None \<Rightarrow> Inl ErrNotFound | Some r \<Rightarrow> Inr r)"

definition machine_by_node_id :: "faults \<Rightarrow> string \<Rightarrow> db \<Rightarrow> store_error + machine" where
  "machine_by_node_id fl node db = query1 fl (\<lambda>m. m_node_id m = node) (db_machines db)"

definition machine_by_id :: "faults \<Rightarrow> string \<Rightarrow> db \<Rightarrow> store_error + machine" where
  "machine_by_id fl i db = query1 fl (\<lambda>m. m_id m = i) (db_machines db)"

definition machine_by_credential_hash :: "faults \<Rightarrow> string \<Rightarrow> db \<Rightarrow> store_error + machine" where
  "machine_by_credential_hash fl h db = query1 fl (\<lambda>m. m_cred_hash m = h) (db_machines db)"

section \<open>Grants\<close>

definition active_for :: "string \<Rightarrow> string \<Rightarrow> grant \<Rightarrow> bool" where
  "active_for mid harness g \<longleftrightarrow>
     g_machine g = mid \<and> g_harness g = harness \<and> g_state g = GrantActive"

definition revoke_row :: "int \<Rightarrow> string \<Rightarrow> grant \<Rightarrow> grant" where
  "revoke_row now reason g = g\<lparr>g_state := GrantRevoked, g_revoked_at := Some now, g_reason := reason\<rparr>"

text \<open>The primary key, the unique token hash, the foreign key and the partial unique index.\<close>

definition insert_grant :: "faults \<Rightarrow> grant \<Rightarrow> db \<Rightarrow> db option" where
  "insert_grant fl g db =
     (if fl SInsert \<or> g_id g \<in> g_id ` set (db_grants db)
         \<or> g_token_hash g \<in> g_token_hash ` set (db_grants db)
         \<or> g_machine g \<notin> m_id ` set (db_machines db)
         \<or> (g_state g = GrantActive \<and> list_ex (active_for (g_machine g) (g_harness g)) (db_grants db))
      then None else Some (db\<lparr>db_grants := db_grants db @ [g]\<rparr>))"

definition issue_grant :: "faults \<Rightarrow> int \<Rightarrow> string option \<Rightarrow> string \<Rightarrow> string \<Rightarrow> string list \<Rightarrow> string
    \<Rightarrow> (grant \<Rightarrow> grant option \<Rightarrow> audit_event list) option \<Rightarrow> (grant \<times> grant option) store_op" where
  "issue_grant fl now rnd mid harness caps token_hash audit db =
     (case audit of
        None \<Rightarrow> (Inl ErrAuditCallbackRequired, db)
      | Some au \<Rightarrow>
          if fl SBegin then (Inl (ErrStmt SBegin), db)
          else if fl SLookup then (Inl (ErrStmt SLookup), db)
          else (let existing = select1 (active_for mid harness) (db_grants db) in
            if existing \<noteq> None \<and> fl SRevokePrior then (Inl (ErrStmt SRevokePrior), db)
            else (let superseded = map_option (revoke_row now ''superseded'') existing;
                      tx = (case existing of
                              None \<Rightarrow> db
                            | Some e \<Rightarrow> db\<lparr>db_grants :=
                                update_where (\<lambda>r. g_id r = g_id e) (revoke_row now ''superseded'')
                                  (db_grants db)\<rparr>)
              in (case new_id ''g'' rnd of
                    None \<Rightarrow> (Inl ErrRandom, db)
                  | Some gid \<Rightarrow>
                      let g = \<lparr>g_id = gid, g_machine = mid, g_harness = harness, g_caps = caps,
                               g_state = GrantActive, g_token_hash = token_hash, g_created = now,
                               g_revoked_at = None, g_reason = []\<rparr>
                      in (case insert_grant fl g tx of
                            None \<Rightarrow> (Inl (ErrStmt SInsert), db)
                          | Some tx' \<Rightarrow>
                              audit_and_commit fl now (au g superseded) (g, superseded) db tx')))))"

definition grant_by_id :: "faults \<Rightarrow> string \<Rightarrow> db \<Rightarrow> store_error + grant" where
  "grant_by_id fl i db = query1 fl (\<lambda>g. g_id g = i) (db_grants db)"

definition active_grant_by_token_hash :: "faults \<Rightarrow> string \<Rightarrow> db \<Rightarrow> store_error + grant" where
  "active_grant_by_token_hash fl h db =
     query1 fl (\<lambda>g. g_token_hash g = h \<and> g_state g = GrantActive) (db_grants db)"

definition revoke_grant :: "faults \<Rightarrow> int \<Rightarrow> string \<Rightarrow> string
    \<Rightarrow> (grant \<Rightarrow> audit_event list) option \<Rightarrow> (grant \<times> bool) store_op" where
  "revoke_grant fl now i reason audit db =
     (case audit of
        None \<Rightarrow> (Inl ErrAuditCallbackRequired, db)
      | Some au \<Rightarrow>
          if fl SBegin then (Inl (ErrStmt SBegin), db)
          else if fl SLookup then (Inl (ErrStmt SLookup), db)
          else (case select1 (\<lambda>g. g_id g = i) (db_grants db) of
             None \<Rightarrow> (Inl ErrNotFound, db)
           | Some g \<Rightarrow>
               if g_state g \<noteq> GrantActive
               then (if fl SCommit then (Inl (ErrStmt SCommit), db) else (Inr (g, False), db))
               else if fl SUpdate then (Inl (ErrStmt SUpdate), db)
               else (let g' = revoke_row now reason g in
                 audit_and_commit fl now (au g') (g', True) db
                   (db\<lparr>db_grants := update_where (\<lambda>r. g_id r = i) (revoke_row now reason)
                      (db_grants db)\<rparr>))))"

text \<open>\<open>ORDER BY created_at DESC, id DESC\<close>.\<close>

definition list_grants :: "faults \<Rightarrow> string \<Rightarrow> db \<Rightarrow> store_error + grant list" where
  "list_grants fl mid db =
     (if fl SQuery then Inl (ErrStmt SQuery)
      else Inr (rev (sort_key (\<lambda>g. (g_created g, g_id g))
             (filter (\<lambda>g. g_machine g = mid) (db_grants db)))))"

section \<open>The audit log\<close>

text \<open>A limit selects the newest rows; either way the result is oldest first.\<close>

definition query_audit :: "faults \<Rightarrow> int option \<Rightarrow> int \<Rightarrow> db \<Rightarrow> store_error + audit_event list" where
  "query_audit fl since limit db =
     (if fl SQuery then Inl (ErrStmt SQuery)
      else (let rows = filter (\<lambda>e. case since of None \<Rightarrow> True | Some t \<Rightarrow> t \<le> the (ev_ts e)) (db_audit db)
            in Inr (if 0 < limit
                    then sort_key ev_id (take (nat limit) (rev (sort_key ev_id rows)))
                    else sort_key ev_id rows)))"

section \<open>Secrets\<close>

definition put_secret_gen :: "faults \<Rightarrow> int \<Rightarrow> string \<Rightarrow> string \<Rightarrow> int option
    \<Rightarrow> (int \<Rightarrow> audit_event list) option \<Rightarrow> int store_op" where
  "put_secret_gen fl now ref cipher expected audit db =
     (case audit of
        None \<Rightarrow> (Inl ErrAuditCallbackRequired, db)
      | Some au \<Rightarrow>
          if fl SBegin then (Inl (ErrStmt SBegin), db)
          else if fl SLookup then (Inl (ErrStmt SLookup), db)
          else (let row = select1 (\<lambda>s. s_ref s = ref) (db_secrets db);
                    current = (case row of None \<Rightarrow> 0 | Some s \<Rightarrow> s_gen s) in
            (let conflict = (case expected of
               Some x \<Rightarrow> if current \<noteq> x then Some (ErrGenerationConflict ref current x) else None
             | None \<Rightarrow> None) in
            case conflict of
              Some err \<Rightarrow> (Inl err, db)
            | None \<Rightarrow>
               (case row of
                  None \<Rightarrow>
                    if fl SInsert then (Inl (ErrStmt SInsert), db)
                    else audit_and_commit fl now (au 1) 1 db
                      (db\<lparr>db_secrets := db_secrets db @
                          [\<lparr>s_ref = ref, s_cipher = cipher, s_gen = 1, s_created = now, s_updated = now\<rparr>]\<rparr>)
                | Some s \<Rightarrow>
                    let generation = s_gen s + 1 in
                    if fl SUpdate then (Inl (ErrStmt SUpdate), db)
                    else audit_and_commit fl now (au generation) generation db
                      (db\<lparr>db_secrets := update_where (\<lambda>r. s_ref r = ref)
                          (\<lambda>r. r\<lparr>s_cipher := cipher, s_gen := generation, s_updated := now\<rparr>)
                          (db_secrets db)\<rparr>)))))"

definition put_secret :: "faults \<Rightarrow> int \<Rightarrow> string \<Rightarrow> string
    \<Rightarrow> (int \<Rightarrow> audit_event list) option \<Rightarrow> int store_op" where
  "put_secret fl now ref cipher audit db = put_secret_gen fl now ref cipher None audit db"

definition put_secret_cas :: "faults \<Rightarrow> int \<Rightarrow> string \<Rightarrow> string \<Rightarrow> int
    \<Rightarrow> (int \<Rightarrow> audit_event list) option \<Rightarrow> int store_op" where
  "put_secret_cas fl now ref cipher expected audit db =
     put_secret_gen fl now ref cipher (Some expected) audit db"

definition get_secret :: "faults \<Rightarrow> string \<Rightarrow> db \<Rightarrow> store_error + secret" where
  "get_secret fl ref db = query1 fl (\<lambda>s. s_ref s = ref) (db_secrets db)"

record secret_meta =
  sm_ref :: string
  sm_gen :: int
  sm_bytes :: nat
  sm_encrypted :: bool
  sm_created :: int
  sm_updated :: int

text \<open>\<open>secrets.LooksEncrypted\<close>: the bytes begin like an age message.\<close>

definition looks_encrypted :: "string \<Rightarrow> bool" where
  "looks_encrypted b \<longleftrightarrow> has_prefix b ''age-encryption.org/v1''"

definition list_secret_meta :: "faults \<Rightarrow> db \<Rightarrow> store_error + secret_meta list" where
  "list_secret_meta fl db =
     (if fl SQuery then Inl (ErrStmt SQuery)
      else Inr (map (\<lambda>s. \<lparr>sm_ref = s_ref s, sm_gen = s_gen s, sm_bytes = length (s_cipher s),
                          sm_encrypted = looks_encrypted (s_cipher s), sm_created = s_created s,
                          sm_updated = s_updated s\<rparr>)
             (sort_key s_ref (db_secrets db))))"

section \<open>Mutations as calls\<close>

text \<open>
  The five mutating entry points as one type of call, with the result each returns and the
  events its callback hands over for that result.
\<close>

datatype store_call =
    CallEnrol identity string string string "(machine \<Rightarrow> bool \<Rightarrow> audit_event list) option"
  | CallIssue string string "string list" string "(grant \<Rightarrow> grant option \<Rightarrow> audit_event list) option"
  | CallRevoke string string "(grant \<Rightarrow> audit_event list) option"
  | CallPut string string "int option" "(int \<Rightarrow> audit_event list) option"
  | CallAudit audit_event

datatype call_result =
    ResEnrol machine bool
  | ResIssue grant "grant option"
  | ResRevoke grant bool
  | ResPut int
  | ResAudit

fun run_call :: "faults \<Rightarrow> int \<Rightarrow> string option \<Rightarrow> store_call \<Rightarrow> call_result store_op" where
  "run_call fl now rnd (CallEnrol ident name os_name h au) db =
     apfst (map_sum id (\<lambda>(m, rot). ResEnrol m rot)) (enrol fl now rnd ident name os_name h au db)"
| "run_call fl now rnd (CallIssue mid harness caps h au) db =
     apfst (map_sum id (\<lambda>(g, s). ResIssue g s)) (issue_grant fl now rnd mid harness caps h au db)"
| "run_call fl now rnd (CallRevoke i reason au) db =
     apfst (map_sum id (\<lambda>(g, c). ResRevoke g c)) (revoke_grant fl now i reason au db)"
| "run_call fl now rnd (CallPut ref cipher expected au) db =
     apfst (map_sum id ResPut) (put_secret_gen fl now ref cipher expected au db)"
| "run_call fl now rnd (CallAudit e) db =
     apfst (map_sum id (\<lambda>_. ResAudit)) (append_audit fl now e db)"

fun call_events :: "store_call \<Rightarrow> call_result \<Rightarrow> audit_event list" where
  "call_events (CallEnrol ident name os_name h (Some au)) (ResEnrol m rot) = au m rot"
| "call_events (CallIssue mid harness caps h (Some au)) (ResIssue g s) = au g s"
| "call_events (CallRevoke i reason (Some au)) (ResRevoke g changed) = (if changed then au g else [])"
| "call_events (CallPut ref cipher expected (Some au)) (ResPut n) = au n"
| "call_events (CallAudit e) ResAudit = [e]"
| "call_events _ _ = []"

text \<open>One call against the database, whatever its statements do; and the databases calls reach.\<close>

inductive db_step :: "db \<Rightarrow> db \<Rightarrow> bool" where
  db_call: "run_call fl now rnd call db = (res, db') \<Longrightarrow> db_step db db'"

inductive reachable_db :: "db \<Rightarrow> bool" where
  reachable_empty: "reachable_db empty_db"
| reachable_step: "reachable_db db \<Longrightarrow> db_step db db' \<Longrightarrow> reachable_db db'"

inductive_cases db_stepE: "db_step db db'"

end
