(* ===== verification/Store_Inv.thy ===== *)
theory Store_Inv
  imports Store
begin

text \<open>
  The invariant of the database and what every mutation does to it: the outcome of the shared
  end of a transaction, the frame of each operation, preservation of well-formedness, and the
  interpretation of the audit interface on the store's own \<open>AppendAudit\<close>.
\<close>

section \<open>Well-formed databases\<close>

definition one_active :: "grant list \<Rightarrow> bool" where
  "one_active gs \<longleftrightarrow>
     (\<forall>g \<in> set gs. \<forall>g' \<in> set gs. g_state g = GrantActive \<and> g_state g' = GrantActive
        \<and> g_machine g = g_machine g' \<and> g_harness g = g_harness g' \<longrightarrow> g = g')"

definition machines_wf :: "machine list \<Rightarrow> bool" where
  "machines_wf ms \<longleftrightarrow> distinct (map m_id ms) \<and> distinct (map m_node_id ms)
     \<and> (\<forall>m \<in> set ms. 1 \<le> m_cred_version m)"

definition grants_wf :: "machine list \<Rightarrow> grant list \<Rightarrow> bool" where
  "grants_wf ms gs \<longleftrightarrow> distinct (map g_id gs) \<and> distinct (map g_token_hash gs) \<and> one_active gs
     \<and> (\<forall>g \<in> set gs. g_machine g \<in> m_id ` set ms \<and> (g_state g = GrantActive \<longleftrightarrow> g_revoked_at g = None))"

definition detail_wf :: "(string \<times> string) list \<Rightarrow> bool" where
  "detail_wf d \<longleftrightarrow> (\<forall>(k, v) \<in> set d. k \<in> set allowed_detail_keys \<and> length v \<le> 3 * max_detail_value_len)"

definition audit_wf :: "audit_event list \<Rightarrow> int \<Rightarrow> bool" where
  "audit_wf rows s \<longleftrightarrow> sorted_wrt (\<lambda>a b. ev_id a < ev_id b) rows \<and> (\<forall>r \<in> set rows. ev_id r \<le> s)
     \<and> (\<forall>r \<in> set rows. detail_wf (ev_detail r) \<and> ev_ts r \<noteq> None)"

definition secrets_wf :: "secret list \<Rightarrow> bool" where
  "secrets_wf ss \<longleftrightarrow> distinct (map s_ref ss) \<and> (\<forall>s \<in> set ss. 1 \<le> s_gen s)"

definition db_wf :: "db \<Rightarrow> bool" where
  "db_wf db \<longleftrightarrow> machines_wf (db_machines db) \<and> grants_wf (db_machines db) (db_grants db)
     \<and> audit_wf (db_audit db) (db_audit_seq db) \<and> secrets_wf (db_secrets db)"

lemma db_wfD:
  assumes "db_wf db"
  shows "machines_wf (db_machines db)" "grants_wf (db_machines db) (db_grants db)"
    "audit_wf (db_audit db) (db_audit_seq db)" "secrets_wf (db_secrets db)"
  using assms by (simp_all add: db_wf_def)

lemma empty_db_wf: "db_wf empty_db"
  by (simp add: db_wf_def empty_db_def machines_wf_def grants_wf_def one_active_def audit_wf_def
      secrets_wf_def)

section \<open>The audit log\<close>

lemma append_audit_row_InrD:
  assumes "append_audit_row fl i now e tx = Inr tx'"
  shows "validate_detail (ev_detail e) = None" "tx' = insert_audit now e tx"
  using assms by (auto simp: append_audit_row_def split: option.splits if_splits)

lemma detail_wf_row:
  assumes "validate_detail (ev_detail e) = None"
  shows "detail_wf (ev_detail (row_of i now e))"
proof -
  have "length (utf8_coerce v) \<le> 3 * max_detail_value_len"
    if "(k, v) \<in> set (ev_detail e)" for k v
  proof -
    have "length v \<le> max_detail_value_len" using assms that by (auto simp: validate_detail_None_iff)
    with length_utf8_coerce [of v] show ?thesis by linarith
  qed
  with assms show ?thesis by (fastforce simp: detail_wf_def row_of_def validate_detail_None_iff)
qed

lemma audit_wf_insert:
  assumes "audit_wf (db_audit db) (db_audit_seq db)" "validate_detail (ev_detail e) = None"
  shows "audit_wf (db_audit (insert_audit now e db)) (db_audit_seq (insert_audit now e db))"
  using assms detail_wf_row [OF assms(2)]
  by (fastforce simp: audit_wf_def insert_audit_def Let_def sorted_wrt_append row_of_def)

lemma insert_audit_frame [simp]:
  "db_machines (insert_audit now e db) = db_machines db"
  "db_grants (insert_audit now e db) = db_grants db"
  "db_secrets (insert_audit now e db) = db_secrets db"
  by (simp_all add: insert_audit_def Let_def)

text \<open>What a successful run of audit inserts leaves behind.\<close>

lemma append_audit_tx_InrD:
  assumes "append_audit_tx fl i now es tx = Inr tx'"
  shows "\<exists>rows. db_audit tx' = db_audit tx @ rows \<and> list_all2 records rows es"
    and "db_machines tx' = db_machines tx" "db_grants tx' = db_grants tx"
    and "db_secrets tx' = db_secrets tx"
    and "audit_wf (db_audit tx) (db_audit_seq tx) \<Longrightarrow> audit_wf (db_audit tx') (db_audit_seq tx')"
proof -
  have "(\<exists>rows. db_audit tx' = db_audit tx @ rows \<and> list_all2 records rows es)
    \<and> db_machines tx' = db_machines tx \<and> db_grants tx' = db_grants tx \<and> db_secrets tx' = db_secrets tx
    \<and> (audit_wf (db_audit tx) (db_audit_seq tx) \<longrightarrow> audit_wf (db_audit tx') (db_audit_seq tx'))"
    using assms
  proof (induction es arbitrary: i tx)
    case Nil
    then show ?case by simp
  next
    case (Cons e es)
    then obtain tx1 where tx1: "append_audit_row fl i now e tx = Inr tx1"
      "append_audit_tx fl (Suc i) now es tx1 = Inr tx'"
      by (auto split: sum.splits)
    note row = append_audit_row_InrD [OF tx1(1)]
    have "db_audit tx1 = db_audit tx @ [row_of (db_audit_seq tx + 1) now e]"
      using row(2) by (simp add: insert_audit_def Let_def)
    with Cons.IH [OF tx1(2)] row audit_wf_insert [of tx e now] show ?case
      by (fastforce intro: list.rel_intros)
  qed
  then show "\<exists>rows. db_audit tx' = db_audit tx @ rows \<and> list_all2 records rows es"
    "db_machines tx' = db_machines tx" "db_grants tx' = db_grants tx" "db_secrets tx' = db_secrets tx"
    "audit_wf (db_audit tx) (db_audit_seq tx) \<Longrightarrow> audit_wf (db_audit tx') (db_audit_seq tx')"
    by auto
qed

lemma audit_and_commit_cases:
  assumes "audit_and_commit fl now es res db tx = (r, db')"
  obtains (failed) err where "r = Inl err" "db' = db"
    | (committed) rows where "r = Inr res" "db_audit db' = db_audit tx @ rows"
      "list_all2 records rows es" "db_machines db' = db_machines tx" "db_grants db' = db_grants tx"
      "db_secrets db' = db_secrets tx"
      "audit_wf (db_audit tx) (db_audit_seq tx) \<Longrightarrow> audit_wf (db_audit db') (db_audit_seq db')"
proof (cases "append_audit_tx fl 0 now es tx")
  case (Inl err)
  with assms have "r = Inl err" "db' = db" by (simp_all add: audit_and_commit_def)
  with failed show ?thesis by blast
next
  case (Inr tx')
  show ?thesis
  proof (cases "fl SCommit")
    case True
    with assms Inr have "r = Inl (ErrStmt SCommit)" "db' = db" by (simp_all add: audit_and_commit_def)
    with failed show ?thesis by blast
  next
    case False
    with assms Inr have "r = Inr res" "db' = tx'" by (simp_all add: audit_and_commit_def)
    with append_audit_tx_InrD [OF Inr] committed show ?thesis by blast
  qed
qed

lemma append_audit_cases:
  assumes "append_audit fl now e db = (r, db')"
  obtains (failed) err where "r = Inl err" "db' = db"
    | (written) "r = Inr ()" "validate_detail (ev_detail e) = None" "db' = insert_audit now e db"
  using assms
  by (auto simp: append_audit_def append_audit_row_def split: option.splits if_splits)

text \<open>The store provides the audit interface.\<close>

interpretation store_log: audit_sink append_audit db_audit
proof unfold_locales
  fix f now e s u s'
  assume "append_audit f now e s = (Inr u, s')"
  then show "\<exists>r. db_audit s' = db_audit s @ [r] \<and> records r e"
    by (rule append_audit_cases) (auto simp: insert_audit_def Let_def)
next
  fix f now e s x s'
  assume "append_audit f now e s = (Inl x, s')"
  then show "s' = s" by (rule append_audit_cases) auto
qed

section \<open>The mutations, case by case\<close>

lemma enrol_cases:
  assumes "enrol fl now rnd ident name os_name h audit db = (r, db')"
  obtains (failed) err where "r = Inl err" "db' = db"
    | (inserted) m mid rows au where "r = Inr (m, False)" "audit = Some au"
        "select1 (\<lambda>x. m_node_id x = id_node ident) (db_machines db) = None"
        "m = new_machine now mid ident name os_name h" "mid \<notin> m_id ` set (db_machines db)"
        "db_machines db' = db_machines db @ [m]" "db_grants db' = db_grants db"
        "db_secrets db' = db_secrets db" "db_audit db' = db_audit db @ rows"
        "list_all2 records rows (au m False)"
        "audit_wf (db_audit db) (db_audit_seq db) \<Longrightarrow> audit_wf (db_audit db') (db_audit_seq db')"
    | (rotated) m0 m rows au where "r = Inr (m, True)" "audit = Some au"
        "select1 (\<lambda>x. m_node_id x = id_node ident) (db_machines db) = Some m0"
        "m = rotate_machine now ident name os_name h m0"
        "db_machines db' = update_where (\<lambda>x. m_id x = m_id m0) (\<lambda>_. m) (db_machines db)"
        "db_grants db' = db_grants db" "db_secrets db' = db_secrets db"
        "db_audit db' = db_audit db @ rows" "list_all2 records rows (au m True)"
        "audit_wf (db_audit db) (db_audit_seq db) \<Longrightarrow> audit_wf (db_audit db') (db_audit_seq db')"
proof (cases "\<exists>err. r = Inl err \<and> db' = db")
  case True
  with failed show ?thesis by blast
next
  case False
  then obtain au where au: "audit = Some au" "\<not> fl SBegin" "\<not> fl SLookup"
    using assms by (auto simp: enrol_def split: option.splits if_splits)
  show ?thesis
  proof (cases "select1 (\<lambda>x. m_node_id x = id_node ident) (db_machines db)")
    case None
    then obtain mid where mid: "new_id ''m'' rnd = Some mid"
      using assms au False by (auto simp: enrol_def split: option.splits)
    let ?m = "new_machine now mid ident name os_name h"
    obtain tx where tx: "insert_machine fl ?m db = Some tx"
      "audit_and_commit fl now (au ?m False) (?m, False) db tx = (r, db')"
      using assms au False None mid by (auto simp: enrol_def Let_def split: option.splits)
    from tx(1) have "tx = db\<lparr>db_machines := db_machines db @ [?m]\<rparr>" "mid \<notin> m_id ` set (db_machines db)"
      by (auto simp: insert_machine_def new_machine_def split: if_splits)
    with tx(2) False None au(1) show ?thesis
      by (elim audit_and_commit_cases) (auto intro!: inserted)
  next
    case (Some m0)
    let ?m = "rotate_machine now ident name os_name h m0"
    from Some assms au False have "audit_and_commit fl now (au ?m True) (?m, True) db
      (db\<lparr>db_machines := update_where (\<lambda>x. m_id x = m_id m0) (\<lambda>_. ?m) (db_machines db)\<rparr>) = (r, db')"
      by (auto simp: enrol_def Let_def split: if_splits)
    then show ?thesis
      using False au(1) Some by (elim audit_and_commit_cases) (auto intro!: rotated)
  qed
qed

lemma issue_grant_cases:
  assumes "issue_grant fl now rnd mid harness caps h audit db = (r, db')"
  obtains (failed) err where "r = Inl err" "db' = db"
    | (issued) g sup gid tx rows au where "r = Inr (g, sup)" "audit = Some au"
        "sup = map_option (revoke_row now ''superseded'')
                 (select1 (active_for mid harness) (db_grants db))"
        "tx = (case select1 (active_for mid harness) (db_grants db) of
                 None \<Rightarrow> db_grants db
               | Some e \<Rightarrow> update_where (\<lambda>x. g_id x = g_id e) (revoke_row now ''superseded'') (db_grants db))"
        "g = \<lparr>g_id = gid, g_machine = mid, g_harness = harness, g_caps = caps, g_state = GrantActive,
              g_token_hash = h, g_created = now, g_revoked_at = None, g_reason = []\<rparr>"
        "gid \<notin> g_id ` set tx" "h \<notin> g_token_hash ` set tx" "mid \<in> m_id ` set (db_machines db)"
        "\<not> list_ex (active_for mid harness) tx"
        "db_grants db' = tx @ [g]" "db_machines db' = db_machines db"
        "db_secrets db' = db_secrets db" "db_audit db' = db_audit db @ rows"
        "list_all2 records rows (au g sup)"
        "audit_wf (db_audit db) (db_audit_seq db) \<Longrightarrow> audit_wf (db_audit db') (db_audit_seq db')"
proof (cases "\<exists>err. r = Inl err \<and> db' = db")
  case True
  with failed show ?thesis by blast
next
  case False
  let ?ex = "select1 (active_for mid harness) (db_grants db)"
  let ?sup = "map_option (revoke_row now ''superseded'') ?ex"
  let ?tx = "case ?ex of None \<Rightarrow> db
             | Some e \<Rightarrow> db\<lparr>db_grants := update_where (\<lambda>x. g_id x = g_id e)
                 (revoke_row now ''superseded'') (db_grants db)\<rparr>"
  obtain au where au: "audit = Some au" "\<not> fl SBegin" "\<not> fl SLookup" "\<not> (?ex \<noteq> None \<and> fl SRevokePrior)"
    using assms False by (auto simp: issue_grant_def Let_def split: option.splits if_splits)
  obtain gid where gid: "new_id ''g'' rnd = Some gid"
    using assms au False by (auto simp: issue_grant_def Let_def split: option.splits if_splits)
  let ?g = "\<lparr>g_id = gid, g_machine = mid, g_harness = harness, g_caps = caps, g_state = GrantActive,
              g_token_hash = h, g_created = now, g_revoked_at = None, g_reason = []\<rparr>"
  obtain tx' where tx': "insert_grant fl ?g ?tx = Some tx'"
    "audit_and_commit fl now (au ?g ?sup) (?g, ?sup) db tx' = (r, db')"
    using assms au gid False
    by (auto simp: issue_grant_def Let_def split: option.splits if_splits)
  have tx_eq: "db_grants ?tx = (case ?ex of None \<Rightarrow> db_grants db
      | Some e \<Rightarrow> update_where (\<lambda>x. g_id x = g_id e) (revoke_row now ''superseded'') (db_grants db))"
    "db_machines ?tx = db_machines db" "db_secrets ?tx = db_secrets db" "db_audit ?tx = db_audit db"
    "db_audit_seq ?tx = db_audit_seq db"
    by (simp_all split: option.split)
  from tx'(1) have ins: "tx' = ?tx\<lparr>db_grants := db_grants ?tx @ [?g]\<rparr>"
    "gid \<notin> g_id ` set (db_grants ?tx)" "h \<notin> g_token_hash ` set (db_grants ?tx)"
    "mid \<in> m_id ` set (db_machines ?tx)" "\<not> list_ex (active_for mid harness) (db_grants ?tx)"
    by (auto simp only: insert_grant_def grant.simps split: if_splits)
  from tx'(2) show ?thesis
  proof (cases rule: audit_and_commit_cases)
    case (failed err)
    with False show ?thesis by blast
  next
    case (committed rows)
    show ?thesis
    proof (rule issued [OF committed(1) au(1) refl tx_eq(1) refl])
      show "gid \<notin> g_id ` set (db_grants ?tx)" "h \<notin> g_token_hash ` set (db_grants ?tx)"
        "\<not> list_ex (active_for mid harness) (db_grants ?tx)" by (rule ins)+
      show "mid \<in> m_id ` set (db_machines db)" using ins(4) by (simp only: tx_eq)
      show "db_grants db' = db_grants ?tx @ [?g]" using committed(5) ins(1) by simp
      show "db_machines db' = db_machines db" using committed(4) ins(1) tx_eq by simp
      show "db_secrets db' = db_secrets db" using committed(6) ins(1) tx_eq by simp
      show "db_audit db' = db_audit db @ rows" using committed(2) ins(1) tx_eq by simp
      show "list_all2 records rows (au ?g ?sup)" by (rule committed(3))
      show "audit_wf (db_audit db') (db_audit_seq db')" if "audit_wf (db_audit db) (db_audit_seq db)"
        using committed(7) ins(1) tx_eq that by simp
    qed
  qed
qed

lemma revoke_grant_cases:
  assumes "revoke_grant fl now i reason audit db = (r, db')"
  obtains (failed) err where "r = Inl err" "db' = db"
    | (unchanged) g where "r = Inr (g, False)" "db' = db"
        "select1 (\<lambda>x. g_id x = i) (db_grants db) = Some g" "g_state g = GrantRevoked"
    | (revoked) g rows au where "r = Inr (revoke_row now reason g, True)" "audit = Some au"
        "select1 (\<lambda>x. g_id x = i) (db_grants db) = Some g" "g_state g = GrantActive"
        "db_grants db' = update_where (\<lambda>x. g_id x = i) (revoke_row now reason) (db_grants db)"
        "db_machines db' = db_machines db" "db_secrets db' = db_secrets db"
        "db_audit db' = db_audit db @ rows" "list_all2 records rows (au (revoke_row now reason g))"
        "audit_wf (db_audit db) (db_audit_seq db) \<Longrightarrow> audit_wf (db_audit db') (db_audit_seq db')"
proof (cases "\<exists>err. r = Inl err \<and> db' = db")
  case True
  with failed show ?thesis by blast
next
  case False
  then obtain au g where au: "audit = Some au" "\<not> fl SBegin" "\<not> fl SLookup"
    "select1 (\<lambda>x. g_id x = i) (db_grants db) = Some g"
    using assms by (auto simp: revoke_grant_def split: option.splits if_splits)
  show ?thesis
  proof (cases "g_state g")
    case GrantRevoked
    then have "r = Inr (g, False)" "db' = db"
      using assms au False by (auto simp: revoke_grant_def split: if_splits)
    with au(4) GrantRevoked unchanged show ?thesis by blast
  next
    case GrantActive
    then have "audit_and_commit fl now (au (revoke_row now reason g)) (revoke_row now reason g, True) db
      (db\<lparr>db_grants := update_where (\<lambda>x. g_id x = i) (revoke_row now reason) (db_grants db)\<rparr>) = (r, db')"
      using assms au False by (auto simp: revoke_grant_def Let_def split: if_splits)
    then show ?thesis
      using False au GrantActive by (elim audit_and_commit_cases) (auto intro!: revoked)
  qed
qed

text \<open>The generation a compare-and-swap sees: none stored is 0.\<close>

definition secret_gen :: "string \<Rightarrow> db \<Rightarrow> int" where
  "secret_gen ref db = (case select1 (\<lambda>s. s_ref s = ref) (db_secrets db) of None \<Rightarrow> 0 | Some s \<Rightarrow> s_gen s)"

definition store_secret :: "int \<Rightarrow> string \<Rightarrow> string \<Rightarrow> secret list \<Rightarrow> secret list" where
  "store_secret now ref cipher ss =
     (case select1 (\<lambda>s. s_ref s = ref) ss of
        None \<Rightarrow> ss @ [\<lparr>s_ref = ref, s_cipher = cipher, s_gen = 1, s_created = now, s_updated = now\<rparr>]
      | Some s \<Rightarrow> update_where (\<lambda>r. s_ref r = ref)
                   (\<lambda>r. r\<lparr>s_cipher := cipher, s_gen := s_gen s + 1, s_updated := now\<rparr>) ss)"

lemma put_secret_gen_cases:
  assumes "put_secret_gen fl now ref cipher expected audit db = (r, db')"
  obtains (failed) err where "r = Inl err" "db' = db"
    | (stored) rows au where "r = Inr (secret_gen ref db + 1)" "audit = Some au"
        "\<And>x. expected = Some x \<Longrightarrow> x = secret_gen ref db"
        "db_secrets db' = store_secret now ref cipher (db_secrets db)"
        "db_machines db' = db_machines db" "db_grants db' = db_grants db"
        "db_audit db' = db_audit db @ rows" "list_all2 records rows (au (secret_gen ref db + 1))"
        "audit_wf (db_audit db) (db_audit_seq db) \<Longrightarrow> audit_wf (db_audit db') (db_audit_seq db')"
proof (cases "\<exists>err. r = Inl err \<and> db' = db")
  case True
  with failed show ?thesis by blast
next
  case False
  then obtain au where au: "audit = Some au" "\<not> fl SBegin" "\<not> fl SLookup"
    using assms by (auto simp: put_secret_gen_def split: option.splits if_splits)
  have exp: "x = secret_gen ref db" if "expected = Some x" for x
    using assms au False that
    by (auto simp: put_secret_gen_def secret_gen_def Let_def split: option.splits if_splits)
  then have "expected = None \<or> expected = Some (secret_gen ref db)" by (cases expected) auto
  then have "audit_and_commit fl now (au (secret_gen ref db + 1)) (secret_gen ref db + 1) db
      (db\<lparr>db_secrets := store_secret now ref cipher (db_secrets db)\<rparr>) = (r, db')"
    using assms au False
    by (cases "select1 (\<lambda>s. s_ref s = ref) (db_secrets db)")
       (auto simp: put_secret_gen_def secret_gen_def store_secret_def Let_def split: if_splits)
  then show ?thesis
    using False au exp by (elim audit_and_commit_cases) (auto intro!: stored)
qed

section \<open>Preservation\<close>

lemma machines_wf_insert:
  assumes "machines_wf ms" "select1 (\<lambda>x. m_node_id x = id_node ident) ms = None"
    "mid \<notin> m_id ` set ms"
  shows "machines_wf (ms @ [new_machine now mid ident name os_name h])"
  using assms by (auto simp: machines_wf_def new_machine_def select1_None_iff)

lemma machines_wf_rotate:
  assumes "machines_wf ms" "m0 \<in> set ms" "m = rotate_machine now ident name os_name h m0"
  shows "machines_wf (update_where (\<lambda>x. m_id x = m_id m0) (\<lambda>_. m) ms)"
    "m_id ` set (update_where (\<lambda>x. m_id x = m_id m0) (\<lambda>_. m) ms) = m_id ` set ms"
proof -
  have ids: "distinct (map m_id ms)" using assms(1) by (simp add: machines_wf_def)
  have same: "x = m0" if "x \<in> set ms" "m_id x = m_id m0" for x
    using distinct_map_eqD [OF ids that(1) assms(2) that(2)] .
  have "map m_id (update_where (\<lambda>x. m_id x = m_id m0) (\<lambda>_. m) ms) = map m_id ms"
    "map m_node_id (update_where (\<lambda>x. m_id x = m_id m0) (\<lambda>_. m) ms) = map m_node_id ms"
    by (rule map_update_where; use same assms(3) in \<open>auto simp: rotate_machine_def\<close>)+
  moreover have "1 \<le> m_cred_version x" if "x \<in> set (update_where (\<lambda>x. m_id x = m_id m0) (\<lambda>_. m) ms)" for x
    using that assms by (force simp: set_update_where machines_wf_def rotate_machine_def)
  ultimately show "machines_wf (update_where (\<lambda>x. m_id x = m_id m0) (\<lambda>_. m) ms)"
    "m_id ` set (update_where (\<lambda>x. m_id x = m_id m0) (\<lambda>_. m) ms) = m_id ` set ms"
    using assms(1) by (simp add: machines_wf_def, metis list.set_map)
qed

lemma grants_wf_frame: "grants_wf ms gs \<Longrightarrow> m_id ` set ms \<subseteq> m_id ` set ms' \<Longrightarrow> grants_wf ms' gs"
  by (auto simp: grants_wf_def)

text \<open>The columns revocation leaves alone, and the rows it leaves active.\<close>

lemma map_revoke:
  "map g_id (update_where p (revoke_row now reason) gs) = map g_id gs"
  "map g_token_hash (update_where p (revoke_row now reason) gs) = map g_token_hash gs"
  by (rule map_update_where; simp add: revoke_row_def)+

lemma revoke_row_simps [simp]:
  "g_state (revoke_row now reason g) = GrantRevoked" "g_id (revoke_row now reason g) = g_id g"
  "g_machine (revoke_row now reason g) = g_machine g"
  "g_harness (revoke_row now reason g) = g_harness g"
  "g_token_hash (revoke_row now reason g) = g_token_hash g"
  "g_revoked_at (revoke_row now reason g) = Some now"
  "g_reason (revoke_row now reason g) = reason" "g_caps (revoke_row now reason g) = g_caps g"
  by (simp_all add: revoke_row_def)

lemma revoke_active_rows:
  "g \<in> set (update_where p (revoke_row now reason) gs) \<Longrightarrow> g_state g = GrantActive \<Longrightarrow> g \<in> set gs \<and> \<not> p g"
  by (auto simp: set_update_where)

lemma grants_wf_revoke:
  assumes "grants_wf ms gs"
  shows "grants_wf ms (update_where p (revoke_row now reason) gs)"
proof -
  have "one_active (update_where p (revoke_row now reason) gs)"
    using assms unfolding one_active_def grants_wf_def by (meson revoke_active_rows)
  moreover have "\<forall>g \<in> set (update_where p (revoke_row now reason) gs).
      g_machine g \<in> m_id ` set ms \<and> (g_state g = GrantActive \<longleftrightarrow> g_revoked_at g = None)"
    using assms by (simp add: set_update_where grants_wf_def ball_Un)
  ultimately show ?thesis
    using assms by (simp add: grants_wf_def map_revoke)
qed

lemma grants_wf_insert:
  assumes "grants_wf ms gs" "g_id g \<notin> g_id ` set gs" "g_token_hash g \<notin> g_token_hash ` set gs"
    "g_machine g \<in> m_id ` set ms" "g_state g = GrantActive" "g_revoked_at g = None"
    "\<not> list_ex (active_for (g_machine g) (g_harness g)) gs"
  shows "grants_wf ms (gs @ [g])"
  using assms
  by (auto simp: grants_wf_def one_active_def active_for_def list_ex_iff)

lemma secrets_wf_store:
  assumes "secrets_wf ss"
  shows "secrets_wf (store_secret now ref cipher ss)"
proof (cases "select1 (\<lambda>s. s_ref s = ref) ss")
  case None
  then have "store_secret now ref cipher ss =
      ss @ [\<lparr>s_ref = ref, s_cipher = cipher, s_gen = 1, s_created = now, s_updated = now\<rparr>]"
    "ref \<notin> s_ref ` set ss"
    by (auto simp: store_secret_def) (auto simp: select1_None_iff)
  with assms show ?thesis by (auto simp: secrets_wf_def)
next
  case (Some s)
  then have s: "s \<in> set ss" "s_ref s = ref" by (auto dest: select1_SomeD)
  have "map s_ref (update_where (\<lambda>r. s_ref r = ref)
      (\<lambda>r. r\<lparr>s_cipher := cipher, s_gen := s_gen s + 1, s_updated := now\<rparr>) ss) = map s_ref ss"
    by (rule map_update_where) simp
  with Some s assms show ?thesis
    by (force simp: store_secret_def secrets_wf_def set_update_where)
qed

lemma enrol_wf:
  assumes "db_wf db" "enrol fl now rnd ident name os_name h audit db = (r, db')"
  shows "db_wf db'"
  using assms(2)
proof (cases rule: enrol_cases)
  case failed
  with assms(1) show ?thesis by simp
next
  case (inserted m mid rows au)
  with db_wfD [OF assms(1)] show ?thesis
    by (auto simp: db_wf_def intro: machines_wf_insert grants_wf_frame)
next
  case (rotated m0 m rows au)
  from rotated(3) have "m0 \<in> set (db_machines db)" by (auto dest: select1_SomeD)
  note rot = machines_wf_rotate [OF db_wfD(1) [OF assms(1)] this rotated(4)]
  with rotated db_wfD [OF assms(1)] show ?thesis
    by (auto simp: db_wf_def intro: grants_wf_frame)
qed

lemma issue_grant_wf:
  assumes "db_wf db" "issue_grant fl now rnd mid harness caps h audit db = (r, db')"
  shows "db_wf db'"
  using assms(2)
proof (cases rule: issue_grant_cases)
  case failed
  with assms(1) show ?thesis by simp
next
  case (issued g sup gid tx rows au)
  have "grants_wf (db_machines db) tx"
    using issued(4) db_wfD(2) [OF assms(1)] by (auto split: option.splits intro: grants_wf_revoke)
  then have "grants_wf (db_machines db) (tx @ [g])"
    using issued by (intro grants_wf_insert) auto
  with issued db_wfD [OF assms(1)] show ?thesis by (simp add: db_wf_def)
qed

lemma revoke_grant_wf:
  assumes "db_wf db" "revoke_grant fl now i reason audit db = (r, db')"
  shows "db_wf db'"
  using assms(2)
  by (cases rule: revoke_grant_cases)
     (use assms(1) in \<open>auto simp: db_wf_def intro: grants_wf_revoke\<close>)

lemma put_secret_gen_wf:
  assumes "db_wf db" "put_secret_gen fl now ref cipher expected audit db = (r, db')"
  shows "db_wf db'"
  using assms(2)
  by (cases rule: put_secret_gen_cases)
     (use assms(1) in \<open>auto simp: db_wf_def intro: secrets_wf_store\<close>)

lemma append_audit_wf:
  assumes "db_wf db" "append_audit fl now e db = (r, db')"
  shows "db_wf db'"
  using assms(2)
  by (cases rule: append_audit_cases) (use assms(1) in \<open>auto simp: db_wf_def intro: audit_wf_insert\<close>)

lemmas store_op_wf = enrol_wf issue_grant_wf revoke_grant_wf put_secret_gen_wf append_audit_wf

lemma run_call_wf: "db_wf db \<Longrightarrow> run_call fl now rnd call db = (r, db') \<Longrightarrow> db_wf db'"
  by (cases call) (auto simp: apfst_def map_prod_def split: prod.splits dest: store_op_wf)

lemma db_step_wf: "db_step db db' \<Longrightarrow> db_wf db \<Longrightarrow> db_wf db'"
  by (auto elim!: db_stepE dest: run_call_wf)

end
