(* ===== verification/Store_Spec.thy ===== *)
theory Store_Spec
  imports Store_Inv
begin

text \<open>
  What the store promises: the abstract directory of active grants that the mutations
  implement, the lookups, the compare-and-swap of secrets, the window of an audit query, and
  the interpretations of the interfaces the server's components use.
\<close>

section \<open>Lookups\<close>

lemma query1_InrD: "query1 fl p rows = Inr r \<Longrightarrow> r \<in> set rows \<and> p r"
  by (auto simp: query1_def dest: select1_SomeD split: if_splits option.splits)

lemma query1_no_faults: "query1 no_faults p rows = (case select1 p rows of None \<Rightarrow> Inl ErrNotFound | Some r \<Rightarrow> Inr r)"
  by (simp add: query1_def no_faults_def)

interpretation store_grants: grant_directory append_audit db_audit
  active_grant_by_token_hash machine_by_id db_grants db_machines
  by unfold_locales
     (auto simp: active_grant_by_token_hash_def machine_by_id_def dest: query1_InrD)

section \<open>The directory of active grants\<close>

text \<open>
  Abstractly, the grant table is a partial function from (machine, harness) to the hash of the
  one token that works for it; issuing overwrites the entry and revoking removes it.
\<close>

type_synonym grant_directory_map = "string \<times> string \<Rightarrow> string option"

definition active_map :: "db \<Rightarrow> grant_directory_map" where
  "active_map db = (\<lambda>(mid, harness).
     map_option g_token_hash (select1 (active_for mid harness) (db_grants db)))"

fun grant_effect :: "store_call \<Rightarrow> call_result \<Rightarrow> grant_directory_map \<Rightarrow> grant_directory_map" where
  "grant_effect (CallIssue mid harness caps h au) (ResIssue g s) M = M((mid, harness) \<mapsto> h)"
| "grant_effect (CallRevoke i reason au) (ResRevoke g True) M = M((g_machine g, g_harness g) := None)"
| "grant_effect _ _ M = M"

lemma select1_active_eq:
  assumes "one_active gs" "g \<in> set gs" "active_for mid harness g"
  shows "select1 (active_for mid harness) gs = Some g"
  using assms by (intro select1_unique) (auto simp: one_active_def active_for_def)

lemma select1_active_revoked:
  assumes "distinct (map g_id gs)" "e \<in> set gs" "\<not> active_for mid harness e"
  shows "select1 (active_for mid harness) (update_where (\<lambda>x. g_id x = g_id e) (revoke_row now reason) gs)
       = select1 (active_for mid harness) gs"
  using assms by (intro select1_update_other) (auto simp: active_for_def dest: distinct_map_eqD)

lemma active_map_issue:
  assumes wf: "db_wf db"
    and iss: "issue_grant fl now rnd mid harness caps h audit db = (Inr (g, s), db')"
  shows "active_map db' = (active_map db)((mid, harness) \<mapsto> h)"
  using iss
proof (cases rule: issue_grant_cases)
  case (issued g' sup gid tx rows au)
  have ids: "distinct (map g_id (db_grants db))" using db_wfD(2) [OF wf] by (simp add: grants_wf_def)
  have same: "select1 (active_for m k) tx = select1 (active_for m k) (db_grants db)"
    if "(m, k) \<noteq> (mid, harness)" for m k
  proof (cases "select1 (active_for mid harness) (db_grants db)")
    case None
    with issued(4) show ?thesis by simp
  next
    case (Some e)
    then have e: "e \<in> set (db_grants db)" "active_for mid harness e" by (auto dest: select1_SomeD)
    then have "\<not> active_for m k e" using that by (auto simp: active_for_def)
    with select1_active_revoked [OF ids e(1) this] issued(4) Some show ?thesis by simp
  qed
  have none: "select1 (active_for mid harness) tx = None"
    using issued(9) by (auto simp: select1_None_iff list_ex_iff)
  have "active_map db' (m, k) = ((active_map db)((mid, harness) \<mapsto> h)) (m, k)" for m k
    using issued same [of m k] none
    by (auto simp: active_map_def select1_append active_for_def split: option.split)
  then show ?thesis by (intro ext) (metis surj_pair)
qed auto

lemma active_map_revoke:
  assumes wf: "db_wf db"
    and rev: "revoke_grant fl now i reason audit db = (Inr (g, True), db')"
  shows "active_map db' = (active_map db)((g_machine g, g_harness g) := None)"
  using rev
proof (cases rule: revoke_grant_cases)
  case (revoked g0 rows au)
  have ids: "distinct (map g_id (db_grants db))" and one: "one_active (db_grants db)"
    using db_wfD(2) [OF wf] by (simp_all add: grants_wf_def)
  from revoked(3) have g0: "g0 \<in> set (db_grants db)" "g_id g0 = i" by (auto dest: select1_SomeD)
  have gs: "db_grants db' = update_where (\<lambda>x. g_id x = g_id g0) (revoke_row now reason) (db_grants db)"
    using revoked(5) g0(2) by simp
  have "select1 (active_for (g_machine g0) (g_harness g0)) (db_grants db') = None"
  proof -
    have "\<not> active_for (g_machine g0) (g_harness g0) x" if "x \<in> set (db_grants db')" for x
    proof
      assume a: "active_for (g_machine g0) (g_harness g0) x"
      then have "x \<in> set (db_grants db)" "g_id x \<noteq> g_id g0"
        using that unfolding gs by (auto simp: active_for_def dest: revoke_active_rows)
      with a g0(1) revoked(4) one show False by (auto simp: one_active_def active_for_def)
    qed
    then show ?thesis by (simp add: select1_None_iff)
  qed
  moreover have "select1 (active_for m k) (db_grants db') = select1 (active_for m k) (db_grants db)"
    if "(m, k) \<noteq> (g_machine g0, g_harness g0)" for m k
    unfolding gs using ids g0(1) that by (intro select1_active_revoked) (auto simp: active_for_def)
  ultimately have "active_map db' (m, k) = ((active_map db)((g_machine g, g_harness g) := None)) (m, k)" for m k
    using revoked(1) by (auto simp: active_map_def)
  then show ?thesis by (intro ext) (metis surj_pair)
qed auto

lemma apfst_eqD: "apfst f p = (r, s) \<Longrightarrow> \<exists>r0. p = (r0, s) \<and> r = f r0"
  by (cases p) auto

lemma active_map_frame: "db_grants db' = db_grants db \<Longrightarrow> active_map db' = active_map db"
  by (simp add: active_map_def)

section \<open>Evolution over many calls\<close>

text \<open>What one call does to the rows that matter later: revoked grants stay, generations grow.\<close>

lemma grant_ids: "db_wf db \<Longrightarrow> distinct (map g_id (db_grants db))"
  by (simp add: db_wf_def grants_wf_def)

lemma issue_keeps_revoked:
  assumes "db_wf db" "issue_grant fl now rnd mid harness caps h au db = (r, db')"
    "g \<in> set (db_grants db)" "g_state g = GrantRevoked"
  shows "g \<in> set (db_grants db')"
  using assms(2)
proof (cases rule: issue_grant_cases)
  case (issued g' sup gid tx rows au')
  have "g \<in> set tx"
  proof (cases "select1 (active_for mid harness) (db_grants db)")
    case None
    with issued(4) assms(3) show ?thesis by simp
  next
    case (Some e)
    then have e: "e \<in> set (db_grants db)" "g_state e = GrantActive"
      by (auto dest: select1_SomeD simp: active_for_def)
    have "g_id g \<noteq> g_id e"
      using e assms(3,4) distinct_map_eqD [OF grant_ids [OF assms(1)] assms(3) e(1)] by auto
    with Some issued(4) assms(3) show ?thesis by (simp add: set_update_where)
  qed
  with issued(10) show ?thesis by simp
qed (use assms(3) in auto)

lemma revoke_keeps_revoked:
  assumes "db_wf db" "revoke_grant fl now i reason au db = (r, db')"
    "g \<in> set (db_grants db)" "g_state g = GrantRevoked"
  shows "g \<in> set (db_grants db')"
  using assms(2)
proof (cases rule: revoke_grant_cases)
  case (revoked g0 rows au')
  then have g0: "g0 \<in> set (db_grants db)" "g_id g0 = i" by (auto dest: select1_SomeD)
  have "g_id g \<noteq> i"
    using g0 revoked(4) assms(4) distinct_map_eqD [OF grant_ids [OF assms(1)] assms(3) g0(1)] by auto
  with revoked(5) assms(3) show ?thesis by (simp add: set_update_where)
qed (use assms(3) in auto)

lemma secret_gen_store:
  "select1 (\<lambda>s. s_ref s = ref') (store_secret now ref cipher ss) =
     (if ref' = ref
      then Some (case select1 (\<lambda>s. s_ref s = ref) ss of
             None \<Rightarrow> \<lparr>s_ref = ref, s_cipher = cipher, s_gen = 1, s_created = now, s_updated = now\<rparr>
           | Some s \<Rightarrow> s\<lparr>s_cipher := cipher, s_gen := s_gen s + 1, s_updated := now\<rparr>)
      else select1 (\<lambda>s. s_ref s = ref') ss)"
proof (cases "select1 (\<lambda>s. s_ref s = ref) ss")
  case None
  then show ?thesis by (auto simp: store_secret_def select1_append split: option.split)
next
  case (Some s)
  show ?thesis
  proof (cases "ref' = ref")
    case False
    with Some show ?thesis by (simp add: store_secret_def select1_update_other)
  next
    case True
    have "select1 (\<lambda>s. s_ref s = ref) (update_where (\<lambda>r. s_ref r = ref) f ss) = map_option f (select1 (\<lambda>s. s_ref s = ref) ss)"
      if "\<And>r. s_ref (f r) = s_ref r" for f
      using that by (induction ss) (auto simp: update_where_def)
    with True Some show ?thesis by (simp add: store_secret_def)
  qed
qed

lemma secret_gen_put:
  assumes "put_secret_gen fl now ref cipher expected au db = (Inr k, db')"
  shows "k = secret_gen ref db + 1" "secret_gen ref db' = k"
    "map_option s_cipher (select1 (\<lambda>s. s_ref s = ref) (db_secrets db')) = Some cipher"
    "ref' \<noteq> ref \<Longrightarrow> select1 (\<lambda>s. s_ref s = ref') (db_secrets db') = select1 (\<lambda>s. s_ref s = ref') (db_secrets db)"
  using assms
  by (rule put_secret_gen_cases; simp add: secret_gen_def secret_gen_store split: option.split)+

text \<open>The tables a call leaves alone.\<close>

lemma enrol_frame:
  "enrol fl now rnd ident name os_name h au db = (r, db') \<Longrightarrow>
     db_grants db' = db_grants db \<and> db_secrets db' = db_secrets db"
  by (erule enrol_cases) auto

lemma issue_frame:
  "issue_grant fl now rnd mid harness caps h au db = (r, db') \<Longrightarrow>
     db_machines db' = db_machines db \<and> db_secrets db' = db_secrets db"
  by (erule issue_grant_cases) auto

lemma revoke_frame:
  "revoke_grant fl now i reason au db = (r, db') \<Longrightarrow>
     db_machines db' = db_machines db \<and> db_secrets db' = db_secrets db"
  by (erule revoke_grant_cases) auto

lemma put_frame:
  "put_secret_gen fl now ref cipher expected au db = (r, db') \<Longrightarrow>
     db_machines db' = db_machines db \<and> db_grants db' = db_grants db"
  by (erule put_secret_gen_cases) auto

lemma append_frame:
  "append_audit fl now e db = (r, db') \<Longrightarrow>
     db_machines db' = db_machines db \<and> db_grants db' = db_grants db \<and> db_secrets db' = db_secrets db"
  by (erule append_audit_cases) auto

lemmas op_frames = enrol_frame issue_frame revoke_frame put_frame append_frame

lemma put_secret_gen_mono:
  assumes "put_secret_gen fl now rf c x au db = (r, db')"
  shows "secret_gen ref db \<le> secret_gen ref db'"
proof (cases r)
  case (Inl err)
  with assms have "db' = db" by (auto elim: put_secret_gen_cases)
  then show ?thesis by simp
next
  case (Inr k)
  note put = secret_gen_put [OF assms [unfolded Inr]]
  show ?thesis
  proof (cases "ref = rf")
    case False
    with put(4) [of ref] show ?thesis by (simp add: secret_gen_def)
  qed (use put(1,2) in simp)
qed

lemma run_call_secret_gen:
  assumes "run_call fl now rnd call db = (r, db')"
  shows "secret_gen ref db \<le> secret_gen ref db'"
proof (cases "\<exists>rf c x au. call = CallPut rf c x au")
  case True
  with assms show ?thesis by (auto dest!: apfst_eqD dest: put_secret_gen_mono)
next
  case False
  with assms have "db_secrets db' = db_secrets db"
    by (cases call) (auto dest!: apfst_eqD dest: op_frames)
  then show ?thesis by (simp add: secret_gen_def)
qed

lemma run_call_keeps_revoked:
  assumes "db_wf db" "run_call fl now rnd call db = (r, db')"
    and g: "g \<in> set (db_grants db)" "g_state g = GrantRevoked"
  shows "g \<in> set (db_grants db')"
proof (cases "(\<exists>mid harness caps h au. call = CallIssue mid harness caps h au)
    \<or> (\<exists>i reason au. call = CallRevoke i reason au)")
  case True
  with assms(2) show ?thesis
    by (auto dest!: apfst_eqD dest: issue_keeps_revoked [OF assms(1) _ g]
        revoke_keeps_revoked [OF assms(1) _ g])
next
  case False
  with assms(2) have "db_grants db' = db_grants db"
    by (cases call) (auto dest!: apfst_eqD dest: op_frames)
  with g(1) show ?thesis by simp
qed

lemma steps_wf: "db_step\<^sup>*\<^sup>* db db' \<Longrightarrow> db_wf db \<Longrightarrow> db_wf db'"
  by (induction rule: rtranclp_induct) (auto intro: db_step_wf)

lemma steps_secret_gen: "db_step\<^sup>*\<^sup>* db db' \<Longrightarrow> secret_gen ref db \<le> secret_gen ref db'"
proof (induction rule: rtranclp_induct)
  case (step db1 db2)
  from step.hyps(2) have "secret_gen ref db1 \<le> secret_gen ref db2"
    by (auto elim!: db_stepE dest: run_call_secret_gen)
  with step.IH show ?case by simp
qed simp

lemma steps_keep_revoked:
  "db_step\<^sup>*\<^sup>* db db' \<Longrightarrow> db_wf db \<Longrightarrow> g \<in> set (db_grants db) \<Longrightarrow> g_state g = GrantRevoked
     \<Longrightarrow> g \<in> set (db_grants db')"
proof (induction rule: rtranclp_induct)
  case (step db1 db2)
  have "db_wf db1" using step.hyps(1) step.prems(1) by (rule steps_wf)
  with step show ?case by (auto elim!: db_stepE intro: run_call_keeps_revoked)
qed simp

text \<open>A call is one transaction with its rows.\<close>

lemma run_call_rows:
  assumes "run_call fl now rnd call db = (r, db')"
  shows "case r of
           Inl err \<Rightarrow> db' = db
         | Inr res \<Rightarrow> \<exists>rows. db_audit db' = db_audit db @ rows
                      \<and> list_all2 records rows (call_events call res)"
proof (cases call)
  case (CallEnrol ident name os_name h au)
  with assms show ?thesis by (auto dest!: apfst_eqD elim!: enrol_cases)
next
  case (CallIssue mid harness caps h au)
  with assms show ?thesis by (auto dest!: apfst_eqD elim!: issue_grant_cases)
next
  case (CallRevoke i reason au)
  with assms show ?thesis by (cases au) (auto dest!: apfst_eqD elim!: revoke_grant_cases)
next
  case (CallPut ref cipher expected au)
  with assms show ?thesis by (auto dest!: apfst_eqD elim!: put_secret_gen_cases)
next
  case (CallAudit e)
  with assms show ?thesis
    by (auto dest!: apfst_eqD elim!: append_audit_cases simp: insert_audit_def Let_def)
qed

lemma db_step_rows: "db_step db db' \<Longrightarrow> \<exists>rows. db_audit db' = db_audit db @ rows"
  by (auto elim!: db_stepE dest!: run_call_rows split: sum.splits)

interpretation store_secrets: cas_secrets get_secret put_secret_cas secret_gen
  "\<lambda>ref db. map_option s_cipher (select1 (\<lambda>s. s_ref s = ref) (db_secrets db))" db_audit
proof unfold_locales
  fix f ref s sec
  assume "get_secret f ref s = Inr sec"
  then show "secret_gen ref s = s_gen sec \<and>
      map_option s_cipher (select1 (\<lambda>s. s_ref s = ref) (db_secrets s)) = Some (s_cipher sec)"
    by (auto simp: get_secret_def query1_def secret_gen_def split: if_splits option.splits)
next
  fix f now ref c n au s k s'
  assume put: "put_secret_cas f now ref c n (Some au) s = (Inr k, s')"
  then have gen: "put_secret_gen f now ref c (Some n) (Some au) s = (Inr k, s')"
    by (simp add: put_secret_cas_def)
  then have "secret_gen ref s = n" "\<exists>rows. db_audit s' = db_audit s @ rows \<and> list_all2 records rows (au k)"
    by (auto elim!: put_secret_gen_cases)
  with secret_gen_put [OF gen] show "secret_gen ref s = n \<and> k = n + 1 \<and> secret_gen ref s' = k \<and>
      map_option s_cipher (select1 (\<lambda>s. s_ref s = ref) (db_secrets s')) = Some c \<and>
      (\<exists>rows. db_audit s' = db_audit s @ rows \<and> list_all2 records rows (au k))"
    by auto
next
  fix f now ref c n aud s k s' ref'
  assume "put_secret_cas f now ref c n aud s = (Inr k, s')" "ref' \<noteq> ref"
  then show "map_option s_cipher (select1 (\<lambda>s. s_ref s = ref') (db_secrets s')) =
      map_option s_cipher (select1 (\<lambda>s. s_ref s = ref') (db_secrets s))"
    using secret_gen_put(4) by (auto simp: put_secret_cas_def)
next
  fix f now ref c n aud s x s'
  assume "put_secret_cas f now ref c n aud s = (Inl x, s')"
  then show "s' = s" by (auto simp: put_secret_cas_def elim: put_secret_gen_cases)
qed

end
