(* ===== verification/Registry_Api.thy ===== *)
theory Registry_Api
  imports Store_Spec
begin

text \<open>
  The \<open>Store\<close> interface of \<open>internal/server/server.go\<close>: the control plane holds the registry
  only through these operations, and the tests substitute others. The record is that interface,
  the locale \<open>registry\<close> is what the handlers rely on, and \<open>sqlite_api\<close> is the production
  implementation, with its own faults for each operation.
\<close>

record 's store_api =
  api_enrol :: "identity \<Rightarrow> string \<Rightarrow> string \<Rightarrow> string \<Rightarrow> (machine \<Rightarrow> bool \<Rightarrow> audit_event list) option
      \<Rightarrow> 's \<Rightarrow> (store_error + machine \<times> bool) \<times> 's"
  api_machine_by_node :: "string \<Rightarrow> 's \<Rightarrow> store_error + machine"
  api_machine_by_cred :: "string \<Rightarrow> 's \<Rightarrow> store_error + machine"
  api_issue :: "string \<Rightarrow> string \<Rightarrow> string list \<Rightarrow> string
      \<Rightarrow> (grant \<Rightarrow> grant option \<Rightarrow> audit_event list) option
      \<Rightarrow> 's \<Rightarrow> (store_error + grant \<times> grant option) \<times> 's"
  api_grant_by_id :: "string \<Rightarrow> 's \<Rightarrow> store_error + grant"
  api_revoke :: "string \<Rightarrow> string \<Rightarrow> (grant \<Rightarrow> audit_event list) option
      \<Rightarrow> 's \<Rightarrow> (store_error + grant \<times> bool) \<times> 's"
  api_list :: "string \<Rightarrow> 's \<Rightarrow> store_error + grant list"
  api_append :: "audit_event \<Rightarrow> 's \<Rightarrow> (store_error + unit) \<times> 's"

datatype store_method = MEnrol | MByNode | MByCred | MIssue | MGrantById | MRevoke | MList | MAppend

definition sqlite_api :: "(store_method \<Rightarrow> faults) \<Rightarrow> int \<Rightarrow> string option \<Rightarrow> db store_api" where
  "sqlite_api fls now rnd =
     \<lparr>api_enrol = enrol (fls MEnrol) now rnd,
      api_machine_by_node = machine_by_node_id (fls MByNode),
      api_machine_by_cred = machine_by_credential_hash (fls MByCred),
      api_issue = issue_grant (fls MIssue) now rnd,
      api_grant_by_id = grant_by_id (fls MGrantById),
      api_revoke = revoke_grant (fls MRevoke) now,
      api_list = list_grants (fls MList),
      api_append = append_audit (fls MAppend) now\<rparr>"

locale registry =
  fixes api :: "'s store_api"
    and inv :: "'s \<Rightarrow> bool"
    and log :: "'s \<Rightarrow> audit_event list"
    and machines :: "'s \<Rightarrow> machine list"
    and grants :: "'s \<Rightarrow> grant list"
  assumes append_ok: "api_append api e s = (Inr u, s') \<Longrightarrow>
        (\<exists>r. log s' = log s @ [r] \<and> records r e) \<and> machines s' = machines s \<and> grants s' = grants s"
    and append_err: "api_append api e s = (Inl x, s') \<Longrightarrow> s' = s"
    and append_inv: "api_append api e s = (ru, s') \<Longrightarrow> inv s \<Longrightarrow> inv s'"
    and by_node: "api_machine_by_node api n s = Inr m \<Longrightarrow> m \<in> set (machines s) \<and> m_node_id m = n"
    and by_cred: "api_machine_by_cred api h s = Inr m \<Longrightarrow> m \<in> set (machines s) \<and> m_cred_hash m = h"
    and enrol_err: "api_enrol api ident name os_name h aud s = (Inl x, s') \<Longrightarrow> s' = s"
    and enrol_inv: "api_enrol api ident name os_name h aud s = (rm, s') \<Longrightarrow> inv s \<Longrightarrow> inv s'"
    and enrol_ok: "api_enrol api ident name os_name h (Some au1) s = (Inr (m, rot), s') \<Longrightarrow>
        m \<in> set (machines s') \<and> m_node_id m = id_node ident \<and> m_cred_hash m = h
        \<and> m_name m = name \<and> m_os m = os_name \<and> grants s' = grants s
        \<and> (\<exists>rows. log s' = log s @ rows \<and> list_all2 records rows (au1 m rot))"
    and issue_err: "api_issue api mid harness caps h aug s = (Inl x, s') \<Longrightarrow> s' = s"
    and issue_inv: "api_issue api mid harness caps h aug s = (rg, s') \<Longrightarrow> inv s \<Longrightarrow> inv s'"
    and issue_ok: "api_issue api mid harness caps h (Some au2) s = (Inr (g, old), s') \<Longrightarrow> inv s \<Longrightarrow>
        g \<in> set (grants s') \<and> g_machine g = mid \<and> g_harness g = harness \<and> g_caps g = caps
        \<and> g_token_hash g = h \<and> g_state g = GrantActive \<and> machines s' = machines s
        \<and> (\<forall>x. g_machine x \<noteq> mid \<longrightarrow> x \<in> set (grants s') \<longleftrightarrow> x \<in> set (grants s))
        \<and> (\<exists>rows. log s' = log s @ rows \<and> list_all2 records rows (au2 g old))"
    and grant_by_id: "api_grant_by_id api i s = Inr g \<Longrightarrow> g \<in> set (grants s) \<and> g_id g = i"
    and revoke_err: "api_revoke api i reason aur s = (Inl x, s') \<Longrightarrow> s' = s"
    and revoke_inv: "api_revoke api i reason aur s = (rr, s') \<Longrightarrow> inv s \<Longrightarrow> inv s'"
    and revoke_ok: "api_revoke api i reason (Some au3) s = (Inr (g, changed), s') \<Longrightarrow>
        g_id g = i \<and> g_state g = GrantRevoked \<and> machines s' = machines s
        \<and> (\<forall>x. g_id x \<noteq> i \<longrightarrow> x \<in> set (grants s') \<longleftrightarrow> x \<in> set (grants s)) \<and> g \<in> set (grants s')
        \<and> (\<exists>rows. log s' = log s @ rows \<and> list_all2 records rows (if changed then au3 g else []))"
    and list_ok: "api_list api mid s = Inr gs \<Longrightarrow> set gs = {g \<in> set (grants s). g_machine g = mid}"
    and ids_unique: "inv s \<Longrightarrow> distinct (map g_id (grants s))"

sublocale registry \<subseteq> sink: audit_sink "\<lambda>(_ :: unit) (_ :: int). api_append api" log
  by unfold_locales (blast dest: append_ok append_err)+

section \<open>The SQLite store provides it\<close>

lemma revoke_other_rows:
  assumes "distinct (map g_id gs)" "e \<in> set gs"
  shows "x \<in> set (update_where (\<lambda>y. g_id y = g_id e) (revoke_row now reason) gs)
    \<longleftrightarrow> (x \<in> set gs \<and> g_id x \<noteq> g_id e) \<or> x = revoke_row now reason e"
proof -
  have "{y \<in> set gs. g_id y = g_id e} = {e}" using assms by (auto dest: distinct_map_eqD)
  then show ?thesis by (auto simp: set_update_where)
qed

lemma enrol_registry:
  assumes "enrol fl now rnd ident name os_name h (Some au) db = (Inr (m, rot), db')"
  shows "m \<in> set (db_machines db') \<and> m_node_id m = id_node ident \<and> m_cred_hash m = h
    \<and> m_name m = name \<and> m_os m = os_name \<and> db_grants db' = db_grants db
    \<and> (\<exists>rows. db_audit db' = db_audit db @ rows \<and> list_all2 records rows (au m rot))"
  using assms
proof (cases rule: enrol_cases)
  case (inserted m' mid rows au')
  then show ?thesis by (auto simp: new_machine_def)
next
  case (rotated m0 m' rows au')
  then have "m0 \<in> set (db_machines db)" "m_node_id m0 = id_node ident" by (auto dest: select1_SomeD)
  with rotated show ?thesis by (auto simp: rotate_machine_def set_update_where)
qed auto

lemma issue_registry:
  assumes "issue_grant fl now rnd mid harness caps h (Some au) db = (Inr (g, old), db')" "db_wf db"
  shows "g \<in> set (db_grants db') \<and> g_machine g = mid \<and> g_harness g = harness \<and> g_caps g = caps
    \<and> g_token_hash g = h \<and> g_state g = GrantActive \<and> db_machines db' = db_machines db
    \<and> (\<forall>x. g_machine x \<noteq> mid \<longrightarrow> x \<in> set (db_grants db') \<longleftrightarrow> x \<in> set (db_grants db))
    \<and> (\<exists>rows. db_audit db' = db_audit db @ rows \<and> list_all2 records rows (au g old))"
  using assms(1)
proof (cases rule: issue_grant_cases)
  case (issued g' old' gid tx rows au')
  have "x \<in> set tx \<longleftrightarrow> x \<in> set (db_grants db)" if "g_machine x \<noteq> mid" for x
  proof (cases "select1 (active_for mid harness) (db_grants db)")
    case None
    with issued(4) show ?thesis by simp
  next
    case (Some e)
    then have e: "e \<in> set (db_grants db)" "g_machine e = mid"
      by (auto dest: select1_SomeD simp: active_for_def)
    have "g_id x \<noteq> g_id e" if "x \<in> set (db_grants db)"
      using distinct_map_eqD [OF grant_ids [OF assms(2)] that e(1)] e(2) \<open>g_machine x \<noteq> mid\<close> by auto
    moreover have "x \<noteq> revoke_row now ''superseded'' e" using that e(2) by auto
    ultimately show ?thesis
      using issued(4) Some revoke_other_rows [OF grant_ids [OF assms(2)] e(1), of x] by auto
  qed
  moreover have "g = g'" "old = old'" "au = au'" using issued(1,2) by simp_all
  ultimately show ?thesis using issued(5,10,11,13,14) by auto
qed auto

lemma revoke_registry:
  assumes "revoke_grant fl now i reason (Some au) db = (Inr (g, changed), db')"
  shows "g_id g = i \<and> g_state g = GrantRevoked \<and> db_machines db' = db_machines db
    \<and> (\<forall>x. g_id x \<noteq> i \<longrightarrow> x \<in> set (db_grants db') \<longleftrightarrow> x \<in> set (db_grants db)) \<and> g \<in> set (db_grants db')
    \<and> (\<exists>rows. db_audit db' = db_audit db @ rows \<and> list_all2 records rows (if changed then au g else []))"
  using assms
proof (cases rule: revoke_grant_cases)
  case (unchanged g')
  then show ?thesis by (auto dest: select1_SomeD)
next
  case (revoked g0 rows au')
  from revoked(3) have "g0 \<in> set (db_grants db)" "g_id g0 = i" by (auto dest: select1_SomeD)
  moreover have "g = revoke_row now reason g0" "changed" "au = au'" using revoked(1,2) by simp_all
  ultimately show ?thesis using revoked(5,6,8,9) by (auto simp: set_update_where)
qed auto

interpretation sqlite: registry "sqlite_api fls now rnd" db_wf db_audit db_machines db_grants
proof unfold_locales
  show "(\<exists>r. db_audit s' = db_audit s @ [r] \<and> records r e) \<and> db_machines s' = db_machines s
      \<and> db_grants s' = db_grants s"
    if "api_append (sqlite_api fls now rnd) e s = (Inr u, s')" for e s u s'
    using that store_log.append_ok append_frame by (auto simp: sqlite_api_def)
  show "m \<in> set (db_machines s') \<and> m_node_id m = id_node ident \<and> m_cred_hash m = h \<and> m_name m = name
      \<and> m_os m = os_name \<and> db_grants s' = db_grants s
      \<and> (\<exists>rows. db_audit s' = db_audit s @ rows \<and> list_all2 records rows (au1 m rot))"
    if "api_enrol (sqlite_api fls now rnd) ident name os_name h (Some au1) s = (Inr (m, rot), s')"
    for ident name os_name h au1 s m rot s'
    using that by (intro enrol_registry) (simp add: sqlite_api_def)
  show "g \<in> set (db_grants s') \<and> g_machine g = mid \<and> g_harness g = harness \<and> g_caps g = caps
      \<and> g_token_hash g = h \<and> g_state g = GrantActive \<and> db_machines s' = db_machines s
      \<and> (\<forall>x. g_machine x \<noteq> mid \<longrightarrow> x \<in> set (db_grants s') \<longleftrightarrow> x \<in> set (db_grants s))
      \<and> (\<exists>rows. db_audit s' = db_audit s @ rows \<and> list_all2 records rows (au2 g old))"
    if "api_issue (sqlite_api fls now rnd) mid harness caps h (Some au2) s = (Inr (g, old), s')" "db_wf s"
    for mid harness caps h au2 s g old s'
    using that by (intro issue_registry) (simp_all add: sqlite_api_def)
  show "g_id g = i \<and> g_state g = GrantRevoked \<and> db_machines s' = db_machines s
      \<and> (\<forall>x. g_id x \<noteq> i \<longrightarrow> x \<in> set (db_grants s') \<longleftrightarrow> x \<in> set (db_grants s)) \<and> g \<in> set (db_grants s')
      \<and> (\<exists>rows. db_audit s' = db_audit s @ rows \<and> list_all2 records rows (if changed then au3 g else []))"
    if "api_revoke (sqlite_api fls now rnd) i reason (Some au3) s = (Inr (g, changed), s')"
    for i reason au3 s g changed s'
    using that by (intro revoke_registry) (simp add: sqlite_api_def)
  show "set gs = {g \<in> set (db_grants s). g_machine g = mid}"
    if "api_list (sqlite_api fls now rnd) mid s = Inr gs" for mid s gs
    using that by (auto simp: sqlite_api_def list_grants_def split: if_splits)
  show "distinct (map g_id (db_grants s))" if "db_wf s" for s using that by (rule grant_ids)
qed (auto simp: sqlite_api_def machine_by_node_id_def machine_by_credential_hash_def grant_by_id_def
    dest: query1_InrD store_log.append_err store_op_wf
    elim: enrol_cases issue_grant_cases revoke_grant_cases)

end
