(* ===== verification/Policy.thy ===== *)
theory Policy
  imports Go_Text
begin

text \<open>
  \<open>internal/policy\<close>: the server-side capability policy. A capability is its string; the map
  from harness to policy is an association list with one entry for each harness.
\<close>

definition connector_read :: string where "connector_read = ''connector.read''"
definition connector_write :: string where "connector_write = ''connector.write''"
definition connector_delete :: string where "connector_delete = ''connector.delete''"
definition connector_send :: string where "connector_send = ''connector.send''"

lemmas capability_defs = connector_read_def connector_write_def connector_delete_def connector_send_def

record harness_policy =
  hp_allowed :: "string list"
  hp_default :: "string list"

type_synonym capability_policy = "(string \<times> harness_policy) list"

datatype policy_error =
    UnknownHarness string "string list"
  | NotPermitted string "string list"
  | NoUsableCapability string

definition policy_normalize :: "string \<Rightarrow> string" where
  "policy_normalize s = to_lower (trim_space s)"

definition caps_to_strings :: "string list \<Rightarrow> string list" where
  "caps_to_strings caps = sort_strings caps"

text \<open>\<open>Default\<close>: both harnesses read, write and delete; neither sends.\<close>

definition default_policy :: capability_policy where
  "default_policy =
     (let caps = [connector_read, connector_write, connector_delete];
          hp = \<lparr>hp_allowed = caps, hp_default = caps\<rparr>
      in [(''claude-code'', hp), (''codex'', hp)])"

text \<open>\<open>Validate\<close>: the first harness whose default leaves its own allowed set is an error.\<close>

fun policy_validate :: "capability_policy \<Rightarrow> (string \<times> string) option" where
  "policy_validate [] = None"
| "policy_validate ((harness, hp) # p) =
     (case List.find (\<lambda>c. c \<notin> set (hp_allowed hp)) (hp_default hp) of
        Some c \<Rightarrow> Some (harness, c)
      | None \<Rightarrow> policy_validate p)"

definition known_harnesses :: "capability_policy \<Rightarrow> string list" where
  "known_harnesses p = sort_strings (map fst p)"

text \<open>The loop of \<open>Resolve\<close>: what is granted (in order, once each) and what is refused.\<close>

fun resolve_loop :: "string list \<Rightarrow> string list \<Rightarrow> string list \<Rightarrow> string list
    \<Rightarrow> string list \<times> string list" where
  "resolve_loop allowed granted refused [] = (granted, refused)"
| "resolve_loop allowed granted refused (raw # requested) =
     (let c = policy_normalize raw in
      if c = [] then resolve_loop allowed granted refused requested
      else if c \<notin> set allowed then resolve_loop allowed granted (refused @ [c]) requested
      else if c \<in> set granted then resolve_loop allowed granted refused requested
      else resolve_loop allowed (granted @ [c]) refused requested)"

definition policy_resolve ::
  "capability_policy \<Rightarrow> string \<Rightarrow> string list \<Rightarrow> policy_error + string list" where
  "policy_resolve p harness requested =
     (case map_of p (policy_normalize harness) of
        None \<Rightarrow> Inl (UnknownHarness harness (known_harnesses p))
      | Some hp \<Rightarrow>
          if requested = [] then Inr (caps_to_strings (hp_default hp))
          else (case resolve_loop (hp_allowed hp) [] [] requested of
                  (granted, refused) \<Rightarrow>
                    if refused \<noteq> [] then Inl (NotPermitted harness (sort_strings refused))
                    else if granted = [] then Inl (NoUsableCapability harness)
                    else Inr (caps_to_strings granted)))"

section \<open>What resolution decides\<close>

text \<open>The capabilities a request names, as the server reads them.\<close>

definition asked_caps :: "string list \<Rightarrow> string set" where
  "asked_caps requested = {policy_normalize r | r. r \<in> set requested \<and> policy_normalize r \<noteq> []}"

lemma asked_caps_simps [simp]:
  "asked_caps [] = {}"
  "asked_caps (r # rs) =
     (if policy_normalize r = [] then asked_caps rs else insert (policy_normalize r) (asked_caps rs))"
  by (auto simp: asked_caps_def)

lemma resolve_loop_sets:
  "resolve_loop allowed granted refused requested = (g, r) \<Longrightarrow>
     set g = set granted \<union> (asked_caps requested \<inter> set allowed)
   \<and> set r = set refused \<union> (asked_caps requested - set allowed)"
proof (induction allowed granted refused requested arbitrary: g r rule: resolve_loop.induct)
  case (2 allowed granted refused raw requested)
  let ?c = "policy_normalize raw"
  consider (empty) "?c = []" | (refused) "?c \<noteq> []" "?c \<notin> set allowed"
    | (seen) "?c \<noteq> []" "?c \<in> set allowed" "?c \<in> set granted"
    | (granted) "?c \<noteq> []" "?c \<in> set allowed" "?c \<notin> set granted" by blast
  then show ?case
  proof cases
    case empty
    with "2.prems" have "resolve_loop allowed granted refused requested = (g, r)" by simp
    from "2.IH"(1) [OF refl _ this] empty show ?thesis by auto
  next
    case refused
    with "2.prems" have "resolve_loop allowed granted (refused @ [?c]) requested = (g, r)" by simp
    from "2.IH"(2) [OF refl _ _ this] refused show ?thesis by auto
  next
    case seen
    with "2.prems" have "resolve_loop allowed granted refused requested = (g, r)" by simp
    from "2.IH"(3) [OF refl _ _ _ this] seen show ?thesis by auto
  next
    case granted
    with "2.prems" have "resolve_loop allowed (granted @ [?c]) refused requested = (g, r)" by simp
    from "2.IH"(4) [OF refl _ _ _ this] granted show ?thesis by auto
  qed
qed simp

lemma resolve_loop_distinct:
  "resolve_loop allowed granted refused requested = (g, r) \<Longrightarrow> distinct granted \<Longrightarrow> distinct g"
  by (induction allowed granted refused requested arbitrary: g r rule: resolve_loop.induct)
     (auto simp: Let_def split: if_splits)

lemma policy_validate_subset:
  "policy_validate p = None \<Longrightarrow> map_of p h = Some hp \<Longrightarrow> set (hp_default hp) \<subseteq> set (hp_allowed hp)"
  by (induction p rule: policy_validate.induct)
     (auto simp: find_None_iff split: option.splits if_splits)

text \<open>The authority a granted request carries, in terms of the policy entry alone.\<close>

lemma policy_resolve_InrD:
  assumes "policy_resolve p harness requested = Inr caps"
  obtains hp where "map_of p (policy_normalize harness) = Some hp"
    "requested = [] \<Longrightarrow> set caps = set (hp_default hp)"
    "requested \<noteq> [] \<Longrightarrow>
       set caps = asked_caps requested \<and> asked_caps requested \<subseteq> set (hp_allowed hp)
       \<and> asked_caps requested \<noteq> {} \<and> distinct caps"
    "sorted caps"
proof -
  obtain hp where hp: "map_of p (policy_normalize harness) = Some hp"
    using assms by (auto simp: policy_resolve_def split: option.splits)
  obtain g r where gr: "resolve_loop (hp_allowed hp) [] [] requested = (g, r)" by fastforce
  note sets = resolve_loop_sets [OF gr] and dist = resolve_loop_distinct [OF gr]
  show ?thesis
  proof (rule that [OF hp])
    show "requested = [] \<Longrightarrow> set caps = set (hp_default hp)"
      using assms hp by (auto simp: policy_resolve_def caps_to_strings_def)
    show "sorted caps"
      using assms hp by (auto simp: policy_resolve_def caps_to_strings_def sorted_sort_strings
          split: if_splits prod.splits)
    assume "requested \<noteq> []"
    then have "r = []" "g \<noteq> []" "caps = sort_strings g"
      using assms hp gr by (auto simp: policy_resolve_def caps_to_strings_def split: if_splits)
    then show "set caps = asked_caps requested \<and> asked_caps requested \<subseteq> set (hp_allowed hp)
       \<and> asked_caps requested \<noteq> {} \<and> distinct caps"
      using sets dist by (auto simp: sort_strings_def)
  qed
qed

lemma policy_resolve_within_allowed:
  assumes "policy_validate p = None" "policy_resolve p harness requested = Inr caps"
    "map_of p (policy_normalize harness) = Some hp"
  shows "set caps \<subseteq> set (hp_allowed hp)"
  using policy_resolve_InrD [OF assms(2)] policy_validate_subset [OF assms(1)] assms(3)
  by (metis option.inject)

lemma default_policy_valid: "policy_validate default_policy = None"
  by code_simp

end
