(* ===== verification/Go_Json.thy ===== *)
theory Go_Json
  imports Go_Crypto
begin

text \<open>
  The parts of \<open>encoding/json\<close> the program uses: the scanner with its nesting limit, the
  decoding of strings and numbers (numbers keep their literal, as under \<open>UseNumber\<close>), the
  encoder behind \<open>json.Marshal\<close>, and the rules by which object members reach struct fields.
  An object is the list of its members in document order, duplicates included.
\<close>

datatype json =
    JNull
  | JBool bool
  | JNum string
  | JStr string
  | JArr "json list"
  | JObj "(string \<times> json) list"

text \<open>A parse either fails, runs out of fuel, or returns a value and the remaining bytes.\<close>

datatype 'a parsed = PErr | POut | POk 'a string

section \<open>Lexical level\<close>

definition json_space :: "char \<Rightarrow> bool" where
  "json_space c \<longleftrightarrow> byte c = 32 \<or> byte c = 9 \<or> byte c = 10 \<or> byte c = 13"

definition skip_ws :: "string \<Rightarrow> string" where
  "skip_ws s = dropWhile json_space s"

definition is_digit :: "char \<Rightarrow> bool" where
  "is_digit c \<longleftrightarrow> 48 \<le> byte c \<and> byte c \<le> 57"

definition hex_value :: "char \<Rightarrow> nat option" where
  "hex_value c =
     (if is_digit c then Some (byte c - 48)
      else if 97 \<le> byte c \<and> byte c \<le> 102 then Some (byte c - 87)
      else if 65 \<le> byte c \<and> byte c \<le> 70 then Some (byte c - 55)
      else None)"

definition is_hex :: "char \<Rightarrow> bool" where
  "is_hex c \<longleftrightarrow> hex_value c \<noteq> None"

definition hex4 :: "char \<Rightarrow> char \<Rightarrow> char \<Rightarrow> char \<Rightarrow> nat" where
  "hex4 a b c d =
     ((the (hex_value a) * 16 + the (hex_value b)) * 16 + the (hex_value c)) * 16 + the (hex_value d)"

abbreviation quote :: char where "quote \<equiv> CHR 0x22"
abbreviation backslash :: char where "backslash \<equiv> CHR 0x5C"

text \<open>The text of a string literal up to its closing quote, and what follows.\<close>

fun scan_str :: "string \<Rightarrow> (string \<times> string) option" where
  "scan_str [] = None"
| "scan_str (c # s) =
     (if c = quote then Some ([], s)
      else if c = backslash then
        (case s of
           [] \<Rightarrow> None
         | e # s' \<Rightarrow>
             if e \<in> set [quote, backslash, CHR ''/'', CHR ''b'', CHR ''f'', CHR ''n'', CHR ''r'', CHR ''t'']
             then map_option (\<lambda>(t, r). (c # e # t, r)) (scan_str s')
             else if e = CHR ''u'' then
               (case s' of
                  h1 # h2 # h3 # h4 # s'' \<Rightarrow>
                    if is_hex h1 \<and> is_hex h2 \<and> is_hex h3 \<and> is_hex h4
                    then map_option (\<lambda>(t, r). (c # e # h1 # h2 # h3 # h4 # t, r)) (scan_str s'')
                    else None
                | _ \<Rightarrow> None)
             else None)
      else if byte c < 32 then None
      else map_option (\<lambda>(t, r). (c # t, r)) (scan_str s))"

text \<open>\<open>getu4\<close>: the value of a leading four-digit \<open>u\<close> escape.\<close>

definition getu4 :: "string \<Rightarrow> nat option" where
  "getu4 s = (case s of
       b # u # h1 # h2 # h3 # h4 # _ \<Rightarrow>
         if b = backslash \<and> u = CHR ''u'' \<and> is_hex h1 \<and> is_hex h2 \<and> is_hex h3 \<and> is_hex h4
         then Some (hex4 h1 h2 h3 h4) else None
     | _ \<Rightarrow> None)"

definition simple_escape :: "char \<Rightarrow> char" where
  "simple_escape e =
     (if e = CHR ''b'' then chr 8 else if e = CHR ''f'' then chr 12 else if e = CHR ''n'' then chr 10
      else if e = CHR ''r'' then chr 13 else if e = CHR ''t'' then chr 9 else e)"

text \<open>
  \<open>unquote\<close> on scanned text: escapes are replaced, a surrogate pair of escapes becomes one
  rune, a lone surrogate and every invalid byte become U+FFFD.
\<close>

fun unquote :: "string \<Rightarrow> string" where
  "unquote [] = []"
| "unquote (c # s) =
     (if c = backslash then
        (case s of
           [] \<Rightarrow> []
         | e # s' \<Rightarrow>
             if e = CHR ''u'' then
               (case getu4 (c # s) of
                  None \<Rightarrow> []
                | Some r \<Rightarrow>
                    let rest = drop 4 s' in
                    if 55296 \<le> r \<and> r \<le> 57343 then
                      (case getu4 rest of
                         Some r2 \<Rightarrow>
                           if r \<le> 56319 \<and> 56320 \<le> r2 \<and> r2 \<le> 57343
                           then encode_rune ((r - 55296) * 1024 + (r2 - 56320) + 65536)
                                  @ unquote (drop 6 rest)
                           else encode_rune rune_error @ unquote rest
                       | None \<Rightarrow> encode_rune rune_error @ unquote rest)
                    else encode_rune r @ unquote rest)
             else simple_escape e # unquote s')
      else if byte c < 128 then c # unquote s
      else (let (r, w) = decode_rune (c # s) in encode_rune r @ unquote (drop (w - 1) s)))"

text \<open>A number literal: sign, integer part without leading zeros, fraction, exponent.\<close>

definition take_digits :: "string \<Rightarrow> string \<times> string" where
  "take_digits s = (takeWhile is_digit s, dropWhile is_digit s)"

definition scan_int_part :: "string \<Rightarrow> (string \<times> string) option" where
  "scan_int_part s = (case s of
       [] \<Rightarrow> None
     | c # cs \<Rightarrow>
         if c = CHR ''0'' then Some ([c], cs)
         else if is_digit c then Some (take_digits s) else None)"

definition scan_frac :: "string \<Rightarrow> (string \<times> string) option" where
  "scan_frac s = (case s of
       c # cs \<Rightarrow>
         if c = CHR ''.'' then
           (case take_digits cs of (d, r) \<Rightarrow> if d = [] then None else Some (c # d, r))
         else Some ([], s)
     | [] \<Rightarrow> Some ([], s))"

definition scan_exp :: "string \<Rightarrow> (string \<times> string) option" where
  "scan_exp s = (case s of
       c # cs \<Rightarrow>
         if c = CHR ''e'' \<or> c = CHR ''E'' then
           (let (sg, r0) = (case cs of
                  x # xs \<Rightarrow> if x = CHR ''+'' \<or> x = CHR ''-'' then ([x], xs) else ([], cs)
                | [] \<Rightarrow> ([], cs))
            in case take_digits r0 of (d, r) \<Rightarrow> if d = [] then None else Some (c # sg @ d, r))
         else Some ([], s)
     | [] \<Rightarrow> Some ([], s))"

definition scan_num :: "string \<Rightarrow> (string \<times> string) option" where
  "scan_num s =
     (let (sg, s1) = (case s of c # cs \<Rightarrow> if c = CHR ''-'' then ([c], cs) else ([], s) | [] \<Rightarrow> ([], s))
      in case scan_int_part s1 of
           None \<Rightarrow> None
         | Some (i, s2) \<Rightarrow>
             (case scan_frac s2 of
                None \<Rightarrow> None
              | Some (fr, s3) \<Rightarrow>
                  map_option (\<lambda>(ex, s4). (sg @ i @ fr @ ex, s4)) (scan_exp s3)))"

section \<open>Values\<close>

definition max_nesting :: nat where
  "max_nesting = 10000"

text \<open>
  The value parser. Every call spends one unit of fuel. Each call but the one for an array's
  next element receives a shorter string than its caller, so one unit more than twice the
  length of the input is enough (\<open>parse_fuel_enough\<close>).
\<close>

fun p_value :: "nat \<Rightarrow> nat \<Rightarrow> string \<Rightarrow> json parsed"
and p_elems :: "nat \<Rightarrow> nat \<Rightarrow> string \<Rightarrow> json list \<Rightarrow> json parsed"
and p_members :: "nat \<Rightarrow> nat \<Rightarrow> string \<Rightarrow> (string \<times> json) list \<Rightarrow> json parsed" where
  "p_value 0 d s = POut"
| "p_value (Suc f) d s =
     (case skip_ws s of
        [] \<Rightarrow> PErr
      | c # r \<Rightarrow>
          if c = CHR ''{'' then
            (if max_nesting \<le> d then PErr
             else case skip_ws r of
                    [] \<Rightarrow> PErr
                  | x # r' \<Rightarrow> if x = CHR ''}'' then POk (JObj []) r' else p_members f (Suc d) r [])
          else if c = CHR ''['' then
            (if max_nesting \<le> d then PErr
             else case skip_ws r of
                    [] \<Rightarrow> PErr
                  | x # r' \<Rightarrow> if x = CHR '']'' then POk (JArr []) r' else p_elems f (Suc d) r [])
          else if c = quote then
            (case scan_str r of None \<Rightarrow> PErr | Some (t, r') \<Rightarrow> POk (JStr (unquote t)) r')
          else if has_prefix (c # r) ''true'' then POk (JBool True) (drop 4 (c # r))
          else if has_prefix (c # r) ''false'' then POk (JBool False) (drop 5 (c # r))
          else if has_prefix (c # r) ''null'' then POk JNull (drop 4 (c # r))
          else (case scan_num (c # r) of None \<Rightarrow> PErr | Some (n, r') \<Rightarrow> POk (JNum n) r'))"
| "p_elems 0 d s acc = POut"
| "p_elems (Suc f) d s acc =
     (case p_value f d s of
        PErr \<Rightarrow> PErr
      | POut \<Rightarrow> POut
      | POk v r \<Rightarrow>
          (case skip_ws r of
             [] \<Rightarrow> PErr
           | x # r' \<Rightarrow>
               if x = CHR '','' then p_elems f d r' (acc @ [v])
               else if x = CHR '']'' then POk (JArr (acc @ [v])) r' else PErr))"
| "p_members 0 d s acc = POut"
| "p_members (Suc f) d s acc =
     (case skip_ws s of
        [] \<Rightarrow> PErr
      | q # r \<Rightarrow>
          if q \<noteq> quote then PErr
          else (case scan_str r of
             None \<Rightarrow> PErr
           | Some (k, r1) \<Rightarrow>
               (case skip_ws r1 of
                  [] \<Rightarrow> PErr
                | c # r2 \<Rightarrow>
                    if c \<noteq> CHR '':'' then PErr
                    else (case p_value f d r2 of
                       PErr \<Rightarrow> PErr
                     | POut \<Rightarrow> POut
                     | POk v r3 \<Rightarrow>
                         (case skip_ws r3 of
                            [] \<Rightarrow> PErr
                          | x # r4 \<Rightarrow>
                              if x = CHR '','' then p_members f d r4 (acc @ [(unquote k, v)])
                              else if x = CHR ''}'' then POk (JObj (acc @ [(unquote k, v)])) r4
                              else PErr)))))"

definition parse_fuel :: "string \<Rightarrow> nat" where
  "parse_fuel s = Suc (2 * length s)"

text \<open>
  \<open>Decoder.Decode\<close>: the first value of the input, whatever follows it. \<open>json.Unmarshal\<close>
  also requires that only white space follows.
\<close>

definition json_first :: "string \<Rightarrow> (json \<times> string) option" where
  "json_first s = (case p_value (parse_fuel s) 0 s of POk v r \<Rightarrow> Some (v, r) | _ \<Rightarrow> None)"

definition json_unmarshal :: "string \<Rightarrow> json option" where
  "json_unmarshal s = (case json_first s of
       Some (v, r) \<Rightarrow> if skip_ws r = [] then Some v else None
     | None \<Rightarrow> None)"

section \<open>Raw members\<close>

text \<open>
  A \<open>json.RawMessage\<close> field receives the bytes of its value. \<open>raw_members\<close> lists the
  members of an object's text with those bytes.
\<close>

fun raw_members_from :: "nat \<Rightarrow> string \<Rightarrow> (string \<times> string) list" where
  "raw_members_from 0 s = []"
| "raw_members_from (Suc f) s =
     (case skip_ws s of
        [] \<Rightarrow> []
      | q # r \<Rightarrow>
          (case scan_str r of
             None \<Rightarrow> []
           | Some (k, r1) \<Rightarrow>
               let r2 = skip_ws (drop 1 (skip_ws r1)) in
               (case p_value (parse_fuel r2) 1 r2 of
                  POk v r3 \<Rightarrow>
                    (unquote k, take (length r2 - length r3) r2) #
                    (case skip_ws r3 of
                       x # r4 \<Rightarrow> if x = CHR '','' then raw_members_from f r4 else []
                     | [] \<Rightarrow> [])
                | _ \<Rightarrow> [])))"

definition raw_members :: "string \<Rightarrow> (string \<times> string) list" where
  "raw_members s = (case skip_ws s of
       c # r \<Rightarrow> if c = CHR ''{'' then raw_members_from (Suc (length s)) r else []
     | [] \<Rightarrow> [])"

section \<open>Struct fields\<close>

text \<open>
  A member reaches a field when its key folds to the field's name (an exact match is a special
  case), and the last such member wins.
\<close>

definition field_matches :: "string \<Rightarrow> string \<Rightarrow> bool" where
  "field_matches name key \<longleftrightarrow> key = name \<or> equal_fold_const key name"

text \<open>A string field: a string replaces it, \<open>null\<close> leaves it, anything else is an error.\<close>

fun dec_string :: "string \<Rightarrow> json \<Rightarrow> string option" where
  "dec_string old (JStr s) = Some s"
| "dec_string old JNull = Some old"
| "dec_string old _ = None"

fun dec_bool :: "bool \<Rightarrow> json \<Rightarrow> bool option" where
  "dec_bool old (JBool b) = Some b"
| "dec_bool old JNull = Some old"
| "dec_bool old _ = None"

fun dec_elems :: "string list \<Rightarrow> json list \<Rightarrow> string list option" where
  "dec_elems old [] = Some []"
| "dec_elems old (v # vs) =
     (case dec_string (case old of [] \<Rightarrow> [] | o1 # _ \<Rightarrow> o1) v of
        None \<Rightarrow> None
      | Some x \<Rightarrow> map_option ((#) x) (dec_elems (drop 1 old) vs))"

text \<open>A string-slice field: elements decode over the elements already there.\<close>

fun dec_strings :: "string list \<Rightarrow> json \<Rightarrow> string list option" where
  "dec_strings old (JArr vs) = dec_elems old vs"
| "dec_strings old JNull = Some []"
| "dec_strings old _ = None"

text \<open>Decoding one field from all members, in document order.\<close>

fun dec_field :: "('a \<Rightarrow> json \<Rightarrow> 'a option) \<Rightarrow> string \<Rightarrow> 'a \<Rightarrow> (string \<times> json) list \<Rightarrow> 'a option" where
  "dec_field dec name old [] = Some old"
| "dec_field dec name old ((k, v) # kvs) =
     (if field_matches name k
      then (case dec old v of None \<Rightarrow> None | Some new \<Rightarrow> dec_field dec name new kvs)
      else dec_field dec name old kvs)"

text \<open>\<open>DisallowUnknownFields\<close>.\<close>

definition only_fields :: "string list \<Rightarrow> (string \<times> json) list \<Rightarrow> bool" where
  "only_fields names kvs \<longleftrightarrow> list_all (\<lambda>(k, v). list_ex (\<lambda>n. field_matches n k) names) kvs"

section \<open>Encoding\<close>

text \<open>
  \<open>json.Marshal\<close> of a decoded value: a Go map holds the last member of each key and is
  written with its keys sorted; strings are escaped with the HTML-safe set.
\<close>

definition hex2 :: "nat \<Rightarrow> string" where
  "hex2 n = [hex_digit (n div 16), hex_digit (n mod 16)]"

definition escape_byte :: "char \<Rightarrow> string" where
  "escape_byte c =
     (if c = quote \<or> c = backslash then [backslash, c]
      else if byte c = 8 then backslash # ''b'' else if byte c = 12 then backslash # ''f''
      else if byte c = 10 then backslash # ''n'' else if byte c = 13 then backslash # ''r''
      else if byte c = 9 then backslash # ''t''
      else if byte c < 32 \<or> c = CHR ''<'' \<or> c = CHR ''>'' \<or> c = CHR ''&''
      then backslash # ''u00'' @ hex2 (byte c)
      else [c])"

fun escape_str :: "string \<Rightarrow> string" where
  "escape_str [] = []"
| "escape_str (c # s) =
     (if byte c < 128 then escape_byte c @ escape_str s
      else (let (r, w) = decode_rune (c # s) in
            (if r = rune_error \<and> w = 1 then backslash # ''ufffd''
             else if r = 8232 then backslash # ''u2028'' else if r = 8233 then backslash # ''u2029''
             else take w (c # s)) @ escape_str (drop (w - 1) s)))"

definition json_quote :: "string \<Rightarrow> string" where
  "json_quote s = quote # escape_str s @ [quote]"

fun last_wins :: "(string \<times> 'v) list \<Rightarrow> (string \<times> 'v) list" where
  "last_wins [] = []"
| "last_wins ((k, v) # m) = (if k \<in> fst ` set m then last_wins m else (k, v) # last_wins m)"

fun json_marshal :: "json \<Rightarrow> string" where
  "json_marshal JNull = ''null''"
| "json_marshal (JBool b) = (if b then ''true'' else ''false'')"
| "json_marshal (JNum n) = n"
| "json_marshal (JStr s) = json_quote s"
| "json_marshal (JArr vs) = CHR ''['' # str_join '','' (map json_marshal vs) @ '']''"
| "json_marshal (JObj kvs) =
     CHR ''{'' # str_join '',''
       (map (\<lambda>(k, t). json_quote k @ '':'' @ t)
          (sort_key fst (last_wins (map (\<lambda>(k, v). (k, json_marshal v)) kvs)))) @ ''}''"

text \<open>Reading a key of a decoded object (\<open>map[string]any\<close>): the last member with that key.\<close>

definition obj_get :: "string \<Rightarrow> (string \<times> json) list \<Rightarrow> json option" where
  "obj_get k kvs = map_of (rev kvs) k"

section \<open>Consumption and termination of the parser\<close>

lemma length_skip_ws: "length (skip_ws s) \<le> length s"
  by (simp add: skip_ws_def length_dropWhile_le)

lemma skip_ws_ConsD: "skip_ws s = c # r \<Longrightarrow> length r < length s"
  using length_skip_ws [of s] by simp

lemma skip_ws_NilI: "skip_ws [] = []"
  by (simp add: skip_ws_def)

lemma scan_str_shorter: "scan_str s = Some (t, r) \<Longrightarrow> length r < length s"
proof (induction s arbitrary: t r rule: scan_str.induct)
  case (2 c s)
  show ?case
  proof (cases s)
    case Nil
    with 2 show ?thesis by (auto split: if_splits)
  next
    case (Cons e s')
    show ?thesis
      using "2.prems" "2.IH" Cons
      by (fastforce split: if_splits list.splits dest: less_SucI)
  qed
qed simp

lemma take_digits_shorter: "take_digits s = (d, r) \<Longrightarrow> length r \<le> length s \<and> (d \<noteq> [] \<longrightarrow> length r < length s)"
proof -
  assume "take_digits s = (d, r)"
  then have "s = d @ r" by (auto simp: take_digits_def)
  then show ?thesis by auto
qed

lemma scan_int_part_shorter: "scan_int_part s = Some (t, r) \<Longrightarrow> length r < length s"
  by (auto simp: scan_int_part_def take_digits_def length_dropWhile_le less_Suc_eq_le
      split: list.splits if_splits)

lemma scan_frac_shorter: "scan_frac s = Some (t, r) \<Longrightarrow> length r \<le> length s"
  by (auto simp: scan_frac_def split: list.splits if_splits prod.splits dest: take_digits_shorter)

lemma scan_exp_shorter: "scan_exp s = Some (t, r) \<Longrightarrow> length r \<le> length s"
  by (auto simp: scan_exp_def Let_def split: list.splits if_splits prod.splits dest!: take_digits_shorter)

lemma scan_num_shorter:
  assumes "scan_num s = Some (t, r)"
  shows "length r < length s"
proof -
  obtain sg s1 where s1: "(case s of c # cs \<Rightarrow> if c = CHR ''-'' then ([c], cs) else ([], s) | [] \<Rightarrow> ([], s))
      = (sg, s1)" by (meson surj_pair)
  then have "length s1 \<le> length s" by (auto split: list.splits if_splits)
  moreover obtain i s2 fr s3 ex where
    "scan_int_part s1 = Some (i, s2)" "scan_frac s2 = Some (fr, s3)" "scan_exp s3 = Some (ex, r)"
    using assms s1 by (auto simp: scan_num_def Let_def split: option.splits prod.splits)
  ultimately show ?thesis
    using scan_int_part_shorter scan_frac_shorter scan_exp_shorter by fastforce
qed

lemma parse_shorter:
  "p_value f d s = POk v r \<Longrightarrow> length r < length s"
  "p_elems f d s es = POk v r \<Longrightarrow> length r < length s"
  "p_members f d s ms = POk v r \<Longrightarrow> length r < length s"
proof (induction f d s and f d s es and f d s ms arbitrary: v r and v r and v r
    rule: p_value_p_elems_p_members.induct)
  case (2 f d s)
  show ?case
  proof (cases "skip_ws s")
    case Nil
    with 2 show ?thesis by simp
  next
    case (Cons c cs)
    then have "length cs < length s" by (rule skip_ws_ConsD)
    then show ?thesis
      using 2 Cons
      by (fastforce split: if_splits list.splits option.splits
          dest: scan_str_shorter scan_num_shorter skip_ws_ConsD)
  qed
next
  case (4 f d s acc)
  then show ?case
    by (fastforce split: parsed.splits list.splits if_splits dest: skip_ws_ConsD)
next
  case (6 f d s acc)
  then show ?case
    by (fastforce split: parsed.splits list.splits if_splits option.splits
        dest: skip_ws_ConsD scan_str_shorter)
qed simp_all

lemma parse_fuel_enough:
  "2 * length s < f \<Longrightarrow> p_value f d s \<noteq> POut"
  "2 * length s + 1 < f \<Longrightarrow> p_elems f d s es \<noteq> POut"
  "2 * length s + 1 < f \<Longrightarrow> p_members f d s ms \<noteq> POut"
proof (induction f d s and f d s es and f d s ms rule: p_value_p_elems_p_members.induct)
  case (2 f d s)
  then show ?case
    by (fastforce split: if_splits list.splits option.splits dest: skip_ws_ConsD)
next
  case (4 f d s acc)
  then show ?case
    by (fastforce split: parsed.splits list.splits if_splits
        dest: skip_ws_ConsD parse_shorter)
next
  case (6 f d s acc)
  then show ?case
    by (fastforce split: parsed.splits list.splits if_splits option.splits
        dest: skip_ws_ConsD scan_str_shorter parse_shorter)
qed simp_all

text \<open>So the parser of a whole input never runs out: \<open>None\<close> is a syntax error.\<close>

lemma json_parse_total: "p_value (parse_fuel s) d s \<noteq> POut"
  by (rule parse_fuel_enough) (simp add: parse_fuel_def)

end
