(* ===== verification/Health.thy ===== *)
theory Health
  imports Go_Text "HOL-Library.Multiset"
begin

text \<open>
  \<open>internal/health/health.go\<close>: the checker over the server's own components. A probe is a
  function of the world it looks at; \<open>None\<close> is a nil error. \<open>Set\<close> sorts by name once, so a
  checker is its sorted component list.
\<close>

datatype health_status = StatusOK | StatusDegraded

record 'w component =
  hc_name :: string
  hc_probe :: "('w \<Rightarrow> string option) option"

record component_report =
  cr_name :: string
  cr_status :: health_status
  cr_detail :: string

record health_report =
  hr_status :: health_status
  hr_components :: "component_report list"

definition degraded :: "health_report \<Rightarrow> bool" where
  "degraded r \<longleftrightarrow> hr_status r \<noteq> StatusOK"

definition checker_set :: "'w component list \<Rightarrow> 'w component list" where
  "checker_set components = sort_key hc_name components"

text \<open>One turn of the loop in \<open>Check\<close>.\<close>

definition check_component :: "'w \<Rightarrow> 'w component \<Rightarrow> component_report" where
  "check_component w c =
     (case hc_probe c of
        None \<Rightarrow> \<lparr>cr_name = hc_name c, cr_status = StatusDegraded, cr_detail = ''no probe configured''\<rparr>
      | Some probe \<Rightarrow>
          (case probe w of
             None \<Rightarrow> \<lparr>cr_name = hc_name c, cr_status = StatusOK, cr_detail = []\<rparr>
           | Some err \<Rightarrow> \<lparr>cr_name = hc_name c, cr_status = StatusDegraded, cr_detail = err\<rparr>))"

fun check_loop :: "'w \<Rightarrow> 'w component list \<Rightarrow> health_report \<Rightarrow> health_report" where
  "check_loop w [] report = report"
| "check_loop w (c # cs) report =
     (let cr = check_component w c;
          st = (if cr_status cr \<noteq> StatusOK then StatusDegraded else hr_status report)
      in check_loop w cs \<lparr>hr_status = st, hr_components = hr_components report @ [cr]\<rparr>)"

definition health_check :: "'w \<Rightarrow> 'w component list \<Rightarrow> health_report" where
  "health_check w components = check_loop w components \<lparr>hr_status = StatusOK, hr_components = []\<rparr>"

definition healthy :: "'w \<Rightarrow> 'w component \<Rightarrow> bool" where
  "healthy w c \<longleftrightarrow> (\<exists>probe. hc_probe c = Some probe \<and> probe w = None)"

lemma check_component_healthy: "cr_status (check_component w c) = StatusOK \<longleftrightarrow> healthy w c"
  by (auto simp: check_component_def healthy_def split: option.split)

lemma check_loop_result:
  "check_loop w cs report =
     \<lparr>hr_status = (if list_all (healthy w) cs then hr_status report else StatusDegraded),
      hr_components = hr_components report @ map (check_component w) cs\<rparr>"
  by (induction cs arbitrary: report) (auto simp: Let_def check_component_healthy)

lemma cr_name_check [simp]: "cr_name (check_component w c) = hc_name c"
  by (simp add: check_component_def split: option.split)

text \<open>
  A health report names every component, in name order, and the system is degraded exactly
  when some component is: a component whose probe fails or that has no probe is degraded, with
  the probe's error as detail, and an unprobed one never renders as healthy.
\<close>

theorem health_report_exact:
  "let report = health_check w (checker_set cs)
   in sorted (map cr_name (hr_components report))
      \<and> mset (map cr_name (hr_components report)) = mset (map hc_name cs)
      \<and> (degraded report \<longleftrightarrow> (\<exists>c \<in> set cs. \<not> healthy w c))
      \<and> (degraded report \<longleftrightarrow> (\<exists>r \<in> set (hr_components report). cr_status r = StatusDegraded))"
proof -
  have report: "health_check w (checker_set cs) =
      \<lparr>hr_status = (if list_all (healthy w) (checker_set cs) then StatusOK else StatusDegraded),
       hr_components = map (check_component w) (checker_set cs)\<rparr>"
    by (simp add: health_check_def check_loop_result)
  have names: "map cr_name (map (check_component w) (checker_set cs)) = map hc_name (checker_set cs)"
    by simp
  have deg: "cr_status (check_component w c) = StatusDegraded \<longleftrightarrow> \<not> healthy w c" for c
    using check_component_healthy [of w c] by (cases "cr_status (check_component w c)") auto
  have set: "set (checker_set cs) = set cs" by (simp add: checker_set_def)
  have "mset (map hc_name (checker_set cs)) = mset (map hc_name cs)"
    by (simp add: checker_set_def mset_map)
  moreover have "sorted (map hc_name (checker_set cs))" by (simp add: checker_set_def)
  ultimately show ?thesis
    unfolding report Let_def degraded_def
    by (simp only: names health_report.simps)
       (auto simp: list_all_iff deg set names)
qed

end
