(* ===== verification/Control.thy ===== *)
theory Control
  imports Registry_Api Policy Go_Json Health
begin

text \<open>
  The control plane, \<open>internal/server/{server,auth,handlers}.go\<close>: identity and credential
  checks, enrolment, the grant lifecycle, health, and the routes. A handler takes the server,
  the time, the random bytes it may draw and the request, and returns the response with the
  registry's new state. The identity resolver (\<open>WhoIs\<close>) is a field of the server.
\<close>

section \<open>Requests and responses\<close>

text \<open>
  A request carries the path as the audit sees it and the decoded segments the mux matched; an
  absent \<open>Authorization\<close> header is the empty string.
\<close>

record http_request =
  rq_method :: string
  rq_path :: string
  rq_segments :: "string list"
  rq_remote :: string
  rq_auth :: string
  rq_body :: string

datatype error_code = CodeInvalidRequest | CodeUnauthenticated | CodeForbidden | CodeNotFound
  | CodeInternal | CodeUnavailable

text \<open>
  A message whose text includes an error of the JSON decoder, or of the policy, carries the fact
  instead of the words.
\<close>

datatype message = Msg string | MsgMalformed | MsgPolicy policy_error

record grant_view =
  gv_id :: string
  gv_harness :: string
  gv_caps :: "string list"
  gv_state :: grant_state
  gv_created :: int
  gv_revoked :: "int option"

datatype control_body =
    BError error_code message
  | BEnrol string string bool int
  | BIssue string string "string list" string string string
  | BList "grant_view list"
  | BRevoke string grant_state bool "int option"
  | BHealth health_report

record 'b response =
  rs_status :: nat
  rs_challenge :: bool
  rs_body :: 'b

type_synonym control_response = "control_body response"

definition write_json :: "nat \<Rightarrow> 'b \<Rightarrow> 'b response" where
  "write_json st b = \<lparr>rs_status = st, rs_challenge = False, rs_body = b\<rparr>"

definition write_error :: "nat \<Rightarrow> error_code \<Rightarrow> message \<Rightarrow> control_response" where
  "write_error st code m = write_json st (BError code m)"

record 's server =
  sv_api :: "'s store_api"
  sv_resolve :: "string \<Rightarrow> identity option"
  sv_policy :: capability_policy
  sv_endpoint :: string
  sv_max_bytes :: nat

definition default_max_request_bytes :: nat where
  "default_max_request_bytes = 65536"

text \<open>\<open>New\<close>: the policy must be consistent, and a bound of zero is the default one.\<close>

definition control_new :: "'s store_api \<Rightarrow> (string \<Rightarrow> identity option) \<Rightarrow> capability_policy \<Rightarrow> string
    \<Rightarrow> nat \<Rightarrow> (string \<times> string) + 's server" where
  "control_new api resolve pol url max_bytes =
     (case policy_validate pol of
        Some err \<Rightarrow> Inl err
      | None \<Rightarrow> Inr \<lparr>sv_api = api, sv_resolve = resolve, sv_policy = pol, sv_endpoint = url,
                    sv_max_bytes = (if max_bytes = 0 then default_max_request_bytes else max_bytes)\<rparr>)"

section \<open>Bodies\<close>

text \<open>
  \<open>decodeJSON\<close>: the first value within the size bound, with unknown fields refused. What
  follows the value is not read.
\<close>

definition decode_body :: "'s server \<Rightarrow> string \<Rightarrow> string list \<Rightarrow> (string \<times> json) list option" where
  "decode_body sv body names =
     (case json_first (take (sv_max_bytes sv) body) of
        Some (JObj kvs, rest) \<Rightarrow> if only_fields names kvs then Some kvs else None
      | Some (JNull, rest) \<Rightarrow> Some []
      | _ \<Rightarrow> None)"

definition decode_enrol :: "'s server \<Rightarrow> string \<Rightarrow> (string \<times> string) option" where
  "decode_enrol sv body =
     (case decode_body sv body [''machine_name'', ''os''] of
        None \<Rightarrow> None
      | Some kvs \<Rightarrow>
          (case (dec_field dec_string ''machine_name'' [] kvs, dec_field dec_string ''os'' [] kvs) of
             (Some n, Some os_name) \<Rightarrow> Some (n, os_name)
           | _ \<Rightarrow> None))"

definition decode_issue :: "'s server \<Rightarrow> string \<Rightarrow> (string \<times> string list) option" where
  "decode_issue sv body =
     (case decode_body sv body [''harness'', ''capabilities''] of
        None \<Rightarrow> None
      | Some kvs \<Rightarrow>
          (case (dec_field dec_string ''harness'' [] kvs, dec_field dec_strings ''capabilities'' [] kvs) of
             (Some h, Some caps) \<Rightarrow> Some (h, caps)
           | _ \<Rightarrow> None))"

text \<open>\<open>validLabel\<close>: \<open>None\<close> when the label is acceptable.\<close>

definition valid_label :: "string \<Rightarrow> nat \<Rightarrow> string option" where
  "valid_label v max_len =
     (if v = [] then Some ''is required''
      else if max_len < length v then Some ''is too long''
      else if list_ex is_control (runes v) then Some ''contains control characters''
      else None)"

definition max_machine_name_len :: nat where "max_machine_name_len = 128"
definition max_os_len :: nat where "max_os_len = 64"
definition max_harness_len :: nat where "max_harness_len = 64"
definition max_capabilities :: nat where "max_capabilities = 32"

lemmas field_bounds = max_machine_name_len_def max_os_len_def max_harness_len_def max_capabilities_def

section \<open>Denials\<close>

definition control_audit :: "'s server \<Rightarrow> int \<Rightarrow> audit_event \<Rightarrow> 's \<Rightarrow> (store_error + unit) \<times> 's" where
  "control_audit sv now e s =
     api_append (sv_api sv) (if ev_ts e = None then e\<lparr>ev_ts := Some now\<rparr> else e) s"

definition unrecorded_refusal :: control_response where
  "unrecorded_refusal = write_error 503 CodeUnavailable
     (Msg ''request refused, but the refusal could not be recorded: audit log unavailable'')"

definition control_deny :: "'s server \<Rightarrow> int \<Rightarrow> audit_event \<Rightarrow> nat \<Rightarrow> error_code \<Rightarrow> message \<Rightarrow> 's
    \<Rightarrow> control_response \<times> 's" where
  "control_deny sv now e st code m s =
     (case control_audit sv now e s of
        (Inl err, s') \<Rightarrow> (unrecorded_refusal, s')
      | (Inr u, s') \<Rightarrow> ((write_error st code m)\<lparr>rs_challenge := (st = 401)\<rparr>, s'))"

definition path_detail :: "http_request \<Rightarrow> (string \<times> string) list" where
  "path_detail rq = [(''path'', rq_path rq), (''method'', rq_method rq)]"

definition deny_auth :: "'s server \<Rightarrow> int \<Rightarrow> http_request \<Rightarrow> identity \<Rightarrow> string \<Rightarrow> string
    \<Rightarrow> (string \<times> string) list option \<Rightarrow> nat \<Rightarrow> error_code \<Rightarrow> string \<Rightarrow> 's \<Rightarrow> control_response \<times> 's" where
  "deny_auth sv now rq observed tok reason detail st code m s =
     (let e = (mk_event EventAuthDenied ActorMachine OutcomeDenied)
            \<lparr>ev_obs_node := id_node observed, ev_obs_name := id_name observed, ev_reason := reason,
             ev_detail := (case detail of None \<Rightarrow> path_detail rq | Some d \<Rightarrow> d)\<rparr>;
          e' = (if tok \<noteq> [] then e\<lparr>ev_fingerprint := cred_fingerprint tok\<rparr> else e)
      in control_deny sv now e' st code (Msg m) s)"

section \<open>Authentication\<close>

record caller =
  ca_observed :: identity
  ca_machine :: machine

definition bearer :: "string \<Rightarrow> string option" where
  "bearer h =
     (if length h \<le> 7 \<or> \<not> equal_fold_const (take 7 h) ''Bearer '' then None
      else (let tok = trim_space (drop 7 h) in if tok = [] then None else Some tok))"

text \<open>\<open>Inl\<close> is a response already written.\<close>

definition observe :: "'s server \<Rightarrow> int \<Rightarrow> http_request \<Rightarrow> 's \<Rightarrow> (control_response + identity) \<times> 's" where
  "observe sv now rq s =
     (let refuse = (\<lambda>reason.
            apfst Inl (control_deny sv now
              ((mk_event EventAuthDenied ActorMachine OutcomeDenied)
                 \<lparr>ev_reason := reason, ev_detail := path_detail rq\<rparr>)
              403 CodeForbidden (Msg ''peer tailnet identity could not be resolved'') s))
      in case sv_resolve sv (rq_remote rq) of
           None \<Rightarrow> refuse ''identity_unresolvable''
         | Some ident \<Rightarrow> if id_node ident = [] then refuse ''identity_empty'' else (Inr ident, s))"

definition authenticate :: "'s server \<Rightarrow> int \<Rightarrow> http_request \<Rightarrow> 's \<Rightarrow> (control_response + caller) \<times> 's" where
  "authenticate sv now rq s =
     (case observe sv now rq s of
        (Inl resp, s') \<Rightarrow> (Inl resp, s')
      | (Inr observed, s1) \<Rightarrow>
          (case bearer (rq_auth rq) of
             None \<Rightarrow> apfst Inl (deny_auth sv now rq observed [] ''missing_machine_credential'' None
                       401 CodeUnauthenticated ''missing machine credential'' s1)
           | Some tok \<Rightarrow>
               (case api_machine_by_node (sv_api sv) (id_node observed) s1 of
                  Inl ErrNotFound \<Rightarrow>
                    apfst Inl (deny_auth sv now rq observed tok ''machine_not_enrolled'' None
                      401 CodeUnauthenticated ''machine is not enrolled'' s1)
                | Inl err \<Rightarrow> (Inl (write_error 500 CodeInternal (Msg ''machine lookup failed'')), s1)
                | Inr m \<Rightarrow>
                    if cred_verify tok (m_cred_hash m)
                    then (Inr \<lparr>ca_observed = observed, ca_machine = m\<rparr>, s1)
                    else (case api_machine_by_cred (sv_api sv) (cred_hash tok) s1 of
                        Inr other \<Rightarrow>
                          apfst Inl (deny_auth sv now rq observed tok ''machine_mismatch''
                            (Some ((''bound_machine_id'', m_id other) # path_detail rq))
                            403 CodeForbidden ''credential is not valid from this machine'' s1)
                      | Inl ErrNotFound \<Rightarrow>
                          apfst Inl (deny_auth sv now rq observed tok ''invalid_machine_credential'' None
                            401 CodeUnauthenticated ''invalid machine credential'' s1)
                      | Inl err \<Rightarrow>
                          (Inl (write_error 500 CodeInternal (Msg ''credential lookup failed'')), s1)))))"

section \<open>Enrolment\<close>

definition enrol_events :: "identity \<Rightarrow> machine \<Rightarrow> bool \<Rightarrow> audit_event list" where
  "enrol_events observed m rotated =
     [(mk_event (if rotated then EventCredentialRotation else EventEnrolment) ActorMachine OutcomeAllowed)
        \<lparr>ev_obs_node := id_node observed, ev_obs_name := id_name observed, ev_machine := m_id m,
         ev_detail := [(''machine_name'', m_name m), (''os'', m_os m),
                       (''credential_version'', show_int (m_cred_version m))]\<rparr>]"

definition handle_enrol :: "'s server \<Rightarrow> int \<Rightarrow> string option \<Rightarrow> http_request \<Rightarrow> 's
    \<Rightarrow> control_response \<times> 's" where
  "handle_enrol sv now rnd rq s =
     (case observe sv now rq s of
        (Inl resp, s') \<Rightarrow> (resp, s')
      | (Inr observed, s1) \<Rightarrow>
          (case decode_enrol sv (rq_body rq) of
             None \<Rightarrow> (write_error 400 CodeInvalidRequest MsgMalformed, s1)
           | Some (raw_name, raw_os) \<Rightarrow>
               let name = trim_space raw_name; os_name = trim_space raw_os in
               (case valid_label name max_machine_name_len of
                  Some why \<Rightarrow> (write_error 400 CodeInvalidRequest (Msg (''machine_name '' @ why)), s1)
                | None \<Rightarrow>
               (case valid_label os_name max_os_len of
                  Some why \<Rightarrow> (write_error 400 CodeInvalidRequest (Msg (''os '' @ why)), s1)
                | None \<Rightarrow>
               (case cred_new rnd of
                  None \<Rightarrow> (write_error 500 CodeInternal (Msg ''could not mint credential''), s1)
                | Some (plaintext, h) \<Rightarrow>
               (case api_enrol (sv_api sv) observed name os_name h (Some (enrol_events observed)) s1 of
                  (Inl err, s2) \<Rightarrow> (write_error 500 CodeInternal (Msg ''enrolment failed''), s2)
                | (Inr (m, rotated), s2) \<Rightarrow>
                    (write_json (if rotated then 200 else 201)
                       (BEnrol (m_id m) plaintext rotated (m_cred_version m)), s2)))))))"

section \<open>Grants\<close>

definition control_truncate :: "string \<Rightarrow> nat \<Rightarrow> string" where
  "control_truncate s max_len = (if length s \<le> max_len then s else take max_len s)"

fun denial_reason :: "policy_error \<Rightarrow> string" where
  "denial_reason (UnknownHarness h known) = ''unknown_harness''"
| "denial_reason (NotPermitted h refused) = ''capability_not_permitted''"
| "denial_reason (NoUsableCapability h) = ''capability_not_permitted''"

text \<open>An event by an authenticated machine.\<close>

definition machine_event :: "event \<Rightarrow> actor_kind \<Rightarrow> outcome \<Rightarrow> caller \<Rightarrow> audit_event" where
  "machine_event ev a oc c =
     (mk_event ev a oc)\<lparr>ev_obs_node := id_node (ca_observed c), ev_obs_name := id_name (ca_observed c),
                        ev_machine := m_id (ca_machine c)\<rparr>"

definition issue_events :: "caller \<Rightarrow> string \<Rightarrow> string list \<Rightarrow> grant \<Rightarrow> grant option \<Rightarrow> audit_event list" where
  "issue_events c harness caps g superseded =
     (case superseded of
        None \<Rightarrow> []
      | Some old \<Rightarrow> [(machine_event EventGrantSuperseded ActorSystem OutcomeAllowed c)
            \<lparr>ev_harness := harness, ev_grant := g_id old, ev_reason := ''superseded'',
             ev_detail := [(''superseded_by_grant_id'', g_id g)]\<rparr>])
     @ [(machine_event EventGrantIssued ActorMachine OutcomeAllowed c)
            \<lparr>ev_harness := harness, ev_grant := g_id g,
             ev_detail := [(''capabilities'', control_truncate (str_join '','' caps) max_detail_value_len)]\<rparr>]"

definition handle_issue_grant :: "'s server \<Rightarrow> int \<Rightarrow> string option \<Rightarrow> http_request \<Rightarrow> 's
    \<Rightarrow> control_response \<times> 's" where
  "handle_issue_grant sv now rnd rq s =
     (case authenticate sv now rq s of
        (Inl resp, s') \<Rightarrow> (resp, s')
      | (Inr c, s1) \<Rightarrow>
          (case decode_issue sv (rq_body rq) of
             None \<Rightarrow> (write_error 400 CodeInvalidRequest MsgMalformed, s1)
           | Some (raw_harness, requested) \<Rightarrow>
               let harness = to_lower (trim_space raw_harness) in
               (case valid_label harness max_harness_len of
                  Some why \<Rightarrow> (write_error 400 CodeInvalidRequest (Msg (''harness '' @ why)), s1)
                | None \<Rightarrow>
               if max_capabilities < length requested
               then (write_error 400 CodeInvalidRequest (Msg ''too many capabilities requested''), s1)
               else
               (case policy_resolve (sv_policy sv) harness requested of
                  Inl err \<Rightarrow>
                    control_deny sv now
                      ((machine_event EventGrantIssued ActorMachine OutcomeDenied c)
                         \<lparr>ev_harness := harness, ev_reason := denial_reason err,
                          ev_detail := [(''requested_capabilities'',
                            control_truncate (str_join '','' requested) max_detail_value_len)]\<rparr>)
                      403 CodeForbidden (MsgPolicy err) s1
                | Inr caps \<Rightarrow>
               (case cred_new rnd of
                  None \<Rightarrow> (write_error 500 CodeInternal (Msg ''could not mint grant token''), s1)
                | Some (plaintext, h) \<Rightarrow>
               (case api_issue (sv_api sv) (m_id (ca_machine c)) harness caps h
                       (Some (issue_events c harness caps)) s1 of
                  (Inl err, s2) \<Rightarrow> (write_error 500 CodeInternal (Msg ''grant issuance failed''), s2)
                | (Inr (g, superseded), s2) \<Rightarrow>
                    (write_json 201 (BIssue (g_id g) (g_harness g) (g_caps g) (sv_endpoint sv) plaintext
                       (case superseded of None \<Rightarrow> [] | Some old \<Rightarrow> g_id old)), s2)))))))"

definition view_grant :: "grant \<Rightarrow> grant_view" where
  "view_grant g = \<lparr>gv_id = g_id g, gv_harness = g_harness g, gv_caps = g_caps g,
                   gv_state = g_state g, gv_created = g_created g, gv_revoked = g_revoked_at g\<rparr>"

definition handle_list_grants :: "'s server \<Rightarrow> int \<Rightarrow> http_request \<Rightarrow> 's \<Rightarrow> control_response \<times> 's" where
  "handle_list_grants sv now rq s =
     (case authenticate sv now rq s of
        (Inl resp, s') \<Rightarrow> (resp, s')
      | (Inr c, s1) \<Rightarrow>
          (case api_list (sv_api sv) (m_id (ca_machine c)) s1 of
             Inl err \<Rightarrow> (write_error 500 CodeInternal (Msg ''could not list grants''), s1)
           | Inr gs \<Rightarrow> (write_json 200 (BList (map view_grant gs)), s1)))"

definition revoke_events :: "caller \<Rightarrow> grant \<Rightarrow> audit_event list" where
  "revoke_events c g =
     [(machine_event EventGrantRevoked ActorMachine OutcomeAllowed c)
        \<lparr>ev_harness := g_harness g, ev_grant := g_id g, ev_reason := ''revoked_by_machine''\<rparr>]"

definition handle_revoke_grant :: "'s server \<Rightarrow> int \<Rightarrow> http_request \<Rightarrow> string \<Rightarrow> 's
    \<Rightarrow> control_response \<times> 's" where
  "handle_revoke_grant sv now rq i s =
     (case authenticate sv now rq s of
        (Inl resp, s') \<Rightarrow> (resp, s')
      | (Inr c, s1) \<Rightarrow>
          if i = [] then (write_error 400 CodeInvalidRequest (Msg ''grant id is required''), s1)
          else
          (case api_grant_by_id (sv_api sv) i s1 of
             Inl ErrNotFound \<Rightarrow>
               control_deny sv now
                 ((machine_event EventGrantRevoked ActorMachine OutcomeDenied c)
                    \<lparr>ev_grant := i, ev_reason := ''unknown_grant''\<rparr>)
                 404 CodeNotFound (Msg ''unknown grant'') s1
           | Inl err \<Rightarrow> (write_error 500 CodeInternal (Msg ''grant lookup failed''), s1)
           | Inr g \<Rightarrow>
               if g_machine g \<noteq> m_id (ca_machine c)
               then control_deny sv now
                 ((machine_event EventGrantRevoked ActorMachine OutcomeDenied c)
                    \<lparr>ev_grant := g_id g, ev_harness := g_harness g, ev_reason := ''cross_machine_revocation''\<rparr>)
                 403 CodeForbidden (Msg ''grant belongs to another machine'') s1
               else
               (case api_revoke (sv_api sv) i ''revoked_by_machine'' (Some (revoke_events c)) s1 of
                  (Inl err, s2) \<Rightarrow> (write_error 500 CodeInternal (Msg ''revocation failed''), s2)
                | (Inr (revoked, changed), s2) \<Rightarrow>
                    (write_json 200 (BRevoke (g_id revoked) (g_state revoked) changed
                       (g_revoked_at revoked)), s2))))"

definition handle_healthz :: "'w component list \<Rightarrow> 'w \<Rightarrow> control_response" where
  "handle_healthz checker w =
     (let report = health_check w checker
      in write_json (if degraded report then 503 else 200) (BHealth report))"

section \<open>Routes\<close>

datatype endpoint = EpEnrol | EpIssueGrant | EpListGrants | EpRevokeGrant string | EpHealthz
  | EpFlowStart | EpFlowRelay string | EpFlowPoll string

datatype route = RouteTo endpoint | RouteNotFound | RouteMethodNotAllowed

text \<open>
  The patterns of \<open>Handler\<close> that match a path, with their methods; the credential flows are
  routed only when the server has a broker. A wildcard matches one nonempty segment.
\<close>

definition control_patterns :: "bool \<Rightarrow> string list \<Rightarrow> (string \<times> endpoint) list" where
  "control_patterns creds segs =
     (if segs = [''enrol''] then [(''POST'', EpEnrol)]
      else if segs = [''grants''] then [(''POST'', EpIssueGrant), (''GET'', EpListGrants)]
      else if segs = [''healthz''] then [(''GET'', EpHealthz)]
      else case segs of
        [a, b] \<Rightarrow>
          if a = ''grants'' \<and> b \<noteq> [] then [(''DELETE'', EpRevokeGrant b)]
          else if creds \<and> a = ''credentials'' \<and> b = ''flows'' then [(''POST'', EpFlowStart)] else []
      | [a, b, c] \<Rightarrow>
          if creds \<and> a = ''credentials'' \<and> b = ''flows'' \<and> c \<noteq> [] then [(''GET'', EpFlowPoll c)] else []
      | [a, b, c, d] \<Rightarrow>
          if creds \<and> a = ''credentials'' \<and> b = ''flows'' \<and> c \<noteq> [] \<and> d = ''code''
          then [(''POST'', EpFlowRelay c)] else []
      | _ \<Rightarrow> [])"

text \<open>A GET pattern also serves HEAD.\<close>

definition method_serves :: "string \<Rightarrow> string \<Rightarrow> bool" where
  "method_serves pat_method req_method \<longleftrightarrow>
     pat_method = req_method \<or> (pat_method = ''GET'' \<and> req_method = ''HEAD'')"

definition control_route :: "bool \<Rightarrow> http_request \<Rightarrow> route" where
  "control_route creds rq =
     (let ps = control_patterns creds (rq_segments rq)
      in if ps = [] then RouteNotFound
         else case List.find (\<lambda>(m, ep). method_serves m (rq_method rq)) ps of
                None \<Rightarrow> RouteMethodNotAllowed
              | Some (m, ep) \<Rightarrow> RouteTo ep)"

text \<open>\<open>machineScoped\<close>: authentication, and the delegate on the caller's machine id only then.\<close>

definition machine_scoped :: "'s server \<Rightarrow> int \<Rightarrow> (string \<Rightarrow> 's \<Rightarrow> 'b response \<times> 's) \<Rightarrow> http_request
    \<Rightarrow> 's \<Rightarrow> (control_response + 'b response) \<times> 's" where
  "machine_scoped sv now h rq s =
     (case authenticate sv now rq s of
        (Inl resp, s') \<Rightarrow> (Inl resp, s')
      | (Inr c, s1) \<Rightarrow> apfst Inr (h (m_id (ca_machine c)) s1))"

text \<open>The endpoints of this package; the credential flows are delegated.\<close>

fun control_handle :: "'s server \<Rightarrow> int \<Rightarrow> string option \<Rightarrow> ('s component list) \<Rightarrow> http_request
    \<Rightarrow> endpoint \<Rightarrow> 's \<Rightarrow> (control_response \<times> 's) option" where
  "control_handle sv now rnd checker rq EpEnrol s = Some (handle_enrol sv now rnd rq s)"
| "control_handle sv now rnd checker rq EpIssueGrant s = Some (handle_issue_grant sv now rnd rq s)"
| "control_handle sv now rnd checker rq EpListGrants s = Some (handle_list_grants sv now rq s)"
| "control_handle sv now rnd checker rq (EpRevokeGrant i) s = Some (handle_revoke_grant sv now rq i s)"
| "control_handle sv now rnd checker rq EpHealthz s = Some (handle_healthz checker s, s)"
| "control_handle sv now rnd checker rq _ s = None"

end
