(* ===== verification/Control_Lemmas.thy ===== *)
theory Control_Lemmas
  imports Control
begin

text \<open>
  What the control plane's handlers guarantee over any registry that keeps its contract: the
  cases of authentication, the refusals that leave everything but the audit log alone, and the
  effects of the successful branches.
\<close>

section \<open>Refusals\<close>

text \<open>
  A refusal with the statuses that are recorded adds one denied row; any other refusal adds none.
\<close>

definition recorded_statuses :: "nat set" where
  "recorded_statuses = {401, 403, 404}"

definition refusal_rows :: "nat \<Rightarrow> audit_event list \<Rightarrow> bool" where
  "refusal_rows st rows \<longleftrightarrow>
     (if st \<in> recorded_statuses then \<exists>r. rows = [r] \<and> ev_outcome r = OutcomeDenied else rows = [])"

lemma refusal_rows_None: "st \<notin> recorded_statuses \<Longrightarrow> refusal_rows st []"
  by (simp add: refusal_rows_def)

lemma recorded_statuses_simps [simp]:
  "(401 :: nat) \<in> recorded_statuses" "(403 :: nat) \<in> recorded_statuses"
  "(404 :: nat) \<in> recorded_statuses" "(400 :: nat) \<notin> recorded_statuses"
  "(500 :: nat) \<notin> recorded_statuses" "(503 :: nat) \<notin> recorded_statuses"
  by (simp_all add: recorded_statuses_def)

lemma write_error_simps [simp]:
  "rs_status (write_error st code m) = st" "rs_status (write_json st b) = st"
  "rs_body (write_error st code m) = BError code m" "rs_body (write_json st b) = b"
  "rs_status unrecorded_refusal = 503"
  by (simp_all add: write_error_def write_json_def unrecorded_refusal_def)

lemma machine_event_simps [simp]:
  "ev_outcome (machine_event e a oc c) = oc" "ev_event (machine_event e a oc c) = e"
  "ev_obs_node (machine_event e a oc c) = id_node (ca_observed c)"
  "ev_machine (machine_event e a oc c) = m_id (ca_machine c)"
  "ev_actor (machine_event e a oc c) = a"
  by (simp_all add: machine_event_def mk_event_def)

context registry
begin

definition keeps :: "'s \<Rightarrow> 's \<Rightarrow> bool" where
  "keeps s s' \<longleftrightarrow> machines s' = machines s \<and> grants s' = grants s"

lemma keeps_refl [simp]: "keeps s s"
  by (simp add: keeps_def)

lemma deny_cases:
  assumes "control_deny sv now e st code m s = (resp, s')" "sv_api sv = api"
  obtains (unrecorded) "resp = unrecorded_refusal" "s' = s"
    | (recorded) r where "rs_status resp = st" "log s' = log s @ [r]" "keeps s s'"
        "ev_outcome r = ev_outcome e" "ev_event r = ev_event e" "ev_machine r = ev_machine e"
        "ev_reason r = ev_reason e" "ev_obs_node r = ev_obs_node e"
        "ev_fingerprint r = ev_fingerprint e"
proof -
  obtain res where a: "control_audit sv now e s = (res, s')"
    using assms(1) by (auto simp: control_deny_def split: prod.splits sum.splits)
  let ?e = "if ev_ts e = None then e\<lparr>ev_ts := Some now\<rparr> else e"
  have a': "api_append api ?e s = (res, s')" using a assms(2) by (simp add: control_audit_def)
  show ?thesis
  proof (cases res)
    case (Inl err)
    with assms(1) a a' unrecorded show ?thesis by (auto simp: control_deny_def dest: append_err)
  next
    case (Inr u)
    then have "(\<exists>r. log s' = log s @ [r] \<and> records r ?e) \<and> machines s' = machines s \<and> grants s' = grants s"
      using a' append_ok by blast
    then obtain r where r: "log s' = log s @ [r]" "records r ?e" "keeps s s'" by (auto simp: keeps_def)
    from records_fields [OF r(2)] have f: "ev_outcome r = ev_outcome e" "ev_event r = ev_event e"
      "ev_machine r = ev_machine e" "ev_reason r = ev_reason e" "ev_obs_node r = ev_obs_node e"
      "ev_fingerprint r = ev_fingerprint e" by auto
    have "rs_status resp = st"
      using assms(1) a Inr by (auto simp: control_deny_def)
    with f r recorded show ?thesis by blast
  qed
qed

text \<open>Every denial of this package is refused with a recorded status.\<close>

lemma deny_refusal:
  assumes "control_deny sv now e st code m s = (resp, s')" "sv_api sv = api"
    "st \<in> recorded_statuses" "ev_outcome e = OutcomeDenied"
  shows "\<exists>rows. log s' = log s @ rows \<and> refusal_rows (rs_status resp) rows \<and> keeps s s'"
  using assms(1,2)
proof (cases rule: deny_cases)
  case unrecorded
  then show ?thesis by (simp add: refusal_rows_def)
next
  case (recorded r)
  with assms(3,4) show ?thesis by (auto simp: refusal_rows_def)
qed

text \<open>A refused authentication, and what its row does not claim.\<close>

definition auth_refused :: "control_response \<Rightarrow> 's \<Rightarrow> 's \<Rightarrow> bool" where
  "auth_refused resp s s' \<longleftrightarrow> 400 \<le> rs_status resp \<and> keeps s s' \<and>
     (\<exists>rows. log s' = log s @ rows \<and> refusal_rows (rs_status resp) rows
        \<and> (\<forall>r \<in> set rows. ev_event r = EventAuthDenied \<and> ev_machine r = []))"

lemma deny_auth_refused:
  assumes "control_deny sv now e st code m s = (resp, s')" "sv_api sv = api" "st \<in> recorded_statuses"
    "ev_outcome e = OutcomeDenied" "ev_event e = EventAuthDenied" "ev_machine e = []"
  shows "auth_refused resp s s'"
  using assms(1,2)
proof (cases rule: deny_cases)
  case unrecorded
  then show ?thesis by (simp add: auth_refused_def refusal_rows_def)
next
  case (recorded r)
  with assms(3-) show ?thesis
    by (auto simp: auth_refused_def refusal_rows_def recorded_statuses_def)
qed

lemma deny_auth_refused':
  assumes "deny_auth sv now rq observed tok reason detail st code m s = (resp, s')"
    "sv_api sv = api" "st \<in> recorded_statuses"
  shows "auth_refused resp s s'"
  using assms(1) unfolding deny_auth_def Let_def
  by (rule deny_auth_refused [OF _ assms(2,3)]) (auto simp: mk_event_def)

lemma internal_refused: "auth_refused (write_error 500 CodeInternal m) s s"
  by (simp add: auth_refused_def refusal_rows_def)

lemma observe_cases:
  assumes "observe sv now rq s = (res, s')" "sv_api sv = api"
  obtains (refused) resp where "res = Inl resp" "auth_refused resp s s'"
    | (seen) ident where "res = Inr ident" "s' = s" "sv_resolve sv (rq_remote rq) = Some ident"
        "id_node ident \<noteq> []"
proof (cases res)
  case (Inl resp)
  then obtain reason where "control_deny sv now
      ((mk_event EventAuthDenied ActorMachine OutcomeDenied)\<lparr>ev_reason := reason, ev_detail := path_detail rq\<rparr>)
      403 CodeForbidden (Msg ''peer tailnet identity could not be resolved'') s = (resp, s')"
    using assms(1) by (fastforce simp: observe_def Let_def dest: apfst_eqD split: option.splits if_splits)
  from deny_auth_refused [OF this assms(2)] have "auth_refused resp s s'" by (simp add: mk_event_def)
  with Inl refused show ?thesis by blast
next
  case (Inr ident)
  with assms(1) seen show ?thesis
    by (auto simp: observe_def Let_def dest!: apfst_eqD split: option.splits if_splits)
qed

definition authenticated :: "'s server \<Rightarrow> http_request \<Rightarrow> caller \<Rightarrow> 's \<Rightarrow> bool" where
  "authenticated sv rq c s \<longleftrightarrow>
     sv_resolve sv (rq_remote rq) = Some (ca_observed c) \<and> id_node (ca_observed c) \<noteq> []
     \<and> ca_machine c \<in> set (machines s) \<and> m_node_id (ca_machine c) = id_node (ca_observed c)
     \<and> (\<exists>tok. bearer (rq_auth rq) = Some tok \<and> cred_hash tok = m_cred_hash (ca_machine c))"

lemma authenticate_cases:
  assumes "authenticate sv now rq s = (res, s')" "sv_api sv = api"
  obtains (refused) resp where "res = Inl resp" "auth_refused resp s s'"
    | (passed) c where "res = Inr c" "s' = s" "authenticated sv rq c s"
proof -
  obtain r1 s1 where o1: "observe sv now rq s = (r1, s1)" by fastforce
  from o1 assms(2) show ?thesis
  proof (cases rule: observe_cases)
    case (refused resp)
    with assms(1) o1 have "res = Inl resp" "auth_refused resp s s'" by (auto simp: authenticate_def)
    then show ?thesis by (rule that(1))
  next
    case (seen ident)
    note auth = assms(1) [unfolded authenticate_def o1 seen(1) seen(2)]
    show ?thesis
    proof (cases "bearer (rq_auth rq)")
      case None
      with auth that(1) show ?thesis
        by (auto dest!: apfst_eqD dest: deny_auth_refused' [OF _ assms(2)])
    next
      case (Some tok)
      show ?thesis
      proof (cases "api_machine_by_node (sv_api sv) (id_node ident) s")
        case (Inl err)
        with auth Some that(1) show ?thesis
          by (auto dest!: apfst_eqD dest: deny_auth_refused' [OF _ assms(2)] intro: internal_refused
              split: store_error.splits)
      next
        case (Inr m)
        note m = by_node [OF Inr [unfolded assms(2)]]
        show ?thesis
        proof (cases "cred_verify tok (m_cred_hash m)")
          case True
          show ?thesis
          proof (rule that(2))
            show "res = Inr \<lparr>ca_observed = ident, ca_machine = m\<rparr>" "s' = s"
              using auth Some Inr True by auto
            show "authenticated sv rq \<lparr>ca_observed = ident, ca_machine = m\<rparr> s"
              using Some m seen True by (auto simp: authenticated_def cred_verify_def)
          qed
        next
          case False
          show ?thesis
          proof (cases "api_machine_by_cred (sv_api sv) (cred_hash tok) s")
            case (Inl err)
            with auth Some Inr False that(1) show ?thesis
              by (auto dest!: apfst_eqD dest: deny_auth_refused' [OF _ assms(2)] intro: internal_refused
                  split: store_error.splits)
          next
            case (Inr other)
            with auth Some \<open>api_machine_by_node (sv_api sv) (id_node ident) s = Inr m\<close> False that(1)
            show ?thesis by (auto dest!: apfst_eqD dest: deny_auth_refused' [OF _ assms(2)])
          qed
        qed
      qed
    qed
  qed
qed


section \<open>Handlers\<close>

text \<open>
  A response below 400 is the only one that comes with a change of the registry; any other is a
  refusal that leaves machines and grants alone.
\<close>

definition refusal :: "control_response \<Rightarrow> 's \<Rightarrow> 's \<Rightarrow> bool" where
  "refusal resp s s' \<longleftrightarrow> 400 \<le> rs_status resp \<and> keeps s s' \<and>
     (\<exists>rows. log s' = log s @ rows \<and> refusal_rows (rs_status resp) rows)"

lemma auth_refused_refusal: "auth_refused resp s s' \<Longrightarrow> refusal resp s s'"
  by (auto simp: auth_refused_def refusal_def)

lemma error_refusal: "400 \<le> st \<Longrightarrow> st \<notin> recorded_statuses \<Longrightarrow> refusal (write_error st code m) s s"
  by (simp add: refusal_def refusal_rows_None)

lemma denied_refusal:
  assumes "control_deny sv now e st code m s = (resp, s')" "sv_api sv = api"
    "st \<in> recorded_statuses" "ev_outcome e = OutcomeDenied"
  shows "refusal resp s s'"
  using assms(1,2)
proof (cases rule: deny_cases)
  case unrecorded
  then show ?thesis by (simp add: refusal_def refusal_rows_None)
next
  case (recorded r)
  with assms(3,4) show ?thesis by (auto simp: refusal_def refusal_rows_def recorded_statuses_def)
qed

lemma handle_enrol_cases:
  assumes "handle_enrol sv now rnd rq s = (resp, s')" "sv_api sv = api"
  obtains (refused) "refusal resp s s'"
    | (enrolled) ident name os_name tok h m rotated where
        "sv_resolve sv (rq_remote rq) = Some ident" "id_node ident \<noteq> []" "cred_new rnd = Some (tok, h)"
        "api_enrol api ident name os_name h (Some (enrol_events ident)) s = (Inr (m, rotated), s')"
        "valid_label name max_machine_name_len = None" "valid_label os_name max_os_len = None"
        "resp = write_json (if rotated then 200 else 201) (BEnrol (m_id m) tok rotated (m_cred_version m))"
proof -
  obtain r1 s1 where o1: "observe sv now rq s = (r1, s1)" by fastforce
  from o1 assms(2) show ?thesis
  proof (cases rule: observe_cases)
    case (refused resp')
    with assms(1) o1 have "refusal resp s s'" by (auto simp: handle_enrol_def intro: auth_refused_refusal)
    then show ?thesis by (rule that(1))
  next
    case (seen ident)
    note body = assms(1) [unfolded handle_enrol_def o1 seen(1) seen(2)]
    show ?thesis
    proof (cases "\<exists>n o1 tok h. decode_enrol sv (rq_body rq) = Some (n, o1)
        \<and> valid_label (trim_space n) max_machine_name_len = None
        \<and> valid_label (trim_space o1) max_os_len = None \<and> cred_new rnd = Some (tok, h)")
      case False
      with body have "refusal resp s s'"
        by (auto simp: Let_def intro!: error_refusal split: option.splits prod.splits)
      then show ?thesis by (rule that(1))
    next
      case True
      then obtain n o1 tok h where ok: "decode_enrol sv (rq_body rq) = Some (n, o1)"
        "valid_label (trim_space n) max_machine_name_len = None"
        "valid_label (trim_space o1) max_os_len = None" "cred_new rnd = Some (tok, h)" by blast
      obtain r2 s2 where e: "api_enrol api ident (trim_space n) (trim_space o1) h
        (Some (enrol_events ident)) s = (r2, s2)" by fastforce
      show ?thesis
      proof (cases r2)
        case (Inl err)
        with e have "s2 = s" by (auto dest: enrol_err)
        with body ok e Inl have "refusal resp s s'" by (auto simp: Let_def assms(2) intro!: error_refusal)
        then show ?thesis by (rule that(1))
      next
        case (Inr mr)
        obtain m rotated where "mr = (m, rotated)" by (cases mr)
        with body ok e Inr show ?thesis
          by (intro that(2) [OF seen(3,4) ok(4) _ ok(2,3)]) (auto simp: Let_def assms(2))
      qed
    qed
  qed
qed

lemma handle_issue_cases:
  assumes "handle_issue_grant sv now rnd rq s = (resp, s')" "sv_api sv = api"
  obtains (refused) "refusal resp s s'"
    | (issued) c harness requested caps tok h g old where
        "authenticate sv now rq s = (Inr c, s)" "policy_resolve (sv_policy sv) harness requested = Inr caps"
        "cred_new rnd = Some (tok, h)"
        "api_issue api (m_id (ca_machine c)) harness caps h (Some (issue_events c harness caps)) s
           = (Inr (g, old), s')"
        "resp = write_json 201 (BIssue (g_id g) (g_harness g) (g_caps g) (sv_endpoint sv) tok
           (case old of None \<Rightarrow> [] | Some o1 \<Rightarrow> g_id o1))"
proof -
  obtain r1 s1 where a1: "authenticate sv now rq s = (r1, s1)" by fastforce
  from a1 assms(2) show ?thesis
  proof (cases rule: authenticate_cases)
    case (refused resp')
    with assms(1) a1 have "refusal resp s s'" by (auto simp: handle_issue_grant_def intro: auth_refused_refusal)
    then show ?thesis by (rule that(1))
  next
    case (passed c)
    note body = assms(1) [unfolded handle_issue_grant_def a1 passed(1) passed(2)]
    show ?thesis
    proof (cases "\<exists>raw requested caps tok h. decode_issue sv (rq_body rq) = Some (raw, requested)
        \<and> valid_label (to_lower (trim_space raw)) max_harness_len = None
        \<and> length requested \<le> max_capabilities
        \<and> policy_resolve (sv_policy sv) (to_lower (trim_space raw)) requested = Inr caps
        \<and> cred_new rnd = Some (tok, h)")
      case False
      with body have "refusal resp s s'"
        by (auto simp: Let_def not_less intro: error_refusal dest: denied_refusal [OF _ assms(2)]
            split: option.splits prod.splits sum.splits if_splits)
      then show ?thesis by (rule that(1))
    next
      case True
      then obtain raw requested caps tok h where ok: "decode_issue sv (rq_body rq) = Some (raw, requested)"
        "valid_label (to_lower (trim_space raw)) max_harness_len = None"
        "length requested \<le> max_capabilities"
        "policy_resolve (sv_policy sv) (to_lower (trim_space raw)) requested = Inr caps"
        "cred_new rnd = Some (tok, h)" by blast
      obtain r2 s2 where e: "api_issue api (m_id (ca_machine c)) (to_lower (trim_space raw)) caps h
        (Some (issue_events c (to_lower (trim_space raw)) caps)) s = (r2, s2)" by fastforce
      show ?thesis
      proof (cases r2)
        case (Inl err)
        with e have "s2 = s" by (auto dest: issue_err)
        with body ok e Inl have "refusal resp s s'" by (auto simp: Let_def assms(2) intro!: error_refusal)
        then show ?thesis by (rule that(1))
      next
        case (Inr gr)
        obtain g old where "gr = (g, old)" by (cases gr)
        with body ok e Inr show ?thesis
          by (intro that(2) [OF a1 [unfolded passed(1,2)] ok(4,5)]) (auto simp: Let_def assms(2))
      qed
    qed
  qed
qed

lemma handle_list_cases:
  assumes "handle_list_grants sv now rq s = (resp, s')" "sv_api sv = api"
  obtains (refused) "refusal resp s s'"
    | (listed) c gs where "authenticate sv now rq s = (Inr c, s)" "s' = s"
        "api_list api (m_id (ca_machine c)) s = Inr gs" "resp = write_json 200 (BList (map view_grant gs))"
proof -
  obtain r1 s1 where a1: "authenticate sv now rq s = (r1, s1)" by fastforce
  from a1 assms(2) show ?thesis
  proof (cases rule: authenticate_cases)
    case (refused resp')
    with assms(1) a1 have "refusal resp s s'" by (auto simp: handle_list_grants_def intro: auth_refused_refusal)
    then show ?thesis by (rule that(1))
  next
    case (passed c)
    note body = assms(1) [unfolded handle_list_grants_def a1 passed(1) passed(2)]
    show ?thesis
    proof (cases "api_list api (m_id (ca_machine c)) s")
      case (Inl err)
      with body have "refusal resp s s'" by (auto simp: assms(2) intro: error_refusal)
      then show ?thesis by (rule that(1))
    next
      case (Inr gs)
      with body show ?thesis by (intro that(2) [OF a1 [unfolded passed(1,2)] _ Inr]) (auto simp: assms(2))
    qed
  qed
qed

lemma handle_revoke_cases:
  assumes "handle_revoke_grant sv now rq i s = (resp, s')" "sv_api sv = api"
  obtains (refused) "refusal resp s s'"
    | (revoked) c g0 g changed where "authenticate sv now rq s = (Inr c, s)" "api_grant_by_id api i s = Inr g0"
        "g_machine g0 = m_id (ca_machine c)"
        "api_revoke api i ''revoked_by_machine'' (Some (revoke_events c)) s = (Inr (g, changed), s')"
        "resp = write_json 200 (BRevoke (g_id g) (g_state g) changed (g_revoked_at g))"
proof -
  obtain r1 s1 where a1: "authenticate sv now rq s = (r1, s1)" by fastforce
  from a1 assms(2) show ?thesis
  proof (cases rule: authenticate_cases)
    case (refused resp')
    with assms(1) a1 have "refusal resp s s'" by (auto simp: handle_revoke_grant_def intro: auth_refused_refusal)
    then show ?thesis by (rule that(1))
  next
    case (passed c)
    note body = assms(1) [unfolded handle_revoke_grant_def a1 passed(1) passed(2)]
    show ?thesis
    proof (cases "\<exists>g0. api_grant_by_id api i s = Inr g0 \<and> g_machine g0 = m_id (ca_machine c) \<and> i \<noteq> []")
      case False
      have "refusal resp s s'"
      proof (cases "api_grant_by_id api i s")
        case (Inl err)
        with body show ?thesis
          by (cases err) (auto simp: assms(2) intro: error_refusal dest: denied_refusal [OF _ assms(2)]
              split: if_splits)
      next
        case (Inr g0)
        with body False show ?thesis
          by (auto simp: assms(2) intro: error_refusal dest: denied_refusal [OF _ assms(2)] split: if_splits)
      qed
      then show ?thesis by (rule that(1))
    next
      case True
      then obtain g0 where g0: "api_grant_by_id api i s = Inr g0" "g_machine g0 = m_id (ca_machine c)"
        "i \<noteq> []" by blast
      obtain r2 s2 where e: "api_revoke api i ''revoked_by_machine'' (Some (revoke_events c)) s = (r2, s2)"
        by fastforce
      show ?thesis
      proof (cases r2)
        case (Inl err)
        with e have "s2 = s" by (auto dest: revoke_err)
        with body g0 e Inl have "refusal resp s s'" by (auto simp: assms(2) intro!: error_refusal)
        then show ?thesis by (rule that(1))
      next
        case (Inr gr)
        obtain g changed where "gr = (g, changed)" by (cases gr)
        with body g0 e Inr show ?thesis
          by (intro that(2) [OF a1 [unfolded passed(1,2)] g0(1,2)]) (auto simp: assms(2))
      qed
    qed
  qed
qed

lemma healthz_refusal:
  assumes "handle_healthz checker w = resp" "400 \<le> rs_status resp"
  shows "refusal resp s s"
  using assms by (auto simp: handle_healthz_def refusal_def refusal_rows_def Let_def split: if_splits)

text \<open>Any endpoint of this package: a response of 400 or more is such a refusal.\<close>

lemma control_handle_refusal:
  assumes "control_handle sv now rnd checker rq ep s = Some (resp, s')" "sv_api sv = api"
    "400 \<le> rs_status resp"
  shows "refusal resp s s'"
proof (cases ep)
  case EpEnrol
  with assms have "handle_enrol sv now rnd rq s = (resp, s')" by simp
  with assms(2,3) show ?thesis by (elim handle_enrol_cases) (auto split: if_splits)
next
  case EpIssueGrant
  with assms have "handle_issue_grant sv now rnd rq s = (resp, s')" by simp
  with assms(2,3) show ?thesis by (elim handle_issue_cases) auto
next
  case EpListGrants
  with assms have "handle_list_grants sv now rq s = (resp, s')" by simp
  with assms(2,3) show ?thesis by (elim handle_list_cases) auto
next
  case (EpRevokeGrant i)
  with assms have "handle_revoke_grant sv now rq i s = (resp, s')" by simp
  with assms(2,3) show ?thesis by (elim handle_revoke_cases) auto
next
  case EpHealthz
  with assms show ?thesis by (auto intro: healthz_refusal [OF refl])
qed (use assms in auto)

end

section \<open>Minted credentials\<close>

lemma b64_char_plain: "33 \<le> byte (b64_char True n) \<and> byte (b64_char True n) \<le> 126"
  by (auto simp: b64_char_def byte_chr) (simp_all add: byte_def)

lemma b64_plain: "plain_ascii (b64_raw_url s)"
  by (induction s rule: b64_raw_url.induct) (auto simp: plain_ascii_def Let_def b64_char_plain)

lemma b64_nonempty: "s \<noteq> [] \<Longrightarrow> b64_raw_url s \<noteq> []"
  by (induction s rule: b64_raw_url.induct) (auto simp: Let_def)

lemma bearer_of_token:
  assumes "plain_ascii tok" "tok \<noteq> []"
  shows "bearer (''Bearer '' @ tok) = Some tok"
proof -
  have "take 7 (''Bearer '' @ tok) = ''Bearer ''" "drop 7 (''Bearer '' @ tok) = tok" by simp_all
  moreover have "equal_fold_const ''Bearer '' ''Bearer ''" by code_simp
  ultimately show ?thesis using assms by (simp add: bearer_def Let_def trim_space_plain)
qed

end
