(* ===== verification/Store_Props.thy ===== *)
theory Store_Props
  imports Store_Spec "HOL-Library.Multiset"
begin

text \<open>
  The properties of the registry: the invariant, transactions that are atomic and audited, the
  grant directory, revocation for good, re-enrolment, optimistic concurrency on secrets, the
  window of an audit query. A small database serves as the concrete instance of each.
\<close>

definition sample_machine :: machine where
  "sample_machine = \<lparr>m_id = ''m-01'', m_name = ''laptop'', m_os = ''linux'', m_node_id = ''n1'',
     m_node_name = ''laptop.tail'', m_cred_hash = ''hash-c'', m_cred_version = 1, m_created = 10,
     m_updated = 10\<rparr>"

definition sample_grant :: grant where
  "sample_grant = \<lparr>g_id = ''g-02'', g_machine = ''m-01'', g_harness = ''claude'',
     g_caps = [''connector.read''], g_state = GrantActive, g_token_hash = ''hash-t'', g_created = 20,
     g_revoked_at = None, g_reason = []\<rparr>"

definition sample_revoked :: grant where
  "sample_revoked = \<lparr>g_id = ''g-01'', g_machine = ''m-01'', g_harness = ''claude'',
     g_caps = [''connector.read''], g_state = GrantRevoked, g_token_hash = ''hash-old'',
     g_created = 15, g_revoked_at = Some 20, g_reason = ''superseded''\<rparr>"

definition sample_secret :: secret where
  "sample_secret = \<lparr>s_ref = ''gmail'', s_cipher = ''c1'', s_gen = 3, s_created = 5, s_updated = 9\<rparr>"

definition sample_db :: db where
  "sample_db = \<lparr>db_machines = [sample_machine], db_grants = [sample_revoked, sample_grant],
     db_audit = [], db_audit_seq = 0, db_secrets = [sample_secret]\<rparr>"

definition sample_event :: audit_event where
  "sample_event = (mk_event EventGrantRevoked ActorOperator OutcomeAllowed)
     \<lparr>ev_ts := Some 30, ev_detail := [(''limit'', ''5'')]\<rparr>"

lemmas sample_defs = sample_db_def sample_machine_def sample_grant_def sample_revoked_def
  sample_secret_def sample_event_def

lemma sample_db_wf: "db_wf sample_db"
  by code_simp

text \<open>
  C1. The grant table implements the directory: on every well-formed database, whatever the
  statements do, a call that returns a result has exactly the directory effect of that result
  (an issuance overwrites the entry of its machine and harness, so at most one token works; a
  real revocation clears it; nothing else touches the directory), and a call that returns an
  error has none.
\<close>

theorem store_refines_grant_directory:
  assumes "db_wf db" "run_call fl now rnd call db = (r, db')"
  shows "active_map db' = (case r of Inl _ \<Rightarrow> active_map db
                           | Inr res \<Rightarrow> grant_effect call res (active_map db))"
proof (cases call)
  case (CallEnrol ident name os_name h au)
  obtain r0 where r0: "enrol fl now rnd ident name os_name h au db = (r0, db')"
    "r = map_sum id (\<lambda>(m, rot). ResEnrol m rot) r0"
    using assms(2) CallEnrol by (auto dest!: apfst_eqD)
  from r0(1) have "db_grants db' = db_grants db" by (rule enrol_cases) auto
  then have "active_map db' = active_map db" by (rule active_map_frame)
  with r0(2) CallEnrol show ?thesis by (auto split: sum.split prod.split)
next
  case (CallIssue mid harness caps h au)
  obtain r0 where r0: "issue_grant fl now rnd mid harness caps h au db = (r0, db')"
    "r = map_sum id (\<lambda>(g, s). ResIssue g s) r0"
    using assms(2) CallIssue by (auto dest!: apfst_eqD)
  show ?thesis
  proof (cases r0)
    case (Inl e)
    with r0 have "db' = db" by (auto elim: issue_grant_cases)
    with Inl r0(2) show ?thesis by simp
  next
    case (Inr gs)
    obtain g s where gs: "gs = (g, s)" by (cases gs)
    have "active_map db' = (active_map db)((mid, harness) \<mapsto> h)"
      using r0(1) unfolding Inr gs by (rule active_map_issue [OF assms(1)])
    with r0(2) Inr gs CallIssue show ?thesis by simp
  qed
next
  case (CallRevoke i reason au)
  obtain r0 where r0: "revoke_grant fl now i reason au db = (r0, db')"
    "r = map_sum id (\<lambda>(g, c). ResRevoke g c) r0"
    using assms(2) CallRevoke by (auto dest!: apfst_eqD)
  show ?thesis
  proof (cases "\<exists>g. r0 = Inr (g, True)")
    case True
    then obtain g where g: "r0 = Inr (g, True)" by blast
    have "active_map db' = (active_map db)((g_machine g, g_harness g) := None)"
      using r0(1) unfolding g by (rule active_map_revoke [OF assms(1)])
    with r0(2) g CallRevoke show ?thesis by simp
  next
    case False
    with r0(1) have "db' = db" by (auto elim: revoke_grant_cases)
    with False r0(2) CallRevoke show ?thesis by (cases r0) auto
  qed
next
  case (CallPut ref cipher expected au)
  obtain r0 where r0: "put_secret_gen fl now ref cipher expected au db = (r0, db')"
    "r = map_sum id ResPut r0"
    using assms(2) CallPut by (auto dest!: apfst_eqD)
  from r0(1) have "db_grants db' = db_grants db" by (rule put_secret_gen_cases) auto
  then have "active_map db' = active_map db" by (rule active_map_frame)
  with r0(2) CallPut show ?thesis by (auto split: sum.split)
next
  case (CallAudit e)
  obtain r0 where r0: "append_audit fl now e db = (r0, db')" "r = map_sum id (\<lambda>_. ResAudit) r0"
    using assms(2) CallAudit by (auto dest!: apfst_eqD)
  from r0(1) have "db_grants db' = db_grants db" by (rule append_audit_cases) auto
  then have "active_map db' = active_map db" by (rule active_map_frame)
  with r0(2) CallAudit show ?thesis by (auto split: sum.split)
qed

lemma store_refines_grant_directory_witness:
  "let call = CallRevoke ''g-02'' ''lost'' (Some (\<lambda>g. [sample_event]));
       db' = snd (run_call no_faults 40 None call sample_db)
   in active_map db' = (active_map sample_db)((''m-01'', ''claude'') := None)
      \<and> active_map sample_db (''m-01'', ''claude'') = Some ''hash-t''"
proof -
  let ?call = "CallRevoke ''g-02'' ''lost'' (Some (\<lambda>g. [sample_event]))"
  have r: "fst (run_call no_faults 40 None ?call sample_db) = Inr (ResRevoke (revoke_row 40 ''lost'' sample_grant) True)"
    by code_simp
  have "active_map sample_db (''m-01'', ''claude'') = Some ''hash-t''" by code_simp
  moreover have "g_machine sample_grant = ''m-01''" "g_harness sample_grant = ''claude''" by code_simp+
  ultimately show ?thesis
    using store_refines_grant_directory [OF sample_db_wf surjective_pairing, of no_faults 40 None ?call] r
    by (simp add: Let_def)
qed

text \<open>
  C3. Every database that calls of the store reach, with any faults, is well formed: unique
  machine ids and node ids, unique grant ids and token hashes, at most one active grant for a
  machine and harness, every grant on an enrolled machine, an audit log whose ids increase and
  whose details stay in the closed vocabulary, secrets keyed by reference.
\<close>

theorem reachable_db_wf:
  assumes "reachable_db db"
  shows "db_wf db"
  using assms by (induction rule: reachable_db.induct) (auto intro: empty_db_wf db_step_wf)

lemma reachable_db_wf_witness:
  "let db = snd (run_call no_faults 5 (Some ''01234567'')
        (CallEnrol \<lparr>id_node = ''n1'', id_name = ''x'', id_user = []\<rparr> ''laptop'' ''linux'' ''h''
           (Some (\<lambda>m rot. [sample_event]))) empty_db)
   in db_wf db \<and> length (db_machines db) = 1"
proof -
  let ?call = "CallEnrol \<lparr>id_node = ''n1'', id_name = ''x'', id_user = []\<rparr> ''laptop'' ''linux'' ''h''
           (Some (\<lambda>m rot. [sample_event]))"
  have "reachable_db (snd (run_call no_faults 5 (Some ''01234567'') ?call empty_db))"
    by (rule reachable_step [OF reachable_empty db_call [OF surjective_pairing]])
  then have "db_wf (snd (run_call no_faults 5 (Some ''01234567'') ?call empty_db))"
    by (rule reachable_db_wf)
  moreover have "length (db_machines (snd (run_call no_faults 5 (Some ''01234567'') ?call empty_db))) = 1"
    by code_simp
  ultimately show ?thesis by (simp only: Let_def)
qed

text \<open>
  C2. A mutation is one transaction with its audit trail: if it fails at any statement the
  database is exactly what it was, and if it succeeds the log has grown by the rows that record,
  in order, the events its callback gave for the result; nothing already in the log changes.
\<close>

theorem mutation_atomic_and_audited:
  assumes "run_call fl now rnd call db = (r, db')"
  shows "case r of
           Inl err \<Rightarrow> db' = db
         | Inr res \<Rightarrow> \<exists>rows. db_audit db' = db_audit db @ rows
                      \<and> list_all2 records rows (call_events call res)"
  using assms by (rule run_call_rows)

lemma mutation_atomic_and_audited_witness:
  "snd (run_call (\<lambda>st. st = SCommit) 40 None
          (CallRevoke ''g-02'' ''lost'' (Some (\<lambda>g. [sample_event]))) sample_db) = sample_db"
proof -
  have "fst (run_call (\<lambda>st. st = SCommit) 40 None
          (CallRevoke ''g-02'' ''lost'' (Some (\<lambda>g. [sample_event]))) sample_db) = Inl (ErrStmt SCommit)"
    by code_simp
  with mutation_atomic_and_audited [OF surjective_pairing, of "\<lambda>st. st = SCommit" 40 None
      "CallRevoke ''g-02'' ''lost'' (Some (\<lambda>g. [sample_event]))" sample_db]
  show ?thesis by simp
qed

text \<open>
  C13. Revocation is for good: once a grant's row is revoked, no sequence of store calls, with any
  faults, changes that row or makes its token resolve to an active grant again.
\<close>

theorem revoked_token_stays_dead:
  assumes "db_wf db" "g \<in> set (db_grants db)" "g_state g = GrantRevoked" "db_step\<^sup>*\<^sup>* db db'"
  shows "g \<in> set (db_grants db') \<and> active_grant_by_token_hash fl (g_token_hash g) db' \<noteq> Inr x"
proof -
  have g: "g \<in> set (db_grants db')" using steps_keep_revoked [OF assms(4,1,2,3)] .
  have d: "distinct (map g_token_hash (db_grants db'))"
    using steps_wf [OF assms(4,1)] by (simp add: db_wf_def grants_wf_def)
  have "active_grant_by_token_hash fl (g_token_hash g) db' \<noteq> Inr x"
  proof
    assume "active_grant_by_token_hash fl (g_token_hash g) db' = Inr x"
    then have x: "x \<in> set (db_grants db')" "g_token_hash x = g_token_hash g" "g_state x = GrantActive"
      by (blast dest: store_grants.by_token_active)+
    from distinct_map_eqD [OF d x(1) g x(2)] x(3) assms(3) show False by simp
  qed
  with g show ?thesis by simp
qed

lemma revoked_token_stays_dead_witness:
  "sample_revoked \<in> set (db_grants sample_db)
   \<and> active_grant_by_token_hash no_faults ''hash-old'' sample_db \<noteq> Inr sample_revoked"
proof -
  have r: "sample_revoked \<in> set (db_grants sample_db)" "g_state sample_revoked = GrantRevoked"
    "g_token_hash sample_revoked = ''hash-old''" by (simp_all add: sample_db_def sample_revoked_def)
  show ?thesis
    using revoked_token_stays_dead [OF sample_db_wf r(1,2) rtranclp.rtrancl_refl, of no_faults sample_revoked]
      r by simp
qed

text \<open>
  Enrolling a node that is already enrolled rotates its machine in place: the result says
  so, the machine keeps its id, node id and creation time, its credential version grows by one
  and its hash is the new one, no machine is added or removed, and no grant is touched.
\<close>

theorem re_enrolment_rotates:
  assumes "db_wf db" "m0 \<in> set (db_machines db)" "m_node_id m0 = id_node ident"
    and "enrol fl now rnd ident name os_name h audit db = (Inr (m, rotated), db')"
  shows "rotated \<and> m_id m = m_id m0 \<and> m_node_id m = m_node_id m0 \<and> m_created m = m_created m0
    \<and> m_cred_version m = m_cred_version m0 + 1 \<and> m_cred_hash m = h
    \<and> m \<in> set (db_machines db') \<and> map m_id (db_machines db') = map m_id (db_machines db)
    \<and> db_grants db' = db_grants db"
  using assms(4)
proof (cases rule: enrol_cases)
  case (inserted m' mid rows au)
  with assms(2,3) show ?thesis by (auto simp: select1_None_iff)
next
  case (rotated m0' m' rows au)
  have wf: "distinct (map m_node_id (db_machines db))" "distinct (map m_id (db_machines db))"
    using db_wfD(1) [OF assms(1)] by (simp_all add: machines_wf_def)
  have "m0' = m0"
    using select1_SomeD [OF rotated(3)] assms(2,3) distinct_map_eqD [OF wf(1)] by metis
  moreover have "map m_id (update_where (\<lambda>x. m_id x = m_id m0) (\<lambda>_. m) (db_machines db)) = map m_id (db_machines db)"
    using rotated(1,4) \<open>m0' = m0\<close> by (intro map_update_where) (auto simp: rotate_machine_def)
  ultimately show ?thesis
    using rotated assms(2) by (auto simp: rotate_machine_def set_update_where image_iff)
qed auto

lemma re_enrolment_rotates_witness:
  "let (r, db') = enrol no_faults 50 None \<lparr>id_node = ''n1'', id_name = ''new'', id_user = []\<rparr>
         ''laptop2'' ''linux'' ''hash-2'' (Some (\<lambda>m rot. [sample_event])) sample_db
   in map m_id (db_machines db') = [''m-01''] \<and> db_grants db' = db_grants sample_db"
proof -
  let ?id = "\<lparr>id_node = ''n1'', id_name = ''new'', id_user = []\<rparr>"
  let ?e = "enrol no_faults 50 None ?id ''laptop2'' ''linux'' ''hash-2'' (Some (\<lambda>m rot. [sample_event])) sample_db"
  have m: "sample_machine \<in> set (db_machines sample_db)" "m_node_id sample_machine = id_node ?id"
    by (simp_all add: sample_defs)
  have ids: "map m_id (db_machines sample_db) = [''m-01'']" by (simp add: sample_defs)
  have "fst ?e = Inr (rotate_machine 50 ?id ''laptop2'' ''linux'' ''hash-2'' sample_machine, True)"
    by code_simp
  then have "?e = (Inr (rotate_machine 50 ?id ''laptop2'' ''linux'' ''hash-2'' sample_machine, True), snd ?e)"
    by (metis prod.collapse)
  from re_enrolment_rotates [OF sample_db_wf m this] show ?thesis
    by (simp add: case_prod_beta ids)
qed

text \<open>
  Optimistic concurrency on a secret: of two writers that read the same generation, only one
  can succeed. Once a compare-and-swap at generation \<open>n\<close> has committed, any later one that still
  expects \<open>n\<close> fails and changes nothing, whatever calls came between.
\<close>

theorem cas_single_winner:
  assumes "put_secret_cas fl now ref cipher n au db = (Inr k, db1)" "db_step\<^sup>*\<^sup>* db1 db2"
    and "put_secret_cas fl' now' ref cipher' n au' db2 = (r, db3)"
  shows "(\<exists>err. r = Inl err) \<and> db3 = db2"
proof (cases r)
  case (Inl err)
  with assms(3) show ?thesis by (auto dest: store_secrets.cas_err)
next
  case (Inr k')
  have "secret_gen ref db1 = n + 1"
    using assms(1) secret_gen_put(1,2) by (fastforce simp: put_secret_cas_def elim: put_secret_gen_cases)
  moreover have "secret_gen ref db2 = n"
    using assms(3) Inr by (auto simp: put_secret_cas_def elim!: put_secret_gen_cases)
  ultimately show ?thesis using steps_secret_gen [OF assms(2), of ref] by simp
qed

lemma cas_single_winner_witness:
  "let db1 = snd (put_secret_cas no_faults 50 ''gmail'' ''c2'' 3 (Some (\<lambda>g. [sample_event])) sample_db)
   in snd (put_secret_cas no_faults 60 ''gmail'' ''c3'' 3 (Some (\<lambda>g. [sample_event])) db1) = db1"
proof -
  let ?p = "put_secret_cas no_faults 50 ''gmail'' ''c2'' 3 (Some (\<lambda>g. [sample_event])) sample_db"
  have "fst ?p = Inr 4" by code_simp
  then have "?p = (Inr 4, snd ?p)" by (metis prod.collapse)
  from cas_single_winner [OF this rtranclp.rtrancl_refl surjective_pairing] show ?thesis
    by (simp add: Let_def)
qed

text \<open>
  An audit query with a positive limit returns the newest rows since the given time, at most
  that many, oldest first; with no positive limit it returns them all, in the order written.
\<close>

theorem query_audit_window:
  assumes "db_wf db"
  shows "query_audit no_faults since limit db =
    (let rows = filter (\<lambda>e. case since of None \<Rightarrow> True | Some t \<Rightarrow> t \<le> the (ev_ts e)) (db_audit db)
     in Inr (if 0 < limit then drop (length rows - nat limit) rows else rows))"
proof -
  define rows where "rows = filter (\<lambda>e. case since of None \<Rightarrow> True | Some t \<Rightarrow> t \<le> the (ev_ts e)) (db_audit db)"
  have inc: "sorted_wrt (\<lambda>a b. ev_id a < ev_id b) rows"
    using db_wfD(3) [OF assms] by (simp add: rows_def audit_wf_def sorted_wrt_filter)
  then have sorted: "sorted (map ev_id rows)"
    by (auto simp: sorted_wrt_map elim: sorted_wrt_mono_rel [rotated])
  then have all: "sort_key ev_id rows = rows" by (simp add: sorted_sort_id sort_key_id_if_sorted)
  have newest: "sort_key ev_id (take n (rev rows)) = drop (length rows - n) rows" for n
  proof (rule sort_key_inj_key_eq)
    have eq: "take n (rev rows) = rev (drop (length rows - n) rows)"
      by (cases "n \<le> length rows") (simp_all add: rev_drop)
    then show "mset (take n (rev rows)) = mset (drop (length rows - n) rows)" by simp
    have "distinct (map ev_id rows)"
      using inc by (simp add: sorted_wrt_map [symmetric] strict_sorted_iff)
    then show "inj_on ev_id (set (take n (rev rows)))"
      unfolding eq by (auto simp: distinct_map dest!: in_set_dropD intro: inj_on_subset)
    show "sorted (map ev_id (drop (length rows - n) rows))"
      using sorted by (simp add: drop_map [symmetric] sorted_wrt_drop)
  qed
  show ?thesis
    unfolding query_audit_def rows_def [symmetric] using assms by (simp add: Let_def all newest no_faults_def)
qed

lemma query_audit_window_witness:
  "query_audit no_faults None 1
     (snd (append_audit no_faults 7 sample_event (snd (append_audit no_faults 6 sample_event sample_db))))
   = Inr [row_of 2 7 sample_event]"
proof -
  let ?db = "snd (append_audit no_faults 7 sample_event (snd (append_audit no_faults 6 sample_event sample_db)))"
  have "db_audit ?db = [row_of 1 6 sample_event, row_of 2 7 sample_event]" by code_simp
  moreover have "db_wf ?db" by (intro append_audit_wf [OF _ surjective_pairing] sample_db_wf)
  ultimately show ?thesis using query_audit_window [of ?db None 1] by (simp add: Let_def)
qed

end
