(* ===== verification/Control_Props.thy ===== *)
theory Control_Props
  imports Control_Lemmas Store_Props
begin

text \<open>
  The properties of the control plane over the SQLite registry: who a request acts as, what a
  refused request leaves behind, the authority a grant carries, that nobody reaches another
  machine's grants, that a minted credential works, and what a very long path does to the
  record of a refusal.
\<close>

section \<open>Authentication\<close>

text \<open>
  C11. A request that authenticates acts as the machine enrolled for the node the network
  observed, and only with that machine's own credential: the caller's machine is a row of the
  registry, its node is the resolved one (which is not empty), and the presented bearer token
  hashes to that row's credential hash. Authentication itself changes nothing.
\<close>

theorem authenticated_caller_is_the_node:
  assumes "sv_api sv = sqlite_api fls t rnd" "authenticate sv now rq db = (Inr c, db')"
  shows "db' = db \<and> sv_resolve sv (rq_remote rq) = Some (ca_observed c)
    \<and> id_node (ca_observed c) \<noteq> [] \<and> ca_machine c \<in> set (db_machines db)
    \<and> m_node_id (ca_machine c) = id_node (ca_observed c)
    \<and> (\<exists>tok. bearer (rq_auth rq) = Some tok \<and> cred_hash tok = m_cred_hash (ca_machine c))"
  by (rule sqlite.authenticate_cases [OF assms(2,1)]) (auto simp: sqlite.authenticated_def)

definition sample_server :: "(store_method \<Rightarrow> faults) \<Rightarrow> db server" where
  "sample_server fls = \<lparr>sv_api = sqlite_api fls 50 (Some ''abcdefgh''),
     sv_resolve = (\<lambda>r. if r = ''peer1'' then Some \<lparr>id_node = ''n1'', id_name = ''laptop'', id_user = []\<rparr> else None),
     sv_policy = default_policy, sv_endpoint = ''http://edge'', sv_max_bytes = 65536\<rparr>"

definition sample_request :: http_request where
  "sample_request = \<lparr>rq_method = ''POST'', rq_path = ''/grants'', rq_segments = [''grants''],
     rq_remote = ''peer1'', rq_auth = ''Bearer tok'',
     rq_body = ''{\"harness\":\"codex\",\"capabilities\":[\"connector.read\"]}''\<rparr>"

lemma no_faults_apply [simp]: "\<not> no_faults st"
  by (simp add: no_faults_def)

lemmas deny_eval_defs = observe_def sqlite_api_def control_deny_def control_audit_def append_audit_def
  append_audit_row_def path_detail_def mk_event_def allowed_detail_keys_def
  max_detail_value_len_def Let_def

definition enrolled_db :: db where
  "enrolled_db = sample_db\<lparr>db_machines := [sample_machine\<lparr>m_cred_hash := cred_hash ''tok''\<rparr>]\<rparr>"

lemma enrolled_db_wf: "db_wf enrolled_db"
  using sample_db_wf
  by (simp add: enrolled_db_def db_wf_def machines_wf_def grants_wf_def sample_db_def)

lemma sample_bearer: "bearer (rq_auth sample_request) = Some ''tok''"
  by code_simp

definition sample_caller :: caller where
  "sample_caller = \<lparr>ca_observed = \<lparr>id_node = ''n1'', id_name = ''laptop'', id_user = []\<rparr>,
     ca_machine = sample_machine\<lparr>m_cred_hash := cred_hash ''tok''\<rparr>\<rparr>"

lemma sample_server_sel [simp]:
  "sv_api (sample_server fls) = sqlite_api fls 50 (Some ''abcdefgh'')"
  "sv_policy (sample_server fls) = default_policy"
  by (simp_all add: sample_server_def)

lemma sample_authenticate:
  "authenticate (sample_server (\<lambda>_. no_faults)) 60 sample_request enrolled_db =
     (Inr sample_caller, enrolled_db)"
proof -
  have "sv_resolve (sample_server (\<lambda>_. no_faults)) (rq_remote sample_request) =
      Some \<lparr>id_node = ''n1'', id_name = ''laptop'', id_user = []\<rparr>"
    by (simp add: sample_server_def sample_request_def)
  then show ?thesis
    using sample_bearer
    by (simp add: authenticate_def observe_def sample_server_def sqlite_api_def machine_by_node_id_def
        query1_no_faults enrolled_db_def sample_db_def sample_machine_def cred_verify_def
        sample_caller_def)
qed

lemma authenticated_caller_is_the_node_witness:
  "\<exists>tok. bearer (rq_auth sample_request) = Some tok \<and> cred_hash tok = cred_hash ''tok''"
  using authenticated_caller_is_the_node [OF _ sample_authenticate, of "\<lambda>_. no_faults" 50 "Some ''abcdefgh''"]
  by (simp add: sample_caller_def)

section \<open>Refusals\<close>

text \<open>
  A request that is answered with an error changes no machine and no grant, whichever
  endpoint it reached and whatever failed. The refusals for lack of authority (401, 403, 404) are
  answered only together with exactly one new row of the audit log, which says denied; every
  other error, an unrecordable denial included, leaves the log as it was.
\<close>

theorem refused_requests_change_nothing:
  assumes "sv_api sv = sqlite_api fls t rnd'"
    "control_handle sv now rnd checker rq ep db = Some (resp, db')" "400 \<le> rs_status resp"
  shows "db_machines db' = db_machines db \<and> db_grants db' = db_grants db
    \<and> (if rs_status resp \<in> {401, 403, 404}
       then \<exists>r. db_audit db' = db_audit db @ [r] \<and> ev_outcome r = OutcomeDenied
       else db_audit db' = db_audit db)"
  using sqlite.control_handle_refusal [OF assms(2,1,3)]
  by (auto simp: sqlite.refusal_def sqlite.keeps_def refusal_rows_def recorded_statuses_def split: if_splits)

lemma refused_requests_change_nothing_witness:
  "let r = handle_revoke_grant (sample_server (\<lambda>_. no_faults)) 60
             (sample_request\<lparr>rq_remote := ''stranger''\<rparr>) ''g-02'' sample_db
   in rs_status (fst r) = 403 \<and> db_grants (snd r) = db_grants sample_db"
proof -
  let ?sv = "sample_server (\<lambda>_. no_faults)" and ?rq = "sample_request\<lparr>rq_remote := ''stranger''\<rparr>"
  have st: "rs_status (fst (handle_revoke_grant ?sv 60 ?rq ''g-02'' sample_db)) = 403"
    by (simp add: handle_revoke_grant_def authenticate_def deny_eval_defs sample_server_def sample_request_def)
  have h: "control_handle ?sv 60 None [] ?rq (EpRevokeGrant ''g-02'') sample_db =
      Some (fst (handle_revoke_grant ?sv 60 ?rq ''g-02'' sample_db),
            snd (handle_revoke_grant ?sv 60 ?rq ''g-02'' sample_db))" by simp
  have api: "sv_api ?sv = sqlite_api (\<lambda>_. no_faults) 50 (Some ''abcdefgh'')" by (simp add: sample_server_def)
  from refused_requests_change_nothing [OF api h] st show ?thesis by (simp add: Let_def)
qed

section \<open>Grants\<close>

text \<open>
  C12. An issued grant carries exactly the caller's authority: when the server answers with
  success, the request was authenticated, the new grant is an active row for the caller's own
  machine, its capabilities lie within what the server's policy allows that harness, the token in
  the response is the one whose hash is stored, no other machine's grants are touched, and the
  log has the rows that record the supersession (if any) and the issuance.
\<close>

theorem issued_grant_authority:
  assumes "sv_api sv = sqlite_api fls t rnd'" "policy_validate (sv_policy sv) = None" "db_wf db"
    "handle_issue_grant sv now rnd rq db = (resp, db')" "rs_status resp < 400"
  shows "\<exists>c g old tok sup hp.
      fst (authenticate sv now rq db) = Inr c \<and> g \<in> set (db_grants db')
      \<and> g_machine g = m_id (ca_machine c) \<and> g_state g = GrantActive
      \<and> map_of (sv_policy sv) (policy_normalize (g_harness g)) = Some hp
      \<and> set (g_caps g) \<subseteq> set (hp_allowed hp)
      \<and> rs_body resp = BIssue (g_id g) (g_harness g) (g_caps g) (sv_endpoint sv) tok sup
      \<and> g_token_hash g = cred_hash tok
      \<and> (\<forall>x. g_machine x \<noteq> m_id (ca_machine c) \<longrightarrow> x \<in> set (db_grants db') \<longleftrightarrow> x \<in> set (db_grants db))
      \<and> (\<exists>rows. db_audit db' = db_audit db @ rows
           \<and> list_all2 records rows (issue_events c (g_harness g) (g_caps g) g old))"
  using assms(4,1)
proof (cases rule: sqlite.handle_issue_cases)
  case refused
  with assms(5) show ?thesis by (simp add: sqlite.refusal_def)
next
  case (issued c harness requested caps tok h g old)
  have a: "fst (authenticate sv now rq db) = Inr c" using issued(1) by simp
  note ok = sqlite.issue_ok [OF issued(4) assms(3)]
  have "h = cred_hash tok" using issued(3) by (auto simp: cred_new_def Let_def split: option.splits)
  moreover obtain hp where "map_of (sv_policy sv) (policy_normalize harness) = Some hp"
    using issued(2) by (auto elim: policy_resolve_InrD)
  moreover from this have "set caps \<subseteq> set (hp_allowed hp)"
    by (rule policy_resolve_within_allowed [OF assms(2) issued(2)])
  ultimately show ?thesis using a ok issued(5) by auto
qed


lemma sample_decode_issue:
  "decode_issue (sample_server fls) (rq_body sample_request) = Some (''codex'', [''connector.read''])"
proof -
  let ?kvs = "[(''harness'', JStr ''codex''), (''capabilities'', JArr [JStr ''connector.read''])]"
  have "json_first (rq_body sample_request) = Some (JObj ?kvs, [])" by code_simp
  moreover have "take 65536 (rq_body sample_request) = rq_body sample_request"
    by (rule take_all) (simp add: sample_request_def)
  moreover have "only_fields [''harness'', ''capabilities''] ?kvs" by code_simp
  moreover have "dec_field dec_string ''harness'' [] ?kvs = Some ''codex''" by code_simp
  moreover have "dec_field dec_strings ''capabilities'' [] ?kvs = Some [''connector.read'']" by code_simp
  ultimately show ?thesis by (simp add: decode_issue_def decode_body_def sample_server_def)
qed

lemma sample_issue:
  "\<exists>g db'. issue_grant no_faults 50 (Some ''abcdefgh'') ''m-01'' ''codex'' [''connector.read''] (cred_hash tok)
     (Some (issue_events sample_caller ''codex'' [''connector.read''])) enrolled_db = (Inr (g, None), db')"
proof -
  have gid: "new_id ''g'' (Some ''abcdefgh'') = Some ''g-6162636465666768''" by code_simp
  have fresh: "cred_hash tok \<noteq> ''hash-old''" "cred_hash tok \<noteq> ''hash-t''"
    by (rule cred_hash_neq_short; simp)+
  show ?thesis
    by (simp add: issue_grant_def gid enrolled_db_def sample_db_def sample_grant_def sample_revoked_def
        active_for_def insert_grant_def fresh audit_and_commit_def issue_events_def machine_event_def
        sample_machine_def deny_eval_defs control_truncate_def)
qed

lemma sample_issue_handler:
  "\<exists>(g :: grant) db'. handle_issue_grant (sample_server (\<lambda>_. no_faults)) 60 (Some ''abc'') sample_request enrolled_db
     = (write_json 201 (BIssue (g_id g) (g_harness g) (g_caps g) ''http://edge'' (b64_raw_url ''abc'') []), db')"
proof -
  obtain g db' where iss: "issue_grant no_faults 50 (Some ''abcdefgh'') ''m-01'' ''codex'' [''connector.read'']
      (cred_hash (b64_raw_url ''abc'')) (Some (issue_events sample_caller ''codex'' [''connector.read'']))
      enrolled_db = (Inr (g, None), db')" using sample_issue by blast
  have parts: "to_lower (trim_space ''codex'') = ''codex''" "valid_label ''codex'' max_harness_len = None"
    "policy_resolve default_policy ''codex'' [''connector.read''] = Inr [''connector.read'']" by code_simp+
  have new: "cred_new (Some ''abc'') = Some (b64_raw_url ''abc'', cred_hash (b64_raw_url ''abc''))"
    by (simp add: cred_new_def Let_def del: b64_raw_url.simps)
  have mid: "m_id (ca_machine sample_caller) = ''m-01''" by (simp add: sample_caller_def sample_machine_def)
  have url: "sv_endpoint (sample_server (\<lambda>_. no_faults)) = ''http://edge''" by (simp add: sample_server_def)
  show ?thesis
    unfolding handle_issue_grant_def sample_authenticate
    by (simp add: sample_decode_issue Let_def parts new mid url sqlite_api_def iss max_capabilities_def
        del: b64_raw_url.simps) (rule exI, rule refl)
qed

lemma issued_grant_authority_witness:
  "let r = handle_issue_grant (sample_server (\<lambda>_. no_faults)) 60 (Some ''abc'') sample_request enrolled_db
   in \<exists>g. g \<in> set (db_grants (snd r)) \<and> g_machine g = ''m-01''
        \<and> set (g_caps g) \<subseteq> {''connector.read'', ''connector.write'', ''connector.delete''}"
proof -
  let ?sv = "sample_server (\<lambda>_. no_faults)"
  let ?r = "handle_issue_grant ?sv 60 (Some ''abc'') sample_request enrolled_db"
  obtain body db' where "?r = (write_json 201 body, db')" using sample_issue_handler by blast
  then have st: "rs_status (fst ?r) = 201" by (simp add: write_json_def)
  have mid: "m_id (ca_machine sample_caller) = ''m-01''" by (simp add: sample_caller_def sample_machine_def)
  have api: "sv_api ?sv = sqlite_api (\<lambda>_. no_faults) 50 (Some ''abcdefgh'')"
    and pol: "policy_validate (sv_policy ?sv) = None"
    by (simp_all add: sample_server_def default_policy_valid)
  have "hp_allowed hp = [''connector.read'', ''connector.write'', ''connector.delete'']"
    if "map_of default_policy h = Some hp" for h hp
    using that by (auto simp: default_policy_def Let_def capability_defs split: if_splits)
  with issued_grant_authority [OF api pol enrolled_db_wf surjective_pairing, of 60 "Some ''abc''" sample_request]
  show ?thesis
    using st mid sample_authenticate by (fastforce simp: Let_def)
qed

text \<open>
  Nobody revokes another machine's grant: whatever a revocation request is answered, a row of
  the grant table that is no longer there as it was belonged to the authenticated caller's own
  machine, and what replaced it is that grant revoked.
\<close>

theorem revocation_is_own_only:
  assumes "sv_api sv = sqlite_api fls t rnd" "db_wf db"
    "handle_revoke_grant sv now rq i db = (resp, db')"
    "x \<in> set (db_grants db)" "x \<notin> set (db_grants db')"
  shows "\<exists>c. authenticate sv now rq db = (Inr c, db) \<and> g_machine x = m_id (ca_machine c)
    \<and> g_id x = i \<and> rs_status resp = 200
    \<and> (\<exists>g \<in> set (db_grants db'). g_id g = i \<and> g_state g = GrantRevoked)"
  using assms(3,1)
proof (cases rule: sqlite.handle_revoke_cases)
  case refused
  with assms(4,5) show ?thesis by (simp add: sqlite.refusal_def sqlite.keeps_def)
next
  case (revoked c g0 g changed)
  note g0 = sqlite.grant_by_id [OF revoked(2)]
  note r = sqlite.revoke_ok [OF revoked(4)]
  have "g_id x = i" using r assms(4,5) by auto
  moreover from this have "x = g0"
    using distinct_map_eqD [OF grant_ids [OF assms(2)] assms(4)] g0 by auto
  ultimately show ?thesis using revoked r by auto
qed

lemma sample_revoke_handler:
  "\<exists>db' resp. handle_revoke_grant (sample_server (\<lambda>_. no_faults)) 60 sample_request ''g-02'' enrolled_db = (resp, db')
     \<and> sample_grant \<notin> set (db_grants db')"
proof -
  have mid: "m_id (ca_machine sample_caller) = ''m-01''" by (simp add: sample_caller_def sample_machine_def)
  show ?thesis
    unfolding handle_revoke_grant_def sample_authenticate
    by (simp add: mid sqlite_api_def grant_by_id_def
        query1_no_faults revoke_grant_def enrolled_db_def sample_db_def sample_grant_def
        sample_revoked_def audit_and_commit_def append_audit_row_def revoke_events_def
        machine_event_def mk_event_def Let_def insert_audit_def update_where_def revoke_row_def)
qed

lemma revocation_is_own_only_witness:
  "\<exists>c. authenticate (sample_server (\<lambda>_. no_faults)) 60 sample_request enrolled_db = (Inr c, enrolled_db)
     \<and> g_machine sample_grant = m_id (ca_machine c)"
proof -
  obtain db' resp where r: "handle_revoke_grant (sample_server (\<lambda>_. no_faults)) 60 sample_request ''g-02''
      enrolled_db = (resp, db')" "sample_grant \<notin> set (db_grants db')" using sample_revoke_handler by blast
  have "sample_grant \<in> set (db_grants enrolled_db)" by (simp add: enrolled_db_def sample_db_def)
  from revocation_is_own_only [OF sample_server_sel(1) enrolled_db_wf r(1) this r(2)] show ?thesis by blast
qed

text \<open>
  Listing shows a machine its own grants and nothing else: a successful answer is, in some
  order, the metadata of exactly the rows of the authenticated caller's machine; the registry
  does not change.
\<close>

theorem listing_is_own_grants:
  assumes "sv_api sv = sqlite_api fls t rnd" "handle_list_grants sv now rq db = (resp, db')"
    "rs_status resp < 400"
  shows "db' = db \<and> (\<exists>c gs. authenticate sv now rq db = (Inr c, db) \<and> rs_body resp = BList (map view_grant gs)
    \<and> set gs = {g \<in> set (db_grants db). g_machine g = m_id (ca_machine c)})"
  using assms(2,1)
proof (cases rule: sqlite.handle_list_cases)
  case refused
  with assms(3) show ?thesis by (simp add: sqlite.refusal_def)
next
  case (listed c gs)
  with sqlite.list_ok [OF listed(3)] show ?thesis by auto
qed

lemma listing_is_own_grants_witness:
  "let r = handle_list_grants (sample_server (\<lambda>_. no_faults)) 60 sample_request enrolled_db
   in \<exists>gs. rs_body (fst r) = BList (map view_grant gs) \<and> set gs = set (db_grants sample_db)"
proof -
  let ?r = "handle_list_grants (sample_server (\<lambda>_. no_faults)) 60 sample_request enrolled_db"
  have mid: "m_id (ca_machine sample_caller) = ''m-01''" by (simp add: sample_caller_def sample_machine_def)
  have "rs_status (fst ?r) = 200"
    unfolding handle_list_grants_def sample_authenticate
    by (simp add: mid sqlite_api_def list_grants_def)
  with listing_is_own_grants [OF _ surjective_pairing, of "sample_server (\<lambda>_. no_faults)" "\<lambda>_. no_faults" 50
      "Some ''abcdefgh''" 60 sample_request enrolled_db]
  obtain gs where "rs_body (fst ?r) = BList (map view_grant gs)"
    "set gs = {g \<in> set (db_grants enrolled_db). g_machine g = ''m-01''}"
    by (auto simp: sample_authenticate mid)
  moreover have "{g \<in> set (db_grants enrolled_db). g_machine g = ''m-01''} = set (db_grants sample_db)"
    by (auto simp: enrolled_db_def sample_db_def sample_grant_def sample_revoked_def)
  ultimately show ?thesis by (simp only: Let_def) blast
qed

section \<open>Enrolment\<close>

text \<open>
  A minted credential works: after an enrolment from a node succeeds, a later request from the
  same node that presents the credential of the response authenticates, as the very machine the
  response named, as long as the lookup itself does not fail.
\<close>

theorem enrolled_credential_authenticates:
  assumes "sv_api sv = sqlite_api fls t rnd" "db_wf db" "b \<noteq> []"
    "handle_enrol sv now (Some b) rq db = (resp, db')"
    "rs_body resp = BEnrol mid tok rotated version"
    "sv_api sv' = sqlite_api fls' t' rnd''" "sv_resolve sv' (rq_remote rq') = sv_resolve sv (rq_remote rq)"
    "rq_auth rq' = ''Bearer '' @ tok" "\<not> fls' MByNode SQuery" "rs_status resp < 400"
  shows "\<exists>c. authenticate sv' now' rq' db' = (Inr c, db') \<and> m_id (ca_machine c) = mid"
  using assms(4,1)
proof (cases rule: sqlite.handle_enrol_cases)
  case refused
  with assms(10) show ?thesis by (simp add: sqlite.refusal_def)
next
  case (enrolled ident name os_name tok' h m rotated')
  note ok = sqlite.enrol_ok [OF enrolled(4)]
  have wf: "db_wf db'" using sqlite.enrol_inv [OF enrolled(4) assms(2)] .
  from enrolled(7) assms(5) have eq: "tok' = tok" "mid = m_id m" by simp_all
  then have tok: "tok = b64_raw_url b" "h = cred_hash tok"
    using enrolled(3) by (auto simp: cred_new_def Let_def)
  have "bearer (rq_auth rq') = Some tok"
    unfolding assms(8) tok(1) by (intro bearer_of_token b64_plain b64_nonempty assms(3))
  moreover have "select1 (\<lambda>x. m_node_id x = id_node ident) (db_machines db') = Some m"
    using ok select1_by_key [of m_node_id "db_machines db'" m] db_wfD(1) [OF wf] by (auto simp: machines_wf_def)
  ultimately have "authenticate sv' now' rq' db' = (Inr \<lparr>ca_observed = ident, ca_machine = m\<rparr>, db')"
    using assms(6,7,9) enrolled(1,2) ok tok(2)
    by (simp add: authenticate_def observe_def sqlite_api_def machine_by_node_id_def query1_def cred_verify_def)
  with eq(2) show ?thesis by simp
qed

definition sample_enrol_request :: http_request where
  "sample_enrol_request = sample_request\<lparr>rq_body := ''{\"machine_name\":\"laptop\",\"os\":\"linux\"}''\<rparr>"

lemma enrolled_credential_authenticates_witness:
  "let r = handle_enrol (sample_server (\<lambda>_. no_faults)) 60 (Some ''abc'') sample_enrol_request sample_db
   in \<exists>c. authenticate (sample_server (\<lambda>_. no_faults)) 70
         (sample_request\<lparr>rq_auth := ''Bearer '' @ b64_raw_url ''abc''\<rparr>) (snd r) = (Inr c, snd r)
       \<and> m_id (ca_machine c) = ''m-01''"
proof -
  let ?sv = "sample_server (\<lambda>_. no_faults)"
  let ?rq = sample_enrol_request
  let ?ident = "\<lparr>id_node = ''n1'', id_name = ''laptop'', id_user = []\<rparr>"
  let ?h = "cred_hash (b64_raw_url ''abc'')"
  let ?m = "rotate_machine 50 ?ident ''laptop'' ''linux'' ?h sample_machine"
  let ?kvs = "[(''machine_name'', JStr ''laptop''), (''os'', JStr ''linux'')]"
  have "json_first (rq_body ?rq) = Some (JObj ?kvs, [])" by code_simp
  moreover have "take 65536 (rq_body ?rq) = rq_body ?rq" by (rule take_all) (simp add: sample_enrol_request_def)
  moreover have "only_fields [''machine_name'', ''os''] ?kvs" by code_simp
  moreover have "dec_field dec_string ''machine_name'' [] ?kvs = Some ''laptop''" by code_simp
  moreover have "dec_field dec_string ''os'' [] ?kvs = Some ''linux''" by code_simp
  ultimately have dec: "decode_enrol ?sv (rq_body ?rq) = Some (''laptop'', ''linux'')"
    by (simp add: decode_enrol_def decode_body_def sample_server_def)
  have obs: "observe ?sv 60 ?rq sample_db = (Inr ?ident, sample_db)"
    by (simp add: observe_def sample_server_def sample_request_def sample_enrol_request_def)
  have parts: "trim_space ''laptop'' = ''laptop''" "trim_space ''linux'' = ''linux''"
    "valid_label ''laptop'' max_machine_name_len = None" "valid_label ''linux'' max_os_len = None"
    "show_int 2 = ''2''"
    by code_simp+
  have new: "cred_new (Some ''abc'') = Some (b64_raw_url ''abc'', ?h)"
    by (simp add: cred_new_def Let_def del: b64_raw_url.simps)
  have enr: "fst (enrol no_faults 50 (Some ''abcdefgh'') ?ident ''laptop'' ''linux'' ?h
      (Some (enrol_events ?ident)) sample_db) = Inr (?m, True)"
    by (simp add: enrol_def sample_db_def sample_machine_def rotate_machine_def audit_and_commit_def
        append_audit_row_def enrol_events_def mk_event_def allowed_detail_keys_def
        max_detail_value_len_def parts(5) Let_def del: b64_raw_url.simps)
  have r: "fst (handle_enrol ?sv 60 (Some ''abc'') ?rq sample_db) =
      write_json 200 (BEnrol ''m-01'' (b64_raw_url ''abc'') True 2)"
    unfolding handle_enrol_def obs dec using enr
    by (auto simp: parts new sqlite_api_def Let_def rotate_machine_def sample_machine_def
        simp del: b64_raw_url.simps split: prod.splits sum.splits)
  show ?thesis
    using enrolled_credential_authenticates [OF sample_server_sel(1) sample_db_wf _ surjective_pairing,
        of "''abc''" "\<lambda>_. no_faults" 60 ?rq "''m-01''" "b64_raw_url ''abc''" True 2 ?sv "\<lambda>_. no_faults" 50
        "Some ''abcdefgh''" "sample_request\<lparr>rq_auth := ''Bearer '' @ b64_raw_url ''abc''\<rparr>" 70] r
    by (simp add: Let_def sample_enrol_request_def del: b64_raw_url.simps)
qed

section \<open>Long paths\<close>

text \<open>
  The record of a refusal carries the request path as it came. A path longer than a detail
  value may be makes the row unwritable, so such a request can only be refused with a server
  error, and the refused attempt leaves no trace in the log.
\<close>

theorem long_path_refusal_unrecorded:
  assumes "sv_api sv = sqlite_api fls t rnd" "max_detail_value_len < length (rq_path rq)"
    "authenticate sv now rq db = (Inl resp, db')"
  shows "db' = db \<and> (rs_status resp = 503 \<or> rs_status resp = 500)"
proof -
  have too_long: "control_deny sv now e st code m db = (unrecorded_refusal, db)"
    if "ev_detail e = pre @ path_detail rq" for e st code m pre
  proof -
    have "validate_detail (ev_detail e) \<noteq> None"
      using that assms(2) by (auto simp: validate_detail_None_iff path_detail_def)
    then show ?thesis
      using assms(1) by (auto simp: control_deny_def control_audit_def sqlite_api_def append_audit_def
          append_audit_row_def split: option.split)
  qed
  have auth: "deny_auth sv now rq observed tok reason None st code m db = (unrecorded_refusal, db)"
    "deny_auth sv now rq observed tok reason (Some (kv # path_detail rq)) st code m db = (unrecorded_refusal, db)"
    for observed tok reason kv st code m
    unfolding deny_auth_def Let_def by (rule too_long [of _ "[]"], simp) (rule too_long [of _ "[kv]"], simp)
  show ?thesis
  proof (cases "\<exists>ident. observe sv now rq db = (Inr ident, db)")
    case False
    then have "observe sv now rq db = (Inl unrecorded_refusal, db)"
      by (auto simp: observe_def Let_def too_long [of _ "[]"] split: option.splits if_splits)
    with assms(3) show ?thesis by (simp add: authenticate_def)
  next
    case True
    then obtain ident where obs: "observe sv now rq db = (Inr ident, db)" by blast
    note a = assms(3) [unfolded authenticate_def obs]
    show ?thesis
    proof (cases "bearer (rq_auth rq)")
      case None
      with a show ?thesis by (simp add: auth)
    next
      case (Some tok)
      show ?thesis
      proof (cases "api_machine_by_node (sv_api sv) (id_node ident) db")
        case (Inl err)
        with a Some show ?thesis by (cases err) (auto simp: auth)
      next
        case (Inr m)
        note a' = a [unfolded Some]
        show ?thesis
        proof (cases "api_machine_by_cred (sv_api sv) (cred_hash tok) db")
          case (Inl err)
          with a' \<open>api_machine_by_node (sv_api sv) (id_node ident) db = Inr m\<close> show ?thesis
            by (cases err) (auto simp: auth split: if_splits)
        next
          case (Inr other)
          with a' \<open>api_machine_by_node (sv_api sv) (id_node ident) db = Inr m\<close> show ?thesis
            by (simp add: auth split: if_splits)
        qed
      qed
    qed
  qed
qed

lemma long_path_refusal_unrecorded_witness:
  "let rq = sample_request\<lparr>rq_remote := ''stranger'', rq_path := replicate 300 (CHR ''a'')\<rparr>;
       r = authenticate (sample_server (\<lambda>_. no_faults)) 60 rq sample_db
   in isl (fst r) \<and> db_audit (snd r) = db_audit sample_db"
proof -
  define rq where "rq = sample_request\<lparr>rq_remote := ''stranger'', rq_path := replicate 300 (CHR ''a'')\<rparr>"
  then have rq: "rq_remote rq = ''stranger''" "max_detail_value_len < length (rq_path rq)"
    by (simp_all add: max_detail_value_len_def)
  let ?r = "authenticate (sample_server (\<lambda>_. no_faults)) 60 rq sample_db"
  have "sv_resolve (sample_server (\<lambda>_. no_faults)) ''stranger'' = None" by (simp add: sample_server_def)
  then have inl: "isl (fst ?r)"
    by (simp add: authenticate_def observe_def rq(1) Let_def split: prod.split)
       (auto simp: apfst_def map_prod_def split: prod.splits)
  then obtain resp where "?r = (Inl resp, snd ?r)" by (metis isl_def prod.collapse)
  from long_path_refusal_unrecorded [OF sample_server_sel(1) rq(2) this] inl
  show ?thesis by (simp add: Let_def rq_def)
qed

end
