(* ===== verification/Extract.thy ===== *)
theory Extract
  imports Go_Json Go_Crypto
begin

text \<open>
  \<open>internal/server/connectors/extract.go\<close>: argument digests, and the pointers and step pipelines
  that read an identity out of a JSON document. The RE2 engine is a parameter: a pattern compiles
  to its number of capture groups and the function that returns the first group of a match.
\<close>

type_synonym regex_engine = "string \<Rightarrow> (nat \<times> (string \<Rightarrow> string option)) option"

definition artifact_unknown :: string where "artifact_unknown = ''unknown''"
definition max_artifact_id_len :: nat where "max_artifact_id_len = 200"
definition max_extract_input_len :: nat where "max_extract_input_len = 262144"

definition args_digest_domain :: string where
  "args_digest_domain = ''homeplane/connector-args'' @ [chr 0]"

text \<open>\<open>decodeJSON\<close>: the first value, its numbers as literals.\<close>

definition decode_json :: "string \<Rightarrow> json option" where
  "decode_json raw = map_option fst (json_first raw)"

definition canonical_json :: "string \<Rightarrow> string" where
  "canonical_json raw =
     (if raw = [] then ''null''
      else case decode_json raw of None \<Rightarrow> raw | Some v \<Rightarrow> json_marshal v)"

definition args_digest :: "string \<Rightarrow> string" where
  "args_digest args = hex_encode (sha256 (args_digest_domain @ canonical_json args))"

section \<open>Pointers\<close>

datatype segment = SKey string | SIdx nat

text \<open>The indices after a name: \<open>[\<close>, text, \<open>]\<close>, repeated to the end.\<close>

function split_indices :: "string \<Rightarrow> string list option" where
  "split_indices rem =
     (case rem of
        [] \<Rightarrow> Some []
      | c # r \<Rightarrow>
          if c \<noteq> CHR ''['' then None
          else (case dropWhile (\<lambda>x. x \<noteq> CHR '']'') r of
                  [] \<Rightarrow> None
                | q # rest \<Rightarrow>
                    map_option ((#) (takeWhile (\<lambda>x. x \<noteq> CHR '']'') r)) (split_indices rest)))"
  by pat_completeness auto
termination
proof (relation "measure length")
  fix rem :: string and c r q rest
  assume "rem = c # r" "dropWhile (\<lambda>x. x \<noteq> CHR '']'') r = q # rest"
  then show "(rest, rem) \<in> measure length"
    using length_dropWhile_le [of "\<lambda>x. x \<noteq> CHR '']''" r] by simp
qed simp

declare split_indices.simps [simp del]

fun read_indices :: "string list \<Rightarrow> segment list option" where
  "read_indices [] = Some []"
| "read_indices (raw # raws) =
     (case atoi raw of
        None \<Rightarrow> None
      | Some n \<Rightarrow> if n < 0 then None else map_option ((#) (SIdx (nat n))) (read_indices raws))"

text \<open>One dot-separated part: a name and its indices.\<close>

definition parse_part :: "string \<Rightarrow> segment list option" where
  "parse_part part =
     (let name = takeWhile (\<lambda>c. c \<noteq> CHR ''['') part in
      if part = [] then None
      else (case split_indices (dropWhile (\<lambda>c. c \<noteq> CHR ''['') part) of
              None \<Rightarrow> None
            | Some idxs \<Rightarrow>
                if name = [] \<or> contains_any name ''[]$*'' then None
                else map_option ((#) (SKey name)) (read_indices idxs)))"

fun parse_parts :: "string list \<Rightarrow> segment list option" where
  "parse_parts [] = Some []"
| "parse_parts (part # parts) =
     (case parse_part part of
        None \<Rightarrow> None
      | Some segs \<Rightarrow> map_option ((@) segs) (parse_parts parts))"

definition parse_pointer :: "string \<Rightarrow> segment list option" where
  "parse_pointer p =
     (if \<not> has_prefix p ''$.'' then None
      else if drop 2 p = [] then None
      else parse_parts (split_on (CHR ''.'') (drop 2 p)))"

text \<open>Following a pointer: an index needs an array that long, a key an object that has it.\<close>

fun walk :: "segment list \<Rightarrow> json \<Rightarrow> json option" where
  "walk [] v = Some v"
| "walk (SIdx i # segs) v =
     (case v of
        JArr xs \<Rightarrow> if length xs \<le> i then None else walk segs (xs ! i)
      | _ \<Rightarrow> None)"
| "walk (SKey k # segs) v =
     (case v of
        JObj kvs \<Rightarrow> (case obj_get k kvs of None \<Rightarrow> None | Some w \<Rightarrow> walk segs w)
      | _ \<Rightarrow> None)"

section \<open>Scalars and steps\<close>

definition scalar_string :: "json \<Rightarrow> string option" where
  "scalar_string v =
     (let bounded = (\<lambda>out. if out = [] \<or> max_artifact_id_len < length out then None else Some out)
      in case v of
           JStr s \<Rightarrow> bounded s
         | JBool b \<Rightarrow> bounded (if b then ''true'' else ''false'')
         | JNum n \<Rightarrow> bounded n
         | _ \<Rightarrow> None)"

record extract_step =
  es_match :: string
  es_decode :: string

record extractor =
  ex_source :: string
  ex_pointer :: string
  ex_steps :: "extract_step list"

definition from_request :: string where "from_request = ''request''"
definition from_response :: string where "from_response = ''response''"
definition decode_base64_name :: string where "decode_base64_name = ''base64''"

text \<open>Base64 decoding of one alphabet, padded or not; line breaks in the input are skipped.\<close>

definition b64_value :: "bool \<Rightarrow> char \<Rightarrow> nat option" where
  "b64_value url c =
     (let b = byte c in
      if 65 \<le> b \<and> b \<le> 90 then Some (b - 65)
      else if 97 \<le> b \<and> b \<le> 122 then Some (b - 71)
      else if 48 \<le> b \<and> b \<le> 57 then Some (b + 4)
      else if c = (if url then CHR ''-'' else CHR ''+'') then Some 62
      else if c = (if url then CHR ''_'' else CHR ''/'') then Some 63
      else None)"

definition b64_two :: "bool \<Rightarrow> char \<Rightarrow> char \<Rightarrow> string option" where
  "b64_two url a b =
     (case (b64_value url a, b64_value url b) of
        (Some x, Some y) \<Rightarrow> Some [chr ((x * 64 + y) div 16)]
      | _ \<Rightarrow> None)"

definition b64_three :: "bool \<Rightarrow> char \<Rightarrow> char \<Rightarrow> char \<Rightarrow> string option" where
  "b64_three url a b c =
     (case (b64_value url a, b64_value url b, b64_value url c) of
        (Some x, Some y, Some z) \<Rightarrow>
          (let n = (x * 64 + y) * 64 + z in Some [chr (n div 1024), chr (n div 4 mod 256)])
      | _ \<Rightarrow> None)"

definition b64_four :: "bool \<Rightarrow> char \<Rightarrow> char \<Rightarrow> char \<Rightarrow> char \<Rightarrow> string option" where
  "b64_four url a b c d =
     (case (b64_value url a, b64_value url b, b64_value url c, b64_value url d) of
        (Some x, Some y, Some z, Some w) \<Rightarrow>
          (let n = ((x * 64 + y) * 64 + z) * 64 + w
           in Some [chr (n div 65536), chr (n div 256 mod 256), chr (n mod 256)])
      | _ \<Rightarrow> None)"

fun b64_quanta :: "bool \<Rightarrow> bool \<Rightarrow> string \<Rightarrow> string option" where
  "b64_quanta url pad (a # b # c # d # r) =
     (if pad \<and> d = CHR ''='' \<and> r = []
      then (if c = CHR ''='' then b64_two url a b else b64_three url a b c)
      else (case b64_four url a b c d of
              None \<Rightarrow> None
            | Some out \<Rightarrow> map_option ((@) out) (b64_quanta url pad r)))"
| "b64_quanta url pad [a, b, c] = (if pad then None else b64_three url a b c)"
| "b64_quanta url pad [a, b] = (if pad then None else b64_two url a b)"
| "b64_quanta url pad [a] = None"
| "b64_quanta url pad [] = Some []"

definition b64_decode :: "bool \<Rightarrow> bool \<Rightarrow> string \<Rightarrow> string option" where
  "b64_decode url pad s = b64_quanta url pad (filter (\<lambda>c. byte c \<noteq> 10 \<and> byte c \<noteq> 13) s)"

text \<open>\<open>decodeBase64\<close>: the four encodings in order.\<close>

definition decode_base64 :: "string \<Rightarrow> string option" where
  "decode_base64 s =
     (case b64_decode False True s of Some out \<Rightarrow> Some out | None \<Rightarrow>
     (case b64_decode False False s of Some out \<Rightarrow> Some out | None \<Rightarrow>
     (case b64_decode True True s of Some out \<Rightarrow> Some out | None \<Rightarrow>
      b64_decode True False s)))"

definition step_apply :: "regex_engine \<Rightarrow> extract_step \<Rightarrow> string \<Rightarrow> string option" where
  "step_apply rx st s =
     (if es_match st \<noteq> []
      then (case rx (es_match st) of
              None \<Rightarrow> None
            | Some (groups, submatch) \<Rightarrow> if groups < 1 then None else submatch s)
      else if es_decode st = decode_base64_name
      then (case decode_base64 s of
              None \<Rightarrow> None
            | Some out \<Rightarrow> if valid_utf8 out then Some out else None)
      else None)"

definition identity_char :: "char \<Rightarrow> bool" where
  "identity_char c \<longleftrightarrow> is_alnum c \<or> c \<in> set ''._:@/+=-''"

definition identity_shape :: "string \<Rightarrow> bool" where
  "identity_shape s \<longleftrightarrow> s \<noteq> [] \<and> list_all identity_char s"

fun apply_steps :: "regex_engine \<Rightarrow> extract_step list \<Rightarrow> string \<Rightarrow> string option" where
  "apply_steps rx [] s = Some s"
| "apply_steps rx (st # sts) s =
     (case step_apply rx st s of None \<Rightarrow> None | Some s' \<Rightarrow> apply_steps rx sts s')"

definition run_steps :: "regex_engine \<Rightarrow> extract_step list \<Rightarrow> json \<Rightarrow> string option" where
  "run_steps rx steps v =
     (case v of
        JStr s \<Rightarrow>
          if max_extract_input_len < length s then None
          else (case apply_steps rx steps s of
                  None \<Rightarrow> None
                | Some out \<Rightarrow>
                    if out = [] \<or> max_artifact_id_len < length out \<or> \<not> identity_shape out then None
                    else Some out)
      | _ \<Rightarrow> None)"

definition extract_id :: "regex_engine \<Rightarrow> extractor \<Rightarrow> string \<Rightarrow> string option" where
  "extract_id rx e doc =
     (case parse_pointer (ex_pointer e) of
        None \<Rightarrow> None
      | Some segs \<Rightarrow>
          if doc = [] then None
          else (case decode_json doc of
                  None \<Rightarrow> None
                | Some v \<Rightarrow>
                    (case walk segs v of
                       None \<Rightarrow> None
                     | Some w \<Rightarrow>
                         if ex_steps e = [] then scalar_string w else run_steps rx (ex_steps e) w)))"

section \<open>What extraction yields\<close>

lemma extract_bounded:
  assumes "extract_id rx e doc = Some out"
  shows "out \<noteq> [] \<and> length out \<le> max_artifact_id_len"
  using assms
  by (auto simp: extract_id_def scalar_string_def run_steps_def Let_def
      split: option.splits json.splits if_splits)

lemma extract_steps_identity:
  assumes "extract_id rx e doc = Some out" "ex_steps e \<noteq> []"
  shows "identity_shape out"
  using assms by (auto simp: extract_id_def run_steps_def split: option.splits json.splits if_splits)

lemma length_args_digest: "length (args_digest args) = 64"
  by (simp add: args_digest_def length_hex_encode length_sha256)

end
