(* ===== verification/Go_Url.thy ===== *)
theory Go_Url
  imports Go_Text
begin

text \<open>
  \<open>net/url.Parse\<close>, \<open>net.SplitHostPort\<close> and the IPv6 literals of \<open>net/netip.ParseAddr\<close>, as far
  as the sources use them: which strings parse, and the scheme, user, opaque part, host, path,
  query and fragment of those that do. Components that only need checking for bad escapes keep
  their escaped text.
\<close>

section \<open>Escapes\<close>

datatype url_mode = ModeHost | ModeZone | ModePath

definition url_hex :: "char \<Rightarrow> nat option" where
  "url_hex c =
     (let b = byte c in
      if 48 \<le> b \<and> b \<le> 57 then Some (b - 48)
      else if 97 \<le> b \<and> b \<le> 102 then Some (b - 87)
      else if 65 \<le> b \<and> b \<le> 70 then Some (b - 55) else None)"

definition is_hex_digit :: "char \<Rightarrow> bool" where
  "is_hex_digit c \<longleftrightarrow> url_hex c \<noteq> None"

text \<open>\<open>shouldEscape\<close> in a host or a zone.\<close>

definition host_escape :: "char \<Rightarrow> bool" where
  "host_escape c \<longleftrightarrow> \<not> (is_alnum c \<or> c \<in> set ''!$&()*+,;=:[]<>-_.~'' \<or> byte c = 39 \<or> byte c = 34)"

fun unescape :: "url_mode \<Rightarrow> string \<Rightarrow> string option" where
  "unescape md [] = Some []"
| "unescape md (c # s) =
     (if c = CHR ''%''
      then (case s of
              a # b # r \<Rightarrow>
                (case (url_hex a, url_hex b) of
                   (Some x, Some y) \<Rightarrow>
                     if md = ModeHost \<and> x < 8 \<and> \<not> (a = CHR ''2'' \<and> b = CHR ''5'') then None
                     else if md = ModeZone \<and> \<not> (a = CHR ''2'' \<and> b = CHR ''5'') \<and> x * 16 + y \<noteq> 32
                        \<and> host_escape (chr (x * 16 + y)) then None
                     else map_option ((#) (chr (x * 16 + y))) (unescape md r)
                 | _ \<Rightarrow> None)
            | _ \<Rightarrow> None)
      else if md \<noteq> ModePath \<and> byte c < 128 \<and> host_escape c then None
      else map_option ((#) c) (unescape md s))"

section \<open>IPv6 literals\<close>

definition octet_ok :: "string \<Rightarrow> bool" where
  "octet_ok s \<longleftrightarrow> s \<noteq> [] \<and> length s \<le> 3 \<and> (s = ''0'' \<or> hd s \<noteq> CHR ''0'')
     \<and> (case read_digits 0 s of None \<Rightarrow> False | Some n \<Rightarrow> n \<le> 255)"

definition ipv4_ok :: "string \<Rightarrow> bool" where
  "ipv4_ok s \<longleftrightarrow> (let parts = split_on (CHR ''.'') s in length parts = 4 \<and> list_all octet_ok parts)"

text \<open>
  The loop of \<open>parseIPv6\<close>: \<open>n\<close> bytes are filled, \<open>e\<close> tells whether the ellipsis was seen. Sixteen
  bytes and no rest, or fewer and an ellipsis, make an address.
\<close>

function ipv6_loop :: "nat \<Rightarrow> bool \<Rightarrow> string \<Rightarrow> bool" where
  "ipv6_loop n e s =
     (if 16 \<le> n then s = [] \<and> \<not> e
      else (let grp = takeWhile is_hex_digit s; rest = dropWhile is_hex_digit s in
            if grp = [] \<or> 4 < length grp then False
            else if rest \<noteq> [] \<and> hd rest = CHR ''.''
            then (e \<or> n = 12) \<and> n + 4 \<le> 16 \<and> ipv4_ok s \<and> (if n + 4 < 16 then e else \<not> e)
            else (case rest of
                    [] \<Rightarrow> if n + 2 < 16 then e else \<not> e
                  | c # r \<Rightarrow>
                      if c \<noteq> CHR '':'' \<or> r = [] then False
                      else if hd r = CHR '':''
                      then (if e then False
                            else if tl r = [] then n + 2 < 16
                            else ipv6_loop (n + 2) True (tl r))
                      else ipv6_loop (n + 2) e r)))"
  by pat_completeness auto
termination
  by (relation "measure (\<lambda>(n, e, s). 16 - n)") auto

declare ipv6_loop.simps [simp del]

definition ipv6_ok :: "string \<Rightarrow> bool" where
  "ipv6_ok s0 \<longleftrightarrow>
     (let s = takeWhile (\<lambda>c. c \<noteq> CHR ''%'') s0; zone = dropWhile (\<lambda>c. c \<noteq> CHR ''%'') s0 in
      \<not> (zone \<noteq> [] \<and> tl zone = [])
      \<and> (case s of
           a # b # r \<Rightarrow>
             if a = CHR '':'' \<and> b = CHR '':'' then r = [] \<or> ipv6_loop 0 True r else ipv6_loop 0 False s
         | _ \<Rightarrow> ipv6_loop 0 False s))"

text \<open>\<open>ParseAddr\<close>, where an IPv4 address is refused: the first of dot, colon and percent decides.\<close>

definition ip_literal_ok :: "string \<Rightarrow> bool" where
  "ip_literal_ok s \<longleftrightarrow>
     (case dropWhile (\<lambda>c. c \<notin> set ''.:%'') s of c # r \<Rightarrow> c = CHR '':'' \<and> ipv6_ok s | [] \<Rightarrow> False)"

section \<open>Authority\<close>

definition valid_optional_port :: "string \<Rightarrow> bool" where
  "valid_optional_port p \<longleftrightarrow>
     (case p of [] \<Rightarrow> True | c # ds \<Rightarrow> c = CHR '':'' \<and> list_all (\<lambda>d. 48 \<le> byte d \<and> byte d \<le> 57) ds)"

text \<open>The text before and after the last occurrence of a character.\<close>

definition split_last :: "char \<Rightarrow> string \<Rightarrow> (string \<times> string) option" where
  "split_last c s =
     (if c \<notin> set s then None
      else (let after = rev (takeWhile (\<lambda>x. x \<noteq> c) (rev s))
            in Some (take (length s - length after - 1) s, after)))"

definition parse_host :: "string \<Rightarrow> string option" where
  "parse_host host =
     (case host of
        [] \<Rightarrow> Some []
      | h # body \<Rightarrow>
          if CHR ''['' \<in> set body then None
          else if h = CHR ''[''
          then (case split_last (CHR '']'') body of
                  None \<Rightarrow> None
                | Some (name, port) \<Rightarrow>
                    if \<not> valid_optional_port port then None
                    else (let unzoned = (case index_of name ''%25'' of
                                None \<Rightarrow> unescape ModeHost name
                              | Some z \<Rightarrow>
                                  (case (unescape ModeHost (take z name), unescape ModeZone (drop z name)) of
                                     (Some a, Some b) \<Rightarrow> Some (a @ b)
                                   | _ \<Rightarrow> None))
                          in case unzoned of
                               None \<Rightarrow> None
                             | Some nm \<Rightarrow> if ip_literal_ok nm then Some (CHR ''['' # nm @ CHR '']'' # port) else None))
          else if CHR '':'' \<in> set host \<and> \<not> valid_optional_port (dropWhile (\<lambda>c. c \<noteq> CHR '':'') host) then None
          else unescape ModeHost host)"

definition userinfo_char :: "char \<Rightarrow> bool" where
  "userinfo_char c \<longleftrightarrow> is_alnum c \<or> c \<in> set ''-._:~!$&()*+,;=%@'' \<or> byte c = 39"

text \<open>The host, and whether there is user information.\<close>

definition parse_authority :: "string \<Rightarrow> (bool \<times> string) option" where
  "parse_authority a =
     (case split_last (CHR ''@'') a of
        None \<Rightarrow> map_option (Pair False) (parse_host a)
      | Some (user, host) \<Rightarrow>
          (case parse_host host of
             None \<Rightarrow> None
           | Some h \<Rightarrow>
               if list_all userinfo_char user \<and> unescape ModePath user \<noteq> None then Some (True, h) else None))"

section \<open>URLs\<close>

record url =
  u_scheme :: string
  u_opaque :: string
  u_user :: bool
  u_host :: string
  u_path :: string
  u_query :: string
  u_force_query :: bool
  u_fragment :: string

text \<open>\<open>getScheme\<close>: the inner \<open>None\<close> is \<open>missing protocol scheme\<close>.\<close>

fun scheme_scan :: "string \<Rightarrow> string \<Rightarrow> (string \<times> string) option" where
  "scheme_scan acc [] = Some ([], rev acc)"
| "scheme_scan acc (c # s) =
     (if (65 \<le> byte c \<and> byte c \<le> 90) \<or> (97 \<le> byte c \<and> byte c \<le> 122) then scheme_scan (c # acc) s
      else if (48 \<le> byte c \<and> byte c \<le> 57) \<or> c \<in> set ''+-.''
      then (if acc = [] then Some ([], c # s) else scheme_scan (c # acc) s)
      else if c = CHR '':'' then (if acc = [] then None else Some (rev acc, s))
      else Some ([], rev acc @ c # s))"

definition blank_url :: url where
  "blank_url = \<lparr>u_scheme = [], u_opaque = [], u_user = False, u_host = [], u_path = [], u_query = [],
                u_force_query = False, u_fragment = []\<rparr>"

definition url_parse_main :: "string \<Rightarrow> url option" where
  "url_parse_main raw =
     (if list_ex (\<lambda>c. byte c < 32 \<or> byte c = 127) raw then None
      else if raw = ''*'' then Some (blank_url\<lparr>u_path := ''*''\<rparr>)
      else (case scheme_scan [] raw of
        None \<Rightarrow> None
      | Some (scheme0, rest0) \<Rightarrow>
          (let scheme = map lower_byte scheme0;
               forced = has_suffix rest0 ''?'' \<and> length (filter (\<lambda>c. c = CHR ''?'') rest0) = 1;
               rest = takeWhile (\<lambda>c. c \<noteq> CHR ''?'') rest0;
               query = (if forced then [] else drop 1 (dropWhile (\<lambda>c. c \<noteq> CHR ''?'') rest0));
               base = blank_url\<lparr>u_scheme := scheme, u_query := query, u_force_query := forced\<rparr> in
           if \<not> has_prefix rest ''/'' \<and> scheme \<noteq> [] then Some (base\<lparr>u_opaque := rest\<rparr>)
           else if \<not> has_prefix rest ''/'' \<and> CHR '':'' \<in> set (takeWhile (\<lambda>c. c \<noteq> CHR ''/'') rest) then None
           else if (scheme \<noteq> [] \<or> \<not> has_prefix rest ''///'') \<and> has_prefix rest ''//''
           then (let after = drop 2 rest;
                     path = dropWhile (\<lambda>c. c \<noteq> CHR ''/'') after in
                 case parse_authority (takeWhile (\<lambda>c. c \<noteq> CHR ''/'') after) of
                   None \<Rightarrow> None
                 | Some (user, host) \<Rightarrow>
                     if unescape ModePath path = None then None
                     else Some (base\<lparr>u_user := user, u_host := host, u_path := path\<rparr>))
           else if unescape ModePath rest = None then None
           else Some (base\<lparr>u_path := rest\<rparr>))))"

definition url_parse :: "string \<Rightarrow> url option" where
  "url_parse raw =
     (let frag = drop 1 (dropWhile (\<lambda>c. c \<noteq> CHR ''#'') raw) in
      case url_parse_main (takeWhile (\<lambda>c. c \<noteq> CHR ''#'') raw) of
        None \<Rightarrow> None
      | Some u \<Rightarrow>
          if frag = [] then Some u
          else map_option (\<lambda>f. u\<lparr>u_fragment := f\<rparr>) (unescape ModePath frag))"

text \<open>\<open>net.SplitHostPort\<close>.\<close>

definition split_host_port :: "string \<Rightarrow> (string \<times> string) option" where
  "split_host_port hp =
     (case split_last (CHR '':'') hp of
        None \<Rightarrow> None
      | Some (before, port) \<Rightarrow>
          if CHR ''['' \<in> set port \<or> CHR '']'' \<in> set port then None
          else (case hp of
            c # cs \<Rightarrow>
              if c = CHR ''[''
              then (let name = takeWhile (\<lambda>x. x \<noteq> CHR '']'') cs in
                    if before = CHR ''['' # name @ '']'' \<and> CHR ''['' \<notin> set name then Some (name, port) else None)
              else if CHR '':'' \<in> set before \<or> CHR ''['' \<in> set before \<or> CHR '']'' \<in> set before then None
              else Some (before, port)
          | [] \<Rightarrow> None))"

text \<open>Concrete cases.\<close>

lemma url_parse_examples:
  "map_option (\<lambda>u. (u_scheme u, u_host u, u_path u)) (url_parse ''HTTP://[::1]:80/'') = Some (''http'', ''[::1]:80'', ''/'')"
  "map_option (\<lambda>u. (u_scheme u, u_user u, u_host u)) (url_parse ''https://a.b/x?y#z'') = Some (''https'', False, ''a.b'')"
  "url_parse ''http://::1/'' = None" "url_parse ''http://[1.2.3.4]/'' = None"
  "map_option u_opaque (url_parse ''mailto:x'') = Some ''x''"
  "split_host_port ''[::1]:80'' = Some (''::1'', ''80'')" "split_host_port ''a:b:1'' = None"
  by code_simp+

end
