(* ===== verification/Manifest.thy ===== *)
theory Manifest
  imports Extract Go_Url Policy
begin

text \<open>
  \<open>internal/server/connectors/manifest.go\<close>: the connector manifest and its validation. A
  manifest is the decoded document; \<open>Validate\<close> decides whether it may serve as an authorization
  input. Where the code ranges over a Go map, the model takes the entries in list order: which of
  several faults is reported may differ, that one is does not.
\<close>

definition manifest_version :: int where "manifest_version = 1"

definition action_read :: string where "action_read = ''read''"
definition action_write :: string where "action_write = ''write''"
definition action_send :: string where "action_send = ''send''"
definition action_delete :: string where "action_delete = ''delete''"
definition action_unknown :: string where "action_unknown = ''unknown''"

lemmas action_defs = action_read_def action_write_def action_send_def action_delete_def action_unknown_def

definition class_capability :: "string \<Rightarrow> string option" where
  "class_capability c =
     (if c = action_read then Some connector_read
      else if c = action_write then Some connector_write
      else if c = action_send then Some connector_send
      else if c = action_delete then Some connector_delete else None)"

definition known_capabilities :: "string list" where
  "known_capabilities = [connector_read, connector_write, connector_send, connector_delete]"

section \<open>Data\<close>

record argument_guard =
  ag_pointer :: string
  ag_unless_in :: "string list"
  ag_capability :: string
  ag_reason :: string

record action_selector =
  as_pointer :: string
  as_cases :: "(string \<times> string) list"

record tool_mapping =
  tm_tool :: string
  tm_class :: string
  tm_selector :: "action_selector option"
  tm_capability :: string
  tm_artifact :: "extractor list"
  tm_guards :: "argument_guard list"

record excluded_tool =
  xt_tool :: string
  xt_reason :: string

record credential_acquisition =
  cq_driver :: string
  cq_params :: "(string \<times> string) list"
  cq_scopes :: "string list"

record mcp_server =
  ms_name :: string
  ms_transport :: string
  ms_source :: string

record connector =
  cn_provider :: string
  cn_credential_ref :: string
  cn_credential :: credential_acquisition
  cn_delivery :: "string option"
  cn_server :: mcp_server
  cn_inventory :: "string list"
  cn_tools :: "tool_mapping list"
  cn_excluded :: "excluded_tool list"

record manifest =
  mf_version :: int
  mf_connectors :: "connector list"

text \<open>The refusals, by the line that makes them.\<close>

datatype guard_fault = GuardPointer | GuardCapability string | GuardNoValues | GuardEmptyValue
  | GuardValueTooLong nat | GuardNoReason

datatype selector_fault = BothClassAndSelector | SelectorCapability | SelectorPointer | SelectorNoCases
  | SelectorEmptyCase | SelectorCaseTooLong nat | SelectorBadClass string string

datatype step_fault = StepNeither | StepBoth | StepDecode string | StepPattern | StepGroups nat

datatype extractor_fault = ExtractorSource string | ExtractorPointer | ExtractorStep nat step_fault

datatype credential_fault = UnknownDriver string | DriverParam string string | DriverParamEmpty string
  | DriverParamMissing string string | EndpointNotHttps string string | RefNotReference string
  | NoScopes string | EmptyScope

datatype server_fault = ServerName | ServerTransport string | ServerSource

datatype manifest_error =
    UnsupportedVersion int | NoConnectors | DuplicateProvider nat string
  | IdentifierTooLong string nat | IdentifierInvalid string string
  | ToolNameEmpty string | ToolNameTooLong string nat | ToolNameInvalid string string
  | UnknownFormat string string | NoTools string | ToolTwice string string
  | ExcludedNoReason string string | InventoryTwice string string
  | IncompleteRegistration string "string list" | PhantomTools string "string list"
  | BadActionClass string string string | UnknownCapability string string string
  | CapabilityMismatch string string string string
  | SelectorFault string string selector_fault | GuardFault string string guard_fault
  | ExtractorFault string string extractor_fault
  | CredentialFault string credential_fault | ServerFault string server_fault

text \<open>The first fault among the elements of a list, or of two checks made in turn.\<close>

fun first_fault :: "('a \<Rightarrow> 'e option) \<Rightarrow> 'a list \<Rightarrow> 'e option" where
  "first_fault f [] = None"
| "first_fault f (x # xs) = (case f x of Some e \<Rightarrow> Some e | None \<Rightarrow> first_fault f xs)"

fun or_else :: "'e option \<Rightarrow> 'e option \<Rightarrow> 'e option" where
  "or_else (Some e) r = Some e"
| "or_else None r = r"

lemma first_fault_None_iff [simp]: "first_fault f xs = None \<longleftrightarrow> (\<forall>x \<in> set xs. f x = None)"
  by (induction xs) (auto split: option.split)

lemma or_else_None_iff [simp]: "or_else a b = None \<longleftrightarrow> a = None \<and> b = None"
  by (cases a) auto

section \<open>Names\<close>

definition max_identifier_len :: nat where "max_identifier_len = 128"

definition ident_re :: "string \<Rightarrow> bool" where
  "ident_re = matches_shape is_lower_alnum (\<lambda>c. is_lower_alnum c \<or> c \<in> set ''._@/-'')"

definition tool_name_re :: "string \<Rightarrow> bool" where
  "tool_name_re = matches_shape is_alnum (\<lambda>c. is_alnum c \<or> c \<in> set ''._/-'')"

definition blank :: "string \<Rightarrow> bool" where
  "blank s \<longleftrightarrow> trim_space s = []"

definition validate_identifier :: "string \<Rightarrow> string \<Rightarrow> manifest_error option" where
  "validate_identifier kind value =
     (if max_identifier_len < length value then Some (IdentifierTooLong kind (length value))
      else if \<not> ident_re value then Some (IdentifierInvalid kind value) else None)"

definition validate_tool_name :: "string \<Rightarrow> string \<Rightarrow> manifest_error option" where
  "validate_tool_name provider tool =
     (if blank tool then Some (ToolNameEmpty provider)
      else if max_identifier_len < length tool then Some (ToolNameTooLong provider (length tool))
      else if \<not> tool_name_re tool then Some (ToolNameInvalid provider tool) else None)"

section \<open>Credentials and servers\<close>

definition google_oauth_user_file :: string where
  "google_oauth_user_file = ''google-oauth-user-file''"

definition known_delivery_formats :: "string list" where
  "known_delivery_formats = [google_oauth_user_file]"

definition validate_delivery :: "string \<Rightarrow> string \<Rightarrow> manifest_error option" where
  "validate_delivery provider fmt =
     (if fmt \<notin> set known_delivery_formats then Some (UnknownFormat provider fmt) else None)"

record driver_spec =
  ds_required :: "string list"
  ds_optional :: "string list"
  ds_need_scopes :: bool

definition driver_oauth2 :: string where "driver_oauth2 = ''oauth2-authcode''"

definition driver_specs :: "string \<Rightarrow> driver_spec option" where
  "driver_specs d =
     (if d = driver_oauth2
      then Some \<lparr>ds_required = [''auth_endpoint'', ''token_endpoint'', ''client_id_ref'', ''client_secret_ref''],
                 ds_optional = [''redirect_path'', ''access_type'', ''prompt''], ds_need_scopes = True\<rparr>
      else None)"

definition param :: "(string \<times> string) list \<Rightarrow> string \<Rightarrow> string" where
  "param ps k = (case map_of ps k of None \<Rightarrow> [] | Some v \<Rightarrow> v)"

definition check_param :: "string \<Rightarrow> string \<Rightarrow> string list \<Rightarrow> string \<times> string \<Rightarrow> manifest_error option" where
  "check_param provider driver allowed kv =
     (case kv of (k, v) \<Rightarrow>
        if k \<notin> set allowed then Some (CredentialFault provider (DriverParam driver k))
        else if blank v then Some (CredentialFault provider (DriverParamEmpty k)) else None)"

definition check_param_value :: "string \<Rightarrow> string \<times> string \<Rightarrow> manifest_error option" where
  "check_param_value provider kv =
     (case kv of (k, v) \<Rightarrow>
        if has_suffix k ''_endpoint''
        then (case url_parse v of
                None \<Rightarrow> Some (CredentialFault provider (EndpointNotHttps k v))
              | Some u \<Rightarrow> if u_scheme u \<noteq> ''https'' \<or> u_host u = [] then Some (CredentialFault provider (EndpointNotHttps k v))
                          else None)
        else if has_suffix k ''_ref''
        then (if \<not> ident_re v then Some (CredentialFault provider (RefNotReference k)) else None)
        else None)"

definition validate_credential :: "string \<Rightarrow> credential_acquisition \<Rightarrow> manifest_error option" where
  "validate_credential provider ca =
     (case driver_specs (cq_driver ca) of
        None \<Rightarrow> Some (CredentialFault provider (UnknownDriver (cq_driver ca)))
      | Some spec \<Rightarrow>
          or_else (first_fault (check_param provider (cq_driver ca) (ds_required spec @ ds_optional spec)) (cq_params ca))
          (or_else (first_fault (\<lambda>k. if blank (param (cq_params ca) k)
                                    then Some (CredentialFault provider (DriverParamMissing (cq_driver ca) k)) else None)
                      (ds_required spec))
          (or_else (first_fault (check_param_value provider) (cq_params ca))
          (or_else (if ds_need_scopes spec \<and> cq_scopes ca = [] then Some (CredentialFault provider (NoScopes (cq_driver ca))) else None)
             (first_fault (\<lambda>s. if blank s then Some (CredentialFault provider EmptyScope) else None) (cq_scopes ca))))))"

definition validate_server :: "string \<Rightarrow> mcp_server \<Rightarrow> manifest_error option" where
  "validate_server provider s =
     (if blank (ms_name s) then Some (ServerFault provider ServerName)
      else if ms_transport s \<notin> {''stdio'', ''streamable-http'', ''sse''}
      then Some (ServerFault provider (ServerTransport (ms_transport s)))
      else if blank (ms_source s) then Some (ServerFault provider ServerSource) else None)"

section \<open>Tools\<close>

definition validate_guard :: "string \<Rightarrow> string \<Rightarrow> argument_guard \<Rightarrow> manifest_error option" where
  "validate_guard provider tool g =
     (if parse_pointer (ag_pointer g) = None then Some (GuardFault provider tool GuardPointer)
      else if ag_capability g \<notin> set known_capabilities
      then Some (GuardFault provider tool (GuardCapability (ag_capability g)))
      else if ag_unless_in g = [] then Some (GuardFault provider tool GuardNoValues)
      else or_else
        (first_fault (\<lambda>v. if blank v then Some (GuardFault provider tool GuardEmptyValue)
                          else if max_identifier_len < length v
                          then Some (GuardFault provider tool (GuardValueTooLong (length v))) else None)
           (ag_unless_in g))
        (if blank (ag_reason g) then Some (GuardFault provider tool GuardNoReason) else None))"

definition validate_selector :: "string \<Rightarrow> tool_mapping \<Rightarrow> action_selector \<Rightarrow> manifest_error option" where
  "validate_selector provider t sel =
     (if tm_class t \<noteq> [] then Some (SelectorFault provider (tm_tool t) BothClassAndSelector)
      else if tm_capability t \<noteq> [] then Some (SelectorFault provider (tm_tool t) SelectorCapability)
      else if parse_pointer (as_pointer sel) = None then Some (SelectorFault provider (tm_tool t) SelectorPointer)
      else if as_cases sel = [] then Some (SelectorFault provider (tm_tool t) SelectorNoCases)
      else first_fault (\<lambda>(value, cls).
             if blank value then Some (SelectorFault provider (tm_tool t) SelectorEmptyCase)
             else if max_identifier_len < length value
             then Some (SelectorFault provider (tm_tool t) (SelectorCaseTooLong (length value)))
             else if class_capability cls = None
             then Some (SelectorFault provider (tm_tool t) (SelectorBadClass value cls)) else None)
           (as_cases sel))"

definition validate_step :: "regex_engine \<Rightarrow> string \<Rightarrow> string \<Rightarrow> nat \<times> extract_step \<Rightarrow> manifest_error option" where
  "validate_step rx provider tool ist =
     (case ist of (i, st) \<Rightarrow>
        if es_match st = [] \<and> es_decode st = [] then Some (ExtractorFault provider tool (ExtractorStep i StepNeither))
        else if es_match st \<noteq> [] \<and> es_decode st \<noteq> [] then Some (ExtractorFault provider tool (ExtractorStep i StepBoth))
        else if es_decode st \<noteq> [] \<and> es_decode st \<noteq> decode_base64_name
        then Some (ExtractorFault provider tool (ExtractorStep i (StepDecode (es_decode st))))
        else if es_match st \<noteq> []
        then (case rx (es_match st) of
                None \<Rightarrow> Some (ExtractorFault provider tool (ExtractorStep i StepPattern))
              | Some (n, submatch) \<Rightarrow> if n \<noteq> 1 then Some (ExtractorFault provider tool (ExtractorStep i (StepGroups n))) else None)
        else None)"

definition validate_extractor :: "regex_engine \<Rightarrow> string \<Rightarrow> string \<Rightarrow> extractor \<Rightarrow> manifest_error option" where
  "validate_extractor rx provider tool e =
     (if ex_source e \<noteq> from_request \<and> ex_source e \<noteq> from_response
      then Some (ExtractorFault provider tool (ExtractorSource (ex_source e)))
      else if parse_pointer (ex_pointer e) = None then Some (ExtractorFault provider tool ExtractorPointer)
      else first_fault (validate_step rx provider tool) (enumerate 0 (ex_steps e)))"

text \<open>A selector-mapped tool returns from its selector's checks, before the extractors are looked at.\<close>

definition validate_mapping :: "regex_engine \<Rightarrow> string \<Rightarrow> tool_mapping \<Rightarrow> manifest_error option" where
  "validate_mapping rx provider t =
     or_else (validate_tool_name provider (tm_tool t))
     (or_else (first_fault (validate_guard provider (tm_tool t)) (tm_guards t))
     (case tm_selector t of
        Some sel \<Rightarrow> validate_selector provider t sel
      | None \<Rightarrow>
          (case class_capability (tm_class t) of
             None \<Rightarrow> Some (BadActionClass provider (tm_tool t) (tm_class t))
           | Some want \<Rightarrow>
               if tm_capability t \<noteq> [] \<and> tm_capability t \<notin> set known_capabilities
               then Some (UnknownCapability provider (tm_tool t) (tm_capability t))
               else if tm_capability t \<noteq> [] \<and> tm_capability t \<noteq> want
               then Some (CapabilityMismatch provider (tm_tool t) (tm_class t) (tm_capability t))
               else first_fault (validate_extractor rx provider (tm_tool t)) (tm_artifact t))))"

section \<open>Connectors\<close>

text \<open>The loop over the mapped tools, with the names classified so far.\<close>

fun classify_tools :: "regex_engine \<Rightarrow> string \<Rightarrow> tool_mapping list \<Rightarrow> string list
    \<Rightarrow> manifest_error + string list" where
  "classify_tools rx provider [] seen = Inr seen"
| "classify_tools rx provider (t # ts) seen =
     (case validate_mapping rx provider t of
        Some err \<Rightarrow> Inl err
      | None \<Rightarrow>
          if tm_tool t \<in> set seen then Inl (ToolTwice provider (tm_tool t))
          else classify_tools rx provider ts (tm_tool t # seen))"

fun classify_excluded :: "string \<Rightarrow> excluded_tool list \<Rightarrow> string list \<Rightarrow> manifest_error + string list" where
  "classify_excluded provider [] seen = Inr seen"
| "classify_excluded provider (x # xs) seen =
     (case validate_tool_name provider (xt_tool x) of
        Some err \<Rightarrow> Inl err
      | None \<Rightarrow>
          if blank (xt_reason x) then Inl (ExcludedNoReason provider (xt_tool x))
          else if xt_tool x \<in> set seen then Inl (ToolTwice provider (xt_tool x))
          else classify_excluded provider xs (xt_tool x # seen))"

text \<open>The loop over the gateway's inventory collects the tools nobody classified.\<close>

fun check_inventory :: "string \<Rightarrow> string list \<Rightarrow> string list \<Rightarrow> string list \<Rightarrow> string list
    \<Rightarrow> manifest_error + string list" where
  "check_inventory provider classified [] inventory missing = Inr missing"
| "check_inventory provider classified (tool # tools) inventory missing =
     (case validate_tool_name provider tool of
        Some err \<Rightarrow> Inl err
      | None \<Rightarrow>
          if tool \<in> set inventory then Inl (InventoryTwice provider tool)
          else check_inventory provider classified tools (tool # inventory)
                 (if tool \<in> set classified then missing else missing @ [tool]))"

definition validate_inventory :: "string \<Rightarrow> string list \<Rightarrow> string list \<Rightarrow> manifest_error option" where
  "validate_inventory provider classified inventory =
     (if inventory = [] then None
      else case check_inventory provider classified inventory [] [] of
             Inl err \<Rightarrow> Some err
           | Inr missing \<Rightarrow>
               if missing \<noteq> [] then Some (IncompleteRegistration provider (sort_strings missing))
               else (let phantom = filter (\<lambda>t. t \<notin> set inventory) classified
                     in if phantom \<noteq> [] then Some (PhantomTools provider (sort_strings phantom)) else None))"

definition validate_connector :: "regex_engine \<Rightarrow> connector \<Rightarrow> manifest_error option" where
  "validate_connector rx c =
     (let p = cn_provider c in
      or_else (validate_identifier ''provider'' p)
      (or_else (validate_identifier ''credential_ref'' (cn_credential_ref c))
      (or_else (validate_credential p (cn_credential c))
      (or_else (validate_server p (cn_server c))
      (or_else (case cn_delivery c of None \<Rightarrow> None | Some fmt \<Rightarrow> validate_delivery p fmt)
      (if cn_tools c = [] \<and> cn_excluded c = [] then Some (NoTools p)
       else case classify_tools rx p (cn_tools c) [] of
              Inl err \<Rightarrow> Some err
            | Inr seen \<Rightarrow>
                (case classify_excluded p (cn_excluded c) seen of
                   Inl err \<Rightarrow> Some err
                 | Inr classified \<Rightarrow> validate_inventory p classified (cn_inventory c))))))))"

fun validate_connectors :: "regex_engine \<Rightarrow> nat \<Rightarrow> connector list \<Rightarrow> string list \<Rightarrow> manifest_error option" where
  "validate_connectors rx i [] seen = None"
| "validate_connectors rx i (c # cs) seen =
     (case validate_connector rx c of
        Some err \<Rightarrow> Some err
      | None \<Rightarrow>
          if cn_provider c \<in> set seen then Some (DuplicateProvider i (cn_provider c))
          else validate_connectors rx (Suc i) cs (cn_provider c # seen))"

definition validate_manifest :: "regex_engine \<Rightarrow> manifest \<Rightarrow> manifest_error option" where
  "validate_manifest rx m =
     (if mf_version m \<noteq> manifest_version then Some (UnsupportedVersion (mf_version m))
      else if mf_connectors m = [] then Some NoConnectors
      else validate_connectors rx 0 (mf_connectors m) [])"

definition manifest_providers :: "manifest \<Rightarrow> string list" where
  "manifest_providers m = sort_strings (map cn_provider (mf_connectors m))"

section \<open>Per call\<close>

definition selector_extractor :: "string \<Rightarrow> extractor" where
  "selector_extractor ptr = \<lparr>ex_source = from_request, ex_pointer = ptr, ex_steps = []\<rparr>"

definition guard_applies :: "regex_engine \<Rightarrow> argument_guard \<Rightarrow> string \<Rightarrow> bool" where
  "guard_applies rx g args =
     (case extract_id rx (selector_extractor (ag_pointer g)) args of
        None \<Rightarrow> True
      | Some value \<Rightarrow> value \<notin> set (ag_unless_in g))"

definition required_capability :: "tool_mapping \<Rightarrow> string option" where
  "required_capability t = class_capability (tm_class t)"

definition resolve_action_class :: "regex_engine \<Rightarrow> tool_mapping \<Rightarrow> string \<Rightarrow> string option" where
  "resolve_action_class rx t args =
     (case tm_selector t of
        None \<Rightarrow> if class_capability (tm_class t) = None then None else Some (tm_class t)
      | Some sel \<Rightarrow>
          (case extract_id rx (selector_extractor (as_pointer sel)) args of
             None \<Rightarrow> None
           | Some value \<Rightarrow> map_of (as_cases sel) value))"

end
