(* ===== verification/Engine.thy ===== *)
theory Engine
  imports Manifest Audit_Model
begin

text \<open>
  \<open>internal/server/connectors/{engine,audit}.go\<close>: the registered manifest, the authorization
  decision for a tool call, and the audit rows derived from it.
\<close>

section \<open>Requests and decisions\<close>

definition reason_unknown_provider :: string where "reason_unknown_provider = ''unknown_provider''"
definition reason_unmapped_tool :: string where "reason_unmapped_tool = ''unmapped_tool''"
definition reason_excluded_tool :: string where "reason_excluded_tool = ''excluded_tool''"
definition reason_unresolved_action :: string where "reason_unresolved_action = ''unresolved_action''"
definition reason_capability_missing :: string where "reason_capability_missing = ''capability_missing''"
definition reason_unauthenticated :: string where "reason_unauthenticated = ''unauthenticated''"
definition reason_invalid_actor :: string where "reason_invalid_actor = ''invalid_actor''"

lemmas reason_defs = reason_unknown_provider_def reason_unmapped_tool_def reason_excluded_tool_def
  reason_unresolved_action_def reason_capability_missing_def reason_unauthenticated_def
  reason_invalid_actor_def

record tool_caller =
  tc_actor :: actor_kind
  tc_obs_node :: string
  tc_obs_name :: string
  tc_machine :: string
  tc_harness :: string
  tc_grant :: string
  tc_caps :: "string list"

text \<open>The empty actor kind means a machine.\<close>

definition actor_of :: "tool_caller \<Rightarrow> actor_kind" where
  "actor_of c = (if tc_actor c = ActorText [] then ActorMachine else tc_actor c)"

definition has_capability :: "tool_caller \<Rightarrow> string \<Rightarrow> bool" where
  "has_capability c want \<longleftrightarrow> list_ex (\<lambda>got. policy_normalize got = want) (tc_caps c)"

record tool_request =
  tr_provider :: string
  tr_tool :: string
  tr_args :: string
  tr_caller :: tool_caller

record decision =
  dc_allowed :: bool
  dc_reason :: string
  dc_class :: string
  dc_required :: string
  dc_mapping :: "tool_mapping option"
  dc_exclusion :: string
  dc_guard_reason :: string

definition refused :: "string \<Rightarrow> decision" where
  "refused reason = \<lparr>dc_allowed = False, dc_reason = reason, dc_class = action_unknown,
     dc_required = [], dc_mapping = None, dc_exclusion = [], dc_guard_reason = []\<rparr>"

definition policy_violation :: "decision \<Rightarrow> bool" where
  "policy_violation d \<longleftrightarrow> dc_reason d \<in> {reason_unknown_provider, reason_unmapped_tool,
     reason_excluded_tool, reason_unresolved_action}"

section \<open>Registration\<close>

record registration =
  rg_connector :: connector
  rg_tools :: "string \<Rightarrow> tool_mapping option"
  rg_excluded :: "string \<Rightarrow> string option"

record engine =
  en_manifest :: manifest
  en_connectors :: "string \<Rightarrow> registration option"

definition index_tools :: "tool_mapping list \<Rightarrow> string \<Rightarrow> tool_mapping option" where
  "index_tools ts = foldl (\<lambda>m t. m(tm_tool t \<mapsto> t)) Map.empty ts"

definition index_excluded :: "excluded_tool list \<Rightarrow> string \<Rightarrow> string option" where
  "index_excluded xs = foldl (\<lambda>m x. m(xt_tool x \<mapsto> xt_reason x)) Map.empty xs"

definition register_connector :: "connector \<Rightarrow> registration" where
  "register_connector c = \<lparr>rg_connector = c, rg_tools = index_tools (cn_tools c),
     rg_excluded = index_excluded (cn_excluded c)\<rparr>"

definition register :: "regex_engine \<Rightarrow> manifest \<Rightarrow> manifest_error + engine" where
  "register rx m =
     (case validate_manifest rx m of
        Some err \<Rightarrow> Inl err
      | None \<Rightarrow> Inr \<lparr>en_manifest = m,
          en_connectors = foldl (\<lambda>e c. e(cn_provider c \<mapsto> register_connector c)) Map.empty (mf_connectors m)\<rparr>)"

definition engine_connector :: "engine \<Rightarrow> string \<Rightarrow> connector option" where
  "engine_connector e provider = map_option rg_connector (en_connectors e provider)"

definition unmapped_tools :: "engine \<Rightarrow> string \<Rightarrow> string list \<Rightarrow> string list" where
  "unmapped_tools e provider advertised =
     (case en_connectors e provider of
        None \<Rightarrow> sort_strings advertised
      | Some reg \<Rightarrow> sort_strings (filter (\<lambda>t. rg_tools reg t = None) advertised))"

section \<open>The decision\<close>

text \<open>The guard loop: the first guard that applies and whose capability the caller lacks.\<close>

definition failing_guard :: "regex_engine \<Rightarrow> tool_request \<Rightarrow> argument_guard list \<Rightarrow> argument_guard option" where
  "failing_guard rx req gs =
     List.find (\<lambda>g. guard_applies rx g (tr_args req) \<and> \<not> has_capability (tr_caller req) (ag_capability g)) gs"

definition capability_of :: "string \<Rightarrow> string" where
  "capability_of cls = (case class_capability cls of None \<Rightarrow> [] | Some c \<Rightarrow> c)"

definition authorize_mapped :: "regex_engine \<Rightarrow> tool_request \<Rightarrow> tool_mapping \<Rightarrow> decision" where
  "authorize_mapped rx req t =
     (case resolve_action_class rx t (tr_args req) of
        None \<Rightarrow> (refused reason_unresolved_action)\<lparr>dc_mapping := Some t\<rparr>
      | Some cls \<Rightarrow>
          (let need = capability_of cls in
           if \<not> has_capability (tr_caller req) need
           then \<lparr>dc_allowed = False, dc_reason = reason_capability_missing, dc_class = cls,
                 dc_required = need, dc_mapping = Some t, dc_exclusion = [], dc_guard_reason = []\<rparr>
           else (case failing_guard rx req (tm_guards t) of
               Some g \<Rightarrow> \<lparr>dc_allowed = False, dc_reason = reason_capability_missing, dc_class = cls,
                 dc_required = ag_capability g, dc_mapping = Some t, dc_exclusion = [],
                 dc_guard_reason = ag_reason g\<rparr>
             | None \<Rightarrow> \<lparr>dc_allowed = True, dc_reason = [], dc_class = cls, dc_required = need,
                 dc_mapping = Some t, dc_exclusion = [], dc_guard_reason = []\<rparr>)))"

text \<open>After the caller is accepted: the connector, then the tool.\<close>

definition authorize_tool :: "regex_engine \<Rightarrow> engine \<Rightarrow> tool_request \<Rightarrow> decision" where
  "authorize_tool rx e req =
     (case en_connectors e (tr_provider req) of
        None \<Rightarrow> refused reason_unknown_provider
      | Some reg \<Rightarrow>
          (case rg_tools reg (tr_tool req) of
             None \<Rightarrow>
               (case rg_excluded reg (tr_tool req) of
                  Some why \<Rightarrow> (refused reason_excluded_tool)\<lparr>dc_exclusion := why\<rparr>
                | None \<Rightarrow> refused reason_unmapped_tool)
           | Some t \<Rightarrow> authorize_mapped rx req t))"

definition authorize :: "regex_engine \<Rightarrow> engine \<Rightarrow> tool_request \<Rightarrow> decision" where
  "authorize rx e req =
     (let c = tr_caller req in
      case actor_of c of
        ActorMachine \<Rightarrow>
          if tc_machine c = [] \<or> tc_grant c = [] \<or> tc_harness c = []
          then refused reason_unauthenticated else authorize_tool rx e req
      | ActorOperator \<Rightarrow> authorize_tool rx e req
      | ActorSystem \<Rightarrow> authorize_tool rx e req
      | ActorText k \<Rightarrow> refused reason_invalid_actor)"

text \<open>\<open>DeniedError\<close>, by what its text names.\<close>

datatype denied_error =
    DeniedUnknownConnector string
  | DeniedUnmapped string
  | DeniedExcluded string string
  | DeniedUnresolved string
  | DeniedGuard string string string
  | DeniedCapability string string string
  | DeniedUnauthenticated
  | DeniedActor
  | DeniedOther string

definition denied_error_of :: "decision \<Rightarrow> tool_request \<Rightarrow> denied_error" where
  "denied_error_of d req =
     (if dc_reason d = reason_unknown_provider then DeniedUnknownConnector (tr_provider req)
      else if dc_reason d = reason_unmapped_tool then DeniedUnmapped (tr_tool req)
      else if dc_reason d = reason_excluded_tool then DeniedExcluded (tr_tool req) (dc_exclusion d)
      else if dc_reason d = reason_unresolved_action then DeniedUnresolved (tr_tool req)
      else if dc_reason d = reason_capability_missing
      then (if dc_guard_reason d \<noteq> [] then DeniedGuard (tr_tool req) (dc_required d) (dc_guard_reason d)
            else DeniedCapability (tr_tool req) (dc_class d) (dc_required d))
      else if dc_reason d = reason_unauthenticated then DeniedUnauthenticated
      else if dc_reason d = reason_invalid_actor then DeniedActor
      else DeniedOther (dc_reason d))"

section \<open>Audit rows\<close>

definition safe_name_re :: "string \<Rightarrow> bool" where
  "safe_name_re = matches_shape is_alnum (\<lambda>c. is_alnum c \<or> c \<in> set ''._@/-'')"

definition unnamed_marker :: string where "unnamed_marker = ''unnamed''"
definition unrecognized_prefix :: string where "unrecognized_prefix = ''unrecognized-''"
definition name_digest_domain :: string where "name_digest_domain = ''homeplane/connector-name'' @ [chr 0]"
definition name_digest_len :: nat where "name_digest_len = 12"

definition safe_name :: "string \<Rightarrow> string" where
  "safe_name raw =
     (if raw = [] then unnamed_marker
      else if length raw \<le> max_identifier_len \<and> safe_name_re raw then raw
      else unrecognized_prefix @ take name_digest_len (hex_encode (sha256 (name_digest_domain @ raw))))"

definition truncate_detail :: "string \<Rightarrow> string" where
  "truncate_detail s = (if length s \<le> max_detail_value_len then s else take max_detail_value_len s)"

text \<open>The loop over candidates: the first of the given source that finds something.\<close>

fun first_artifact :: "regex_engine \<Rightarrow> string \<Rightarrow> string \<Rightarrow> extractor list \<Rightarrow> string option" where
  "first_artifact rx src doc [] = None"
| "first_artifact rx src doc (ex # exs) =
     (if ex_source ex \<noteq> src then first_artifact rx src doc exs
      else case extract_id rx ex doc of Some i \<Rightarrow> Some i | None \<Rightarrow> first_artifact rx src doc exs)"

definition mapping_extractors :: "decision \<Rightarrow> extractor list" where
  "mapping_extractors d = (case dc_mapping d of None \<Rightarrow> [] | Some t \<Rightarrow> tm_artifact t)"

definition call_event :: "regex_engine \<Rightarrow> tool_request \<Rightarrow> decision \<Rightarrow> string \<Rightarrow> audit_event" where
  "call_event rx req d call_id =
     (let c = tr_caller req;
          (kind, oc, reason) =
            (if dc_allowed d then (EventConnectorToolCall, OutcomeAllowed, [])
             else if policy_violation d then (EventPolicyViolation, OutcomeDenied, dc_reason d)
             else (EventConnectorDenied, OutcomeDenied, dc_reason d));
          artifact = (case first_artifact rx from_request (tr_args req) (mapping_extractors d) of
                        None \<Rightarrow> artifact_unknown | Some i \<Rightarrow> i);
          detail = [(''provider'', safe_name (tr_provider req)), (''call_id'', call_id)]
            @ (if dc_required d \<noteq> [] then [(''required_capability'', dc_required d)] else [])
            @ (if dc_exclusion d \<noteq> [] then [(''exclusion_reason'', truncate_detail (dc_exclusion d))] else [])
            @ (if artifact = artifact_unknown then [(''args_digest'', args_digest (tr_args req))] else [])
      in (mk_event kind (actor_of c) oc)
           \<lparr>ev_obs_node := tc_obs_node c, ev_obs_name := tc_obs_name c, ev_machine := tc_machine c,
            ev_harness := tc_harness c, ev_grant := tc_grant c, ev_class := dc_class d,
            ev_tool := safe_name (tr_tool req), ev_artifact := artifact, ev_reason := reason,
            ev_detail := detail\<rparr>)"

definition result_event :: "regex_engine \<Rightarrow> tool_request \<Rightarrow> decision \<Rightarrow> string \<Rightarrow> string option \<Rightarrow> audit_event" where
  "result_event rx req d call_id resp =
     (let e = (call_event rx req d call_id)\<lparr>ev_event := EventConnectorToolResult\<rparr> in
      case resp of
        None \<Rightarrow> e\<lparr>ev_reason := ''tool_failed''\<rparr>
      | Some r \<Rightarrow>
          if ev_artifact e = artifact_unknown
          then (case first_artifact rx from_response r (mapping_extractors d) of
                  None \<Rightarrow> e
                | Some i \<Rightarrow> e\<lparr>ev_artifact := i, ev_detail := assoc_del ''args_digest'' (ev_detail e)\<rparr>)
          else e)"

section \<open>Facts about the decision\<close>

lemma refused_simps [simp]:
  "dc_allowed (refused r) = False" "dc_reason (refused r) = r" "dc_required (refused r) = []"
  "dc_mapping (refused r) = None" "dc_class (refused r) = action_unknown" "dc_exclusion (refused r) = []"
  by (simp_all add: refused_def)

lemma failing_guard_None_iff:
  "failing_guard rx req gs = None \<longleftrightarrow>
     (\<forall>g \<in> set gs. guard_applies rx g (tr_args req) \<longrightarrow> has_capability (tr_caller req) (ag_capability g))"
  by (auto simp: failing_guard_def find_None_iff)

lemma failing_guard_SomeD:
  "failing_guard rx req gs = Some g \<Longrightarrow>
     g \<in> set gs \<and> guard_applies rx g (tr_args req) \<and> \<not> has_capability (tr_caller req) (ag_capability g)"
  by (auto simp: failing_guard_def find_Some_iff)

lemma authorize_allowedD:
  assumes "dc_allowed (authorize rx e req)"
  obtains reg t cls where "en_connectors e (tr_provider req) = Some reg"
    "rg_tools reg (tr_tool req) = Some t" "resolve_action_class rx t (tr_args req) = Some cls"
    "has_capability (tr_caller req) (capability_of cls)" "failing_guard rx req (tm_guards t) = None"
    "authorize rx e req = \<lparr>dc_allowed = True, dc_reason = [], dc_class = cls,
       dc_required = capability_of cls, dc_mapping = Some t, dc_exclusion = [], dc_guard_reason = []\<rparr>"
    "actor_of (tr_caller req) = ActorMachine \<Longrightarrow>
       tc_machine (tr_caller req) \<noteq> [] \<and> tc_grant (tr_caller req) \<noteq> [] \<and> tc_harness (tr_caller req) \<noteq> []"
    "actor_of (tr_caller req) \<in> {ActorMachine, ActorOperator, ActorSystem}"
  using assms
  by (auto simp: authorize_def authorize_tool_def authorize_mapped_def Let_def
      split: actor_kind.splits option.splits if_splits)

lemma call_event_allowed: "dc_allowed d \<Longrightarrow>
    ev_event (call_event rx req d cid) = EventConnectorToolCall
    \<and> ev_outcome (call_event rx req d cid) = OutcomeAllowed"
  by (simp add: call_event_def Let_def mk_event_def)

lemma call_event_denied: "\<not> dc_allowed d \<Longrightarrow>
    ev_event (call_event rx req d cid) \<in> {EventPolicyViolation, EventConnectorDenied}
    \<and> ev_outcome (call_event rx req d cid) = OutcomeDenied \<and> ev_reason (call_event rx req d cid) = dc_reason d"
  by (simp add: call_event_def Let_def mk_event_def)

lemma call_event_identity:
  "ev_machine (call_event rx req d cid) = tc_machine (tr_caller req)"
  "ev_grant (call_event rx req d cid) = tc_grant (tr_caller req)"
  "ev_obs_node (call_event rx req d cid) = tc_obs_node (tr_caller req)"
  "ev_tool (call_event rx req d cid) = safe_name (tr_tool req)"
  "ev_class (call_event rx req d cid) = dc_class d"
  by (simp_all add: call_event_def Let_def mk_event_def split: prod.split)

end
