(* ===== verification/Engine_Props.thy ===== *)
theory Engine_Props
  imports Engine "HOL-Library.Multiset"
begin

text \<open>
  What validation and authorization decide: a valid manifest accounts for every tool, a decision
  is exactly the conditions it should be, more authority never turns an admission into a
  refusal, every row of a decision can be written, and digests see through formatting.
\<close>

section \<open>Registered manifests\<close>

lemma foldl_index:
  assumes "distinct (map key xs)"
  shows "foldl (\<lambda>m x. m(key x \<mapsto> f x)) m0 xs k =
    (case List.find (\<lambda>x. key x = k) xs of Some x \<Rightarrow> Some (f x) | None \<Rightarrow> m0 k)"
  using assms
proof (induction xs arbitrary: m0)
  case (Cons x xs)
  have "List.find (\<lambda>y. key y = k) xs = None" if k: "key x = k"
  proof -
    have "key y \<noteq> k" if "y \<in> set xs" for y using that k Cons.prems by (metis distinct.simps(2) image_eqI list.set_map list.simps(9))
    then show ?thesis by (simp add: find_None_iff)
  qed
  with Cons show ?case by (auto split: option.split)
qed simp

lemma foldl_index_iff:
  assumes "distinct (map key xs)"
  shows "foldl (\<lambda>m x. m(key x \<mapsto> f x)) Map.empty xs k = Some v \<longleftrightarrow> (\<exists>x \<in> set xs. key x = k \<and> f x = v)"
proof -
  have "List.find (\<lambda>x. key x = k) xs = Some x" if "x \<in> set xs" "key x = k" for x
  proof (cases "List.find (\<lambda>x. key x = k) xs")
    case None
    with that show ?thesis by (auto simp: find_None_iff)
  next
    case (Some y)
    then have "y \<in> set xs" "key y = k" by (auto simp: find_Some_iff)
    with distinct_map_eqD [OF assms \<open>y \<in> set xs\<close> that(1)] that(2) Some show ?thesis by simp
  qed
  note found = this
  show ?thesis
  proof (cases "List.find (\<lambda>x. key x = k) xs")
    case None
    with found show ?thesis unfolding foldl_index [OF assms] by auto
  next
    case (Some x)
    then have "x \<in> set xs" "key x = k" by (auto simp: find_Some_iff)
    with Some found show ?thesis unfolding foldl_index [OF assms] by fastforce
  qed
qed

lemma classify_tools_InrD:
  "classify_tools rx p ts seen = Inr out \<Longrightarrow>
     (\<forall>t \<in> set ts. validate_mapping rx p t = None) \<and> set out = set seen \<union> tm_tool ` set ts
     \<and> distinct (map tm_tool ts) \<and> set seen \<inter> tm_tool ` set ts = {}"
proof (induction ts arbitrary: seen)
  case (Cons t ts)
  then have "validate_mapping rx p t = None" "tm_tool t \<notin> set seen"
    "classify_tools rx p ts (tm_tool t # seen) = Inr out" by (auto split: option.splits if_splits)
  with Cons.IH [OF this(3)] show ?case by auto
qed simp

lemma classify_excluded_InrD:
  "classify_excluded p xs seen = Inr out \<Longrightarrow>
     (\<forall>x \<in> set xs. validate_tool_name p (xt_tool x) = None) \<and> set out = set seen \<union> xt_tool ` set xs
     \<and> distinct (map xt_tool xs) \<and> set seen \<inter> xt_tool ` set xs = {}"
proof (induction xs arbitrary: seen)
  case (Cons x xs)
  then have "validate_tool_name p (xt_tool x) = None" "xt_tool x \<notin> set seen"
    "classify_excluded p xs (xt_tool x # seen) = Inr out" by (auto split: option.splits if_splits)
  with Cons.IH [OF this(3)] show ?case by auto
qed simp

lemma check_inventory_InrD:
  "check_inventory p cls tools ivs miss = Inr out \<Longrightarrow>
     distinct tools \<and> set out = set miss \<union> (set tools - set cls)"
proof (induction tools arbitrary: ivs miss)
  case (Cons t ts)
  then have "t \<notin> set ivs"
    and rest: "check_inventory p cls ts (t # ivs) (if t \<in> set cls then miss else miss @ [t]) = Inr out"
    by (auto split: option.splits if_splits)
  have "t \<notin> set ts"
  proof -
    have "u \<notin> set us" if "check_inventory p cls us ivs' miss' = Inr out'" "u \<in> set ivs'" for u us ivs' miss' out'
      using that
    proof (induction us arbitrary: ivs' miss')
      case (Cons w ws)
      then have "w \<notin> set ivs'"
        "check_inventory p cls ws (w # ivs') (if w \<in> set cls then miss' else miss' @ [w]) = Inr out'"
        by (auto split: option.splits if_splits)
      with Cons.IH [OF this(2)] Cons.prems(2) show ?case by auto
    qed simp
    from this [OF rest] show ?thesis by simp
  qed
  with Cons.IH [OF rest] show ?case by (auto split: if_splits)
qed simp

definition tool_names :: "connector \<Rightarrow> string set" where
  "tool_names c = tm_tool ` set (cn_tools c)"

definition excluded_names :: "connector \<Rightarrow> string set" where
  "excluded_names c = xt_tool ` set (cn_excluded c)"

lemma sort_strings_Nil_iff [simp]: "sort_strings xs = [] \<longleftrightarrow> xs = []"
  by (metis length_0_conv length_sort sort_strings_def)

lemma validate_connectorD:
  assumes "validate_connector rx c = None"
  shows "\<forall>t \<in> set (cn_tools c). validate_mapping rx (cn_provider c) t = None"
    "distinct (map tm_tool (cn_tools c))" "distinct (map xt_tool (cn_excluded c))"
    "tool_names c \<inter> excluded_names c = {}"
    "cn_inventory c \<noteq> [] \<Longrightarrow> set (cn_inventory c) = tool_names c \<union> excluded_names c"
    "cn_tools c \<noteq> [] \<or> cn_excluded c \<noteq> []"
    "validate_identifier ''provider'' (cn_provider c) = None"
proof -
  have ne: "\<not> (cn_tools c = [] \<and> cn_excluded c = [])" and ident: "validate_identifier ''provider'' (cn_provider c) = None"
    using assms by (auto simp: validate_connector_def Let_def split: if_splits)
  then obtain seen classified where s: "classify_tools rx (cn_provider c) (cn_tools c) [] = Inr seen"
    "classify_excluded (cn_provider c) (cn_excluded c) seen = Inr classified"
    "validate_inventory (cn_provider c) classified (cn_inventory c) = None"
    using assms by (auto simp: validate_connector_def Let_def split: sum.splits if_splits)
  note t = classify_tools_InrD [OF s(1)] and x = classify_excluded_InrD [OF s(2)]
  show "\<forall>t \<in> set (cn_tools c). validate_mapping rx (cn_provider c) t = None"
    "distinct (map tm_tool (cn_tools c))" "distinct (map xt_tool (cn_excluded c))"
    "tool_names c \<inter> excluded_names c = {}" "cn_tools c \<noteq> [] \<or> cn_excluded c \<noteq> []"
    using t x ne by (auto simp: tool_names_def excluded_names_def)
  show "validate_identifier ''provider'' (cn_provider c) = None" by (rule ident)
  assume inv: "cn_inventory c \<noteq> []"
  then have miss: "check_inventory (cn_provider c) classified (cn_inventory c) [] [] = Inr []"
    and ph: "filter (\<lambda>u. u \<notin> set (cn_inventory c)) classified = []"
    using s(3) by (auto simp: validate_inventory_def Let_def split: sum.splits if_splits)
  from check_inventory_InrD [OF miss] ph t x
  show "set (cn_inventory c) = tool_names c \<union> excluded_names c"
    by (auto simp: tool_names_def excluded_names_def filter_empty_conv)
qed

lemma validate_connectors_NoneD:
  "validate_connectors rx i cs seen = None \<Longrightarrow>
     (\<forall>c \<in> set cs. validate_connector rx c = None) \<and> distinct (map cn_provider cs)
     \<and> set seen \<inter> cn_provider ` set cs = {}"
proof (induction cs arbitrary: i seen)
  case (Cons c cs)
  then have "validate_connector rx c = None" "cn_provider c \<notin> set seen"
    "validate_connectors rx (Suc i) cs (cn_provider c # seen) = None" by (auto split: option.splits if_splits)
  with Cons.IH [OF this(3)] show ?case by auto
qed simp

lemma registerD:
  assumes "register rx m = Inr e"
  shows "validate_manifest rx m = None"
    "en_connectors e p = Some reg \<longleftrightarrow>
       (\<exists>c \<in> set (mf_connectors m). cn_provider c = p \<and> reg = register_connector c)"
    "c \<in> set (mf_connectors m) \<Longrightarrow> validate_connector rx c = None"
proof -
  show v: "validate_manifest rx m = None" using assms by (auto simp: register_def split: option.splits)
  then have cs: "validate_connectors rx 0 (mf_connectors m) [] = None"
    by (auto simp: validate_manifest_def split: if_splits)
  note d = validate_connectors_NoneD [OF cs]
  show "en_connectors e p = Some reg \<longleftrightarrow>
       (\<exists>c \<in> set (mf_connectors m). cn_provider c = p \<and> reg = register_connector c)"
    using assms d v foldl_index_iff [of cn_provider "mf_connectors m" register_connector p reg]
    by (auto simp: register_def split: option.splits)
  show "validate_connector rx c = None" if "c \<in> set (mf_connectors m)" using d that by blast
qed

lemma index_tools_iff:
  "distinct (map tm_tool ts) \<Longrightarrow> index_tools ts k = Some t \<longleftrightarrow> t \<in> set ts \<and> tm_tool t = k"
  unfolding index_tools_def using foldl_index_iff [of tm_tool ts "\<lambda>t. t" k t] by auto

lemma index_excluded_iff:
  "distinct (map xt_tool xs) \<Longrightarrow> index_excluded xs k = Some w \<longleftrightarrow> (\<exists>x \<in> set xs. xt_tool x = k \<and> xt_reason x = w)"
  unfolding index_excluded_def using foldl_index_iff [of xt_tool xs xt_reason k w] by auto

section \<open>A sample manifest\<close>

definition sample_tool :: tool_mapping where
  "sample_tool = \<lparr>tm_tool = ''manage_event'', tm_class = [],
     tm_selector = Some \<lparr>as_pointer = ''$.action'',
       as_cases = [(''create'', ''write''), (''delete'', ''delete'')]\<rparr>,
     tm_capability = [], tm_artifact = [],
     tm_guards = [\<lparr>ag_pointer = ''$.send_updates'', ag_unless_in = [''none''],
       ag_capability = ''connector.send'', ag_reason = ''notifies attendees''\<rparr>]\<rparr>"

definition sample_connector :: connector where
  "sample_connector = \<lparr>cn_provider = ''calendar'', cn_credential_ref = ''google'',
     cn_credential = \<lparr>cq_driver = ''oauth2-authcode'',
       cq_params = [(''auth_endpoint'', ''https://a.b/auth''), (''token_endpoint'', ''https://a.b/token''),
                    (''client_id_ref'', ''cid''), (''client_secret_ref'', ''csec'')],
       cq_scopes = [''events'']\<rparr>,
     cn_delivery = None,
     cn_server = \<lparr>ms_name = ''cal'', ms_transport = ''stdio'', ms_source = ''img''\<rparr>,
     cn_inventory = [''manage_event'', ''drop_all''], cn_tools = [sample_tool],
     cn_excluded = [\<lparr>xt_tool = ''drop_all'', xt_reason = ''too broad''\<rparr>]\<rparr>"

definition sample_manifest :: manifest where
  "sample_manifest = \<lparr>mf_version = 1, mf_connectors = [sample_connector]\<rparr>"

definition no_regex :: regex_engine where
  "no_regex = (\<lambda>_. None)"

definition sample_engine :: engine where
  "sample_engine = \<lparr>en_manifest = sample_manifest,
     en_connectors = Map.empty(''calendar'' \<mapsto> register_connector sample_connector)\<rparr>"

definition sample_tool_request :: "string list \<Rightarrow> string \<Rightarrow> tool_request" where
  "sample_tool_request caps args = \<lparr>tr_provider = ''calendar'', tr_tool = ''manage_event'', tr_args = args,
     tr_caller = \<lparr>tc_actor = ActorMachine, tc_obs_node = ''n1'', tc_obs_name = ''laptop'',
       tc_machine = ''m-01'', tc_harness = ''codex'', tc_grant = ''g-01'', tc_caps = caps\<rparr>\<rparr>"

lemma sample_manifest_valid: "validate_manifest no_regex sample_manifest = None"
  by code_simp

lemma sample_registers: "register no_regex sample_manifest = Inr sample_engine"
  using sample_manifest_valid
  by (simp add: register_def sample_engine_def sample_manifest_def sample_connector_def)

section \<open>Manifests\<close>

lemma validate_guardD: "validate_guard p k g = None \<Longrightarrow> ag_capability g \<in> set known_capabilities"
  by (simp add: validate_guard_def split: if_splits)

lemma validate_selectorD:
  "validate_selector p t sel = None \<Longrightarrow> (value, cls) \<in> set (as_cases sel) \<Longrightarrow> class_capability cls \<noteq> None"
  by (auto simp: validate_selector_def split: if_splits)

lemma validate_mappingD:
  assumes "validate_mapping rx p t = None"
  shows "tm_selector t = None \<Longrightarrow> \<exists>want. class_capability (tm_class t) = Some want \<and> tm_capability t \<in> {[], want}"
    "tm_selector t = Some sel \<Longrightarrow> \<forall>(value, cls) \<in> set (as_cases sel). class_capability cls \<noteq> None"
    "g \<in> set (tm_guards t) \<Longrightarrow> ag_capability g \<in> set known_capabilities"
proof -
  show "\<exists>want. class_capability (tm_class t) = Some want \<and> tm_capability t \<in> {[], want}"
    if "tm_selector t = None"
    using assms that by (simp add: validate_mapping_def split: option.splits if_splits)
  show "\<forall>(value, cls) \<in> set (as_cases sel). class_capability cls \<noteq> None" if "tm_selector t = Some sel"
  proof -
    have "validate_selector p t sel = None" using assms that by (simp add: validate_mapping_def)
    then show ?thesis using validate_selectorD by blast
  qed
  show "ag_capability g \<in> set known_capabilities" if "g \<in> set (tm_guards t)"
  proof -
    have "validate_guard p (tm_tool t) g = None" using assms that by (simp add: validate_mapping_def)
    then show ?thesis by (rule validate_guardD)
  qed
qed



text \<open>
  The extractors of a tool that is classified by a selector are not validated at all: whatever
  artifact extractors the mapping declares, with a bad pointer, a pattern that does not compile or
  a step that is both a match and a decoding, validation of the mapping gives the same result.
\<close>

theorem selector_extractors_unchecked:
  assumes "tm_selector t = Some sel"
  shows "validate_mapping rx p (t\<lparr>tm_artifact := exs\<rparr>) = validate_mapping rx p t"
proof -
  have "validate_selector p (t\<lparr>tm_artifact := exs\<rparr>) sel = validate_selector p t sel"
    by (simp add: validate_selector_def cong del: if_weak_cong)
  then show ?thesis using assms by (simp add: validate_mapping_def)
qed

lemma selector_extractors_unchecked_witness:
  "let bad = \<lparr>ex_source = ''nowhere'', ex_pointer = ''no pointer'', ex_steps = [\<lparr>es_match = ''('', es_decode = ''rot13''\<rparr>]\<rparr>
   in validate_extractor no_regex ''calendar'' ''manage_event'' bad \<noteq> None
      \<and> validate_mapping no_regex ''calendar'' (sample_tool\<lparr>tm_artifact := [bad]\<rparr>) = None"
proof -
  let ?bad = "\<lparr>ex_source = ''nowhere'', ex_pointer = ''no pointer'', ex_steps = [\<lparr>es_match = ''('', es_decode = ''rot13''\<rparr>]\<rparr>"
  have "validate_extractor no_regex ''calendar'' ''manage_event'' ?bad \<noteq> None" by code_simp
  moreover have "validate_mapping no_regex ''calendar'' sample_tool = None" by code_simp
  moreover have "tm_selector sample_tool = Some \<lparr>as_pointer = ''$.action'',
      as_cases = [(''create'', ''write''), (''delete'', ''delete'')]\<rparr>" by (simp add: sample_tool_def)
  ultimately show ?thesis
    using selector_extractors_unchecked [of sample_tool _ no_regex "''calendar''" "[?bad]"] by (simp add: Let_def)
qed

section \<open>Authorization\<close>

text \<open>The caller of an admissible call is an operator, the system, or a fully attributed machine.\<close>

definition attributed :: "tool_caller \<Rightarrow> bool" where
  "attributed c \<longleftrightarrow>
     (case actor_of c of
        ActorMachine \<Rightarrow> tc_machine c \<noteq> [] \<and> tc_grant c \<noteq> [] \<and> tc_harness c \<noteq> []
      | ActorOperator \<Rightarrow> True | ActorSystem \<Rightarrow> True | ActorText k \<Rightarrow> False)"

lemma lookup_tool:
  assumes "register rx m = Inr e" "c \<in> set (mf_connectors m)" "cn_provider c = p"
  shows "en_connectors e p = Some (register_connector c)"
    "rg_tools (register_connector c) k = Some t \<longleftrightarrow> t \<in> set (cn_tools c) \<and> tm_tool t = k"
    "rg_excluded (register_connector c) k = Some w \<longleftrightarrow> (\<exists>x \<in> set (cn_excluded c). xt_tool x = k \<and> xt_reason x = w)"
proof -
  note v = validate_connectorD [OF registerD(3) [OF assms(1,2)]]
  show "en_connectors e p = Some (register_connector c)" using assms registerD(2) [OF assms(1)] by blast
  show "rg_tools (register_connector c) k = Some t \<longleftrightarrow> t \<in> set (cn_tools c) \<and> tm_tool t = k"
    using v(2) by (simp add: register_connector_def index_tools_iff)
  show "rg_excluded (register_connector c) k = Some w \<longleftrightarrow> (\<exists>x \<in> set (cn_excluded c). xt_tool x = k \<and> xt_reason x = w)"
    using v(3) by (simp add: register_connector_def index_excluded_iff)
qed

lemma authorize_attributed: "attributed (tr_caller req) \<Longrightarrow> authorize rx e req = authorize_tool rx e req"
  by (auto simp: authorize_def attributed_def Let_def split: actor_kind.splits)

lemmas authorize_lookup = authorize_attributed [unfolded authorize_tool_def]

lemma authorize_unattributed: "\<not> attributed (tr_caller req) \<Longrightarrow> \<not> dc_allowed (authorize rx e req)"
  by (auto simp: authorize_def attributed_def Let_def split: actor_kind.splits)

definition carries_authority :: "regex_engine \<Rightarrow> tool_request \<Rightarrow> tool_mapping \<Rightarrow> bool" where
  "carries_authority rx req t \<longleftrightarrow>
     (\<exists>cls. resolve_action_class rx t (tr_args req) = Some cls \<and> has_capability (tr_caller req) (capability_of cls)
        \<and> (\<forall>g \<in> set (tm_guards t). guard_applies rx g (tr_args req)
             \<longrightarrow> has_capability (tr_caller req) (ag_capability g)))"

lemma authorize_mapped_allowed:
  "dc_allowed (authorize_mapped rx req t) \<longleftrightarrow> carries_authority rx req t"
  by (auto simp: carries_authority_def authorize_mapped_def Let_def failing_guard_None_iff [symmetric] split: option.split)

text \<open>
  C7. A call is admitted exactly when it should be: its caller is attributed, the manifest maps the
  named tool of the named connector, the call's action class can be established, and the caller's
  grant carries the class's capability and the capability of every guard that applies to the
  arguments.
\<close>

theorem authorize_exact:
  assumes "register rx m = Inr e"
  shows "dc_allowed (authorize rx e req) \<longleftrightarrow>
    attributed (tr_caller req) \<and>
    (\<exists>c \<in> set (mf_connectors m). cn_provider c = tr_provider req \<and>
      (\<exists>t \<in> set (cn_tools c). tm_tool t = tr_tool req \<and> carries_authority rx req t))"
proof (cases "attributed (tr_caller req)")
  case False
  with authorize_unattributed show ?thesis by blast
next
  case True
  show ?thesis
  proof (cases "\<exists>c \<in> set (mf_connectors m). cn_provider c = tr_provider req")
    case False
    then have "en_connectors e (tr_provider req) = None"
      using registerD(2) [OF assms] by (cases "en_connectors e (tr_provider req)") auto
    with True False show ?thesis by (auto simp: authorize_lookup)
  next
    case c_ex: True
    then obtain c where c: "c \<in> set (mf_connectors m)" "cn_provider c = tr_provider req" by blast
    note look = lookup_tool [OF assms c]
    have uniq: "c' = c" if "c' \<in> set (mf_connectors m)" "cn_provider c' = tr_provider req" for c'
      using lookup_tool(1) [OF assms that] look(1) by (simp add: register_connector_def)
    show ?thesis
    proof (cases "rg_tools (register_connector c) (tr_tool req)")
      case None
      then have none: "tm_tool t \<noteq> tr_tool req" if "t \<in> set (cn_tools c)" for t
        using look(2) [of "tr_tool req" t] that by auto
      have "\<not> dc_allowed (authorize rx e req)"
        using True None look(1) by (simp add: authorize_lookup split: option.split)
      moreover have "\<not> (\<exists>t \<in> set (cn_tools c'). tm_tool t = tr_tool req)"
        if "c' \<in> set (mf_connectors m)" "cn_provider c' = tr_provider req" for c'
        using none uniq [OF that] by blast
      ultimately show ?thesis by blast
    next
      case (Some t)
      then have t: "t \<in> set (cn_tools c)" "tm_tool t = tr_tool req" using look(2) by auto
      have t_uniq: "t' = t" if "t' \<in> set (cn_tools c)" "tm_tool t' = tr_tool req" for t'
        using look(2) [of "tr_tool req" t'] that Some by simp
      have "authorize rx e req = authorize_mapped rx req t"
        using True Some look(1) by (simp add: authorize_lookup)
      then have "dc_allowed (authorize rx e req) \<longleftrightarrow> carries_authority rx req t"
        by (simp add: authorize_mapped_allowed)
      with True c t uniq t_uniq show ?thesis by blast
    qed
  qed
qed

lemma authorize_exact_witness:
  "dc_allowed (authorize no_regex sample_engine
     (sample_tool_request [''connector.write''] ''{\"action\":\"create\",\"send_updates\":\"none\"}''))
   \<and> \<not> dc_allowed (authorize no_regex sample_engine (sample_tool_request [''connector.write''] ''{\"action\":\"create\"}''))"
proof -
  define ok where "ok = sample_tool_request [''connector.write''] ''{\"action\":\"create\",\"send_updates\":\"none\"}''"
  define bad where "bad = sample_tool_request [''connector.write''] ''{\"action\":\"create\"}''"
  have "resolve_action_class no_regex sample_tool (tr_args ok) = Some ''write''"
    "has_capability (tr_caller ok) (capability_of ''write'')"
    "list_all (\<lambda>g. \<not> guard_applies no_regex g (tr_args ok)) (tm_guards sample_tool)"
    unfolding ok_def by code_simp+
  then have c_ok: "carries_authority no_regex ok sample_tool"
    by (simp add: carries_authority_def list_all_iff)
  have "list_ex (\<lambda>g. guard_applies no_regex g (tr_args bad) \<and> \<not> has_capability (tr_caller bad) (ag_capability g))
       (tm_guards sample_tool)"
    unfolding bad_def by code_simp
  then have c_bad: "\<not> carries_authority no_regex bad sample_tool"
    by (auto simp: carries_authority_def list_ex_iff)
  have at: "attributed (tr_caller ok)" unfolding ok_def by code_simp
  have names: "mf_connectors sample_manifest = [sample_connector]" "cn_provider sample_connector = tr_provider ok"
    "cn_tools sample_connector = [sample_tool]" "tm_tool sample_tool = tr_tool ok"
    "tr_provider bad = tr_provider ok" "tr_tool bad = tr_tool ok"
    by (simp_all add: sample_manifest_def sample_connector_def sample_tool_def sample_tool_request_def ok_def bad_def)
  have "dc_allowed (authorize no_regex sample_engine ok)" "\<not> dc_allowed (authorize no_regex sample_engine bad)"
    using authorize_exact [OF sample_registers, of ok] authorize_exact [OF sample_registers, of bad]
      c_ok c_bad at by (simp_all add: names)
  then show ?thesis by (simp add: ok_def bad_def)
qed

text \<open>
  A tool nobody classified is refused as a policy violation: an attributed call that names no
  mapped tool of a registered connector is denied, with the reason that says which of the three
  cases it was, and an explicitly excluded tool is told why.
\<close>

theorem unclassified_tools_fail_closed:
  assumes "register rx m = Inr e" "attributed (tr_caller req)"
    "\<not> (\<exists>c \<in> set (mf_connectors m). cn_provider c = tr_provider req \<and> tr_tool req \<in> tool_names c)"
  shows "\<not> dc_allowed (authorize rx e req) \<and> policy_violation (authorize rx e req)
    \<and> dc_class (authorize rx e req) = action_unknown
    \<and> dc_reason (authorize rx e req) =
        (if \<not> (\<exists>c \<in> set (mf_connectors m). cn_provider c = tr_provider req) then reason_unknown_provider
         else if \<exists>c \<in> set (mf_connectors m). cn_provider c = tr_provider req \<and> tr_tool req \<in> excluded_names c
         then reason_excluded_tool else reason_unmapped_tool)"
proof (cases "\<exists>c \<in> set (mf_connectors m). cn_provider c = tr_provider req")
  case False
  then have "en_connectors e (tr_provider req) = None"
    using registerD(2) [OF assms(1)] by (cases "en_connectors e (tr_provider req)") auto
  with assms(2) False show ?thesis by (simp add: authorize_lookup policy_violation_def)
next
  case True
  then obtain c where c: "c \<in> set (mf_connectors m)" "cn_provider c = tr_provider req" by blast
  note look = lookup_tool [OF assms(1) c]
  have uniq: "c' = c" if "c' \<in> set (mf_connectors m)" "cn_provider c' = tr_provider req" for c'
    using lookup_tool(1) [OF assms(1) that] look(1) by (simp add: register_connector_def)
  have no_tool: "rg_tools (register_connector c) (tr_tool req) = None"
  proof (cases "rg_tools (register_connector c) (tr_tool req)")
    case (Some t)
    then have "t \<in> set (cn_tools c)" "tm_tool t = tr_tool req" using look(2) by blast+
    then have "tr_tool req \<in> tool_names c" unfolding tool_names_def by (metis imageI)
    with assms(3) c show ?thesis by blast
  qed
  have excl: "tr_tool req \<in> excluded_names c \<longleftrightarrow> rg_excluded (register_connector c) (tr_tool req) \<noteq> None"
  proof (cases "rg_excluded (register_connector c) (tr_tool req)")
    case None
    then have "xt_tool x \<noteq> tr_tool req" if "x \<in> set (cn_excluded c)" for x
      using look(3) [of "tr_tool req" "xt_reason x"] that by auto
    then have "tr_tool req \<notin> excluded_names c" unfolding excluded_names_def by (metis imageE)
    with None show ?thesis by simp
  next
    case (Some w)
    then obtain x where "x \<in> set (cn_excluded c)" "xt_tool x = tr_tool req" using look(3) by blast
    then have "tr_tool req \<in> excluded_names c" unfolding excluded_names_def by (metis imageI)
    with Some show ?thesis by simp
  qed
  have ex: "(\<exists>c \<in> set (mf_connectors m). cn_provider c = tr_provider req \<and> tr_tool req \<in> excluded_names c)
      \<longleftrightarrow> tr_tool req \<in> excluded_names c" using c uniq by blast
  show ?thesis
    unfolding ex using True assms(2) look(1) no_tool excl
    by (auto simp: authorize_lookup policy_violation_def split: option.split)
qed

lemma unclassified_tools_fail_closed_witness:
  "dc_reason (authorize no_regex sample_engine
     ((sample_tool_request [''connector.write''] ''{}'')\<lparr>tr_tool := ''drop_all''\<rparr>)) = ''excluded_tool''"
proof -
  let ?req = "(sample_tool_request [''connector.write''] ''{}'')\<lparr>tr_tool := ''drop_all''\<rparr>"
  have at: "attributed (tr_caller ?req)" by code_simp
  have names: "mf_connectors sample_manifest = [sample_connector]" "cn_provider sample_connector = ''calendar''"
    "tool_names sample_connector = {''manage_event''}" "excluded_names sample_connector = {''drop_all''}"
    "tr_provider ?req = ''calendar''" "tr_tool ?req = ''drop_all''"
    by (simp_all add: sample_manifest_def sample_connector_def sample_tool_def sample_tool_request_def
        tool_names_def excluded_names_def)
  from unclassified_tools_fail_closed [OF sample_registers at] show ?thesis
    unfolding names by (simp add: names reason_defs)
qed

lemma has_capability_mono:
  "has_capability c want \<Longrightarrow> set (tc_caps c) \<subseteq> set caps \<Longrightarrow> has_capability (c\<lparr>tc_caps := caps\<rparr>) want"
  by (auto simp: has_capability_def list_ex_iff)

text \<open>
  More authority never turns an admission into a refusal, and nothing but the issued set
  matters: a call admitted with some capabilities is admitted, with the same class and required
  capability, by a grant that carries at least those.
\<close>

theorem authorize_monotone:
  assumes "dc_allowed (authorize rx e req)" "set (tc_caps (tr_caller req)) \<subseteq> set caps"
  shows "authorize rx e (req\<lparr>tr_caller := (tr_caller req)\<lparr>tc_caps := caps\<rparr>\<rparr>) = authorize rx e req"
  using assms(1)
proof (cases rule: authorize_allowedD)
  case (1 reg t cls)
  let ?req = "req\<lparr>tr_caller := (tr_caller req)\<lparr>tc_caps := caps\<rparr>\<rparr>"
  have "attributed (tr_caller ?req)"
    using 1(7,8) by (auto simp: attributed_def actor_of_def split: if_splits)
  moreover have "failing_guard rx ?req (tm_guards t) = None"
    using 1(5) assms(2) by (auto simp: failing_guard_None_iff intro: has_capability_mono)
  moreover have "has_capability (tr_caller ?req) (capability_of cls)"
    using 1(4) assms(2) by (simp add: has_capability_mono)
  ultimately have "authorize rx e ?req = \<lparr>dc_allowed = True, dc_reason = [], dc_class = cls,
       dc_required = capability_of cls, dc_mapping = Some t, dc_exclusion = [], dc_guard_reason = []\<rparr>"
    using 1(1-3) by (simp add: authorize_lookup authorize_mapped_def Let_def)
  with 1(6) show ?thesis by simp
qed

lemma authorize_monotone_witness:
  "dc_allowed (authorize no_regex sample_engine
     (sample_tool_request [''connector.delete'', ''connector.write''] ''{\"action\":\"create\",\"send_updates\":\"none\"}''))"
proof -
  let ?req = "sample_tool_request [''connector.write''] ''{\"action\":\"create\",\"send_updates\":\"none\"}''"
  have ok: "dc_allowed (authorize no_regex sample_engine ?req)" by code_simp
  have "set (tc_caps (tr_caller ?req)) \<subseteq> set [''connector.delete'', ''connector.write'']"
    by (simp add: sample_tool_request_def)
  from authorize_monotone [OF ok this] ok show ?thesis by (simp add: sample_tool_request_def)
qed

section \<open>Rows\<close>

lemma length_safe_name: "length (safe_name raw) \<le> max_identifier_len"
  by (auto simp: safe_name_def max_identifier_len_def unnamed_marker_def unrecognized_prefix_def
      name_digest_len_def length_hex_encode length_sha256)

lemma class_capability_known: "class_capability cls = Some cap \<Longrightarrow> cap \<in> set known_capabilities"
  by (auto simp: class_capability_def known_capabilities_def split: if_splits)

lemma known_capability_length: "cap \<in> set known_capabilities \<Longrightarrow> length cap \<le> max_detail_value_len"
  by (auto simp: known_capabilities_def capability_defs max_detail_value_len_def)

lemma capability_of_length: "length (capability_of cls) \<le> max_detail_value_len"
proof (cases "class_capability cls")
  case (Some cap)
  then show ?thesis using known_capability_length [OF class_capability_known] by (simp add: capability_of_def)
qed (simp add: capability_of_def)

lemma required_unattributed:
  assumes "\<not> attributed (tr_caller req)" shows "dc_required (authorize rx e req) = []"
 using assms   by (auto simp: authorize_def attributed_def Let_def split: actor_kind.splits)
lemma guard_capability_bounded:
   assumes "register rx m = Inr e" "en_connectors e (tr_provider req) = Some reg" "rg_tools reg (tr_tool req) = Some t"
      "failing_guard rx req (tm_guards t) = Some g" 
  shows "length (ag_capability g) \<le> max_detail_value_len"
  proof -
    obtain c where c: "c \<in> set (mf_connectors m)" "cn_provider c = tr_provider req" "reg = register_connector c"
      using registerD(2) [OF assms(1)] assms(2) by blast
    then have "t \<in> set (cn_tools c)" using lookup_tool(2) [OF assms(1) c(1,2)] assms(3) by blast
    then have "validate_mapping rx (cn_provider c) t = None"
      using validate_connectorD(1) [OF registerD(3) [OF assms(1) c(1)]] by blast
    moreover have "g \<in> set (tm_guards t)" using failing_guard_SomeD [OF assms(4)] by blast
    ultimately have "ag_capability g \<in> set known_capabilities" by (rule validate_mappingD(3))
    then show ?thesis by (rule known_capability_length)
  qed
lemma required_mapped:
  assumes "\<And>g. failing_guard rx req (tm_guards t) = Some g \<Longrightarrow> length (ag_capability g) \<le> max_detail_value_len"
 shows "length (dc_required (authorize_mapped rx req t)) \<le> max_detail_value_len"
  proof (cases "resolve_action_class rx t (tr_args req)")
    case None
    then show ?thesis by (simp add: authorize_mapped_def)
  next
    case (Some cls)
    then show ?thesis
      using assms capability_of_length [of cls]
      by (cases "failing_guard rx req (tm_guards t)") (simp_all add: authorize_mapped_def Let_def)
  qed
lemma required_lookup:
  assumes T: "attributed (tr_caller req)"
 and "\<And>reg t. en_connectors e (tr_provider req) = Some reg \<Longrightarrow> rg_tools reg (tr_tool req) = Some t \<Longrightarrow> length (dc_required (authorize_mapped rx req t)) \<le> max_detail_value_len"
 shows "length (dc_required (authorize rx e req)) \<le> max_detail_value_len"
    unfolding authorize_lookup [OF T] using assms(2) by (simp split: option.split)

lemma required_bounded:
  assumes "register rx m = Inr e"
  shows "length (dc_required (authorize rx e req)) \<le> max_detail_value_len"
proof (cases "attributed (tr_caller req)")
  case False
  then show ?thesis by (simp add: required_unattributed)
next
  case True
  show ?thesis
    by (rule required_lookup [OF True], rule required_mapped, rule guard_capability_bounded [OF assms])
qed

lemma detail_del: "validate_detail d = None \<Longrightarrow> validate_detail (assoc_del k d) = None"
  using set_assoc_del_subset [of k d] by (fastforce simp: validate_detail_None_iff)

lemma engine_rows_valid:
  assumes "register rx m = Inr e" "length call_id \<le> max_detail_value_len"
  shows "let d = authorize rx e req in
    validate_detail (ev_detail (call_event rx req d call_id)) = None
    \<and> validate_detail (ev_detail (result_event rx req d call_id resp)) = None
    \<and> length (ev_tool (call_event rx req d call_id)) \<le> max_identifier_len"
proof -
  let ?d = "authorize rx e req"
  have name: "length (safe_name s) \<le> max_detail_value_len" for s
    using length_safe_name [of s] by (simp add: max_identifier_len_def max_detail_value_len_def)
  have "length (truncate_detail s) \<le> max_detail_value_len" for s by (simp add: truncate_detail_def)
  moreover have "length (args_digest s) \<le> max_detail_value_len" for s
    by (simp add: length_args_digest max_detail_value_len_def)
  ultimately have call: "validate_detail (ev_detail (call_event rx req ?d call_id)) = None"
    using name assms(2) required_bounded [OF assms(1), of req]
    by (auto simp: call_event_def Let_def mk_event_def validate_detail_None_iff allowed_detail_keys_def
        split: prod.split)
  then have "validate_detail (ev_detail (result_event rx req ?d call_id resp)) = None"
    by (auto simp: result_event_def Let_def intro: detail_del split: option.split)
  with call show ?thesis by (simp add: Let_def call_event_identity length_safe_name)
qed

text \<open>
  Every row the engine derives can be written: whatever the request names and carries, the
  row of the decision and the row of the result have only allowed detail keys and bounded values,
  so a hostile name or argument cannot make the record of its own refusal unwritable. The names
  in the row are bounded too.
\<close>

theorem engine_rows_recordable:
  assumes "register rx m = Inr e" "length call_id \<le> max_detail_value_len"
  shows "let d = authorize rx e req in
    validate_detail (ev_detail (call_event rx req d call_id)) = None
    \<and> validate_detail (ev_detail (result_event rx req d call_id resp)) = None
    \<and> length (ev_tool (call_event rx req d call_id)) \<le> max_identifier_len"
  by (rule engine_rows_valid [OF assms])

lemma engine_rows_recordable_witness:
  "validate_detail (ev_detail (call_event no_regex
     ((sample_tool_request [] ''{}'')\<lparr>tr_tool := replicate 1000 (CHR ''<'')\<rparr>)
     (authorize no_regex sample_engine ((sample_tool_request [] ''{}'')\<lparr>tr_tool := replicate 1000 (CHR ''<'')\<rparr>))
     ''c1'')) = None"
  using engine_rows_recordable [OF sample_registers, of "''c1''"
      "(sample_tool_request [] ''{}'')\<lparr>tr_tool := replicate 1000 (CHR ''<'')\<rparr>"]
  by (simp add: Let_def max_detail_value_len_def)

section \<open>Digests\<close>

text \<open>Two values that differ at most in the order of their objects' members.\<close>

inductive same_value :: "json \<Rightarrow> json \<Rightarrow> bool" where
  same_refl: "same_value v v"
| same_arr: "list_all2 same_value vs ws \<Longrightarrow> same_value (JArr vs) (JArr ws)"
| same_obj: "list_all2 (\<lambda>p q. fst p = fst q \<and> same_value (snd p) (snd q)) kvs kws \<Longrightarrow> distinct (map fst kvs)
    \<Longrightarrow> mset kws = mset kws' \<Longrightarrow> same_value (JObj kvs) (JObj kws')"

lemma last_wins_distinct: "distinct (map fst m) \<Longrightarrow> last_wins m = m"
  by (induction m rule: last_wins.induct) auto

lemma sort_by_key_perm:
  assumes "mset xs = mset ys" "distinct (map fst xs)"
  shows "sort_key fst xs = sort_key fst ys"
proof (rule sort_key_inj_key_eq)
  show "mset xs = mset (sort_key fst ys)" using assms(1) by simp
  show "inj_on fst (set xs)" using assms(2) by (simp add: distinct_map)
qed simp

lemma json_marshal_same: "same_value v w \<Longrightarrow> json_marshal v = json_marshal w"
proof (induction rule: same_value.induct)
  case (same_arr vs ws)
  have "list_all2 (\<lambda>v w. json_marshal v = json_marshal w) vs ws"
    using same_arr.IH by (rule list_all2_mono) blast
  then have "map json_marshal vs = map json_marshal ws" by (induction rule: list_all2_induct) simp_all
  then show ?case by simp
next
  case (same_obj kvs kws kws')
  let ?f = "\<lambda>(k, v). (k, json_marshal v)"
  have "list_all2 (\<lambda>p q. fst p = fst q \<and> json_marshal (snd p) = json_marshal (snd q)) kvs kws"
    using same_obj.IH by (rule list_all2_mono) blast
  then have eq: "map ?f kvs = map ?f kws" and keys: "map fst kvs = map fst kws"
    by (induction rule: list_all2_induct) (simp_all add: case_prod_unfold)
  have fst_f: "map fst (map ?f xs) = map fst xs" for xs :: "(string \<times> json) list" by (induction xs) auto
  have d: "distinct (map fst (map ?f kws))" using same_obj.hyps(1) keys by (simp only: fst_f)
  have perm: "mset (map ?f kws) = mset (map ?f kws')" using same_obj.hyps(2) by simp
  have "mset (map fst (map ?f kws)) = mset (map fst (map ?f kws'))" unfolding mset_map [of fst] perm ..
  from mset_eq_imp_distinct_iff [OF this] d have d': "distinct (map fst (map ?f kws'))" by blast
  show ?case
    by (simp only: json_marshal.simps eq last_wins_distinct [OF d] last_wins_distinct [OF d']
        sort_by_key_perm [OF perm d])
qed simp

text \<open>
  C16. The argument digest is canonical: two argument documents whose first values differ only in
  white space and in the order of object members, at any depth, have the same digest.
\<close>

theorem args_digest_canonical:
  assumes "json_first a = Some (v, r)" "json_first b = Some (w, r')" "same_value v w"
  shows "args_digest a = args_digest b"
proof -
  have "a \<noteq> []" "b \<noteq> []" using assms(1,2) by (auto simp: json_first_def parse_fuel_def skip_ws_def)
  then show ?thesis
    using assms json_marshal_same [OF assms(3)] by (simp add: args_digest_def canonical_json_def decode_json_def)
qed

lemma args_digest_canonical_witness:
  "args_digest ''{\"a\":1,\"b\":[true]}'' = args_digest '' { \"b\" : [ true ], \"a\" : 1 }''"
proof (rule args_digest_canonical)
  show "json_first ''{\"a\":1,\"b\":[true]}'' =
    Some (JObj [(''a'', JNum ''1''), (''b'', JArr [JBool True])], [])" by code_simp
  show "json_first '' { \"b\" : [ true ], \"a\" : 1 }'' =
    Some (JObj [(''b'', JArr [JBool True]), (''a'', JNum ''1'')], [])" by code_simp
  show "same_value (JObj [(''a'', JNum ''1''), (''b'', JArr [JBool True])])
    (JObj [(''b'', JArr [JBool True]), (''a'', JNum ''1'')])"
    by (rule same_obj [where kws = "[(''a'', JNum ''1''), (''b'', JArr [JBool True])]"])
       (auto intro: same_refl)
qed

end
