(* ===== verification/Broker.thy ===== *)
theory Broker
  imports Engine_Props Store_Spec
begin

text \<open>
  \<open>internal/server/connectors/broker.go\<close>: the one path by which a tool call reaches the gateway.
  The audit sink and the tool runtime (the composed gateway) are functions on one world, so the
  order of the two rows and the call is part of what an invocation does. \<open>call_no\<close> tells a sink
  which of the two writes it is asked for.
\<close>

type_synonym ('f, 'x, 'w) sink = "'f \<Rightarrow> int \<Rightarrow> audit_event \<Rightarrow> 'w \<Rightarrow> ('x + unit) \<times> 'w"
type_synonym 'w tool_runtime = "string \<Rightarrow> string \<Rightarrow> string \<Rightarrow> 'w \<Rightarrow> string option \<times> 'w"

datatype invoke_error =
    AuditUnavailable
  | Refused denied_error
  | ResultUnrecorded string
  | ToolFailed

text \<open>\<open>newCallID\<close>.\<close>

definition new_call_id :: "string option \<Rightarrow> string" where
  "new_call_id rnd = (case rnd of None \<Rightarrow> ''unavailable'' | Some b \<Rightarrow> hex_encode b)"

text \<open>
  \<open>Invoke\<close>. The first write uses \<open>fs 0\<close>, the detached write of the result \<open>fs 1\<close>; a runtime answer
  of \<open>None\<close> is an error.
\<close>

definition invoke :: "regex_engine \<Rightarrow> engine \<Rightarrow> ('f, 'x, 'w) sink \<Rightarrow> 'w tool_runtime
    \<Rightarrow> (nat \<Rightarrow> 'f) \<Rightarrow> int \<Rightarrow> string option \<Rightarrow> tool_request \<Rightarrow> 'w \<Rightarrow> (invoke_error + string) \<times> 'w" where
  "invoke rx e record_row call_tool fs now rnd req w =
     (let d = authorize rx e req; call_id = new_call_id rnd in
      case record_row (fs 0) now (call_event rx req d call_id) w of
        (Inl err, w1) \<Rightarrow> (Inl AuditUnavailable, w1)
      | (Inr u, w1) \<Rightarrow>
          if \<not> dc_allowed d then (Inl (Refused (denied_error_of d req)), w1)
          else (case call_tool (tr_provider req) (tr_tool req) (tr_args req) w1 of
            (resp, w2) \<Rightarrow>
              (case record_row (fs 1) now (result_event rx req d call_id resp) w2 of
                 (Inl err, w3) \<Rightarrow> (Inl (ResultUnrecorded call_id), w3)
               | (Inr u, w3) \<Rightarrow> (case resp of None \<Rightarrow> Inl ToolFailed | Some r \<Rightarrow> Inr r, w3))))"

section \<open>The interface\<close>

text \<open>
  The world of an invocation: an audit sink, and a runtime that leaves the audit log alone and
  whose own state (\<open>gateway\<close>) no audit write touches.
\<close>

locale tool_world = audit_sink append log
  for append :: "('f, 'x, 'w) sink" and log +
  fixes call_tool :: "'w tool_runtime"
    and gateway :: "'w \<Rightarrow> 'g"
  assumes call_tool_log: "call_tool p t a w = (r, w') \<Longrightarrow> log w' = log w"
    and append_gateway: "append f now e w = (res, w') \<Longrightarrow> gateway w' = gateway w"
begin

lemma invoke_cases:
  assumes "invoke rx e append call_tool fs now rnd req w = (res, w')"
  obtains (unrecorded) "res = Inl AuditUnavailable" "w' = w"
    | (denied) r where "res = Inl (Refused (denied_error_of (authorize rx e req) req))"
        "\<not> dc_allowed (authorize rx e req)" "log w' = log w @ [r]"
        "records r (call_event rx req (authorize rx e req) (new_call_id rnd))" "gateway w' = gateway w"
    | (called) r w1 resp w2 where "dc_allowed (authorize rx e req)" "log w1 = log w @ [r]"
        "records r (call_event rx req (authorize rx e req) (new_call_id rnd))" "gateway w1 = gateway w"
        "call_tool (tr_provider req) (tr_tool req) (tr_args req) w1 = (resp, w2)"
        "gateway w' = gateway w2"
        "(res = Inl (ResultUnrecorded (new_call_id rnd)) \<and> log w' = log w @ [r])
         \<or> (\<exists>r2. log w' = log w @ [r, r2]
              \<and> records r2 (result_event rx req (authorize rx e req) (new_call_id rnd) resp)
              \<and> res = (case resp of None \<Rightarrow> Inl ToolFailed | Some x \<Rightarrow> Inr x))"
proof -
  let ?d = "authorize rx e req" and ?cid = "new_call_id rnd"
  obtain r1 w1 where a1: "append (fs 0) now (call_event rx req ?d ?cid) w = (r1, w1)" by fastforce
  note run = assms [unfolded invoke_def Let_def a1]
  from a1 show ?thesis
  proof (cases rule: append_log_cases)
    case (failed x)
    with run have "res = Inl AuditUnavailable" "w' = w" by auto
    then show ?thesis by (rule unrecorded)
  next
    case (written r)
    show ?thesis
    proof (cases "dc_allowed ?d")
      case False
      with run written have "res = Inl (Refused (denied_error_of ?d req))" "w' = w1" by auto
      with denied [of r] False written append_gateway [OF a1] show ?thesis by simp
    next
      case True
      obtain resp w2 where c: "call_tool (tr_provider req) (tr_tool req) (tr_args req) w1 = (resp, w2)" by fastforce
      obtain r2 w3 where a2: "append (fs 1) now (result_event rx req ?d ?cid resp) w2 = (r2, w3)" by fastforce
      have lg: "log w2 = log w @ [r]" using call_tool_log [OF c] written(2) by simp
      from a2 show ?thesis
      proof (cases rule: append_log_cases)
        case (failed x)
        with run written True c a2 have "res = Inl (ResultUnrecorded ?cid)" "w' = w2" by auto
        with called [OF True written(2,3) append_gateway [OF a1] c] lg show ?thesis by simp
      next
        case w2: (written rr)
        with run written True c a2 have "res = (case resp of None \<Rightarrow> Inl ToolFailed | Some x \<Rightarrow> Inr x)" "w' = w3" by auto
        with called [OF True written(2,3) append_gateway [OF a1] c] lg w2 append_gateway [OF a2] show ?thesis by simp
      qed
    qed
  qed
qed

text \<open>The gateway's state moves only after an admission is in the log.\<close>

lemma gateway_after_record:
  assumes "invoke rx e append call_tool fs now rnd req w = (res, w')" "gateway w' \<noteq> gateway w"
  shows "dc_allowed (authorize rx e req) \<and>
    (\<exists>w1 r resp w2. log w1 = log w @ [r]
      \<and> records r (call_event rx req (authorize rx e req) (new_call_id rnd))
      \<and> call_tool (tr_provider req) (tr_tool req) (tr_args req) w1 = (resp, w2) \<and> gateway w2 = gateway w'
      \<and> (\<exists>rows. log w' = log w1 @ rows))"
  using assms(1)
proof (cases rule: invoke_cases)
  case (called r w1 resp w2)
  then have "\<exists>rows. log w' = log w1 @ rows" by auto
  with called show ?thesis by (intro conjI) (assumption, fastforce)
qed (use assms(2) in auto)

end

section \<open>The production world\<close>

text \<open>
  The SQLite log beside a gateway whose behaviour is a parameter: an interpretation of the
  interface for every gateway.
\<close>

definition world_append :: "(faults, store_error, db \<times> 'g) sink" where
  "world_append fl now e w = (case append_audit fl now e (fst w) of (r, db') \<Rightarrow> (r, (db', snd w)))"

definition world_call :: "'g tool_runtime \<Rightarrow> (db \<times> 'g) tool_runtime" where
  "world_call gw p t a w = (case gw p t a (snd w) of (r, g') \<Rightarrow> (r, (fst w, g')))"

interpretation production: tool_world world_append "\<lambda>w. db_audit (fst w)" "world_call gw" snd
proof unfold_locales
  fix f now e and w w' :: "db \<times> 'g" and u
  assume "world_append f now e w = (Inr u, w')"
  then show "\<exists>r. db_audit (fst w') = db_audit (fst w) @ [r] \<and> records r e"
    using store_log.append_ok by (auto simp: world_append_def split: prod.splits)
next
  fix f now e and w w' :: "db \<times> 'g" and x
  assume "world_append f now e w = (Inl x, w')"
  then show "w' = w"
    using store_log.append_err by (auto simp: world_append_def prod_eq_iff split: prod.splits)
qed (auto simp: world_append_def world_call_def split: prod.splits)

section \<open>Properties\<close>

definition sample_gateway :: "nat tool_runtime" where
  "sample_gateway p t a n = (Some ''done'', Suc n)"

definition sample_invoke_request :: "string \<Rightarrow> tool_request" where
  "sample_invoke_request send = sample_tool_request [''connector.write'']
     (''{\"action\":\"create\",\"send_updates\":\"'' @ send @ ''\"}'')"

text \<open>
  C4. Nothing reaches the gateway unrecorded: if an invocation changed the gateway's state, the
  call was authorized, its row (an allowed tool call by the caller's machine and grant) was in the
  audit log before the call was made, and it is still there afterwards.
\<close>

theorem gateway_only_after_recorded_admission:
  assumes "invoke rx e world_append (world_call gw) fs now rnd req (db, g) = (res, (db', g'))" "g' \<noteq> g"
  shows "dc_allowed (authorize rx e req) \<and>
    (\<exists>r rows resp. db_audit db' = db_audit db @ r # rows
      \<and> ev_event r = EventConnectorToolCall \<and> ev_outcome r = OutcomeAllowed
      \<and> ev_machine r = tc_machine (tr_caller req) \<and> ev_grant r = tc_grant (tr_caller req)
      \<and> gw (tr_provider req) (tr_tool req) (tr_args req) g = (resp, g')
      \<and> (\<exists>db1. append_audit (fs 0) now (call_event rx req (authorize rx e req) (new_call_id rnd)) db = (Inr (), db1)
           \<and> db_audit db1 = db_audit db @ [r]))"
proof -
  have ne: "snd (db', g') \<noteq> snd (db, g)" using assms(2) by simp
  let ?d = "authorize rx e req" and ?cid = "new_call_id rnd"
  obtain r1 db1 where a1: "append_audit (fs 0) now (call_event rx req ?d ?cid) db = (r1, db1)" by fastforce
  have allowed: "dc_allowed ?d" using production.gateway_after_record [OF assms(1) ne] by blast
  note run = assms(1) [unfolded invoke_def Let_def world_append_def fst_conv snd_conv a1 prod.case]
  from a1 show ?thesis
  proof (cases rule: store_log.append_log_cases)
    case (failed x)
    with run assms(2) show ?thesis by auto
  next
    case (written r)
    obtain resp g2 where c: "gw (tr_provider req) (tr_tool req) (tr_args req) g = (resp, g2)" by fastforce
    obtain r2 db2 where a2: "append_audit (fs 1) now (result_event rx req ?d ?cid resp) db1 = (r2, db2)" by fastforce
    have "db' = db2" "g' = g2"
      using run written(1) allowed c a2 by (auto simp: world_call_def split: sum.splits)
    moreover obtain rows where "db_audit db2 = db_audit db1 @ rows"
      using store_log.append_log_prefix [OF a2] by blast
    ultimately show ?thesis
      using a1 written c allowed records_fields [OF written(3)] call_event_allowed [OF allowed, of rx req ?cid]
        call_event_identity [of rx req ?d ?cid] by auto
  qed
qed

lemma sample_allowed: "dc_allowed (authorize no_regex sample_engine (sample_invoke_request ''none''))"
  by code_simp

lemma sample_denied: "\<not> dc_allowed (authorize no_regex sample_engine (sample_invoke_request ''all''))"
  by code_simp

lemma sample_request_length: "length (new_call_id None) \<le> max_detail_value_len"
  by (simp add: new_call_id_def max_detail_value_len_def)

lemma append_audit_succeeds:
  assumes "validate_detail (ev_detail e) = None" "\<not> fl (SAudit 0)"
  shows "append_audit fl now e db = (Inr (), insert_audit now e db)"
  using assms by (simp add: append_audit_def append_audit_row_def)

text \<open>
  C14. An authorized call with a working log completes: it is performed exactly once with the
  arguments that were authorized, its answer is returned unchanged, and the log grows by exactly
  two rows, the admitted call and its result; a failing tool is reported as such after the same
  two rows.
\<close>

theorem admitted_call_completes:
  assumes "register rx m = Inr e" "dc_allowed (authorize rx e req)"
    "length (new_call_id rnd) \<le> max_detail_value_len" "\<not> fs 0 (SAudit 0)" "\<not> fs 1 (SAudit 0)"
    "gw (tr_provider req) (tr_tool req) (tr_args req) g = (resp, g')"
  shows "\<exists>db' r1 r2.
    invoke rx e world_append (world_call gw) fs now rnd req (db, g)
      = (case resp of None \<Rightarrow> Inl ToolFailed | Some x \<Rightarrow> Inr x, (db', g'))
    \<and> db_audit db' = db_audit db @ [r1, r2]
    \<and> records r1 (call_event rx req (authorize rx e req) (new_call_id rnd))
    \<and> records r2 (result_event rx req (authorize rx e req) (new_call_id rnd) resp)"
proof -
  let ?d = "authorize rx e req" and ?cid = "new_call_id rnd"
  let ?e1 = "call_event rx req ?d ?cid" and ?e2 = "result_event rx req ?d ?cid resp"
  have "validate_detail (ev_detail ?e1) = None" "validate_detail (ev_detail ?e2) = None"
    using engine_rows_valid [OF assms(1,3)] by (simp_all add: Let_def)
  then have a: "append_audit (fs 0) now ?e1 db = (Inr (), insert_audit now ?e1 db)"
    "append_audit (fs 1) now ?e2 (insert_audit now ?e1 db) = (Inr (), insert_audit now ?e2 (insert_audit now ?e1 db))"
    using assms(4,5) by (simp_all add: append_audit_succeeds)
  let ?db' = "insert_audit now ?e2 (insert_audit now ?e1 db)"
  have "invoke rx e world_append (world_call gw) fs now rnd req (db, g)
      = (case resp of None \<Rightarrow> Inl ToolFailed | Some x \<Rightarrow> Inr x, (?db', g'))"
    using assms(2,6) a by (simp add: invoke_def world_append_def world_call_def Let_def)
  moreover have "db_audit ?db' = db_audit db
      @ [row_of (db_audit_seq db + 1) now ?e1, row_of (db_audit_seq db + 2) now ?e2]"
    by (simp add: insert_audit_def Let_def add.commute)
  ultimately show ?thesis using records_row_of by blast
qed

lemma sample_completes:
  "\<exists>db' r1 r2. invoke no_regex sample_engine world_append (world_call sample_gateway) (\<lambda>_. no_faults) 5 None
      (sample_invoke_request ''none'') (empty_db, 0) = (Inr ''done'', (db', 1)) \<and> db_audit db' = [r1, r2]"
proof -
  let ?req = "sample_invoke_request ''none''"
  let ?d = "authorize no_regex sample_engine ?req"
  have v: "validate_detail (ev_detail (call_event no_regex ?req ?d (new_call_id None))) = None"
    "validate_detail (ev_detail (result_event no_regex ?req ?d (new_call_id None) (Some ''done''))) = None"
    using engine_rows_valid [OF sample_registers sample_request_length] by (simp_all add: Let_def)
  show ?thesis
    using sample_allowed
    by (simp add: invoke_def world_append_def world_call_def sample_gateway_def Let_def append_audit_succeeds
        no_faults_def v insert_audit_def empty_db_def)
qed

lemma admitted_call_completes_witness:
  "fst (invoke no_regex sample_engine world_append (world_call sample_gateway) (\<lambda>_. no_faults) 5 None
      (sample_invoke_request ''none'') (empty_db, 0)) = Inr ''done''"
proof -
  have gw: "sample_gateway (tr_provider r) (tr_tool r) (tr_args r) 0 = (Some ''done'', 1)" for r
    by (simp add: sample_gateway_def)
  have nf: "\<not> (\<lambda>_. no_faults) (0 :: nat) (SAudit 0)" "\<not> (\<lambda>_. no_faults) (1 :: nat) (SAudit 0)"
    by (simp_all add: no_faults_def)
  show ?thesis
    using admitted_call_completes [where rx = no_regex and fs = "\<lambda>_. no_faults" and now = 5 and db = empty_db
          and gw = sample_gateway and g = 0 and resp = "Some ''done''" and g' = 1,
        OF sample_registers sample_allowed sample_request_length nf gw] by auto
qed

lemma gateway_only_after_recorded_admission_witness:
  "\<exists>db' r rows. snd (invoke no_regex sample_engine world_append (world_call sample_gateway) (\<lambda>_. no_faults) 5 None
      (sample_invoke_request ''none'') (empty_db, 0)) = (db', 1)
    \<and> db_audit db' = r # rows \<and> ev_event r = EventConnectorToolCall \<and> ev_machine r = ''m-01''"
proof -
  obtain db' where r: "invoke no_regex sample_engine world_append (world_call sample_gateway) (\<lambda>_. no_faults) 5 None
      (sample_invoke_request ''none'') (empty_db, 0) = (Inr ''done'', (db', 1))"
    using sample_completes by blast
  have "tc_machine (tr_caller (sample_invoke_request ''none'')) = ''m-01''" "db_audit empty_db = []"
    by (simp_all add: sample_invoke_request_def sample_tool_request_def empty_db_def)
  with gateway_only_after_recorded_admission [OF r] r show ?thesis by auto
qed

text \<open>
  A refused call never reaches the gateway, and is answered as refused only once its denial is
  on the record: without authority the gateway's state does not move, and either the log could not
  be written (and nothing changed) or it grew by exactly the one row that says denied.
\<close>

theorem refused_call_recorded_not_forwarded:
  assumes "\<not> dc_allowed (authorize rx e req)"
    "invoke rx e world_append (world_call gw) fs now rnd req (db, g) = (res, (db', g'))"
  shows "g' = g \<and>
    ((res = Inl AuditUnavailable \<and> db' = db)
     \<or> (res = Inl (Refused (denied_error_of (authorize rx e req) req))
        \<and> (\<exists>r. db_audit db' = db_audit db @ [r] \<and> ev_outcome r = OutcomeDenied
             \<and> ev_reason r = dc_reason (authorize rx e req)
             \<and> ev_event r \<in> {EventPolicyViolation, EventConnectorDenied})))"
  using assms(2)
proof (cases rule: production.invoke_cases)
  case (denied r)
  with records_fields [OF denied(4)] call_event_denied [OF assms(1)] show ?thesis by auto
qed (use assms(1) in auto)

lemma refused_call_recorded_not_forwarded_witness:
  "snd (snd (invoke no_regex sample_engine world_append (world_call sample_gateway) (\<lambda>_. no_faults) 5 None
      (sample_invoke_request ''all'') (empty_db, 0))) = 0"
proof -
  obtain res db' g' where r: "invoke no_regex sample_engine world_append (world_call sample_gateway) (\<lambda>_. no_faults) 5
      None (sample_invoke_request ''all'') (empty_db, 0) = (res, (db', g'))" by (metis surj_pair)
  from refused_call_recorded_not_forwarded [OF sample_denied r] r show ?thesis by simp
qed

end
