(* ===== verification/Go_Ip.thy ===== *)
theory Go_Ip
  imports Go_Url
begin

text \<open>
  \<open>net.ParseIP\<close>, \<open>IP.IsLoopback\<close>, \<open>url.Hostname\<close> of the standard library: the address a literal
  names, as four or sixteen bytes.
\<close>

definition ip4_bytes :: "string \<Rightarrow> int list option" where
  "ip4_bytes s =
     (if ipv4_ok s
      then Some (map (\<lambda>p. case read_digits 0 p of None \<Rightarrow> 0 | Some n \<Rightarrow> int n) (split_on (CHR ''.'') s))
      else None)"

fun hex_number :: "int \<Rightarrow> string \<Rightarrow> int" where
  "hex_number acc [] = acc"
| "hex_number acc (c # s) = hex_number (16 * acc + (case url_hex c of None \<Rightarrow> 0 | Some d \<Rightarrow> int d)) s"

text \<open>The end of \<open>parseIPv6\<close>: an ellipsis at \<open>k\<close> is filled with zero bytes.\<close>

definition ip6_finish :: "int list \<Rightarrow> nat option \<Rightarrow> int list option" where
  "ip6_finish bs e =
     (if length bs < 16
      then (case e of None \<Rightarrow> None | Some k \<Rightarrow> Some (take k bs @ replicate (16 - length bs) 0 @ drop k bs))
      else if e \<noteq> None then None else Some bs)"

function ip6_scan :: "int list \<Rightarrow> nat option \<Rightarrow> string \<Rightarrow> int list option" where
  "ip6_scan bs e s =
     (if 16 \<le> length bs then (if s = [] then ip6_finish bs e else None)
      else (let grp = takeWhile is_hex_digit s; rest = dropWhile is_hex_digit s;
                v = hex_number 0 grp; bs' = bs @ [v div 256, v mod 256] in
            if grp = [] \<or> 4 < length grp then None
            else if rest \<noteq> [] \<and> hd rest = CHR ''.''
            then (if (e = None \<and> length bs \<noteq> 12) \<or> 16 < length bs + 4 then None
                  else (case ip4_bytes s of None \<Rightarrow> None | Some q \<Rightarrow> ip6_finish (bs @ q) e))
            else (case rest of
                    [] \<Rightarrow> ip6_finish bs' e
                  | c # r \<Rightarrow>
                      if c \<noteq> CHR '':'' \<or> r = [] then None
                      else if hd r = CHR '':''
                      then (if e \<noteq> None then None
                            else if tl r = [] then ip6_finish bs' (Some (length bs'))
                            else ip6_scan bs' (Some (length bs')) (tl r))
                      else ip6_scan bs' e r)))"
  by pat_completeness auto
termination
  by (relation "measure (\<lambda>(bs, e, s). 16 - length bs)") (auto simp: Let_def)

declare ip6_scan.simps [simp del]

definition ip6_bytes :: "string \<Rightarrow> int list option" where
  "ip6_bytes s =
     (case s of
        a # b # r \<Rightarrow>
          if a = CHR '':'' \<and> b = CHR '':''
          then (if r = [] then Some (replicate 16 0) else ip6_scan [] (Some 0) r) else ip6_scan [] None s
      | _ \<Rightarrow> ip6_scan [] None s)"

text \<open>
  \<open>net.ParseIP\<close>: the first of dot, colon and percent decides the form, and a zone is refused.
\<close>

definition parse_ip :: "string \<Rightarrow> int list option" where
  "parse_ip s =
     (case dropWhile (\<lambda>c. c \<notin> set ''.:%'') s of
        [] \<Rightarrow> None
      | c # r \<Rightarrow>
          if c = CHR ''.'' then ip4_bytes s
          else if c = CHR '':'' \<and> CHR ''%'' \<notin> set s then ip6_bytes s
          else None)"

text \<open>\<open>IP.IsLoopback\<close>, with \<open>To4\<close> of a mapped address.\<close>

definition ip_to4 :: "int list \<Rightarrow> int list option" where
  "ip_to4 bs =
     (if length bs = 4 then Some bs
      else if length bs = 16 \<and> take 12 bs = replicate 10 0 @ [255, 255] then Some (drop 12 bs)
      else None)"

definition ip_is_loopback :: "int list \<Rightarrow> bool" where
  "ip_is_loopback bs \<longleftrightarrow>
     (case ip_to4 bs of
        Some q \<Rightarrow> take 1 q = [127]
      | None \<Rightarrow> bs = replicate 15 0 @ [1])"

text \<open>\<open>url.Hostname\<close>.\<close>

definition url_hostname :: "url \<Rightarrow> string" where
  "url_hostname u =
     (let h = (case split_last (CHR '':'') (u_host u) of
                 None \<Rightarrow> u_host u
               | Some (before, port) \<Rightarrow> if valid_optional_port (CHR '':'' # port) then before else u_host u)
      in if has_prefix h ''['' \<and> has_suffix h '']'' then butlast (tl h) else h)"

lemma parse_ip_examples:
  "parse_ip ''127.0.0.1'' = Some [127, 0, 0, 1]"
  "parse_ip ''::1'' = Some (replicate 15 0 @ [1])"
  "map_option ip_is_loopback (parse_ip ''::ffff:127.1.2.3'') = Some True"
  "map_option ip_is_loopback (parse_ip ''::127.0.0.1'') = Some False"
  "map_option ip_is_loopback (parse_ip ''fe80::1'') = Some False"
  "parse_ip ''::1%lo'' = None" "parse_ip ''127.0.0.01'' = None" "parse_ip ''1:2:3:4:5:6:7:8:9'' = None"
  "parse_ip ''1::2::3'' = None" "parse_ip ''localhost'' = None"
  by code_simp+

end
