(* ===== verification/Edge_Upstream.thy ===== *)
theory Edge_Upstream
  imports Go_Ip Broker
begin

text \<open>
  \<open>internal/server/edge/{upstream,jsonrpc}.go\<close>: the loopback rule for the gateway's endpoint, the
  JSON-RPC frames the edge reads and writes, and the tool runtime that forwards an admitted call
  to the gateway over HTTP. The gateway itself is a parameter.
\<close>

section \<open>The endpoint\<close>

datatype upstream_error = BadGatewayUrl | UpstreamScheme | UpstreamNoHost | UpstreamNotLoopback

definition is_loopback_host :: "string \<Rightarrow> bool" where
  "is_loopback_host host \<longleftrightarrow>
     equal_fold_const host ''localhost''
     \<or> (case parse_ip host of None \<Rightarrow> False | Some ip \<Rightarrow> ip_is_loopback ip)"

definition parse_upstream :: "string \<Rightarrow> upstream_error + url" where
  "parse_upstream raw =
     (case url_parse (trim_space raw) of
        None \<Rightarrow> Inl BadGatewayUrl
      | Some u \<Rightarrow>
          if u_scheme u \<noteq> ''http'' \<and> u_scheme u \<noteq> ''https'' then Inl UpstreamScheme
          else if url_hostname u = [] then Inl UpstreamNoHost
          else if \<not> is_loopback_host (url_hostname u) then Inl UpstreamNotLoopback
          else Inr u)"

section \<open>Frames\<close>

definition json_rpc_version :: string where "json_rpc_version = ''2.0''"
definition method_tools_call :: string where "method_tools_call = ''tools/call''"
definition code_invalid_params :: int where "code_invalid_params = -32602"
definition code_invalid_request :: int where "code_invalid_request = -32600"
definition code_forbidden :: int where "code_forbidden = -32003"
definition code_gateway_failure :: int where "code_gateway_failure = -32010"
definition code_audit_failure :: int where "code_audit_failure = -32011"

lemmas code_defs = code_invalid_params_def code_invalid_request_def code_forbidden_def
  code_gateway_failure_def code_audit_failure_def

text \<open>A \<open>json.RawMessage\<close> is the bytes of its value, empty when the field is absent.\<close>

record rpc_request =
  rpc_id :: string
  rpc_method :: string
  rpc_params :: string

record rpc_error =
  re_code :: int
  re_message :: string
  re_data :: string

record rpc_response =
  rp_result :: string
  rp_error :: "rpc_error option"

record tool_call_params =
  tp_name :: string
  tp_arguments :: string

text \<open>The raw bytes of a field: of the last member that reaches it.\<close>

definition raw_field :: "string \<Rightarrow> string \<Rightarrow> string" where
  "raw_field name doc =
     (case filter (\<lambda>(k, v). field_matches name k) (raw_members doc) of
        [] \<Rightarrow> []
      | m # ms \<Rightarrow> snd (last (m # ms)))"

text \<open>\<open>json.Unmarshal\<close> into \<open>rpcRequest\<close>.\<close>

definition decode_rpc_request :: "string \<Rightarrow> rpc_request option" where
  "decode_rpc_request body =
     (case json_unmarshal body of
        Some JNull \<Rightarrow> Some \<lparr>rpc_id = [], rpc_method = [], rpc_params = []\<rparr>
      | Some (JObj kvs) \<Rightarrow>
          (case (dec_field dec_string ''jsonrpc'' [] kvs, dec_field dec_string ''method'' [] kvs) of
             (Some v, Some m) \<Rightarrow> Some \<lparr>rpc_id = raw_field ''id'' body, rpc_method = m,
                                   rpc_params = raw_field ''params'' body\<rparr>
           | _ \<Rightarrow> None)
      | _ \<Rightarrow> None)"

definition decode_tool_params :: "string \<Rightarrow> tool_call_params option" where
  "decode_tool_params doc =
     (case json_unmarshal doc of
        Some JNull \<Rightarrow> Some \<lparr>tp_name = [], tp_arguments = []\<rparr>
      | Some (JObj kvs) \<Rightarrow>
          (case dec_field dec_string ''name'' [] kvs of
             Some n \<Rightarrow> Some \<lparr>tp_name = n, tp_arguments = raw_field ''arguments'' doc\<rparr>
           | None \<Rightarrow> None)
      | _ \<Rightarrow> None)"

text \<open>An integer field takes an integral literal in range.\<close>

fun dec_int :: "int \<Rightarrow> json \<Rightarrow> int option" where
  "dec_int old (JNum n) = atoi n"
| "dec_int old JNull = Some old"
| "dec_int old _ = None"

text \<open>
  The error pointer: \<open>null\<close> clears it, an object is decoded over the error already there. The raw
  bytes of the member are walked beside its value.
\<close>

definition dec_rpc_error :: "rpc_error option \<Rightarrow> json \<times> string \<Rightarrow> rpc_error option option" where
  "dec_rpc_error old m =
     (case m of (v, raw) \<Rightarrow>
        (case v of
           JNull \<Rightarrow> Some None
         | JObj kvs \<Rightarrow>
             (let e = (case old of None \<Rightarrow> \<lparr>re_code = 0, re_message = [], re_data = []\<rparr> | Some e \<Rightarrow> e) in
              case (dec_field dec_int ''code'' (re_code e) kvs, dec_field dec_string ''message'' (re_message e) kvs) of
                (Some c, Some msg) \<Rightarrow>
                  Some (Some \<lparr>re_code = c, re_message = msg,
                    re_data = (let d = raw_field ''data'' raw in if d = [] then re_data e else d)\<rparr>)
              | _ \<Rightarrow> None)
         | _ \<Rightarrow> None))"

fun dec_error_field :: "rpc_error option \<Rightarrow> ((string \<times> json) \<times> string) list \<Rightarrow> rpc_error option option" where
  "dec_error_field old [] = Some old"
| "dec_error_field old (((k, v), raw) # ms) =
     (if field_matches ''error'' k
      then (case dec_rpc_error old (v, raw) of None \<Rightarrow> None | Some new \<Rightarrow> dec_error_field new ms)
      else dec_error_field old ms)"

definition decode_rpc_response :: "string \<Rightarrow> rpc_response option" where
  "decode_rpc_response doc =
     (case json_unmarshal doc of
        Some JNull \<Rightarrow> Some \<lparr>rp_result = [], rp_error = None\<rparr>
      | Some (JObj kvs) \<Rightarrow>
          (case (dec_field dec_string ''jsonrpc'' [] kvs,
                 dec_error_field None (zip kvs (map snd (raw_members doc)))) of
             (Some v, Some err) \<Rightarrow> Some \<lparr>rp_result = raw_field ''result'' doc, rp_error = err\<rparr>
           | _ \<Rightarrow> None)
      | _ \<Rightarrow> None)"

text \<open>The lines a scanner yields: split at line feeds, one trailing carriage return dropped.\<close>

definition drop_cr :: "string \<Rightarrow> string" where
  "drop_cr l = (if l \<noteq> [] \<and> last l = CHR 0x0D then butlast l else l)"

definition scan_lines :: "string \<Rightarrow> string list" where
  "scan_lines s =
     (let ls = split_on (CHR 0x0A) s in
      map drop_cr (if last ls = [] then butlast ls else ls))"

text \<open>\<open>decodeSSE\<close>: the first data frame that is a response; \<open>None\<close> when there is none.\<close>

fun decode_sse_lines :: "string list \<Rightarrow> rpc_response option" where
  "decode_sse_lines [] = None"
| "decode_sse_lines (line # ls) =
     (if \<not> has_prefix line ''data:'' then decode_sse_lines ls
      else (let data = trim_space (drop 5 line) in
            if data = [] then decode_sse_lines ls
            else (case decode_rpc_response data of
                    None \<Rightarrow> decode_sse_lines ls
                  | Some rpc \<Rightarrow> if rp_error rpc \<noteq> None \<or> rp_result rpc \<noteq> [] then Some rpc
                                else decode_sse_lines ls)))"

definition decode_sse :: "string \<Rightarrow> rpc_response option" where
  "decode_sse payload = decode_sse_lines (scan_lines payload)"

definition decode_upstream_response :: "string \<Rightarrow> string \<Rightarrow> rpc_response option" where
  "decode_upstream_response content_type payload =
     (if str_contains (to_lower content_type) ''text/event-stream'' then decode_sse payload
      else decode_rpc_response payload)"

section \<open>Encoding\<close>

text \<open>
  \<open>json.Marshal\<close> writes a raw message compacted: white space outside strings is dropped, and the
  HTML characters and the two line separators are escaped. The flags are inside a string and after
  a backslash in one.
\<close>

fun json_compact :: "bool \<Rightarrow> bool \<Rightarrow> string \<Rightarrow> string" where
  "json_compact in_str esc [] = []"
| "json_compact in_str esc (c # s) =
     (if c \<in> set ''<>&'' then backslash # ''u00'' @ hex2 (byte c) @ json_compact in_str False s
      else if has_prefix (c # s) [CHR 0xE2, CHR 0x80, CHR 0xA8]
      then backslash # ''u2028'' @ json_compact in_str False (drop 2 s)
      else if has_prefix (c # s) [CHR 0xE2, CHR 0x80, CHR 0xA9]
      then backslash # ''u2029'' @ json_compact in_str False (drop 2 s)
      else if \<not> in_str \<and> json_space c then json_compact in_str False s
      else c # json_compact (if in_str then \<not> (c = quote \<and> \<not> esc) else c = quote)
                 (in_str \<and> \<not> esc \<and> c = backslash) s)"

definition compact_raw :: "string \<Rightarrow> string" where
  "compact_raw = json_compact False False"

text \<open>The parameters and the frame of a call, \<open>omitempty\<close> fields left out when empty.\<close>

definition encode_tool_params :: "tool_call_params \<Rightarrow> string" where
  "encode_tool_params p =
     ''{'' @ json_quote ''name'' @ '':'' @ json_quote (tp_name p)
       @ (if tp_arguments p = [] then []
          else '','' @ json_quote ''arguments'' @ '':'' @ compact_raw (tp_arguments p)) @ ''}''"

definition encode_rpc_request :: "rpc_request \<Rightarrow> string" where
  "encode_rpc_request r =
     ''{'' @ json_quote ''jsonrpc'' @ '':'' @ json_quote json_rpc_version
       @ (if rpc_id r = [] then [] else '','' @ json_quote ''id'' @ '':'' @ compact_raw (rpc_id r))
       @ '','' @ json_quote ''method'' @ '':'' @ json_quote (rpc_method r)
       @ (if rpc_params r = [] then [] else '','' @ json_quote ''params'' @ '':'' @ compact_raw (rpc_params r)) @ ''}''"

section \<open>The tool runtime\<close>

definition protocol_version :: string where "protocol_version = ''2025-06-18''"

text \<open>Header names in the form net/http gives them.\<close>

definition header_session_id :: string where "header_session_id = ''Mcp-Session-Id''"
definition header_protocol_version :: string where "header_protocol_version = ''Mcp-Protocol-Version''"
definition header_authorization :: string where "header_authorization = ''Authorization''"

lemmas header_defs = header_session_id_def header_protocol_version_def header_authorization_def

definition default_max_upstream_response_bytes :: nat where
  "default_max_upstream_response_bytes = 8 * 1024 * 1024"

text \<open>
  What reaches the gateway, and what it answers: \<open>None\<close> is a transport failure, or a body that
  could not be read.
\<close>

record gateway_request =
  gr_method :: string
  gr_query :: string
  gr_headers :: "(string \<times> string) list"
  gr_body :: string

record gateway_answer =
  ga_status :: nat
  ga_content_type :: string
  ga_body :: string

type_synonym 'g gateway = "gateway_request \<Rightarrow> 'g \<Rightarrow> gateway_answer option \<times> 'g"

text \<open>
  The facts of the client's request a call needs, and the gateway's own error on the way out.
\<close>

record call_state =
  cs_session :: string
  cs_wire_tool :: string
  cs_version :: string
  cs_tool_error :: "rpc_error option"

text \<open>The runtime's world: the gateway, the request counter (64 bits, it wraps) and the call state.\<close>

record 'g runtime_world =
  rw_gateway :: 'g
  rw_next_id :: "64 word"
  rw_call :: call_state

definition tool_call_request :: "call_state \<Rightarrow> string \<Rightarrow> string \<Rightarrow> int \<Rightarrow> gateway_request" where
  "tool_call_request cs tool args i =
     (let wire = (if cs_wire_tool cs = [] then tool else cs_wire_tool cs);
          params = encode_tool_params \<lparr>tp_name = wire, tp_arguments = (if args = [] then ''{}'' else args)\<rparr>
      in \<lparr>gr_method = ''POST'', gr_query = [],
          gr_headers = [(''Content-Type'', ''application/json''),
             (''Accept'', ''application/json, text/event-stream''),
             (header_protocol_version, if cs_version cs = [] then protocol_version else cs_version cs)]
             @ (if cs_session cs = [] then [] else [(header_session_id, cs_session cs)]),
          gr_body = encode_rpc_request \<lparr>rpc_id = show_int i, rpc_method = method_tools_call, rpc_params = params\<rparr>\<rparr>)"

text \<open>What the answer says: a result, the gateway's error, or a failure of the exchange (\<open>None\<close>).\<close>

definition read_answer :: "gateway_answer option \<Rightarrow> (rpc_error + string) option" where
  "read_answer a =
     (case a of
        None \<Rightarrow> None
      | Some ans \<Rightarrow>
          if ga_status ans < 200 \<or> 300 \<le> ga_status ans then None
          else (case decode_upstream_response (ga_content_type ans)
                       (take default_max_upstream_response_bytes (ga_body ans)) of
                  None \<Rightarrow> None
                | Some rpc \<Rightarrow>
                    (case rp_error rpc of
                       Some e \<Rightarrow> Some (Inl e)
                     | None \<Rightarrow> if rp_result rpc = [] then None else Some (Inr (rp_result rpc)))))"

definition http_call_tool :: "'g gateway \<Rightarrow> 'g runtime_world tool_runtime" where
  "http_call_tool gw provider tool args w =
     (let i = rw_next_id w + 1;
          (ans, g') = gw (tool_call_request (rw_call w) tool args (sint i)) (rw_gateway w);
          w' = w\<lparr>rw_gateway := g', rw_next_id := i\<rparr>
      in case read_answer ans of
           None \<Rightarrow> (None, w')
         | Some (Inl e) \<Rightarrow> (None, w'\<lparr>rw_call := (rw_call w)\<lparr>cs_tool_error := Some e\<rparr>\<rparr>)
         | Some (Inr r) \<Rightarrow> (Some r, w'))"

text \<open>Concrete frames.\<close>

lemma frame_request_example:
  "map_option rpc_id (decode_rpc_request ''{\"id\": {\"a\": 1} ,\"method\":\"x\"}'') = Some ''{\"a\": 1}''"
  by code_simp

lemma frame_compact_example:
  "compact_raw ''{ \"a b\" : [1, \"<\"] }'' = ''{\"a b\":[1,\"'' @ [backslash] @ ''u003c\"]}''"
  by code_simp

lemma frame_sse_example:
  "decode_sse (''event: message'' @ [CHR 0x0D, CHR 0x0A] @ ''data: {\"result\":{\"ok\":true}}'' @ [CHR 0x0A])
     = Some \<lparr>rp_result = ''{\"ok\":true}'', rp_error = None\<rparr>"
  by code_simp

end
