(* ===== verification/Edge_Router.thy ===== *)
theory Edge_Router
  imports Engine
begin

text \<open>
  \<open>internal/server/edge/router.go\<close>: which connector's rules judge the tool a call names on the
  wire. Routing only chooses the rules; a name that routes nowhere gets a marker provider that no
  connector may have, so the engine refuses it.
\<close>

definition unrouted_provider :: string where "unrouted_provider = ''unrouted''"
definition ambiguous_provider :: string where "ambiguous_provider = ''ambiguous''"

definition reserved_provider_names :: "string list" where
  "reserved_provider_names = [unrouted_provider, ambiguous_provider]"

definition qualifier_separator :: string where "qualifier_separator = ''__''"

record tool_router =
  ro_providers :: "string list"
  ro_unqualified :: "string \<Rightarrow> string option"
  ro_ambiguous :: "string list"

text \<open>Every name a connector claims: its mapped tools, its excluded tools and its inventory.\<close>

definition claimed_names :: "connector \<Rightarrow> string list" where
  "claimed_names c = map tm_tool (cn_tools c) @ map xt_tool (cn_excluded c) @ cn_inventory c"

definition index_name :: "string \<Rightarrow> string \<Rightarrow> tool_router \<Rightarrow> tool_router" where
  "index_name provider name r =
     (let other = (case ro_unqualified r name of None \<Rightarrow> False | Some owner \<Rightarrow> owner \<noteq> provider) in
      if other
      then r\<lparr>ro_unqualified := (ro_unqualified r)(name := None), ro_ambiguous := List.insert name (ro_ambiguous r)\<rparr>
      else if name \<in> set (ro_ambiguous r) then r
      else r\<lparr>ro_unqualified := (ro_unqualified r)(name \<mapsto> provider)\<rparr>)"

definition index_connector :: "connector \<Rightarrow> tool_router \<Rightarrow> tool_router" where
  "index_connector c = fold (index_name (cn_provider c)) (claimed_names c)"

text \<open>\<open>newToolRouter\<close>; the error carries the reserved name a connector uses.\<close>

definition new_tool_router :: "manifest \<Rightarrow> string + tool_router" where
  "new_tool_router m =
     (case List.find (\<lambda>c. cn_provider c \<in> set reserved_provider_names) (mf_connectors m) of
        Some c \<Rightarrow> Inl (cn_provider c)
      | None \<Rightarrow> Inr (fold index_connector (mf_connectors m)
                  \<lparr>ro_providers = map cn_provider (mf_connectors m), ro_unqualified = Map.empty, ro_ambiguous = []\<rparr>))"

definition route :: "tool_router \<Rightarrow> string \<Rightarrow> string \<times> string" where
  "route r wire =
     (case str_cut wire qualifier_separator of (prefix, rest, ok) \<Rightarrow>
        if ok \<and> rest \<noteq> [] \<and> prefix \<in> set (ro_providers r) then (prefix, rest)
        else (case ro_unqualified r wire of
                Some p \<Rightarrow> (p, wire)
              | None \<Rightarrow> if wire \<in> set (ro_ambiguous r) then (ambiguous_provider, wire)
                        else (unrouted_provider, wire)))"

definition ambiguous_tools :: "tool_router \<Rightarrow> string list" where
  "ambiguous_tools r = sort_strings (ro_ambiguous r)"

section \<open>The index\<close>

text \<open>Who claims a name, after a list of (provider, name) claims.\<close>

definition claimants :: "(string \<times> string) list \<Rightarrow> string \<Rightarrow> string set" where
  "claimants cl name = {p. (p, name) \<in> set cl}"

definition claims_of :: "connector \<Rightarrow> (string \<times> string) list" where
  "claims_of c = map (Pair (cn_provider c)) (claimed_names c)"

definition manifest_claims :: "manifest \<Rightarrow> (string \<times> string) list" where
  "manifest_claims m = concat (map claims_of (mf_connectors m))"

text \<open>
  The index is right for a list of claims: a name has its owner when there is one claimant, and is
  ambiguous when there are several.
\<close>

definition router_indexes :: "(string \<times> string) list \<Rightarrow> tool_router \<Rightarrow> bool" where
  "router_indexes cl r \<longleftrightarrow>
     (\<forall>name. (\<forall>p. ro_unqualified r name = Some p \<longleftrightarrow> claimants cl name = {p})
        \<and> (name \<in> set (ro_ambiguous r) \<longleftrightarrow> (\<exists>p q. p \<noteq> q \<and> p \<in> claimants cl name \<and> q \<in> claimants cl name)))"

lemma claimants_snoc:
  "claimants (cl @ [(p, name)]) k = (if k = name then insert p (claimants cl k) else claimants cl k)"
  by (auto simp: claimants_def)

lemma index_name_indexes:
  assumes r: "router_indexes cl r"
  shows "router_indexes (cl @ [(p, name)]) (index_name p name r)"
proof -
  have u: "ro_unqualified r k = Some q \<longleftrightarrow> claimants cl k = {q}"
    and a: "k \<in> set (ro_ambiguous r) \<longleftrightarrow> (\<exists>p q. p \<noteq> q \<and> p \<in> claimants cl k \<and> q \<in> claimants cl k)" for k q
    using r by (auto simp: router_indexes_def)
  consider (other) owner where "claimants cl name = {owner}" "owner \<noteq> p"
    | (many) p1 p2 where "p1 \<noteq> p2" "p1 \<in> claimants cl name" "p2 \<in> claimants cl name"
    | (own) "claimants cl name \<subseteq> {p}" by blast
  then show ?thesis
  proof cases
    case other
    then have "ro_unqualified r name = Some owner" using u by simp
    then have "index_name p name r = r\<lparr>ro_unqualified := (ro_unqualified r)(name := None),
        ro_ambiguous := List.insert name (ro_ambiguous r)\<rparr>" using other(2) by (simp add: index_name_def)
    then show ?thesis
      using u a other unfolding router_indexes_def claimants_snoc by auto
  next
    case many
    then have "ro_unqualified r name = None" using u by (cases "ro_unqualified r name") auto
    moreover have "name \<in> set (ro_ambiguous r)" using many a by blast
    ultimately have "index_name p name r = r" by (simp add: index_name_def)
    moreover have "insert p (claimants cl name) \<noteq> {q}" for q using many by blast
    ultimately show ?thesis
      using u a many unfolding router_indexes_def claimants_snoc by (auto; blast)
  next
    case own
    then have n: "ro_unqualified r name = None \<or> ro_unqualified r name = Some p"
      using u by (cases "ro_unqualified r name") auto
    have "name \<notin> set (ro_ambiguous r)" using own a by blast
    then have "index_name p name r = r\<lparr>ro_unqualified := (ro_unqualified r)(name \<mapsto> p)\<rparr>"
      using n by (auto simp: index_name_def)
    moreover have "insert p (claimants cl name) = {p}" using own by blast
    ultimately show ?thesis
      using u a own unfolding router_indexes_def claimants_snoc by auto
  qed
qed

lemma fold_index_indexes:
  "router_indexes cl r \<Longrightarrow> router_indexes (cl @ map (Pair p) names) (fold (index_name p) names r)"
proof (induction names arbitrary: cl r)
  case (Cons n names)
  have "router_indexes ((cl @ [(p, n)]) @ map (Pair p) names) (fold (index_name p) names (index_name p n r))"
    by (rule Cons.IH, rule index_name_indexes, rule Cons.prems)
  then show ?case by simp
qed simp

lemma fold_connectors_indexes:
  "router_indexes cl r \<Longrightarrow> router_indexes (cl @ concat (map claims_of cs)) (fold index_connector cs r)"
proof (induction cs arbitrary: cl r)
  case (Cons c cs)
  have "router_indexes ((cl @ claims_of c) @ concat (map claims_of cs)) (fold index_connector cs (index_connector c r))"
    unfolding claims_of_def index_connector_def [of c]
    by (rule Cons.IH [unfolded claims_of_def], rule fold_index_indexes, rule Cons.prems)
  then show ?case by simp
qed simp

lemma index_name_providers [simp]: "ro_providers (index_name p n r) = ro_providers r"
  by (simp add: index_name_def Let_def)

lemma fold_index_providers: "ro_providers (fold (index_name p) ns r) = ro_providers r"
  by (induction ns arbitrary: r) simp_all

lemma fold_connectors_providers: "ro_providers (fold index_connector cs r) = ro_providers r"
  by (induction cs arbitrary: r) (simp_all add: index_connector_def fold_index_providers)

lemma new_tool_routerD:
  assumes "new_tool_router m = Inr r"
  shows "router_indexes (manifest_claims m) r"
    "ro_providers r = map cn_provider (mf_connectors m)"
    "c \<in> set (mf_connectors m) \<Longrightarrow> cn_provider c \<noteq> unrouted_provider \<and> cn_provider c \<noteq> ambiguous_provider"
proof -
  let ?r0 = "\<lparr>ro_providers = map cn_provider (mf_connectors m), ro_unqualified = Map.empty, ro_ambiguous = []\<rparr>"
  have r: "r = fold index_connector (mf_connectors m) ?r0"
    and none: "List.find (\<lambda>c. cn_provider c \<in> set reserved_provider_names) (mf_connectors m) = None"
    using assms by (auto simp: new_tool_router_def split: option.splits)
  have "router_indexes [] ?r0" by (auto simp: router_indexes_def claimants_def)
  from fold_connectors_indexes [OF this] show "router_indexes (manifest_claims m) r"
    by (simp add: r manifest_claims_def)
  show "ro_providers r = map cn_provider (mf_connectors m)"
    by (simp add: r fold_connectors_providers)
  show "cn_provider c \<noteq> unrouted_provider \<and> cn_provider c \<noteq> ambiguous_provider"
    if "c \<in> set (mf_connectors m)"
    using none that by (auto simp: find_None_iff reserved_provider_names_def)
qed

end
