(* ===== verification/Edge.thy ===== *)
theory Edge
  imports Edge_Upstream Edge_Router Control
begin

text \<open>
  \<open>internal/server/edge/edge.go\<close>: authentication of a connector request by grant token and observed
  node, the handling of a posted frame, and the forwarding of everything else to the gateway.
\<close>

section \<open>Requests and answers\<close>

text \<open>
  Headers are a list of name and value in arrival order, with names in canonical form.
\<close>

record edge_request =
  eq_method :: string
  eq_path :: string
  eq_query :: string
  eq_remote :: string
  eq_headers :: "(string \<times> string) list"
  eq_body :: string

definition header_get :: "string \<Rightarrow> (string \<times> string) list \<Rightarrow> string" where
  "header_get k hs = (case map_of hs k of None \<Rightarrow> [] | Some v \<Rightarrow> v)"

definition header_del :: "string \<Rightarrow> (string \<times> string) list \<Rightarrow> (string \<times> string) list" where
  "header_del k hs = filter (\<lambda>(n, v). n \<noteq> k) hs"

datatype edge_body =
    EbError string string
  | EbResult string string
  | EbFailure string rpc_error
  | EbDenied string denied_error
  | EbForwarded gateway_answer

type_synonym edge_response = "edge_body response"

definition write_error_json :: "nat \<Rightarrow> string \<Rightarrow> string \<Rightarrow> edge_response" where
  "write_error_json st code msg = write_json st (EbError code msg)"

definition write_rpc_error :: "nat \<Rightarrow> string \<Rightarrow> int \<Rightarrow> string \<Rightarrow> edge_response" where
  "write_rpc_error st i code msg = write_json st (EbFailure i \<lparr>re_code = code, re_message = msg, re_data = []\<rparr>)"

text \<open>The text of a denial follows from its kind; the code is \<open>codeForbidden\<close>.\<close>

definition write_rpc_denied :: "string \<Rightarrow> denied_error \<Rightarrow> edge_response" where
  "write_rpc_denied i d = write_json 403 (EbDenied i d)"

definition write_rpc_result :: "string \<Rightarrow> string \<Rightarrow> edge_response" where
  "write_rpc_result i r = write_json 200 (EbResult i r)"

definition write_rpc_failure :: "string \<Rightarrow> rpc_error \<Rightarrow> edge_response" where
  "write_rpc_failure i e = write_json 200 (EbFailure i e)"

section \<open>The edge\<close>

text \<open>
  The \<open>Store\<close> interface. The number of an append tells a request's writes apart, because each can
  fail on its own.
\<close>

record 's edge_store =
  es_grant :: "string \<Rightarrow> 's \<Rightarrow> store_error + grant"
  es_machine :: "string \<Rightarrow> 's \<Rightarrow> store_error + machine"
  es_append :: "nat \<Rightarrow> audit_event \<Rightarrow> 's \<Rightarrow> (store_error + unit) \<times> 's"

record 's edge =
  ed_store :: "'s edge_store"
  ed_resolve :: "string \<Rightarrow> identity option"
  ed_engine :: engine
  ed_router :: tool_router
  ed_max_bytes :: nat

definition edge_default_max_bytes :: nat where
  "edge_default_max_bytes = 4 * 1024 * 1024"

datatype edge_config_error = EdgeUpstreamNotLoopback | EdgeReservedProvider string

text \<open>\<open>New\<close>: a missing dependency cannot be written here.\<close>

definition edge_new :: "'s edge_store \<Rightarrow> (string \<Rightarrow> identity option) \<Rightarrow> engine \<Rightarrow> url \<Rightarrow> int
    \<Rightarrow> edge_config_error + 's edge" where
  "edge_new st resolve e upstream max_bytes =
     (if \<not> is_loopback_host (url_hostname upstream) then Inl EdgeUpstreamNotLoopback
      else (case new_tool_router (en_manifest e) of
              Inl p \<Rightarrow> Inl (EdgeReservedProvider p)
            | Inr r \<Rightarrow> Inr \<lparr>ed_store = st, ed_resolve = resolve, ed_engine = e, ed_router = r,
                        ed_max_bytes = (if max_bytes \<le> 0 then edge_default_max_bytes else nat max_bytes)\<rparr>))"

section \<open>Denials\<close>

definition request_detail :: "edge_request \<Rightarrow> (string \<times> string) list" where
  "request_detail rq = [(''path'', truncate_detail (eq_path rq)), (''method'', eq_method rq)]"

definition edge_deny :: "'s edge \<Rightarrow> int \<Rightarrow> audit_event \<Rightarrow> nat \<Rightarrow> string \<Rightarrow> string \<Rightarrow> 's
    \<Rightarrow> edge_response \<times> 's" where
  "edge_deny ed now e st code msg s =
     (case es_append (ed_store ed) 0 (if ev_ts e = None then e\<lparr>ev_ts := Some now\<rparr> else e) s of
        (Inl err, s') \<Rightarrow>
          (write_error_json 503 ''unavailable''
             ''request refused, but the refusal could not be recorded: audit log unavailable'', s')
      | (Inr u, s') \<Rightarrow> ((write_error_json st code msg)\<lparr>rs_challenge := (st = 401)\<rparr>, s'))"

definition edge_deny_auth :: "'s edge \<Rightarrow> int \<Rightarrow> edge_request \<Rightarrow> identity \<Rightarrow> string \<Rightarrow> string
    \<Rightarrow> (string \<times> string) list option \<Rightarrow> nat \<Rightarrow> string \<Rightarrow> string \<Rightarrow> 's \<Rightarrow> edge_response \<times> 's" where
  "edge_deny_auth ed now rq observed tok reason detail st code msg s =
     (let e = (mk_event EventAuthDenied ActorMachine OutcomeDenied)
            \<lparr>ev_obs_node := id_node observed, ev_obs_name := id_name observed, ev_reason := reason,
             ev_detail := (case detail of None \<Rightarrow> request_detail rq | Some d \<Rightarrow> d)\<rparr>;
          e' = (if tok \<noteq> [] then e\<lparr>ev_fingerprint := cred_fingerprint tok\<rparr> else e)
      in edge_deny ed now e' st code msg s)"

section \<open>Authentication\<close>

definition edge_unresolved :: "'s edge \<Rightarrow> int \<Rightarrow> edge_request \<Rightarrow> string \<Rightarrow> 's \<Rightarrow> edge_response \<times> 's" where
  "edge_unresolved ed now rq reason s =
     edge_deny ed now ((mk_event EventAuthDenied ActorMachine OutcomeDenied)
         \<lparr>ev_reason := reason, ev_detail := request_detail rq\<rparr>)
       403 ''forbidden'' ''peer tailnet identity could not be resolved'' s"

definition grant_caller :: "identity \<Rightarrow> machine \<Rightarrow> grant \<Rightarrow> tool_caller" where
  "grant_caller observed m g = \<lparr>tc_actor = ActorMachine, tc_obs_node = id_node observed,
     tc_obs_name = id_name observed, tc_machine = m_id m, tc_harness = g_harness g, tc_grant = g_id g,
     tc_caps = g_caps g\<rparr>"

text \<open>The token is looked up on every request.\<close>

definition edge_token :: "'s edge \<Rightarrow> int \<Rightarrow> edge_request \<Rightarrow> identity \<Rightarrow> string \<Rightarrow> 's
    \<Rightarrow> (edge_response + tool_caller) \<times> 's" where
  "edge_token ed now rq observed tok s =
     (case es_grant (ed_store ed) (cred_hash tok) s of
        Inl ErrNotFound \<Rightarrow>
          apfst Inl (edge_deny_auth ed now rq observed tok ''invalid_or_revoked_grant'' None
            401 ''unauthenticated'' ''invalid or revoked grant token'' s)
      | Inl err \<Rightarrow> (Inl (write_error_json 500 ''internal'' ''grant lookup failed''), s)
      | Inr g \<Rightarrow>
          (case es_machine (ed_store ed) (g_machine g) s of
             Inl err \<Rightarrow> (Inl (write_error_json 500 ''internal'' ''machine lookup failed''), s)
           | Inr m \<Rightarrow>
               if m_node_id m \<noteq> id_node observed
               then apfst Inl (edge_deny_auth ed now rq observed tok ''machine_mismatch''
                      (Some (request_detail rq @ [(''bound_machine_id'', m_id m)]))
                      403 ''forbidden'' ''grant token is not valid from this machine'' s)
               else (Inr (grant_caller observed m g), s)))"

definition edge_authenticate :: "'s edge \<Rightarrow> int \<Rightarrow> edge_request \<Rightarrow> 's \<Rightarrow> (edge_response + tool_caller) \<times> 's" where
  "edge_authenticate ed now rq s =
     (case ed_resolve ed (eq_remote rq) of
        None \<Rightarrow> apfst Inl (edge_unresolved ed now rq ''identity_unresolvable'' s)
      | Some observed \<Rightarrow>
          if id_node observed = [] then apfst Inl (edge_unresolved ed now rq ''identity_empty'' s)
          else (case bearer (header_get header_authorization (eq_headers rq)) of
                  None \<Rightarrow> apfst Inl (edge_deny_auth ed now rq observed [] ''missing_grant_token'' None
                            401 ''unauthenticated'' ''missing grant token'' s)
                | Some tok \<Rightarrow> edge_token ed now rq observed tok s))"

section \<open>Forwarding\<close>

text \<open>
  What \<open>httputil.ReverseProxy\<close> does to the headers before \<open>Rewrite\<close>: the hop-by-hop headers and the
  forwarding headers go, among them those the \<open>Connection\<close> header names.
\<close>

definition hop_headers :: "string list" where
  "hop_headers = [''Connection'', ''Proxy-Connection'', ''Keep-Alive'', ''Proxy-Authenticate'',
     ''Proxy-Authorization'', ''Te'', ''Trailer'', ''Transfer-Encoding'', ''Upgrade'']"

definition proxy_forwarding_headers :: "string list" where
  "proxy_forwarding_headers = [''Forwarded'', ''X-Forwarded-For'', ''X-Forwarded-Host'', ''X-Forwarded-Proto'']"

definition upper_byte :: "char \<Rightarrow> char" where
  "upper_byte c = (if 97 \<le> byte c \<and> byte c \<le> 122 then chr (byte c - 32) else c)"

fun canonical_header :: "bool \<Rightarrow> string \<Rightarrow> string" where
  "canonical_header up [] = []"
| "canonical_header up (c # s) =
     (if up then upper_byte c else lower_byte c) # canonical_header (c = CHR ''-'') s"

definition connection_names :: "(string \<times> string) list \<Rightarrow> string list" where
  "connection_names hs =
     map (canonical_header True \<circ> trim_space)
       (concat (map (\<lambda>(k, v). if k = ''Connection'' then split_on (CHR '','') v else []) hs))"

definition proxy_headers :: "(string \<times> string) list \<Rightarrow> (string \<times> string) list" where
  "proxy_headers hs =
     filter (\<lambda>(k, v). k \<notin> set hop_headers \<and> k \<notin> set (connection_names hs)
       \<and> k \<notin> set proxy_forwarding_headers) hs"

text \<open>\<open>Rewrite\<close>: the gateway's endpoint, the client's query, no grant token.\<close>

definition forward_headers :: "(string \<times> string) list \<Rightarrow> (string \<times> string) list" where
  "forward_headers hs =
     (let out = header_del ''X-Forwarded-For'' (header_del header_authorization (proxy_headers hs)) in
      if header_get header_protocol_version out = []
      then header_del header_protocol_version out @ [(header_protocol_version, protocol_version)] else out)"

definition forwarded_request :: "edge_request \<Rightarrow> string \<Rightarrow> gateway_request" where
  "forwarded_request rq body =
     \<lparr>gr_method = eq_method rq, gr_query = eq_query rq, gr_headers = forward_headers (eq_headers rq),
      gr_body = body\<rparr>"

definition forward :: "'g gateway \<Rightarrow> edge_request \<Rightarrow> string \<Rightarrow> 'g \<Rightarrow> edge_response \<times> 'g" where
  "forward gw rq body g =
     (case gw (forwarded_request rq body) g of
        (None, g') \<Rightarrow> (write_error_json 502 ''gateway_unreachable'' ''the connector gateway is unreachable'', g')
      | (Some ans, g') \<Rightarrow> (write_json (ga_status ans) (EbForwarded ans), g'))"

section \<open>Posted frames\<close>

text \<open>
  What the edge stands between: the registry, the gateway, and the counter of calls sent to it. The
  call state lives as long as one request.
\<close>

record ('s, 'g) edge_world =
  ew_store :: 's
  ew_gateway :: 'g
  ew_next_id :: "64 word"

definition edge_append :: "'s edge_store \<Rightarrow> (nat, store_error, 's \<times> 'g runtime_world) sink" where
  "edge_append st i now e w = (case es_append st i e (fst w) of (r, s') \<Rightarrow> (r, (s', snd w)))"

definition edge_call :: "'g gateway \<Rightarrow> ('s \<times> 'g runtime_world) tool_runtime" where
  "edge_call gw p t a w = (case http_call_tool gw p t a (snd w) of (r, g') \<Rightarrow> (r, (fst w, g')))"

definition is_json_array :: "string \<Rightarrow> bool" where
  "is_json_array body \<longleftrightarrow>
     (case dropWhile (\<lambda>c. c \<in> {CHR 0x20, CHR 0x09, CHR 0x0D, CHR 0x0A}) body of
        [] \<Rightarrow> False | c # r \<Rightarrow> c = CHR ''['')"

text \<open>The answer to a call, from the broker's error and the gateway's own error.\<close>

definition answer_call :: "string \<Rightarrow> rpc_error option \<Rightarrow> invoke_error + string \<Rightarrow> edge_response" where
  "answer_call i terr res =
     (case res of
        Inr r \<Rightarrow> write_rpc_result i r
      | Inl (Refused d) \<Rightarrow> write_rpc_denied i d
      | Inl AuditUnavailable \<Rightarrow>
          write_rpc_error 503 i code_audit_failure ''call refused: the audit log is unavailable''
      | Inl (ResultUnrecorded cid) \<Rightarrow>
          write_rpc_error 503 i code_audit_failure ''call refused: the audit log is unavailable''
      | Inl ToolFailed \<Rightarrow>
          (case terr of
             Some e \<Rightarrow> write_rpc_failure i e
           | None \<Rightarrow> write_rpc_error 502 i code_gateway_failure ''the connector gateway call failed''))"

definition call_request :: "'s edge \<Rightarrow> tool_caller \<Rightarrow> tool_call_params \<Rightarrow> tool_request" where
  "call_request ed c p =
     (case route (ed_router ed) (tp_name p) of (provider, tool) \<Rightarrow>
        \<lparr>tr_provider = provider, tr_tool = tool, tr_args = tp_arguments p, tr_caller = c\<rparr>)"

definition call_facts :: "edge_request \<Rightarrow> tool_call_params \<Rightarrow> call_state" where
  "call_facts rq p = \<lparr>cs_session = header_get header_session_id (eq_headers rq), cs_wire_tool = tp_name p,
     cs_version = header_get header_protocol_version (eq_headers rq), cs_tool_error = None\<rparr>"

definition edge_tool_call :: "regex_engine \<Rightarrow> 's edge \<Rightarrow> 'g gateway \<Rightarrow> int \<Rightarrow> string option \<Rightarrow> edge_request
    \<Rightarrow> tool_caller \<Rightarrow> string \<Rightarrow> tool_call_params \<Rightarrow> ('s, 'g) edge_world
    \<Rightarrow> edge_response \<times> ('s, 'g) edge_world" where
  "edge_tool_call rx ed gw now rnd rq c i p w =
     (case invoke rx (ed_engine ed) (edge_append (ed_store ed)) (edge_call gw) id now rnd (call_request ed c p)
             (ew_store w, \<lparr>rw_gateway = ew_gateway w, rw_next_id = ew_next_id w, rw_call = call_facts rq p\<rparr>) of
        (res, (s', rw)) \<Rightarrow>
          (answer_call i (cs_tool_error (rw_call rw)) res,
           \<lparr>ew_store = s', ew_gateway = rw_gateway rw, ew_next_id = rw_next_id rw\<rparr>))"

definition forward_frame :: "'g gateway \<Rightarrow> edge_request \<Rightarrow> string \<Rightarrow> ('s, 'g) edge_world
    \<Rightarrow> edge_response \<times> ('s, 'g) edge_world" where
  "forward_frame gw rq body w =
     (case forward gw rq body (ew_gateway w) of (resp, g') \<Rightarrow> (resp, w\<lparr>ew_gateway := g'\<rparr>))"

text \<open>How the edge reads a body.\<close>

datatype frame = FrameTooLarge | FrameBatch | FrameForward | FrameBadParams string
  | FrameCall string tool_call_params

definition read_frame :: "nat \<Rightarrow> string \<Rightarrow> frame" where
  "read_frame max_bytes body =
     (if max_bytes < length body then FrameTooLarge
      else if is_json_array body then FrameBatch
      else (case decode_rpc_request body of
              None \<Rightarrow> FrameForward
            | Some req \<Rightarrow>
                if rpc_method req \<noteq> method_tools_call then FrameForward
                else if rpc_params req = [] then FrameCall (rpc_id req) \<lparr>tp_name = [], tp_arguments = []\<rparr>
                else (case decode_tool_params (rpc_params req) of
                        None \<Rightarrow> FrameBadParams (rpc_id req)
                      | Some p \<Rightarrow> FrameCall (rpc_id req) p)))"

definition handle_post :: "regex_engine \<Rightarrow> 's edge \<Rightarrow> 'g gateway \<Rightarrow> int \<Rightarrow> string option \<Rightarrow> edge_request
    \<Rightarrow> tool_caller \<Rightarrow> ('s, 'g) edge_world \<Rightarrow> edge_response \<times> ('s, 'g) edge_world" where
  "handle_post rx ed gw now rnd rq c w =
     (case read_frame (ed_max_bytes ed) (eq_body rq) of
        FrameTooLarge \<Rightarrow> (write_error_json 413 ''invalid_request'' ''request body is too large or unreadable'', w)
      | FrameBatch \<Rightarrow>
          (write_rpc_error 400 [] code_invalid_request ''batched JSON-RPC requests are not supported'', w)
      | FrameForward \<Rightarrow> forward_frame gw rq (eq_body rq) w
      | FrameBadParams i \<Rightarrow> (write_rpc_error 400 i code_invalid_params ''malformed tools/call parameters'', w)
      | FrameCall i p \<Rightarrow> edge_tool_call rx ed gw now rnd rq c i p w)"

text \<open>\<open>ServeHTTP\<close>.\<close>

definition edge_serve :: "regex_engine \<Rightarrow> 's edge \<Rightarrow> 'g gateway \<Rightarrow> int \<Rightarrow> string option \<Rightarrow> edge_request
    \<Rightarrow> ('s, 'g) edge_world \<Rightarrow> edge_response \<times> ('s, 'g) edge_world" where
  "edge_serve rx ed gw now rnd rq w =
     (case edge_authenticate ed now rq (ew_store w) of
        (Inl resp, s') \<Rightarrow> (resp, w\<lparr>ew_store := s'\<rparr>)
      | (Inr c, s') \<Rightarrow>
          (if eq_method rq = ''POST'' then handle_post rx ed gw now rnd rq c (w\<lparr>ew_store := s'\<rparr>)
           else forward_frame gw rq (eq_body rq) (w\<lparr>ew_store := s'\<rparr>)))"

section \<open>The production store\<close>

text \<open>The SQLite store as the edge's store; every statement of every call has its own faults.\<close>

datatype edge_query = QGrant | QMachine | QAppend nat

definition sqlite_edge_store :: "(edge_query \<Rightarrow> faults) \<Rightarrow> int \<Rightarrow> db edge_store" where
  "sqlite_edge_store fls now =
     \<lparr>es_grant = active_grant_by_token_hash (fls QGrant),
      es_machine = machine_by_id (fls QMachine),
      es_append = (\<lambda>i. append_audit (fls (QAppend i)) now)\<rparr>"

end
