(* ===== verification/Edge_Lemmas.thy ===== *)
theory Edge_Lemmas
  imports Edge Store_Props
begin

text \<open>
  The interface the edge relies on, the case analysis of one request proved inside it, and the
  SQLite store as its implementation.
\<close>

locale grant_registry =
  fixes st :: "'s edge_store"
    and log :: "'s \<Rightarrow> audit_event list"
    and machines :: "'s \<Rightarrow> machine list"
    and grants :: "'s \<Rightarrow> grant list"
  assumes append_ok: "es_append st n e s = (Inr u, s') \<Longrightarrow>
        (\<exists>r. log s' = log s @ [r] \<and> records r e) \<and> machines s' = machines s \<and> grants s' = grants s"
    and append_err: "es_append st n e s = (Inl x, s') \<Longrightarrow> s' = s"
    and grant_active: "es_grant st h s = Inr g \<Longrightarrow>
        g \<in> set (grants s) \<and> g_token_hash g = h \<and> g_state g = GrantActive"
    and grant_absent: "es_grant st h s = Inl ErrNotFound \<Longrightarrow> g \<in> set (grants s) \<Longrightarrow>
        g_token_hash g = h \<Longrightarrow> g_state g \<noteq> GrantActive"
    and machine_id: "es_machine st i s = Inr m \<Longrightarrow> m \<in> set (machines s) \<and> m_id m = i"
begin

text \<open>What a request whose credentials hold establishes.\<close>

definition proves :: "'s edge \<Rightarrow> edge_request \<Rightarrow> 's \<Rightarrow> tool_caller \<Rightarrow> bool" where
  "proves ed rq s c \<longleftrightarrow>
     (\<exists>observed tok g m. ed_resolve ed (eq_remote rq) = Some observed \<and> id_node observed \<noteq> []
        \<and> bearer (header_get header_authorization (eq_headers rq)) = Some tok
        \<and> g \<in> set (grants s) \<and> g_token_hash g = cred_hash tok \<and> g_state g = GrantActive
        \<and> m \<in> set (machines s) \<and> m_id m = g_machine g \<and> m_node_id m = id_node observed
        \<and> c = grant_caller observed m g)"

text \<open>A denial: the row is written and the answer is the intended one, or the answer is 503.\<close>

lemma deny_cases:
  assumes "edge_deny ed now e code ec msg s = (resp, s')" "ed_store ed = st"
  obtains (recorded) r where "rs_status resp = code" "log s' = log s @ [r]"
      "records r (if ev_ts e = None then e\<lparr>ev_ts := Some now\<rparr> else e)" "machines s' = machines s" "grants s' = grants s"
    | (unrecorded) "rs_status resp = 503" "s' = s"
proof -
  let ?e = "if ev_ts e = None then e\<lparr>ev_ts := Some now\<rparr> else e"
  obtain r1 s1 where a: "es_append st 0 ?e s = (r1, s1)" by fastforce
  note run = assms(1) [unfolded edge_deny_def assms(2) a]
  show ?thesis
  proof (cases r1)
    case (Inl x)
    with run append_err a show ?thesis
      by (intro unrecorded) (auto simp: write_error_json_def write_json_def)
  next
    case (Inr u)
    with a obtain r where "log s1 = log s @ [r]" "records r ?e" "machines s1 = machines s" "grants s1 = grants s"
      using append_ok by blast
    with run Inr show ?thesis
      by (intro recorded [of r]) (auto simp: write_error_json_def write_json_def)
  qed
qed

text \<open>The row of a rejected credential names the observed node and nothing the token did not prove.\<close>

definition rejection_row :: "'s edge \<Rightarrow> edge_request \<Rightarrow> audit_event \<Rightarrow> bool" where
  "rejection_row ed rq r \<longleftrightarrow> ev_event r = EventAuthDenied \<and> ev_outcome r = OutcomeDenied
     \<and> ev_machine r = [] \<and> ev_grant r = []
     \<and> ev_obs_node r = (case ed_resolve ed (eq_remote rq) of None \<Rightarrow> [] | Some observed \<Rightarrow> id_node observed)"

definition refused_as :: "'s edge \<Rightarrow> edge_request \<Rightarrow> edge_response \<Rightarrow> 's \<Rightarrow> 's \<Rightarrow> bool" where
  "refused_as ed rq resp s s' \<longleftrightarrow>
     (rs_status resp \<in> {401, 403} \<and> machines s' = machines s \<and> grants s' = grants s
        \<and> (\<exists>r. log s' = log s @ [r] \<and> rejection_row ed rq r))
     \<or> (rs_status resp \<in> {500, 503} \<and> s' = s)"

lemma deny_refused:
  assumes "edge_deny ed now e code ec msg s = (resp, s')" "ed_store ed = st" "code \<in> {401, 403}"
    "rejection_row ed rq e"
  shows "refused_as ed rq resp s s'"
  using assms(1,2)
proof (cases rule: deny_cases)
  case (recorded r)
  then have "rejection_row ed rq r"
    using assms(4) records_fields [OF recorded(3)] by (auto simp: rejection_row_def split: if_splits)
  with recorded assms(3) show ?thesis by (auto simp: refused_as_def)
qed (simp add: refused_as_def)

lemma deny_auth_refused:
  assumes "edge_deny_auth ed now rq observed tok reason detail code ec msg s = (resp, s')" "ed_store ed = st"
    "code \<in> {401, 403}" "ed_resolve ed (eq_remote rq) = Some observed"
  shows "refused_as ed rq resp s s'"
  using assms(1) unfolding edge_deny_auth_def Let_def
  by (rule deny_refused) (use assms in \<open>auto simp: rejection_row_def mk_event_def\<close>)

lemma unresolved_refused:
  assumes "edge_unresolved ed now rq reason s = (resp, s')" "ed_store ed = st"
    "\<And>observed. ed_resolve ed (eq_remote rq) = Some observed \<Longrightarrow> id_node observed = []"
  shows "refused_as ed rq resp s s'"
  using assms(1) unfolding edge_unresolved_def
  by (rule deny_refused) (use assms in \<open>auto simp: rejection_row_def mk_event_def split: option.split\<close>)

lemma token_cases:
  assumes run: "edge_token ed now rq observed tok s = (res, s')" and st: "ed_store ed = st"
    and ob: "ed_resolve ed (eq_remote rq) = Some observed" "id_node observed \<noteq> []"
    and tok: "bearer (header_get header_authorization (eq_headers rq)) = Some tok"
  shows "(\<exists>c. res = Inr c \<and> s' = s \<and> proves ed rq s c) \<or> (\<exists>resp. res = Inl resp \<and> refused_as ed rq resp s s')"
proof (cases "es_grant st (cred_hash tok) s")
  case (Inl err)
  show ?thesis
  proof (cases "err = ErrNotFound")
    case True
    with run Inl st obtain resp where "res = Inl resp" and d: "edge_deny_auth ed now rq observed tok
        ''invalid_or_revoked_grant'' None 401 ''unauthenticated'' ''invalid or revoked grant token'' s = (resp, s')"
      by (auto simp: edge_token_def dest: apfst_eqD)
    with deny_auth_refused [OF d st _ ob(1)] show ?thesis by simp
  next
    case False
    with run Inl st have "res = Inl (write_error_json 500 ''internal'' ''grant lookup failed'')" "s' = s"
      by (auto simp: edge_token_def split: store_error.splits)
    then show ?thesis by (simp add: refused_as_def write_error_json_def write_json_def)
  qed
next
  case (Inr g)
  note g = grant_active [OF Inr]
  show ?thesis
  proof (cases "es_machine st (g_machine g) s")
    case m: (Inl err)
    with run Inr st have "res = Inl (write_error_json 500 ''internal'' ''machine lookup failed'')" "s' = s"
      by (auto simp: edge_token_def)
    then show ?thesis by (simp add: refused_as_def write_error_json_def write_json_def)
  next
    case m: (Inr m)
    show ?thesis
    proof (cases "m_node_id m = id_node observed")
      case True
      with run Inr m st have "res = Inr (grant_caller observed m g)" "s' = s" by (simp_all add: edge_token_def)
      moreover have "proves ed rq s (grant_caller observed m g)"
        unfolding proves_def using ob tok g machine_id [OF m] True by blast
      ultimately show ?thesis by blast
    next
      case False
      with run Inr m st obtain resp where "res = Inl resp" and d: "edge_deny_auth ed now rq observed tok
          ''machine_mismatch'' (Some (request_detail rq @ [(''bound_machine_id'', m_id m)])) 403 ''forbidden''
          ''grant token is not valid from this machine'' s = (resp, s')"
        by (auto simp: edge_token_def dest: apfst_eqD)
      with deny_auth_refused [OF d st _ ob(1)] show ?thesis by simp
    qed
  qed
qed

lemma authenticate_cases:
  assumes run: "edge_authenticate ed now rq s = (res, s')" and st: "ed_store ed = st"
  obtains (accepted) c where "res = Inr c" "s' = s" "proves ed rq s c"
    | (refused) resp where "res = Inl resp" "refused_as ed rq resp s s'"
proof -
  have "(\<exists>c. res = Inr c \<and> s' = s \<and> proves ed rq s c) \<or> (\<exists>resp. res = Inl resp \<and> refused_as ed rq resp s s')"
  proof (cases "ed_resolve ed (eq_remote rq)")
    case None
    with run obtain resp where "res = Inl resp" and d: "edge_unresolved ed now rq ''identity_unresolvable'' s = (resp, s')"
      by (auto simp: edge_authenticate_def dest: apfst_eqD)
    with unresolved_refused [OF d st] None show ?thesis by simp
  next
    case (Some observed)
    show ?thesis
    proof (cases "id_node observed = []")
      case True
      with run Some obtain resp where "res = Inl resp" and d: "edge_unresolved ed now rq ''identity_empty'' s = (resp, s')"
        by (auto simp: edge_authenticate_def dest: apfst_eqD)
      with unresolved_refused [OF d st] Some True show ?thesis by simp
    next
      case node: False
      show ?thesis
      proof (cases "bearer (header_get header_authorization (eq_headers rq))")
        case None
        with run Some node obtain resp where "res = Inl resp" and d: "edge_deny_auth ed now rq observed []
            ''missing_grant_token'' None 401 ''unauthenticated'' ''missing grant token'' s = (resp, s')"
          by (auto simp: edge_authenticate_def dest: apfst_eqD)
        with deny_auth_refused [OF d st _ Some] show ?thesis by simp
      next
        case tok: (Some tok)
        with run Some node have "edge_token ed now rq observed tok s = (res, s')" by (simp add: edge_authenticate_def)
        from token_cases [OF this st Some node tok] show ?thesis .
      qed
    qed
  qed
  then show ?thesis using accepted refused by blast
qed

end

section \<open>A request in its world\<close>

text \<open>With a gateway beside it, the registry is the world of the broker's invocations.\<close>

locale edge_frame = grant_registry st log machines grants
  for st :: "'s edge_store" and log machines grants +
  fixes gw :: "'g gateway"

sublocale edge_frame \<subseteq> tools: tool_world "edge_append st" "\<lambda>w. log (fst w)" "edge_call gw" "\<lambda>w. rw_gateway (snd w)"
proof unfold_locales
  fix n now e and w w' :: "'s \<times> 'g runtime_world" and u
  assume "edge_append st n now e w = (Inr u, w')"
  then show "\<exists>r. log (fst w') = log (fst w) @ [r] \<and> records r e"
    using append_ok by (auto simp: edge_append_def split: prod.splits)
next
  fix n now e and w w' :: "'s \<times> 'g runtime_world" and x
  assume "edge_append st n now e w = (Inl x, w')"
  then show "w' = w" using append_err by (auto simp: edge_append_def prod_eq_iff split: prod.splits)
qed (auto simp: edge_append_def edge_call_def split: prod.splits)

context edge_frame
begin

text \<open>An admitted call in the log, with the request that was judged.\<close>

definition admitted_row :: "regex_engine \<Rightarrow> 's edge \<Rightarrow> tool_caller \<Rightarrow> tool_call_params \<Rightarrow> audit_event \<Rightarrow> bool" where
  "admitted_row rx ed c p r \<longleftrightarrow>
     dc_allowed (authorize rx (ed_engine ed) (call_request ed c p))
     \<and> ev_event r = EventConnectorToolCall \<and> ev_outcome r = OutcomeAllowed
     \<and> ev_machine r = tc_machine c \<and> ev_grant r = tc_grant c"

lemma call_request_caller [simp]: "tr_caller (call_request ed c p) = c"
  by (simp add: call_request_def split: prod.split)

lemma edge_tool_call_gateway:
  assumes "edge_tool_call rx ed gw now rnd rq c i p w = (resp, w')" "ed_store ed = st"
    "ew_gateway w' \<noteq> ew_gateway w"
  shows "\<exists>r rows. log (ew_store w') = log (ew_store w) @ r # rows \<and> admitted_row rx ed c p r"
proof -
  let ?w0 = "(ew_store w, \<lparr>rw_gateway = ew_gateway w, rw_next_id = ew_next_id w, rw_call = call_facts rq p\<rparr>)"
  let ?req = "call_request ed c p"
  obtain res s' rw where inv: "invoke rx (ed_engine ed) (edge_append st) (edge_call gw) id now rnd ?req ?w0 = (res, (s', rw))"
    by (metis surj_pair)
  then have w': "ew_store w' = s'" "ew_gateway w' = rw_gateway rw"
    using assms(1,2) by (auto simp: edge_tool_call_def)
  with assms(3) have "rw_gateway (snd (s', rw)) \<noteq> rw_gateway (snd ?w0)" by simp
  from tools.gateway_after_record [OF inv this] obtain w1 r rows where
    "dc_allowed (authorize rx (ed_engine ed) ?req)" "log (fst w1) = log (ew_store w) @ [r]"
    "records r (call_event rx ?req (authorize rx (ed_engine ed) ?req) (new_call_id rnd))"
    "log s' = log (fst w1) @ rows" by auto
  then show ?thesis
    using w' records_fields call_event_allowed call_event_identity
    unfolding admitted_row_def
    by (intro exI [of _ r] exI [of _ rows]) (simp add: records_fields call_event_allowed call_event_identity)
qed

text \<open>
  What it takes to move the gateway: proved credentials, and either a frame the edge does not read
  as a tool call, or an admitted call in the log.
\<close>

lemma serve_gateway:
  assumes run: "edge_serve rx ed gw now rnd rq w = (resp, w')" and st: "ed_store ed = st"
    and moved: "ew_gateway w' \<noteq> ew_gateway w"
  shows "\<exists>c. proves ed rq (ew_store w) c \<and>
    (eq_method rq \<noteq> ''POST'' \<or> read_frame (ed_max_bytes ed) (eq_body rq) = FrameForward
     \<or> (\<exists>i p r rows. read_frame (ed_max_bytes ed) (eq_body rq) = FrameCall i p
          \<and> log (ew_store w') = log (ew_store w) @ r # rows \<and> admitted_row rx ed c p r))"
proof -
  obtain res s1 where a: "edge_authenticate ed now rq (ew_store w) = (res, s1)" by fastforce
  note run' = run [unfolded edge_serve_def a]
  from a st show ?thesis
  proof (cases rule: authenticate_cases)
    case (refused resp')
    with run' moved show ?thesis by auto
  next
    case (accepted c)
    then have w1: "w\<lparr>ew_store := s1\<rparr> = w" by simp
    show ?thesis
    proof (cases "eq_method rq = ''POST''")
      case True
      with run' accepted w1 have post: "handle_post rx ed gw now rnd rq c w = (resp, w')" by simp
      show ?thesis
      proof (cases "read_frame (ed_max_bytes ed) (eq_body rq)")
        case (FrameCall i p)
        with post have "edge_tool_call rx ed gw now rnd rq c i p w = (resp, w')" by (simp add: handle_post_def)
        from edge_tool_call_gateway [OF this st moved] FrameCall accepted show ?thesis by blast
      qed (use post moved accepted in \<open>auto simp: handle_post_def\<close>)
    qed (use accepted in blast)
  qed
qed

text \<open>A request without credentials that hold changes nothing but the log.\<close>

lemma serve_unproved:
  assumes run: "edge_serve rx ed gw now rnd rq w = (resp, w')" and st: "ed_store ed = st"
    and no: "\<And>c. \<not> proves ed rq (ew_store w) c"
  shows "refused_as ed rq resp (ew_store w) (ew_store w') \<and> ew_gateway w' = ew_gateway w"
proof -
  obtain res s1 where a: "edge_authenticate ed now rq (ew_store w) = (res, s1)" by fastforce
  from a st show ?thesis
  proof (cases rule: authenticate_cases)
    case (refused resp')
    with run a show ?thesis by (auto simp: edge_serve_def)
  qed (use no in blast)
qed

text \<open>A tool call frame the engine refuses is not forwarded in any form.\<close>

lemma serve_denied_call:
  assumes "edge_serve rx ed gw now rnd rq w = (resp, w')" "ed_store ed = st" "eq_method rq = ''POST''"
    "read_frame (ed_max_bytes ed) (eq_body rq) = FrameCall i p"
    "\<And>c. proves ed rq (ew_store w) c \<Longrightarrow> \<not> dc_allowed (authorize rx (ed_engine ed) (call_request ed c p))"
  shows "ew_gateway w' = ew_gateway w"
proof (rule ccontr)
  assume "ew_gateway w' \<noteq> ew_gateway w"
  from serve_gateway [OF assms(1,2) this] assms(3-5) show False by (auto simp: admitted_row_def)
qed

end

section \<open>The SQLite store provides it\<close>

lemma query1_absent:
  assumes "query1 fl p rows = Inl ErrNotFound" "r \<in> set rows"
  shows "\<not> p r"
  using assms by (auto simp: query1_def select1_None_iff split: if_splits option.splits)

interpretation sqlite_edge: grant_registry "sqlite_edge_store fls now" db_audit db_machines db_grants
proof unfold_locales
  fix n e s s' u
  assume a: "es_append (sqlite_edge_store fls now) n e s = (Inr u, s')"
  then have "append_audit (fls (QAppend n)) now e s = (Inr u, s')" by (simp add: sqlite_edge_store_def)
  then show "(\<exists>r. db_audit s' = db_audit s @ [r] \<and> records r e) \<and> db_machines s' = db_machines s
      \<and> db_grants s' = db_grants s"
    using store_log.append_ok append_frame by blast
next
  fix n e s s' x
  assume "es_append (sqlite_edge_store fls now) n e s = (Inl x, s')"
  then show "s' = s" using store_log.append_err by (simp add: sqlite_edge_store_def)
next
  fix h s g
  assume "es_grant (sqlite_edge_store fls now) h s = Inr g"
  then show "g \<in> set (db_grants s) \<and> g_token_hash g = h \<and> g_state g = GrantActive"
    using store_grants.by_token_active by (auto simp: sqlite_edge_store_def)
next
  fix h s g
  assume "es_grant (sqlite_edge_store fls now) h s = Inl ErrNotFound" "g \<in> set (db_grants s)" "g_token_hash g = h"
  then show "g_state g \<noteq> GrantActive"
    using query1_absent by (fastforce simp: sqlite_edge_store_def active_grant_by_token_hash_def)
next
  fix i s m
  assume "es_machine (sqlite_edge_store fls now) i s = Inr m"
  then show "m \<in> set (db_machines s) \<and> m_id m = i"
    by (auto simp: sqlite_edge_store_def machine_by_id_def query1_def dest: select1_SomeD split: if_splits option.splits)
qed

interpretation sqlite_frame: edge_frame "sqlite_edge_store fls now" db_audit db_machines db_grants gw
  for fls now gw
  by unfold_locales

end
