(* ===== verification/Edge_Props.thy ===== *)
theory Edge_Props
  imports Edge_Lemmas Control_Props
begin

text \<open>
  The properties of the connector edge over the SQLite store and any gateway: routing, who a request
  acts as, what a rejected request leaves behind, what reaches the gateway and what never does, and
  how issuance and revocation at the control plane reach the edge.
\<close>

section \<open>Routing\<close>

definition name_qualified :: "manifest \<Rightarrow> string \<Rightarrow> string \<Rightarrow> string \<Rightarrow> bool" where
  "name_qualified m wire p tool \<longleftrightarrow>
     str_cut wire qualifier_separator = (p, tool, True) \<and> tool \<noteq> [] \<and> p \<in> cn_provider ` set (mf_connectors m)"

lemma route_unqualified:
  assumes "new_tool_router m = Inr r" "\<nexists>p tool. name_qualified m wire p tool"
  shows "route r wire =
    ((case ro_unqualified r wire of Some p \<Rightarrow> p
      | None \<Rightarrow> if wire \<in> set (ro_ambiguous r) then ambiguous_provider else unrouted_provider), wire)"
proof -
  obtain p tool ok where c: "str_cut wire qualifier_separator = (p, tool, ok)" by (metis surj_pair)
  then have "\<not> (ok \<and> tool \<noteq> [] \<and> p \<in> set (ro_providers r))"
    using assms(2) new_tool_routerD(2) [OF assms(1)] by (auto simp: name_qualified_def)
  with c show ?thesis by (auto simp: route_def split: option.split)
qed

text \<open>
  C19. Routing is exactly the manifest's claims. A name qualified by a declared connector goes to that
  connector with the rest of the name. Any other name keeps its spelling and goes to the one
  connector that claims it (maps it, excludes it or lists it in its inventory), to the marker
  \<open>ambiguous\<close> when two claim it, and to the marker \<open>unrouted\<close> when none does.
\<close>

theorem route_exact:
  assumes "new_tool_router m = Inr r"
  shows "(\<forall>p tool. name_qualified m wire p tool \<longrightarrow> route r wire = (p, tool))
    \<and> ((\<nexists>p tool. name_qualified m wire p tool) \<longrightarrow>
        (\<forall>p. claimants (manifest_claims m) wire = {p} \<longrightarrow> route r wire = (p, wire))
        \<and> (claimants (manifest_claims m) wire = {} \<longrightarrow> route r wire = (unrouted_provider, wire))
        \<and> ((\<exists>p q. p \<noteq> q \<and> {p, q} \<subseteq> claimants (manifest_claims m) wire)
             \<longrightarrow> route r wire = (ambiguous_provider, wire)))"
proof -
  note d = new_tool_routerD [OF assms]
  have u: "ro_unqualified r wire = Some p \<longleftrightarrow> claimants (manifest_claims m) wire = {p}"
    and a: "wire \<in> set (ro_ambiguous r) \<longleftrightarrow> (\<exists>p q. p \<noteq> q \<and> {p, q} \<subseteq> claimants (manifest_claims m) wire)" for p
    using d(1) by (auto simp: router_indexes_def)
  have q: "route r wire = (p, tool)" if "name_qualified m wire p tool" for p tool
    using that d(2) by (simp add: name_qualified_def route_def)
  have n: "route r wire = (p, wire)" if "\<nexists>p tool. name_qualified m wire p tool" "claimants (manifest_claims m) wire = {p}" for p
  proof -
    have "ro_unqualified r wire = Some p" using u that(2) by simp
    with route_unqualified [OF assms that(1)] show ?thesis by simp
  qed
  have e: "route r wire = (unrouted_provider, wire)"
    if "\<nexists>p tool. name_qualified m wire p tool" "claimants (manifest_claims m) wire = {}"
  proof -
    have "ro_unqualified r wire = None" using u that(2) by (cases "ro_unqualified r wire") auto
    with route_unqualified [OF assms that(1)] that(2) a show ?thesis by simp
  qed
  have m: "route r wire = (ambiguous_provider, wire)"
    if no: "\<nexists>p tool. name_qualified m wire p tool"
      and many: "\<exists>p q. p \<noteq> q \<and> {p, q} \<subseteq> claimants (manifest_claims m) wire"
  proof -
    obtain x y where "x \<noteq> y" "x \<in> claimants (manifest_claims m) wire" "y \<in> claimants (manifest_claims m) wire"
      using many by blast
    then have "claimants (manifest_claims m) wire \<noteq> {p}" for p by (metis singletonD)
    then have "ro_unqualified r wire \<noteq> Some p" for p using u by blast
    then have "ro_unqualified r wire = None" by blast
    moreover have "wire \<in> set (ro_ambiguous r)" using a many by (rule iffD2)
    ultimately show ?thesis using route_unqualified [OF assms no] by simp
  qed
  show ?thesis by (intro conjI allI impI) (rule q n e m, assumption+)+
qed

definition two_connectors :: manifest where
  "two_connectors = \<lparr>mf_version = 1,
     mf_connectors = [sample_connector, sample_connector\<lparr>cn_provider := ''mail'',
       cn_tools := [sample_tool\<lparr>tm_tool := ''send''\<rparr>], cn_inventory := [''send'', ''drop_all'']\<rparr>]\<rparr>"

lemma two_connectors_router:
  "\<exists>r. new_tool_router two_connectors = Inr r"
  "\<exists>r. new_tool_router (two_connectors\<lparr>mf_connectors := rev (mf_connectors two_connectors)\<rparr>) = Inr r"
  by (simp_all add: new_tool_router_def two_connectors_def sample_connector_def reserved_provider_names_def
      unrouted_provider_def ambiguous_provider_def)

lemma route_exact_witness:
  "\<exists>r. new_tool_router two_connectors = Inr r \<and> route r ''mail__drop_all'' = (''mail'', ''drop_all'')
     \<and> route r ''send'' = (''mail'', ''send'') \<and> route r ''drop_all'' = (ambiguous_provider, ''drop_all'')
     \<and> route r ''__nothing'' = (unrouted_provider, ''__nothing'')"
proof -
  let ?claims = "[(''calendar'', ''manage_event''), (''calendar'', ''drop_all''), (''calendar'', ''manage_event''),
    (''calendar'', ''drop_all''), (''mail'', ''send''), (''mail'', ''drop_all''), (''mail'', ''send''), (''mail'', ''drop_all'')]"
  obtain r where r: "new_tool_router two_connectors = Inr r" using two_connectors_router by blast
  have cl: "manifest_claims two_connectors = ?claims" by code_simp
  have ps: "cn_provider ` set (mf_connectors two_connectors) = {''calendar'', ''mail''}"
    by (simp add: two_connectors_def sample_connector_def)
  have cut: "str_cut ''mail__drop_all'' qualifier_separator = (''mail'', ''drop_all'', True)"
    "str_cut ''send'' qualifier_separator = (''send'', [], False)"
    "str_cut ''drop_all'' qualifier_separator = (''drop_all'', [], False)"
    "str_cut ''__nothing'' qualifier_separator = ([], ''nothing'', True)" by code_simp+
  have q: "name_qualified two_connectors ''mail__drop_all'' ''mail'' ''drop_all''"
    "\<nexists>p t. name_qualified two_connectors ''send'' p t" "\<nexists>p t. name_qualified two_connectors ''drop_all'' p t"
    "\<nexists>p t. name_qualified two_connectors ''__nothing'' p t"
    using cut ps by (auto simp: name_qualified_def)
  have c: "claimants (manifest_claims two_connectors) ''send'' = {''mail''}"
    "claimants (manifest_claims two_connectors) ''__nothing'' = {}" unfolding cl by (auto simp: claimants_def)
  have d: "''calendar'' \<noteq> ''mail'' \<and> {''calendar'', ''mail''} \<subseteq> claimants (manifest_claims two_connectors) ''drop_all''"
    unfolding cl by (simp add: claimants_def)
  have "route r ''mail__drop_all'' = (''mail'', ''drop_all'')"
    by (rule route_exact [OF r, THEN conjunct1, rule_format, OF q(1)])
  moreover have "route r ''send'' = (''mail'', ''send'')"
    by (rule route_exact [OF r, THEN conjunct2, THEN mp, OF q(2), THEN conjunct1, rule_format, OF c(1)])
  moreover have "route r ''drop_all'' = (ambiguous_provider, ''drop_all'')"
    by (rule route_exact [OF r, THEN conjunct2, THEN mp, OF q(3), THEN conjunct2, THEN conjunct2, THEN mp])
      (rule exI [of _ "''calendar''"], rule exI [of _ "''mail''"], rule d)
  moreover have "route r ''__nothing'' = (unrouted_provider, ''__nothing'')"
    by (rule route_exact [OF r, THEN conjunct2, THEN mp, OF q(4), THEN conjunct2, THEN conjunct1, THEN mp, OF c(2)])
  ultimately show ?thesis using r by blast
qed

text \<open>
  The order of the connectors in the manifest does not matter to routing: two manifests with the
  same connectors route every name alike.
\<close>

theorem route_order_independent:
  assumes "new_tool_router m = Inr r" "new_tool_router m' = Inr r'"
    "set (mf_connectors m) = set (mf_connectors m')"
  shows "route r wire = route r' wire"
proof -
  have cl: "claimants (manifest_claims m) k = claimants (manifest_claims m') k" for k
    using assms(3) by (simp add: claimants_def manifest_claims_def)
  have u: "ro_unqualified r k = ro_unqualified r' k" for k
  proof (rule option.expand)
    show "(ro_unqualified r k = None) = (ro_unqualified r' k = None)"
      using new_tool_routerD(1) [OF assms(1)] new_tool_routerD(1) [OF assms(2)] cl
      by (metis not_None_eq router_indexes_def)
    show "the (ro_unqualified r k) = the (ro_unqualified r' k)"
      if "ro_unqualified r k \<noteq> None" "ro_unqualified r' k \<noteq> None"
      using new_tool_routerD(1) [OF assms(1)] new_tool_routerD(1) [OF assms(2)] cl that
      by (metis option.exhaust_sel router_indexes_def singleton_inject)
  qed
  have "wire \<in> set (ro_ambiguous r) \<longleftrightarrow> wire \<in> set (ro_ambiguous r')"
    using new_tool_routerD(1) [OF assms(1)] new_tool_routerD(1) [OF assms(2)] cl by (auto simp: router_indexes_def)
  moreover have "set (ro_providers r) = set (ro_providers r')"
    using new_tool_routerD(2) [OF assms(1)] new_tool_routerD(2) [OF assms(2)] assms(3) by simp
  ultimately show ?thesis by (simp add: route_def u split: prod.splits)
qed

lemma route_order_independent_witness:
  "\<exists>r r'. new_tool_router two_connectors = Inr r
     \<and> new_tool_router (two_connectors\<lparr>mf_connectors := rev (mf_connectors two_connectors)\<rparr>) = Inr r'
     \<and> route r ''drop_all'' = route r' ''drop_all''"
proof -
  obtain r r' where "new_tool_router two_connectors = Inr r"
    "new_tool_router (two_connectors\<lparr>mf_connectors := rev (mf_connectors two_connectors)\<rparr>) = Inr r'"
    using two_connectors_router by blast
  with route_order_independent [OF this, of "''drop_all''"] show ?thesis by auto
qed

text \<open>
  A name that belongs to no single connector is refused by the engine, on the record: under the
  router of a registered manifest, an attributed call whose name is unclaimed or ambiguous is
  denied as a policy violation for an unknown provider.
\<close>

theorem unroutable_tool_denied:
  assumes "register rx m = Inr e" "new_tool_router m = Inr (ed_router ed)" "ed_engine ed = e" "attributed c"
    "\<nexists>q tool. name_qualified m (tp_name p) q tool" "\<nexists>q. claimants (manifest_claims m) (tp_name p) = {q}"
  shows "dc_reason (authorize rx e (call_request ed c p)) = reason_unknown_provider
    \<and> policy_violation (authorize rx e (call_request ed c p))
    \<and> \<not> dc_allowed (authorize rx e (call_request ed c p))"
proof -
  note d = new_tool_routerD [OF assms(2)]
  have "ro_unqualified (ed_router ed) (tp_name p) \<noteq> Some q" for q
    using d(1) assms(6) by (auto simp: router_indexes_def)
  then have "ro_unqualified (ed_router ed) (tp_name p) = None" by blast
  then have "fst (route (ed_router ed) (tp_name p)) \<in> {unrouted_provider, ambiguous_provider}"
    using route_unqualified [OF assms(2,5)] by simp
  then have "cn_provider k \<noteq> tr_provider (call_request ed c p)" if "k \<in> set (mf_connectors m)" for k
    using d(3) [OF that] by (auto simp: call_request_def split: prod.splits)
  then have "en_connectors e (tr_provider (call_request ed c p)) = None"
    using registerD(2) [OF assms(1)] by (cases "en_connectors e (tr_provider (call_request ed c p))") auto
  moreover have "tr_caller (call_request ed c p) = c" by (simp add: call_request_def split: prod.split)
  ultimately have "authorize rx e (call_request ed c p) = refused reason_unknown_provider"
    using assms(4) by (simp add: authorize_lookup)
  then show ?thesis by (simp add: policy_violation_def)
qed

section \<open>Requests\<close>

text \<open>
  Whoever the edge lets through holds a live grant and sits at the machine it was issued to: the
  presented bearer token hashes to the stored hash of an active grant, the machine of that grant is
  the one enrolled for the observed node, and the capabilities used for the decision are the
  grant's. Authenticating changes nothing.
\<close>

theorem edge_caller_holds_grant:
  assumes "ed_store ed = sqlite_edge_store fls t" "edge_authenticate ed now rq db = (Inr c, db')"
  shows "db' = db \<and>
    (\<exists>observed tok g m. ed_resolve ed (eq_remote rq) = Some observed \<and> id_node observed \<noteq> []
       \<and> bearer (header_get header_authorization (eq_headers rq)) = Some tok
       \<and> g \<in> set (db_grants db) \<and> g_token_hash g = cred_hash tok \<and> g_state g = GrantActive
       \<and> m \<in> set (db_machines db) \<and> m_id m = g_machine g \<and> m_node_id m = id_node observed
       \<and> tc_grant c = g_id g \<and> tc_machine c = m_id m \<and> tc_harness c = g_harness g \<and> tc_caps c = g_caps g)"
  using assms(2,1)
proof (cases rule: sqlite_edge.authenticate_cases)
  case (accepted c')
  then show ?thesis by (fastforce simp: sqlite_edge.proves_def grant_caller_def)
qed auto


text \<open>
  C6. Revocation takes effect on the next request and for good: after a revocation of a grant has
  returned, and after any further store calls with any faults, a request with that grant's token is
  refused (401 or 403 with a row that names only the observed node, or 500 or 503 with nothing
  changed) and the gateway hears nothing of it, whatever the request is.
\<close>

theorem revoked_grant_refused_at_edge:
  assumes "db_wf db" "revoke_grant fl t i reason au db = (Inr (g, changed), db1)" "db_step\<^sup>*\<^sup>* db1 (ew_store w)"
    "ed_store ed = sqlite_edge_store fls t'" "edge_serve rx ed gw now rnd rq w = (resp, w')"
    "bearer (header_get header_authorization (eq_headers rq)) = Some tok" "cred_hash tok = g_token_hash g"
  shows "ew_gateway w' = ew_gateway w \<and> db_grants (ew_store w') = db_grants (ew_store w)
    \<and> (rs_status resp \<in> {401, 403} \<and> (\<exists>r. db_audit (ew_store w') = db_audit (ew_store w) @ [r]
          \<and> ev_event r = EventAuthDenied \<and> ev_machine r = [] \<and> ev_grant r = [])
       \<or> rs_status resp \<in> {500, 503} \<and> ew_store w' = ew_store w)"
proof -
  have wf1: "db_wf db1" by (rule revoke_grant_wf [OF assms(1,2)])
  have "g \<in> set (db_grants db1) \<and> g_state g = GrantRevoked"
    using assms(2) by (cases rule: revoke_grant_cases) (auto simp: set_update_where dest!: select1_SomeD)
  then have g: "g \<in> set (db_grants (ew_store w))" "g_state g = GrantRevoked"
    using steps_keep_revoked [OF assms(3) wf1] by auto
  have d: "distinct (map g_token_hash (db_grants (ew_store w)))"
    using steps_wf [OF assms(3) wf1] by (simp add: db_wf_def grants_wf_def)
  have no: "\<not> sqlite_edge.proves ed rq (ew_store w) c" for c
  proof
    assume "sqlite_edge.proves ed rq (ew_store w) c"
    then obtain x where x: "x \<in> set (db_grants (ew_store w))" "g_token_hash x = cred_hash tok" "g_state x = GrantActive"
      using assms(6) by (auto simp: sqlite_edge.proves_def)
    with distinct_map_eqD [OF d x(1) g(1)] assms(7) g(2) show False by simp
  qed
  from sqlite_frame.serve_unproved [OF assms(5,4) no] show ?thesis
    by (auto simp: sqlite_edge.refused_as_def sqlite_edge.rejection_row_def)
qed

text \<open>
  C17. An issued token opens the edge, for its own node only: the token the control plane answers a
  successful issuance with authenticates a connector request from the same node, with the grant id,
  harness and capabilities of that answer.
\<close>

theorem issued_token_opens_edge:
  assumes "sv_api sv = sqlite_api fls t rnd" "db_wf db" "b \<noteq> []"
    "handle_issue_grant sv now (Some b) rq db = (resp, db')"
    "rs_body resp = BIssue gid harness caps url tok superseded" "rs_status resp < 400"
    "ed_store ed = sqlite_edge_store fls' t'" "\<not> fls' QGrant SQuery" "\<not> fls' QMachine SQuery"
    "ed_resolve ed (eq_remote er) = sv_resolve sv (rq_remote rq)"
    "header_get header_authorization (eq_headers er) = ''Bearer '' @ tok"
  shows "\<exists>c. edge_authenticate ed now' er db' = (Inr c, db') \<and> tc_grant c = gid \<and> tc_harness c = harness
    \<and> tc_caps c = caps"
  using assms(4,1)
proof (cases rule: sqlite.handle_issue_cases)
  case refused
  with assms(6) show ?thesis by (simp add: sqlite.refusal_def)
next
  case (issued c h requested caps' tok' hash g old)
  note ok = sqlite.issue_ok [OF issued(4) assms(2)]
  have wf: "db_wf db'" using sqlite.issue_inv [OF issued(4) assms(2)] .
  have auth: "sqlite.authenticated sv rq c db"
    using issued(1) assms(1) by (cases rule: sqlite.authenticate_cases) auto
  from issued(5) assms(5) have eq: "tok' = tok" "gid = g_id g" "harness = g_harness g" "caps = g_caps g" by simp_all
  then have tok: "tok = b64_raw_url b" "hash = cred_hash tok"
    using issued(3) by (auto simp: cred_new_def Let_def)
  have "bearer (header_get header_authorization (eq_headers er)) = Some tok"
    unfolding assms(11) tok(1) by (intro bearer_of_token b64_plain b64_nonempty assms(3))
  moreover have "select1 (\<lambda>x. g_token_hash x = hash \<and> g_state x = GrantActive) (db_grants db') = Some g"
    using ok db_wfD(2) [OF wf] by (intro select1_unique) (auto simp: grants_wf_def dest: distinct_map_eqD)
  moreover have "select1 (\<lambda>x. m_id x = m_id (ca_machine c)) (db_machines db') = Some (ca_machine c)"
    using ok auth select1_by_key [of m_id "db_machines db'" "ca_machine c"] db_wfD(1) [OF wf]
    by (auto simp: machines_wf_def sqlite.authenticated_def)
  ultimately have "edge_authenticate ed now' er db' = (Inr (grant_caller (ca_observed c) (ca_machine c) g), db')"
    using auth ok assms(7-10) tok(2)
    by (simp add: edge_authenticate_def edge_token_def sqlite_edge_store_def active_grant_by_token_hash_def
        machine_by_id_def query1_def sqlite.authenticated_def)
  then show ?thesis by (simp add: eq grant_caller_def)
qed

section \<open>What the gateway is sent\<close>

text \<open>A gateway that keeps what it was sent.\<close>

definition recording :: "'g gateway \<Rightarrow> (gateway_request list \<times> 'g) gateway" where
  "recording gw q st = (case gw q (snd st) of (a, g') \<Rightarrow> (a, (fst st @ [q], g')))"

lemma forward_headers_no_grant: "header_authorization \<notin> fst ` set (forward_headers hs)"
  by (auto simp: forward_headers_def Let_def header_del_def header_defs)

lemma tool_call_headers_no_grant: "header_authorization \<notin> fst ` set (gr_headers (tool_call_request cs tool args i))"
  by (auto simp: tool_call_request_def Let_def header_defs)

lemma invoke_runtime:
  assumes "invoke rx e (edge_append st) (edge_call gw) fs now rnd req (s, rw) = (res, (s', rw'))"
  shows "rw' = rw \<or> rw' = snd (http_call_tool gw (tr_provider req) (tr_tool req) (tr_args req) rw)"
  using assms
  by (auto simp: invoke_def Let_def edge_append_def edge_call_def split: prod.splits sum.splits if_splits)

lemma http_call_gateway:
  "rw_gateway (snd (http_call_tool gw p tool args rw))
     = snd (gw (tool_call_request (rw_call rw) tool args (sint (rw_next_id rw + 1))) (rw_gateway rw))"
  by (simp add: http_call_tool_def Let_def split: prod.split option.split sum.split)

lemma forward_recorded:
  "\<exists>q. fst (snd (forward (recording gw) rq body g)) = fst g @ [q] \<and> header_authorization \<notin> fst ` set (gr_headers q)"
  by (auto simp: forward_def recording_def forwarded_request_def forward_headers_no_grant split: prod.split option.split)

definition sent_clean :: "(gateway_request list \<times> 'g) \<Rightarrow> (gateway_request list \<times> 'g) \<Rightarrow> bool" where
  "sent_clean g g' \<longleftrightarrow> (\<exists>sent. fst g' = fst g @ sent \<and> length sent \<le> 1
     \<and> (\<forall>q \<in> set sent. header_authorization \<notin> fst ` set (gr_headers q)))"

lemma sent_clean_none: "sent_clean g g"
  by (simp add: sent_clean_def)

lemma sent_clean_one: "fst g' = fst g @ [q] \<Longrightarrow> header_authorization \<notin> fst ` set (gr_headers q) \<Longrightarrow> sent_clean g g'"
  by (simp add: sent_clean_def)

lemma forward_frame_clean:
  "forward_frame (recording gw) rq body w = (resp, w') \<Longrightarrow> sent_clean (ew_gateway w) (ew_gateway w')"
  using forward_recorded [of gw rq body "ew_gateway w"]
  by (auto simp: forward_frame_def split: prod.splits intro: sent_clean_one)

lemma edge_tool_call_clean:
  assumes "edge_tool_call rx ed (recording gw) now rnd rq c i p w = (resp, w')"
  shows "sent_clean (ew_gateway w) (ew_gateway w')"
proof -
  let ?rw = "\<lparr>rw_gateway = ew_gateway w, rw_next_id = ew_next_id w, rw_call = call_facts rq p\<rparr>"
  obtain res s' rw where inv: "invoke rx (ed_engine ed) (edge_append (ed_store ed)) (edge_call (recording gw)) id now rnd
      (call_request ed c p) (ew_store w, ?rw) = (res, (s', rw))"
    by (metis surj_pair)
  with assms have w': "ew_gateway w' = rw_gateway rw" by (auto simp: edge_tool_call_def)
  from invoke_runtime [OF inv] show ?thesis
  proof
    assume "rw = ?rw"
    with w' show ?thesis by (simp add: sent_clean_none)
  next
    assume "rw = snd (http_call_tool (recording gw) (tr_provider (call_request ed c p))
      (tr_tool (call_request ed c p)) (tr_args (call_request ed c p)) ?rw)"
    then show ?thesis
      unfolding w'
      by (intro sent_clean_one [OF _ tool_call_headers_no_grant])
        (simp add: http_call_gateway recording_def split: prod.split)
  qed
qed


section \<open>Two gaps\<close>

text \<open>
  Two bodies that name the method \<open>tools/call\<close> to a reader that compares member names exactly and
  does not check the version member's type.
\<close>

definition folded_call :: string where
  "folded_call = ''{\"method\":\"tools/call\",\"METHOD\":\"ping\"}''"

definition mistyped_call :: string where
  "mistyped_call = ''{\"jsonrpc\":2,\"method\":\"tools/call\"}''"

lemma gap_frames:
  "length folded_call \<le> 64" "length mistyped_call \<le> 64"
  "is_json_array folded_call = False" "is_json_array mistyped_call = False"
  "map_option (\<lambda>q. rpc_method q) (decode_rpc_request folded_call) = Some ''ping''"
  "decode_rpc_request mistyped_call = None"
  "json_unmarshal folded_call = Some (JObj [(''method'', JStr ''tools/call''), (''METHOD'', JStr ''ping'')])"
  "json_unmarshal mistyped_call = Some (JObj [(''jsonrpc'', JNum ''2''), (''method'', JStr ''tools/call'')])"
  by code_simp+

text \<open>
  C20. A tool call can be worded so that the edge does not read it as one. Both bodies above carry
  exactly the member \<open>method\<close> with the value \<open>tools/call\<close>, and for both a request by any
  authenticated caller, whatever its grant allows, is forwarded to the gateway byte for byte with no
  decision and no audit row: the first because Go's decoder folds member names and the last wins,
  the second because a type error in another member makes the whole body unread.
\<close>

theorem unread_tool_calls_forwarded:
  assumes "edge_authenticate ed now rq (ew_store w) = (Inr c, ew_store w)" "eq_method rq = ''POST''"
    "eq_body rq \<in> {folded_call, mistyped_call}" "64 \<le> ed_max_bytes ed"
  shows "edge_serve rx ed gw now rnd rq w = forward_frame gw rq (eq_body rq) w
    \<and> gr_body (forwarded_request rq (eq_body rq)) = eq_body rq
    \<and> ew_store (snd (edge_serve rx ed gw now rnd rq w)) = ew_store w
    \<and> (\<exists>kvs. json_unmarshal (eq_body rq) = Some (JObj kvs) \<and> obj_get ''method'' kvs = Some (JStr method_tools_call))"
proof -
  have "read_frame (ed_max_bytes ed) folded_call = FrameForward"
    using gap_frames(1,3,5) assms(4) by (auto simp: read_frame_def method_tools_call_def split: option.split)
  moreover have "read_frame (ed_max_bytes ed) mistyped_call = FrameForward"
    using gap_frames(2,4,6) assms(4) by (auto simp: read_frame_def)
  ultimately have "read_frame (ed_max_bytes ed) (eq_body rq) = FrameForward" using assms(3) by auto
  then have "edge_serve rx ed gw now rnd rq w = forward_frame gw rq (eq_body rq) w"
    using assms(1,2) by (simp add: edge_serve_def handle_post_def)
  moreover have "\<exists>kvs. json_unmarshal (eq_body rq) = Some (JObj kvs)
      \<and> obj_get ''method'' kvs = Some (JStr method_tools_call)"
    using assms(3) gap_frames(7,8) by (auto simp: obj_get_def method_tools_call_def)
  ultimately show ?thesis
    by (simp add: forwarded_request_def forward_frame_def split: prod.split)
qed

text \<open>
  A completed call can be answered as refused. When an authorized call has been admitted and
  performed and only the row of its result cannot be written, the answer is 503 with the text
  ``call refused'', although the gateway has acted.
\<close>

theorem completed_call_answered_refused:
  assumes "dc_allowed (authorize rx (ed_engine ed) (call_request ed c p))"
    "es_append (ed_store ed) 0 (call_event rx (call_request ed c p) (authorize rx (ed_engine ed) (call_request ed c p))
       (new_call_id rnd)) (ew_store w) = (Inr (), s1)"
    "\<And>e. \<exists>err. es_append (ed_store ed) 1 e s1 = (Inl err, s1)"
  shows "\<exists>w'. edge_tool_call rx ed gw now rnd rq c i p w
      = (write_rpc_error 503 i code_audit_failure ''call refused: the audit log is unavailable'', w')
    \<and> ew_gateway w' = snd (gw (tool_call_request (call_facts rq p) (tr_tool (call_request ed c p)) (tp_arguments p)
        (sint (ew_next_id w + 1))) (ew_gateway w))"
proof -
  let ?req = "call_request ed c p"
  let ?rw = "\<lparr>rw_gateway = ew_gateway w, rw_next_id = ew_next_id w, rw_call = call_facts rq p\<rparr>"
  obtain resp rw' where c: "http_call_tool gw (tr_provider ?req) (tr_tool ?req) (tr_args ?req) ?rw = (resp, rw')" by fastforce
  obtain err where e: "es_append (ed_store ed) 1 (result_event rx ?req (authorize rx (ed_engine ed) ?req)
      (new_call_id rnd) resp) s1 = (Inl err, s1)" using assms(3) by blast
  have "invoke rx (ed_engine ed) (edge_append (ed_store ed)) (edge_call gw) id now rnd ?req (ew_store w, ?rw)
      = (Inl (ResultUnrecorded (new_call_id rnd)), (s1, rw'))"
    using assms(1,2) c e by (simp add: invoke_def Let_def edge_append_def edge_call_def)
  moreover have "rw_gateway rw' = snd (gw (tool_call_request (call_facts rq p) (tr_tool ?req) (tp_arguments p)
      (sint (ew_next_id w + 1))) (ew_gateway w))"
    using http_call_gateway [of gw "tr_provider ?req" "tr_tool ?req" "tr_args ?req" ?rw] c
    by (simp add: call_request_def split: prod.splits)
  ultimately show ?thesis by (simp add: edge_tool_call_def answer_call_def)
qed

section \<open>Concrete instances\<close>

definition edge_db :: db where
  "edge_db = sample_db\<lparr>db_grants := [sample_grant\<lparr>g_token_hash := cred_hash ''tok'',
     g_caps := [''connector.write'']\<rparr>]\<rparr>"

definition sample_edge :: "(edge_query \<Rightarrow> faults) \<Rightarrow> db edge" where
  "sample_edge fls = \<lparr>ed_store = sqlite_edge_store fls 50,
     ed_resolve = (\<lambda>r. if r = ''peer1'' then Some \<lparr>id_node = ''n1'', id_name = ''laptop'', id_user = []\<rparr> else None),
     ed_engine = sample_engine,
     ed_router = \<lparr>ro_providers = [''calendar''],
       ro_unqualified = Map.empty(''manage_event'' \<mapsto> ''calendar'', ''drop_all'' \<mapsto> ''calendar''), ro_ambiguous = []\<rparr>,
     ed_max_bytes = 4096\<rparr>"

definition sample_edge_request :: "string \<Rightarrow> edge_request" where
  "sample_edge_request body = \<lparr>eq_method = ''POST'', eq_path = ''/mcp'', eq_query = [], eq_remote = ''peer1'',
     eq_headers = [(''Authorization'', ''Bearer tok'')], eq_body = body\<rparr>"

definition counting_gateway :: "nat gateway" where
  "counting_gateway q n = (Some \<lparr>ga_status = 200, ga_content_type = ''application/json'', ga_body = ''{\"result\":{}}''\<rparr>, Suc n)"

definition edge_start :: "db \<Rightarrow> (db, nat) edge_world" where
  "edge_start db = \<lparr>ew_store = db, ew_gateway = 0, ew_next_id = 0\<rparr>"

definition edge_sample_caller :: tool_caller where
  "edge_sample_caller = \<lparr>tc_actor = ActorMachine, tc_obs_node = ''n1'', tc_obs_name = ''laptop'', tc_machine = ''m-01'',
     tc_harness = ''claude'', tc_grant = ''g-02'', tc_caps = [''connector.write'']\<rparr>"

lemma edge_sample_bearer:
  "bearer (header_get header_authorization (eq_headers (sample_edge_request body))) = Some ''tok''"
proof -
  have "header_get header_authorization (eq_headers (sample_edge_request body)) = ''Bearer tok''"
    by (simp add: header_get_def header_defs sample_edge_request_def)
  moreover have "bearer ''Bearer tok'' = Some ''tok''" by code_simp
  ultimately show ?thesis by simp
qed

lemma edge_sample_authenticate:
  "edge_authenticate (sample_edge (\<lambda>_. no_faults)) 60 (sample_edge_request body) edge_db = (Inr edge_sample_caller, edge_db)"
  unfolding edge_authenticate_def edge_sample_bearer
  by (simp add: sample_edge_def sample_edge_request_def edge_token_def sqlite_edge_store_def
      active_grant_by_token_hash_def machine_by_id_def query1_no_faults edge_db_def sample_db_def
      sample_grant_def sample_machine_def grant_caller_def edge_sample_caller_def)

lemma edge_caller_holds_grant_witness:
  "\<exists>g \<in> set (db_grants edge_db). g_token_hash g = cred_hash ''tok'' \<and> g_state g = GrantActive"
proof -
  have st: "ed_store (sample_edge (\<lambda>_. no_faults)) = sqlite_edge_store (\<lambda>_. no_faults) 50" by (simp add: sample_edge_def)
  from edge_caller_holds_grant [OF st edge_sample_authenticate [of "[]"]] edge_sample_bearer [of "[]"]
  show ?thesis by auto
qed

lemma folded_forward:
  "forward_frame counting_gateway (sample_edge_request folded_call) folded_call (edge_start edge_db)
     = (write_json 200 (EbForwarded \<lparr>ga_status = 200, ga_content_type = ''application/json'', ga_body = ''{\"result\":{}}''\<rparr>),
        (edge_start edge_db)\<lparr>ew_gateway := 1\<rparr>)"
  by (simp add: forward_frame_def forward_def counting_gateway_def edge_start_def)

lemma unread_tool_calls_forwarded_witness:
  "ew_gateway (snd (edge_serve no_regex (sample_edge (\<lambda>_. no_faults)) counting_gateway 60 None
     (sample_edge_request folded_call) (edge_start edge_db))) = 1"
proof -
  have a: "edge_authenticate (sample_edge (\<lambda>_. no_faults)) 60 (sample_edge_request folded_call) (ew_store (edge_start edge_db))
      = (Inr edge_sample_caller, ew_store (edge_start edge_db))"
    using edge_sample_authenticate by (simp add: edge_start_def)
  have r: "eq_method (sample_edge_request folded_call) = ''POST''" "eq_body (sample_edge_request folded_call) = folded_call"
    "64 \<le> ed_max_bytes (sample_edge (\<lambda>_. no_faults))"
    by (simp_all add: sample_edge_request_def sample_edge_def)
  have b: "eq_body (sample_edge_request folded_call) \<in> {folded_call, mistyped_call}" by (simp add: r(2))
  show ?thesis
    using conjunct1 [OF unread_tool_calls_forwarded [OF a r(1) b r(3), of no_regex counting_gateway None]]
    by (simp add: r(2) folded_forward)
qed



lemma unroutable_tool_denied_witness:
  "\<exists>r. new_tool_router sample_manifest = Inr r
     \<and> \<not> dc_allowed (authorize no_regex sample_engine (call_request ((sample_edge (\<lambda>_. no_faults))\<lparr>ed_router := r\<rparr>)
          edge_sample_caller \<lparr>tp_name = ''nothing'', tp_arguments = []\<rparr>))"
proof -
  obtain r where r: "new_tool_router sample_manifest = Inr r"
    by (simp add: new_tool_router_def sample_manifest_def sample_connector_def reserved_provider_names_def
        unrouted_provider_def ambiguous_provider_def)
  have at: "attributed edge_sample_caller" by code_simp
  have cut: "str_cut ''nothing'' qualifier_separator = (''nothing'', [], False)" by code_simp
  have cl: "manifest_claims sample_manifest = [(''calendar'', ''manage_event''), (''calendar'', ''drop_all''),
      (''calendar'', ''manage_event''), (''calendar'', ''drop_all'')]" by code_simp
  show ?thesis
    using unroutable_tool_denied [OF sample_registers, of "(sample_edge (\<lambda>_. no_faults))\<lparr>ed_router := r\<rparr>"
        edge_sample_caller "\<lparr>tp_name = ''nothing'', tp_arguments = []\<rparr>"] r at cut
    by (simp add: name_qualified_def claimants_def cl sample_edge_def)
qed

lemma sample_edge_store [simp]: "ed_store (sample_edge fls) = sqlite_edge_store fls 50"
  by (simp add: sample_edge_def)

lemma edge_db_wf: "db_wf edge_db"
  using sample_db_wf
  by (simp add: edge_db_def db_wf_def machines_wf_def grants_wf_def sample_db_def one_active_def sample_grant_def
      sample_machine_def)

lemma sample_revocation:
  "\<exists>g db1. revoke_grant no_faults 70 ''g-02'' ''lost'' (Some (\<lambda>_. [])) edge_db = (Inr (g, True), db1)
     \<and> g_token_hash g = cred_hash ''tok''"
  by (simp add: revoke_grant_def edge_db_def sample_db_def sample_grant_def audit_and_commit_def
      update_where_def revoke_row_def)

lemma revoked_grant_refused_at_edge_witness:
  "\<exists>db1. (\<exists>g. revoke_grant no_faults 70 ''g-02'' ''lost'' (Some (\<lambda>_. [])) edge_db = (Inr (g, True), db1))
     \<and> ew_gateway (snd (edge_serve no_regex (sample_edge (\<lambda>_. no_faults)) counting_gateway 80 None
          (sample_edge_request folded_call) (edge_start db1))) = 0"
proof -
  obtain g db1 where r: "revoke_grant no_faults 70 ''g-02'' ''lost'' (Some (\<lambda>_. [])) edge_db = (Inr (g, True), db1)"
    and h: "cred_hash ''tok'' = g_token_hash g" using sample_revocation by metis
  have steps: "db_step\<^sup>*\<^sup>* db1 (ew_store (edge_start db1))" by (simp add: edge_start_def)
  have "ew_gateway (snd (edge_serve no_regex (sample_edge (\<lambda>_. no_faults)) counting_gateway 80 None
      (sample_edge_request folded_call) (edge_start db1))) = ew_gateway (edge_start db1)"
    using revoked_grant_refused_at_edge [OF edge_db_wf r steps sample_edge_store surjective_pairing edge_sample_bearer h]
    by blast
  then show ?thesis using r by (auto simp: edge_start_def)
qed

lemma issued_token_opens_edge_witness:
  "\<exists>c db'. edge_authenticate (sample_edge (\<lambda>_. no_faults)) 70
      ((sample_edge_request [])\<lparr>eq_headers := [(''Authorization'', ''Bearer '' @ b64_raw_url ''abc'')]\<rparr>) db' = (Inr c, db')"
proof -
  let ?rq = "(sample_edge_request [])\<lparr>eq_headers := [(''Authorization'', ''Bearer '' @ b64_raw_url ''abc'')]\<rparr>"
  obtain g :: grant and db' where h: "handle_issue_grant (sample_server (\<lambda>_. no_faults)) 60 (Some ''abc'') sample_request
      enrolled_db = (write_json 201 (BIssue (g_id g) (g_harness g) (g_caps g) ''http://edge'' (b64_raw_url ''abc'') []), db')"
    using sample_issue_handler by blast
  have b: "rs_body (write_json 201 (BIssue (g_id g) (g_harness g) (g_caps g) ''http://edge'' (b64_raw_url ''abc'') []))
      = BIssue (g_id g) (g_harness g) (g_caps g) ''http://edge'' (b64_raw_url ''abc'') []" "''abc'' \<noteq> []"
    "rs_status (write_json 201 (BIssue (g_id g) (g_harness g) (g_caps g) ''http://edge'' (b64_raw_url ''abc'') [])) < 400"
    by (simp_all add: write_json_def del: b64_raw_url.simps)
  have r: "ed_resolve (sample_edge (\<lambda>_. no_faults)) (eq_remote ?rq)
      = sv_resolve (sample_server (\<lambda>_. no_faults)) (rq_remote sample_request)"
    "header_get header_authorization (eq_headers ?rq) = ''Bearer '' @ b64_raw_url ''abc''"
    by (simp_all add: sample_edge_def sample_edge_request_def sample_server_def sample_request_def header_get_def
        header_defs del: b64_raw_url.simps)
  have nf: "\<not> (\<lambda>_. no_faults) QGrant SQuery" "\<not> (\<lambda>_. no_faults) QMachine SQuery" by simp_all
  show ?thesis
    using issued_token_opens_edge [OF sample_server_sel(1) enrolled_db_wf b(2) h b(1) b(3) sample_edge_store nf r, of 70]
    by blast
qed

lemma completed_call_answered_refused_witness:
  "\<exists>w'. edge_tool_call no_regex (sample_edge (\<lambda>q. if q = QAppend 1 then (\<lambda>_. True) else no_faults)) counting_gateway
      60 None (sample_edge_request []) edge_sample_caller ''1''
      \<lparr>tp_name = ''manage_event'', tp_arguments = ''{\"action\":\"create\",\"send_updates\":\"none\"}''\<rparr> (edge_start edge_db)
      = (write_rpc_error 503 ''1'' code_audit_failure ''call refused: the audit log is unavailable'', w')
    \<and> ew_gateway w' = 1"
proof -
  let ?fls = "\<lambda>q. if q = QAppend 1 then (\<lambda>_. True) else no_faults"
  let ?ed = "sample_edge ?fls"
  let ?p = "\<lparr>tp_name = ''manage_event'', tp_arguments = ''{\"action\":\"create\",\"send_updates\":\"none\"}''\<rparr>"
  let ?req = "call_request ?ed edge_sample_caller ?p"
  have req: "?req = \<lparr>tr_provider = ''calendar'', tr_tool = ''manage_event'',
      tr_args = ''{\"action\":\"create\",\"send_updates\":\"none\"}'', tr_caller = edge_sample_caller\<rparr>"
  proof -
    have "str_cut ''manage_event'' qualifier_separator = (''manage_event'', [], False)" by code_simp
    then show ?thesis by (simp add: call_request_def route_def sample_edge_def)
  qed
  have "dc_allowed (authorize no_regex sample_engine \<lparr>tr_provider = ''calendar'', tr_tool = ''manage_event'',
      tr_args = ''{\"action\":\"create\",\"send_updates\":\"none\"}'', tr_caller = edge_sample_caller\<rparr>)" by code_simp
  then have ok: "dc_allowed (authorize no_regex (ed_engine ?ed) ?req)" unfolding req by (simp add: sample_edge_def)
  let ?e1 = "call_event no_regex ?req (authorize no_regex (ed_engine ?ed) ?req) (new_call_id None)"
  have "validate_detail (ev_detail ?e1) = None"
    using engine_rows_valid [OF sample_registers sample_request_length] by (simp add: sample_edge_def Let_def)
  then have a1: "es_append (ed_store ?ed) 0 ?e1 (ew_store (edge_start edge_db)) = (Inr (), insert_audit 50 ?e1 edge_db)"
    by (simp add: sqlite_edge_store_def edge_start_def append_audit_succeeds)
  have a2: "\<exists>err. es_append (ed_store ?ed) 1 e (insert_audit 50 ?e1 edge_db) = (Inl err, insert_audit 50 ?e1 edge_db)" for e
    by (simp add: sqlite_edge_store_def append_audit_def append_audit_row_def split: option.split)
  from completed_call_answered_refused [OF ok a1 a2, of counting_gateway 60 "sample_edge_request []" "''1''"]
  show ?thesis by (simp add: counting_gateway_def edge_start_def)
qed

end
