(* ===== verification/Go_Query.thy ===== *)
theory Go_Query
  imports Go_Url
begin

text \<open>
  Query strings of \<open>net/url\<close>: \<open>QueryEscape\<close>, \<open>QueryUnescape\<close>, \<open>URL.Query\<close> and \<open>Values.Encode\<close>.
\<close>

definition query_plain :: "char \<Rightarrow> bool" where
  "query_plain c \<longleftrightarrow> is_alnum c \<or> c \<in> set ''-_.~''"

definition upper_hex :: "nat \<Rightarrow> char" where
  "upper_hex n = (if n < 10 then chr (48 + n) else chr (55 + n))"

fun query_escape :: "string \<Rightarrow> string" where
  "query_escape [] = []"
| "query_escape (c # s) =
     (if query_plain c then [c]
      else if c = CHR '' '' then ''+''
      else [CHR ''%'', upper_hex (byte c div 16), upper_hex (byte c mod 16)]) @ query_escape s"

fun query_unescape :: "string \<Rightarrow> string option" where
  "query_unescape [] = Some []"
| "query_unescape (c # s) =
     (if c = CHR ''%''
      then (case s of
              a # b # r \<Rightarrow>
                (case (url_hex a, url_hex b) of
                   (Some x, Some y) \<Rightarrow> map_option ((#) (chr (x * 16 + y))) (query_unescape r)
                 | _ \<Rightarrow> None)
            | _ \<Rightarrow> None)
      else map_option ((#) (if c = CHR ''+'' then CHR '' '' else c)) (query_unescape s))"

text \<open>
  \<open>Values\<close>: keys with their values in order. \<open>URL.Query\<close> skips a pair that has a semicolon or a bad
  escape.
\<close>

type_synonym url_values = "(string \<times> string list) list"

definition values_set :: "string \<Rightarrow> string \<Rightarrow> url_values \<Rightarrow> url_values" where
  "values_set k v vs = assoc_set k [v] vs"

definition values_add :: "string \<Rightarrow> string \<Rightarrow> url_values \<Rightarrow> url_values" where
  "values_add k v vs = assoc_set k ((case map_of vs k of None \<Rightarrow> [] | Some old \<Rightarrow> old) @ [v]) vs"

definition query_pair :: "string \<Rightarrow> url_values \<Rightarrow> url_values" where
  "query_pair p vs =
     (if CHR '';'' \<in> set p \<or> p = [] then vs
      else (case str_cut p ''='' of (k, v, found) \<Rightarrow>
        (case (query_unescape k, query_unescape v) of
           (Some k', Some v') \<Rightarrow> values_add k' v' vs
         | _ \<Rightarrow> vs)))"

definition parse_query :: "string \<Rightarrow> url_values" where
  "parse_query q = fold query_pair (split_on (CHR ''&'') q) []"

definition encode_values :: "url_values \<Rightarrow> string" where
  "encode_values vs =
     str_join ''&'' (concat (map (\<lambda>(k, xs). map (\<lambda>v. query_escape k @ ''='' @ query_escape v) xs) (sort_key fst vs)))"

section \<open>Escaping loses nothing\<close>

lemma url_hex_upper: "n < 16 \<Longrightarrow> url_hex (upper_hex n) = Some n"
  by (auto simp: url_hex_def upper_hex_def byte_chr Let_def)

lemma query_plain_simps: "query_plain c \<Longrightarrow> c \<noteq> CHR ''%'' \<and> c \<noteq> CHR ''+''"
  by (auto simp: query_plain_def is_alnum_def is_lower_alnum_def byte_def)

lemma query_unescape_escape: "query_unescape (query_escape s) = Some s"
proof (induction s)
  case (Cons c s)
  have b: "byte c < 256" by (rule byte_less_256)
  have "chr (byte c div 16 * 16 + byte c mod 16) = c" by (simp add: chr_byte)
  moreover have "url_hex (upper_hex (byte c div 16)) = Some (byte c div 16)"
    "url_hex (upper_hex (byte c mod 16)) = Some (byte c mod 16)"
    using b by (simp_all add: url_hex_upper)
  ultimately show ?case using Cons query_plain_simps [of c] by auto
qed simp

lemma query_escape_inj: "query_escape s = query_escape t \<Longrightarrow> s = t"
  by (metis option.inject query_unescape_escape)

lemma query_escape_chars: "c \<in> set (query_escape s) \<Longrightarrow> query_plain c \<or> c = CHR ''+'' \<or> c = CHR ''%''"
proof (induction s)
  case (Cons d s)
  have b: "byte d < 256" by (rule byte_less_256)
  have "query_plain (upper_hex n)" if "n < 16" for n
    using that by (auto simp: query_plain_def is_alnum_def is_lower_alnum_def upper_hex_def byte_chr)
  with b have "query_plain (upper_hex (byte d div 16))" "query_plain (upper_hex (byte d mod 16))" by simp_all
  with Cons show ?case by (auto split: if_splits)
qed simp

section \<open>A query parses back to its values\<close>

lemma split_on_no_sep: "sep \<notin> set s \<Longrightarrow> split_on sep s = [s]"
  by (induction s) auto

lemma split_on_append: "sep \<notin> set s \<Longrightarrow> split_on sep (s @ sep # t) = s # split_on sep t"
  by (induction s) auto

lemma split_on_join:
  "ps \<noteq> [] \<Longrightarrow> \<forall>p \<in> set ps. sep \<notin> set p \<Longrightarrow> split_on sep (str_join [sep] ps) = ps"
  by (induction "[sep]" ps rule: str_join.induct) (auto simp: split_on_no_sep split_on_append)

lemma index_of_char: "c \<notin> set s \<Longrightarrow> index_of (s @ c # t) [c] = Some (length s)"
  by (induction s) (auto simp: has_prefix_def)

lemma query_escape_free: "query_escape k = a \<Longrightarrow> c \<in> {CHR ''='', CHR ''&'', CHR '';''} \<Longrightarrow> c \<notin> set a"
  by (auto dest: query_escape_chars simp: query_plain_def is_alnum_def is_lower_alnum_def byte_def)

definition escaped_pair :: "string \<times> string \<Rightarrow> string" where
  "escaped_pair p = query_escape (fst p) @ ''='' @ query_escape (snd p)"

lemma query_pair_escaped: "query_pair (escaped_pair (k, v)) vs = values_add k v vs"
proof -
  have "CHR '';'' \<notin> set (escaped_pair (k, v))" using query_escape_free by (auto simp: escaped_pair_def)
  moreover have "str_cut (escaped_pair (k, v)) ''='' = (query_escape k, query_escape v, True)"
    using query_escape_free [OF refl] by (simp add: str_cut_def escaped_pair_def index_of_char)
  ultimately show ?thesis by (simp add: query_pair_def escaped_pair_def query_unescape_escape)
qed

definition value_pairs :: "url_values \<Rightarrow> (string \<times> string) list" where
  "value_pairs vs = concat (map (\<lambda>(k, xs). map (Pair k) xs) vs)"

lemma encode_values_pairs:
  "encode_values vs = str_join ''&'' (map escaped_pair (value_pairs (sort_key fst vs)))"
proof -
  have "concat (map (\<lambda>(k, xs). map (\<lambda>v. query_escape k @ ''='' @ query_escape v) xs) ws)
      = map escaped_pair (value_pairs ws)" for ws
    by (induction ws) (auto simp: value_pairs_def escaped_pair_def)
  then show ?thesis by (simp add: encode_values_def)
qed

lemma fold_query_pairs:
  "fold query_pair (map escaped_pair ps) m = fold (\<lambda>(k, v). values_add k v) ps m"
  by (induction ps arbitrary: m) (auto simp: query_pair_escaped)

lemma fold_values_add_key:
  "xs \<noteq> [] \<Longrightarrow> map_of (fold (\<lambda>(k, v). values_add k v) (map (Pair k) xs) m) =
     (map_of m)(k \<mapsto> (case map_of m k of None \<Rightarrow> [] | Some old \<Rightarrow> old) @ xs)"
proof (induction xs arbitrary: m)
  case (Cons x xs)
  then show ?case by (cases "xs = []") (auto simp: values_add_def)
qed simp

definition proper_values :: "url_values \<Rightarrow> bool" where
  "proper_values vs \<longleftrightarrow> distinct (map fst vs) \<and> (\<forall>(k, xs) \<in> set vs. xs \<noteq> [])"

lemma fold_values_add:
  "proper_values vs \<Longrightarrow> fst ` set vs \<inter> dom (map_of m) = {} \<Longrightarrow>
     map_of (fold (\<lambda>(k, v). values_add k v) (value_pairs vs) m) = map_of m ++ map_of vs"
proof (induction vs arbitrary: m)
  case (Cons p vs)
  obtain k xs where p: "p = (k, xs)" by (cases p)
  let ?m = "fold (\<lambda>(k, v). values_add k v) (map (Pair k) xs) m"
  have xs: "xs \<noteq> []" and pv: "proper_values vs" and k: "k \<notin> fst ` set vs" "map_of m k = None"
    using Cons.prems p by (auto simp: proper_values_def)
  have m: "map_of ?m = (map_of m)(k \<mapsto> xs)" using fold_values_add_key [OF xs] k(2) by simp
  have "fst ` set vs \<inter> dom (map_of ?m) = {}" using m k(1) Cons.prems(2) p by auto
  from Cons.IH [OF pv this] have "map_of (fold (\<lambda>(k, v). values_add k v) (value_pairs (p # vs)) m)
      = (map_of m)(k \<mapsto> xs) ++ map_of vs"
    using m p by (simp add: value_pairs_def fun_upd_def)
  also have "\<dots> = map_of m ++ map_of (p # vs)"
  proof
    fix x
    show "((map_of m)(k \<mapsto> xs) ++ map_of vs) x = (map_of m ++ map_of (p # vs)) x"
      using k(1) p by (cases "map_of vs x") (auto simp: map_add_def map_of_eq_None_iff [symmetric] simp del: map_of_eq_None_iff)
  qed
  finally show ?case .
qed (simp add: value_pairs_def)

lemma proper_sort: "proper_values vs \<Longrightarrow> proper_values (sort_key fst vs)"
  by (auto simp: proper_values_def distinct_map inj_on_def)

lemma map_of_sort_key: "distinct (map fst vs) \<Longrightarrow> map_of (sort_key fst vs) = map_of vs"
  by (rule map_of_eqI) (auto simp: distinct_map inj_on_def intro!: map_of_inject_set [THEN iffD2])

theorem parse_encode_values:
  assumes "proper_values vs"
  shows "map_of (parse_query (encode_values vs)) = map_of vs"
proof -
  let ?ps = "value_pairs (sort_key fst vs)"
  have "parse_query (encode_values vs) = fold query_pair (map escaped_pair ?ps) []"
  proof (cases "?ps = []")
    case True
    then show ?thesis by (simp add: parse_query_def encode_values_pairs query_pair_def)
  next
    case False
    have "CHR ''&'' \<notin> set (escaped_pair p)" for p
      using query_escape_free [OF refl] by (auto simp: escaped_pair_def)
    with False show ?thesis
      by (simp add: parse_query_def encode_values_pairs split_on_join)
  qed
  with fold_values_add [OF proper_sort [OF assms], of "[]"] assms show ?thesis
    by (simp add: fold_query_pairs map_of_sort_key proper_values_def)
qed

lemma proper_values_set: "proper_values vs \<Longrightarrow> proper_values (values_set k v vs)"
  using set_assoc_set_subset [of k "[v]" vs]
  by (auto simp: proper_values_def values_set_def intro: distinct_assoc_set)

lemma proper_query_pair: "proper_values vs \<Longrightarrow> proper_values (query_pair p vs)"
proof -
  have "proper_values (values_add k v vs)" if "proper_values vs" for k v
  proof -
    let ?xs = "(case map_of vs k of None \<Rightarrow> [] | Some old \<Rightarrow> old) @ [v]"
    show ?thesis using set_assoc_set_subset [of k ?xs vs] that
      by (auto simp: proper_values_def values_add_def intro: distinct_assoc_set)
  qed
  then show "proper_values vs \<Longrightarrow> proper_values (query_pair p vs)"
    by (auto simp: query_pair_def split: option.splits prod.splits)
qed

lemma proper_parse_query: "proper_values (parse_query q)"
proof -
  have fold: "proper_values vs \<Longrightarrow> proper_values (fold query_pair ps vs)" for ps vs
    by (induction ps arbitrary: vs) (auto intro: proper_query_pair)
  show ?thesis unfolding parse_query_def by (rule fold) (simp add: proper_values_def)
qed

end
