(* ===== verification/Flow_Oauth.thy ===== *)
theory Flow_Oauth
  imports Go_Query Go_Json Manifest
begin

text \<open>
  \<open>internal/server/credflow/{redirect,oauth}.go\<close>: which redirect addresses are accepted, the consent
  URL a flow hands out, the token exchange and the label a provider's error is reduced to. The
  provider's token endpoint is a parameter.
\<close>

section \<open>Redirects\<close>

datatype redirect_error =
    RedirectRequired | RedirectSpace | RedirectTooLong | RedirectInvalid | RedirectScheme string
  | RedirectUser | RedirectOpaque | RedirectPath | RedirectQuery | RedirectFragment
  | RedirectNoPort | RedirectHost string | RedirectPort string

definition validate_loopback_redirect :: "string \<Rightarrow> redirect_error option" where
  "validate_loopback_redirect raw =
     (if trim_space raw = [] then Some RedirectRequired
      else if trim_space raw \<noteq> raw then Some RedirectSpace
      else if 128 < length raw then Some RedirectTooLong
      else (case url_parse raw of
        None \<Rightarrow> Some RedirectInvalid
      | Some u \<Rightarrow>
          if u_scheme u \<noteq> ''http'' then Some (RedirectScheme (u_scheme u))
          else if u_user u then Some RedirectUser
          else if u_opaque u \<noteq> [] then Some RedirectOpaque
          else if u_path u \<noteq> [] \<and> u_path u \<noteq> ''/'' then Some RedirectPath
          else if u_query u \<noteq> [] \<or> u_force_query u then Some RedirectQuery
          else if u_fragment u \<noteq> [] then Some RedirectFragment
          else (case split_host_port (u_host u) of
            None \<Rightarrow> Some RedirectNoPort
          | Some (host, port) \<Rightarrow>
              if host \<noteq> ''127.0.0.1'' \<and> host \<noteq> ''::1'' then Some (RedirectHost host)
              else (case atoi port of
                      None \<Rightarrow> Some (RedirectPort port)
                    | Some n \<Rightarrow> if n < 1 \<or> 65535 < n then Some (RedirectPort port) else None))))"

section \<open>The consent URL\<close>

definition code_challenge :: "string \<Rightarrow> string" where
  "code_challenge verifier = b64_raw_url (sha256 verifier)"

definition consent_values :: "connector \<Rightarrow> string \<Rightarrow> string \<Rightarrow> string \<Rightarrow> string \<Rightarrow> url_values \<Rightarrow> url_values" where
  "consent_values conn client_id redirect oauth_state verifier q =
     (let ps = cq_params (cn_credential conn);
          opt = (\<lambda>k q. if param ps k = [] then q else values_set k (param ps k) q)
      in opt ''prompt'' (opt ''access_type''
        (values_set ''code_challenge_method'' ''S256''
        (values_set ''code_challenge'' (code_challenge verifier)
        (values_set ''state'' oauth_state
        (values_set ''scope'' (str_join '' '' (cq_scopes (cn_credential conn)))
        (values_set ''redirect_uri'' redirect
        (values_set ''client_id'' client_id
        (values_set ''response_type'' ''code'' q)))))))))"

text \<open>The URL that is printed: the endpoint's, with its query replaced.\<close>

definition authorization_url :: "connector \<Rightarrow> string \<Rightarrow> string \<Rightarrow> string \<Rightarrow> string \<Rightarrow> url option" where
  "authorization_url conn client_id redirect oauth_state verifier =
     (case url_parse (param (cq_params (cn_credential conn)) ''auth_endpoint'') of
        None \<Rightarrow> None
      | Some u \<Rightarrow>
          Some (u\<lparr>u_query := encode_values
            (consent_values conn client_id redirect oauth_state verifier (parse_query (u_query u)))\<rparr>))"

section \<open>The exchange\<close>

definition max_token_response_bytes :: nat where
  "max_token_response_bytes = 1048576"

record token_response =
  tk_access :: string
  tk_refresh :: string
  tk_type :: string
  tk_scope :: string
  tk_expires_in :: int

text \<open>An integer field takes an integral literal in range.\<close>

fun dec_int64 :: "int \<Rightarrow> json \<Rightarrow> int option" where
  "dec_int64 old (JNum n) = atoi n"
| "dec_int64 old JNull = Some old"
| "dec_int64 old _ = None"

definition decode_tokens :: "string \<Rightarrow> token_response option" where
  "decode_tokens raw =
     (case json_unmarshal raw of
        Some JNull \<Rightarrow> Some \<lparr>tk_access = [], tk_refresh = [], tk_type = [], tk_scope = [], tk_expires_in = 0\<rparr>
      | Some (JObj kvs) \<Rightarrow>
          (case (dec_field dec_string ''access_token'' [] kvs, dec_field dec_string ''refresh_token'' [] kvs,
                 dec_field dec_string ''token_type'' [] kvs, dec_field dec_string ''scope'' [] kvs,
                 dec_field dec_int64 ''expires_in'' 0 kvs) of
             (Some a, Some r, Some t, Some s, Some e) \<Rightarrow>
               Some \<lparr>tk_access = a, tk_refresh = r, tk_type = t, tk_scope = s, tk_expires_in = e\<rparr>
           | _ \<Rightarrow> None)
      | _ \<Rightarrow> None)"

definition exchange_form :: "string \<Rightarrow> string \<Rightarrow> string \<Rightarrow> string \<Rightarrow> string \<Rightarrow> string" where
  "exchange_form client_id client_secret redirect code verifier =
     encode_values
       (values_set ''code_verifier'' verifier (values_set ''client_secret'' client_secret
       (values_set ''client_id'' client_id (values_set ''redirect_uri'' redirect
       (values_set ''code'' code (values_set ''grant_type'' ''authorization_code'' []))))))"

text \<open>
  The token endpoint gets the endpoint and the form, and answers a status and a body, or nothing
  when it cannot be reached.
\<close>

type_synonym 'p token_endpoint = "string \<Rightarrow> string \<Rightarrow> 'p \<Rightarrow> (nat \<times> string) option \<times> 'p"

definition read_tokens :: "(nat \<times> string) option \<Rightarrow> token_response option" where
  "read_tokens ans =
     (case ans of
        None \<Rightarrow> None
      | Some (status, body) \<Rightarrow>
          if status div 100 \<noteq> 2 then None
          else (case decode_tokens (take max_token_response_bytes body) of
                  None \<Rightarrow> None
                | Some tk \<Rightarrow> if tk_access tk = [] then None else Some tk))"

text \<open>A body within the bound is read whole.\<close>

lemma read_tokens_code [code]:
  "read_tokens ans =
     (case ans of
        None \<Rightarrow> None
      | Some (status, body) \<Rightarrow>
          if status div 100 \<noteq> 2 then None
          else (case decode_tokens (if int (length body) \<le> 1048576 then body
                                    else take max_token_response_bytes body) of
                  None \<Rightarrow> None
                | Some tk \<Rightarrow> if tk_access tk = [] then None else Some tk))"
  by (auto simp: read_tokens_def max_token_response_bytes_def split: option.splits)

definition exchange_code :: "'p token_endpoint \<Rightarrow> connector \<Rightarrow> string \<Rightarrow> string \<Rightarrow> string \<Rightarrow> string \<Rightarrow> string
    \<Rightarrow> 'p \<Rightarrow> token_response option \<times> 'p" where
  "exchange_code ep conn client_id client_secret redirect code verifier p =
     apfst read_tokens (ep (param (cq_params (cn_credential conn)) ''token_endpoint'')
       (exchange_form client_id client_secret redirect code verifier) p)"

section \<open>Provider errors\<close>

definition label_char :: "nat \<Rightarrow> bool" where
  "label_char r \<longleftrightarrow> (97 \<le> r \<and> r \<le> 122) \<or> (65 \<le> r \<and> r \<le> 90) \<or> r = 95"

definition sanitize_provider_error :: "string \<Rightarrow> string" where
  "sanitize_provider_error v =
     (if v = [] \<or> 64 < length v then ''unspecified''
      else if list_all label_char (runes v) then v else ''unspecified'')"

section \<open>Facts\<close>

text \<open>What an accepted redirect address is.\<close>

lemma validate_loopback_redirect_None:
  "validate_loopback_redirect raw = None \<longleftrightarrow>
     trim_space raw \<noteq> [] \<and> trim_space raw = raw \<and> length raw \<le> 128 \<and>
     (\<exists>u host port n. url_parse raw = Some u \<and> u_scheme u = ''http'' \<and> \<not> u_user u \<and> u_opaque u = []
        \<and> u_path u \<in> {[], ''/''} \<and> u_query u = [] \<and> \<not> u_force_query u \<and> u_fragment u = []
        \<and> split_host_port (u_host u) = Some (host, port) \<and> host \<in> {''127.0.0.1'', ''::1''}
        \<and> atoi port = Some n \<and> 1 \<le> n \<and> n \<le> 65535)"
  by (auto simp: validate_loopback_redirect_def split: option.splits if_splits)

lemma redirect_examples:
  "validate_loopback_redirect ''http://127.0.0.1:53682'' = None"
  "validate_loopback_redirect ''http://[::1]:8080/'' = None"
  "validate_loopback_redirect ''http://localhost:8080'' = Some (RedirectHost ''localhost'')"
  "validate_loopback_redirect ''http://127.0.0.1:80@evil.example/'' = Some RedirectUser"
  "validate_loopback_redirect ''http://127.0.0.1:80/cb'' = Some RedirectPath"
  "validate_loopback_redirect ''http://127.0.0.1:70000'' = Some (RedirectPort ''70000'')"
  by code_simp+

text \<open>Accepted although they are not written as the two forms the rules name.\<close>

lemma redirect_other_spellings:
  "validate_loopback_redirect ''http://127.0.0.1:80#'' = None"
  "validate_loopback_redirect ''HTTP://127.0.0.1:0080'' = None"
  "validate_loopback_redirect ''http://127.0.0.1:+80/'' = Some RedirectInvalid"
  by code_simp+

lemma values_set_get: "map_of (values_set k v q) k' = (if k' = k then Some [v] else map_of q k')"
  by (simp add: values_set_def map_of_assoc_set)

end
