(* ===== verification/Go_Time.thy ===== *)
theory Go_Time
  imports Go_Text "HOL-Library.Word"
begin

text \<open>
  Instants are nanoseconds since the Unix epoch. The civil date of a day, the layouts the sources
  print in UTC, and the wrap-around of a \<open>time.Duration\<close> product.
\<close>

definition second_ns :: int where "second_ns = 1000000000"

text \<open>\<open>time.Duration(n) * time.Second\<close> in 64 bits.\<close>

definition seconds :: "int \<Rightarrow> int" where
  "seconds n = sint (word_of_int (n * second_ns) :: 64 word)"

text \<open>Year, month and day of a day number (day 0 is the epoch), in the proleptic Gregorian calendar.\<close>

definition civil :: "int \<Rightarrow> int \<times> int \<times> int" where
  "civil days =
     (let z = days + 719468; era = z div 146097; doe = z mod 146097;
          yoe = (doe - doe div 1460 + doe div 36524 - doe div 146096) div 365;
          doy = doe - (365 * yoe + yoe div 4 - yoe div 100);
          mp = (5 * doy + 2) div 153;
          m = (if mp < 10 then mp + 3 else mp - 9)
      in (yoe + era * 400 + (if m \<le> 2 then 1 else 0), m, doy - (153 * mp + 2) div 5 + 1))"

text \<open>Zero-padded decimal digits of a number that fits the width.\<close>

fun pad_int :: "nat \<Rightarrow> int \<Rightarrow> string" where
  "pad_int 0 n = []"
| "pad_int (Suc w) n = pad_int w (n div 10) @ [digit (nat (n mod 10))]"

text \<open>Date and time to the second, \<open>2006-01-02T15:04:05\<close>, for years 0 to 9999.\<close>

definition date_time :: "int \<Rightarrow> string" where
  "date_time t =
     (let s = t div second_ns; days = s div 86400; tod = s mod 86400 in
      case civil days of (y, m, d) \<Rightarrow>
        pad_int 4 y @ ''-'' @ pad_int 2 m @ ''-'' @ pad_int 2 d @ ''T''
          @ pad_int 2 (tod div 3600) @ '':'' @ pad_int 2 (tod div 60 mod 60) @ '':'' @ pad_int 2 (tod mod 60))"

text \<open>\<open>RFC3339Nano\<close> in UTC: the fraction without trailing zeros, or none.\<close>

definition rfc3339_nano :: "int \<Rightarrow> string" where
  "rfc3339_nano t =
     (let frac = rev (dropWhile (\<lambda>c. c = CHR ''0'') (rev (pad_int 9 (t mod second_ns))))
      in date_time t @ (if frac = [] then [] else CHR ''.'' # frac) @ ''Z'')"

text \<open>The layout \<open>2006-01-02T15:04:05.000000\<close>, with no zone.\<close>

definition naive_micro :: "int \<Rightarrow> string" where
  "naive_micro t = date_time t @ CHR ''.'' # pad_int 6 (t mod second_ns div 1000)"

lemma time_examples:
  "civil 0 = (1970, 1, 1)" "civil 11016 = (2000, 2, 29)" "civil (-1) = (1969, 12, 31)"
  "rfc3339_nano 1700000000120000000 = ''2023-11-14T22:13:20.12Z''"
  "naive_micro 1700000000000000000 = ''2023-11-14T22:13:20.000000''"
  by code_simp+

end
