(* ===== verification/Flow.thy ===== *)
theory Flow
  imports Flow_Oauth Go_Time Audit_Model Store Control
begin

text \<open>
  \<open>internal/server/credflow/{credflow,http}.go\<close>: the credential flow. A flow is started by a machine,
  relayed its outcome once, and ended by the server: by the exchange job, by a denial or by expiry.
  Every function below is one function of the source; a section under the service's lock is one
  definition, and the ones that read the clock more than once take the readings one by one.
\<close>

section \<open>Flows\<close>

datatype flow_state = StatePending | StateCompleted | StateUndelivered | StateDenied | StateExpired | StateFailed

definition flow_terminal :: "flow_state \<Rightarrow> bool" where
  "flow_terminal st \<longleftrightarrow> st \<noteq> StatePending"

datatype diagnostic_code = CodeProviderDenied | CodeFlowExpired | CodeExchangeFailed | CodeStoreFailed
  | CodeDeliveryFailed | CodeConcurrentReplacement

fun diagnostic_text :: "diagnostic_code \<Rightarrow> string" where
  "diagnostic_text CodeProviderDenied = ''provider_denied''"
| "diagnostic_text CodeFlowExpired = ''flow_expired''"
| "diagnostic_text CodeExchangeFailed = ''exchange_failed''"
| "diagnostic_text CodeStoreFailed = ''store_failed''"
| "diagnostic_text CodeDeliveryFailed = ''delivery_failed''"
| "diagnostic_text CodeConcurrentReplacement = ''concurrent_replacement''"

record diagnostic =
  dg_code :: diagnostic_code
  dg_message :: string
  dg_retryable :: bool

record pending_terminal =
  pt_state :: flow_state
  pt_diag :: diagnostic
  pt_actor :: actor_kind

record flow =
  fl_id :: string
  fl_provider :: string
  fl_machine :: string
  fl_redirect :: string
  fl_connector :: connector
  fl_oauth_state :: string
  fl_verifier :: string
  fl_state :: flow_state
  fl_diag :: "diagnostic option"
  fl_created :: int
  fl_expires :: int
  fl_terminal_at :: "int option"
  fl_decided :: "pending_terminal option"
  fl_observed :: int
  fl_relayed :: bool

text \<open>What a poll shows.\<close>

record flow_view =
  fv_id :: string
  fv_provider :: string
  fv_state :: flow_state
  fv_created :: int
  fv_expires :: int
  fv_diag :: "diagnostic option"

definition view_flow :: "flow \<Rightarrow> flow_view" where
  "view_flow f = \<lparr>fv_id = fl_id f, fv_provider = fl_provider f, fv_state = fl_state f,
     fv_created = fl_created f, fv_expires = fl_expires f, fv_diag = fl_diag f\<rparr>"

section \<open>Refusals\<close>

datatype flow_refusal =
    UnknownProvider
  | WrongDriver string string
  | BadRedirect redirect_error
  | TooManyFlows nat
  | MissingParam string
  | MissingSecret string
  | AlreadyHasCredential string
  | StartUnrecorded
  | AlreadyRelayed
  | AlreadyFinished flow_state
  | StateMismatch
  | MalformedBody
  | ProviderRequired
  | StateRequired
  | OutcomeRequired
  | OutcomeAmbiguous
  | UnknownFlow

fun refusal_status :: "flow_refusal \<Rightarrow> nat" where
  "refusal_status UnknownProvider = 404"
| "refusal_status UnknownFlow = 404"
| "refusal_status (TooManyFlows n) = 429"
| "refusal_status (MissingParam p) = 503"
| "refusal_status (MissingSecret p) = 503"
| "refusal_status StartUnrecorded = 503"
| "refusal_status (AlreadyHasCredential p) = 409"
| "refusal_status AlreadyRelayed = 409"
| "refusal_status (AlreadyFinished st) = 409"
| "refusal_status (WrongDriver p d) = 400"
| "refusal_status (BadRedirect e) = 400"
| "refusal_status StateMismatch = 400"
| "refusal_status MalformedBody = 400"
| "refusal_status ProviderRequired = 400"
| "refusal_status StateRequired = 400"
| "refusal_status OutcomeRequired = 400"
| "refusal_status OutcomeAmbiguous = 400"

datatype flow_fault = FlowRefused flow_refusal | TerminalUnrecorded | FlowInternal

section \<open>The service\<close>

text \<open>
  The stores behind the service. A read names which of the service's reads it is, an append its
  number, because each can fail on its own.
\<close>

datatype flow_read = StartClientId | StartClientSecret | StartCurrent | JobClientId | JobClientSecret

record 's flow_store =
  fs_get :: "flow_read \<Rightarrow> string \<Rightarrow> 's \<Rightarrow> store_error + secret"
  fs_put_cas :: "string \<Rightarrow> string \<Rightarrow> int \<Rightarrow> (int \<Rightarrow> audit_event list) option \<Rightarrow> 's \<Rightarrow> (store_error + int) \<times> 's"
  fs_append :: "nat \<Rightarrow> audit_event \<Rightarrow> 's \<Rightarrow> (store_error + unit) \<times> 's"

text \<open>
  \<open>OnCommitted\<close> is absent or says whether the delivery worked; encryption and decryption are those of
  the keyring; a token endpoint is the provider's.
\<close>

record ('s, 'p) flow_service =
  sc_connector :: "string \<Rightarrow> connector option"
  sc_providers :: "string list"
  sc_store :: "'s flow_store"
  sc_encrypt :: "string \<Rightarrow> string option"
  sc_decrypt :: "string \<Rightarrow> string option"
  sc_endpoint :: "'p token_endpoint"
  sc_on_committed :: "(string \<Rightarrow> int \<Rightarrow> bool) option"
  sc_ttl :: int
  sc_retention :: int
  sc_max_active :: nat

definition default_ttl :: int where "default_ttl = 600 * second_ns"
definition default_terminal_retention :: int where "default_terminal_retention = 900 * second_ns"
definition default_max_active_flows :: int where "default_max_active_flows = 4"

text \<open>\<open>New\<close>: the settings that are not positive take their defaults.\<close>

definition flow_defaults :: "int \<Rightarrow> int \<Rightarrow> int \<Rightarrow> ('s, 'p) flow_service \<Rightarrow> ('s, 'p) flow_service" where
  "flow_defaults ttl retention max_active sv =
     sv\<lparr>sc_ttl := (if ttl \<le> 0 then default_ttl else ttl),
        sc_retention := (if retention \<le> 0 then default_terminal_retention else retention),
        sc_max_active := nat (if max_active \<le> 0 then default_max_active_flows else max_active)\<rparr>"

record ('s, 'p) flow_world =
  fw_store :: 's
  fw_provider :: 'p
  fw_flows :: "(string \<times> flow) list"

definition get_flow :: "string \<Rightarrow> ('s, 'p) flow_world \<Rightarrow> flow option" where
  "get_flow i w = map_of (fw_flows w) i"

definition put_flow :: "string \<Rightarrow> flow \<Rightarrow> ('s, 'p) flow_world \<Rightarrow> ('s, 'p) flow_world" where
  "put_flow i f w = w\<lparr>fw_flows := assoc_set i f (fw_flows w)\<rparr>"

section \<open>Endings\<close>

text \<open>\<open>expirableLocked\<close>.\<close>

definition expirable :: "int \<Rightarrow> flow \<Rightarrow> bool" where
  "expirable now f \<longleftrightarrow> \<not> flow_terminal (fl_state f) \<and> fl_decided f = None \<and> \<not> fl_relayed f \<and> fl_expires f < now"

definition expiry_decision :: pending_terminal where
  "expiry_decision = \<lparr>pt_state = StateExpired,
     pt_diag = \<lparr>dg_code = CodeFlowExpired,
       dg_message = ''the authorization window closed before consent was relayed; re-run add-credentials to start a new flow'',
       dg_retryable = True\<rparr>,
     pt_actor = ActorSystem\<rparr>"

text \<open>\<open>claimExpiry\<close>: the test and the decision in one section.\<close>

definition claim_expiry :: "int \<Rightarrow> flow \<Rightarrow> bool \<times> flow" where
  "claim_expiry now f =
     (if expirable now f then (True, f\<lparr>fl_decided := Some expiry_decision\<rparr>) else (False, f))"

text \<open>\<open>consumeRelay\<close>.\<close>

record relay_outcome =
  ro_code :: string
  ro_error :: string
  ro_state :: string

definition consume_relay :: "relay_outcome \<Rightarrow> flow \<Rightarrow> (flow_refusal + string) \<times> flow" where
  "consume_relay out f =
     (if fl_relayed f then (Inl AlreadyRelayed, f)
      else if flow_terminal (fl_state f) \<or> fl_decided f \<noteq> None
      then (Inl (AlreadyFinished (case fl_decided f of None \<Rightarrow> fl_state f | Some d \<Rightarrow> pt_state d)), f)
      else if ro_state out \<noteq> fl_oauth_state f then (Inl StateMismatch, f)
      else (Inr (ro_code out), f\<lparr>fl_relayed := True\<rparr>))"

text \<open>The first section of \<open>terminate\<close>; it says whether there is something to commit.\<close>

definition decide :: "pending_terminal \<Rightarrow> flow \<Rightarrow> bool \<times> flow" where
  "decide d f =
     (if flow_terminal (fl_state f) then (False, f)
      else (True, f\<lparr>fl_decided := (case fl_decided f of None \<Rightarrow> Some d | Some d0 \<Rightarrow> Some d0)\<rparr>))"

text \<open>The first section of \<open>commitTerminal\<close>: the decision to record, with its row.\<close>

definition terminal_event :: "flow \<Rightarrow> pending_terminal \<Rightarrow> audit_event" where
  "terminal_event f d =
     (mk_event EventCredentialFlowFailed (pt_actor d) OutcomeDenied)
       \<lparr>ev_machine := fl_machine f, ev_reason := diagnostic_text (dg_code (pt_diag d)),
        ev_detail := [(''provider'', fl_provider f), (''flow_id'', fl_id f),
          (''secret_ref'', cn_credential_ref (fl_connector f))]\<rparr>"

definition to_commit :: "flow \<Rightarrow> pending_terminal option" where
  "to_commit f = (if flow_terminal (fl_state f) then None else fl_decided f)"

text \<open>Its last section: the state becomes visible.\<close>

definition expose :: "int \<Rightarrow> pending_terminal \<Rightarrow> flow \<Rightarrow> flow" where
  "expose now d f =
     (if flow_terminal (fl_state f) then f
      else f\<lparr>fl_state := pt_state d, fl_diag := Some (pt_diag d), fl_terminal_at := Some now, fl_decided := None\<rparr>)"

text \<open>\<open>complete\<close>.\<close>

definition complete_flow :: "int \<Rightarrow> flow \<Rightarrow> flow" where
  "complete_flow now f =
     (if flow_terminal (fl_state f) then f
      else f\<lparr>fl_state := StateCompleted, fl_diag := None, fl_decided := None, fl_terminal_at := Some now\<rparr>)"

text \<open>\<open>commitTerminal\<close>: the row first, then the state; nothing is shown if the row is not written.\<close>

definition commit_terminal :: "('s, 'p) flow_service \<Rightarrow> int \<Rightarrow> nat \<Rightarrow> string \<Rightarrow> ('s, 'p) flow_world
    \<Rightarrow> flow_fault option \<times> ('s, 'p) flow_world" where
  "commit_terminal sv now n i w =
     (case get_flow i w of
        None \<Rightarrow> (None, w)
      | Some f \<Rightarrow>
          (case to_commit f of
             None \<Rightarrow> (None, w)
           | Some d \<Rightarrow>
               (case fs_append (sc_store sv) n (terminal_event f d) (fw_store w) of
                  (Inl err, s') \<Rightarrow> (Some TerminalUnrecorded, w\<lparr>fw_store := s'\<rparr>)
                | (Inr u, s') \<Rightarrow> (None, put_flow i (expose now d f) (w\<lparr>fw_store := s'\<rparr>)))))"

definition terminate_flow :: "('s, 'p) flow_service \<Rightarrow> int \<Rightarrow> nat \<Rightarrow> pending_terminal \<Rightarrow> string
    \<Rightarrow> ('s, 'p) flow_world \<Rightarrow> flow_fault option \<times> ('s, 'p) flow_world" where
  "terminate_flow sv now n d i w =
     (case get_flow i w of
        None \<Rightarrow> (None, w)
      | Some f \<Rightarrow>
          (case decide d f of
             (False, _) \<Rightarrow> (None, w)
           | (True, f') \<Rightarrow> commit_terminal sv now n i (put_flow i f' w)))"

text \<open>\<open>expire\<close>: the clock is read for the claim and again when the state is shown.\<close>

definition expire_flow :: "('s, 'p) flow_service \<Rightarrow> int \<Rightarrow> int \<Rightarrow> nat \<Rightarrow> string \<Rightarrow> ('s, 'p) flow_world
    \<Rightarrow> flow_fault option \<times> ('s, 'p) flow_world" where
  "expire_flow sv now1 now2 n i w =
     (case get_flow i w of
        None \<Rightarrow> (None, w)
      | Some f \<Rightarrow>
          (case claim_expiry now1 f of
             (False, _) \<Rightarrow> (None, w)
           | (True, f') \<Rightarrow> commit_terminal sv now2 n i (put_flow i f' w)))"

text \<open>\<open>settle\<close>.\<close>

definition settle :: "('s, 'p) flow_service \<Rightarrow> (nat \<Rightarrow> int) \<Rightarrow> string \<Rightarrow> ('s, 'p) flow_world
    \<Rightarrow> flow_fault option \<times> ('s, 'p) flow_world" where
  "settle sv clk i w =
     (case get_flow i w of
        None \<Rightarrow> (None, w)
      | Some f \<Rightarrow>
          if expirable (clk 0) f then expire_flow sv (clk 1) (clk 2) 0 i w
          else if fl_decided f \<noteq> None \<and> \<not> flow_terminal (fl_state f) then commit_terminal sv (clk 1) 0 i w
          else (None, w))"

text \<open>
  \<open>sweep\<close>: the stale flows and the finished ones to forget are picked in one section, then every
  stale flow is expired in turn, whatever became of the one before it. Flow \<open>n\<close> (from 1) is expired
  with its own two clock readings and its own append; reading 0 is the sweep's. A Go map has no
  order: the list of flows stands for any.
\<close>

definition forgettable :: "('s, 'p) flow_service \<Rightarrow> int \<Rightarrow> flow \<Rightarrow> bool" where
  "forgettable sv now f \<longleftrightarrow> \<not> expirable now f \<and> flow_terminal (fl_state f)
     \<and> (case fl_terminal_at f of None \<Rightarrow> True | Some t \<Rightarrow> sc_retention sv < now - t)"

fun expire_all :: "('s, 'p) flow_service \<Rightarrow> (nat \<Rightarrow> int) \<Rightarrow> nat \<Rightarrow> string list \<Rightarrow> ('s, 'p) flow_world
    \<Rightarrow> ('s, 'p) flow_world" where
  "expire_all sv clk n [] w = w"
| "expire_all sv clk n (i # ids) w =
     expire_all sv clk (Suc n) ids (snd (expire_flow sv (clk (2 * n)) (clk (2 * n + 1)) n i w))"

definition sweep :: "('s, 'p) flow_service \<Rightarrow> (nat \<Rightarrow> int) \<Rightarrow> ('s, 'p) flow_world \<Rightarrow> ('s, 'p) flow_world" where
  "sweep sv clk w =
     (let now = clk 0;
          stale = map fst (filter (\<lambda>(i, f). expirable now f) (fw_flows w));
          kept = filter (\<lambda>(i, f). \<not> forgettable sv now f) (fw_flows w)
      in expire_all sv clk 1 stale (w\<lparr>fw_flows := kept\<rparr>))"

end
