(* ===== verification/Flow_Service.thy ===== *)
theory Flow_Service
  imports Flow
begin

text \<open>
  The rest of \<open>internal/server/credflow/{credflow,http}.go\<close>: starting a flow, the exchange job a relay
  hands over to, the relay, the poll and the three handlers, with every answer they give.
\<close>

section \<open>Reading the driver's secrets\<close>

definition resolve_driver_secret :: "('s, 'p) flow_service \<Rightarrow> flow_read \<Rightarrow> connector \<Rightarrow> string \<Rightarrow> 's
    \<Rightarrow> flow_fault + string" where
  "resolve_driver_secret sv which conn p s =
     (let ref = param (cq_params (cn_credential conn)) p in
      if ref = [] then Inl (FlowRefused (MissingParam p))
      else (case fs_get (sc_store sv) which ref s of
        Inl err \<Rightarrow> Inl (if err = ErrNotFound then FlowRefused (MissingSecret p) else FlowInternal)
      | Inr sec \<Rightarrow> (case sc_decrypt sv (s_cipher sec) of None \<Rightarrow> Inl FlowInternal | Some v \<Rightarrow> Inr v)))"

section \<open>Starting a flow\<close>

record flow_started =
  fr_id :: string
  fr_url :: url
  fr_expires :: int

definition random_token :: "string option \<Rightarrow> string option" where
  "random_token rnd = map_option b64_raw_url rnd"

definition random_flow_id :: "string option \<Rightarrow> string option" where
  "random_flow_id rnd = map_option (\<lambda>tok. ''flow-'' @ take 22 tok) (random_token rnd)"

definition check_flow_budget :: "('s, 'p) flow_service \<Rightarrow> string \<Rightarrow> ('s, 'p) flow_world \<Rightarrow> flow_refusal option" where
  "check_flow_budget sv machine w =
     (let active = length (filter (\<lambda>(i, f). fl_machine f = machine \<and> \<not> flow_terminal (fl_state f)) (fw_flows w))
      in if sc_max_active sv \<le> active then Some (TooManyFlows active) else None)"

text \<open>The generation the flow will insist on at its commit; zero when there is no credential.\<close>

definition observe_generation :: "('s, 'p) flow_service \<Rightarrow> connector \<Rightarrow> 's \<Rightarrow> flow_fault + int" where
  "observe_generation sv conn s =
     (case fs_get (sc_store sv) StartCurrent (cn_credential_ref conn) s of
        Inl err \<Rightarrow> (if err = ErrNotFound then Inr 0 else Inl FlowInternal)
      | Inr sec \<Rightarrow> Inr (s_gen sec))"

definition secret_detail :: "string \<Rightarrow> string \<Rightarrow> connector \<Rightarrow> int \<Rightarrow> (string \<times> string) list" where
  "secret_detail provider i conn generation =
     [(''provider'', provider), (''flow_id'', i), (''secret_ref'', cn_credential_ref conn),
      (''secret_generation'', show_int generation)]"

definition started_event :: "string \<Rightarrow> string \<Rightarrow> string \<Rightarrow> connector \<Rightarrow> int \<Rightarrow> audit_event" where
  "started_event machine provider i conn observed =
     (mk_event EventCredentialFlowStarted ActorMachine OutcomeAllowed)
       \<lparr>ev_machine := machine, ev_detail := secret_detail provider i conn observed\<rparr>"

definition new_flow :: "string \<Rightarrow> string \<Rightarrow> string \<Rightarrow> string \<Rightarrow> connector \<Rightarrow> string \<Rightarrow> string \<Rightarrow> int \<Rightarrow> int \<Rightarrow> int \<Rightarrow> flow" where
  "new_flow i provider machine redirect conn oauth_state verifier now ttl observed =
     \<lparr>fl_id = i, fl_provider = provider, fl_machine = machine, fl_redirect = redirect, fl_connector = conn,
      fl_oauth_state = oauth_state, fl_verifier = verifier, fl_state = StatePending, fl_diag = None,
      fl_created = now, fl_expires = now + ttl, fl_terminal_at = None, fl_decided = None,
      fl_observed = observed, fl_relayed = False\<rparr>"

text \<open>
  The checks made before anything is touched, in their order.
\<close>

definition start_checks :: "('s, 'p) flow_service \<Rightarrow> string \<Rightarrow> string \<Rightarrow> flow_refusal + connector" where
  "start_checks sv provider redirect =
     (case sc_connector sv provider of
        None \<Rightarrow> Inl UnknownProvider
      | Some conn \<Rightarrow>
          if cq_driver (cn_credential conn) \<noteq> driver_oauth2
          then Inl (WrongDriver provider (cq_driver (cn_credential conn)))
          else (case validate_loopback_redirect redirect of
                  Some err \<Rightarrow> Inl (BadRedirect err)
                | None \<Rightarrow> Inr conn))"

text \<open>Both secrets, then the current credential; a credential in place needs \<open>replace\<close>.\<close>

definition start_secrets :: "('s, 'p) flow_service \<Rightarrow> connector \<Rightarrow> string \<Rightarrow> bool \<Rightarrow> 's
    \<Rightarrow> flow_fault + string \<times> int" where
  "start_secrets sv conn provider replace s =
     (case resolve_driver_secret sv StartClientId conn ''client_id_ref'' s of
        Inl err \<Rightarrow> Inl err
      | Inr client_id \<Rightarrow>
          (case resolve_driver_secret sv StartClientSecret conn ''client_secret_ref'' s of
             Inl err \<Rightarrow> Inl err
           | Inr _ \<Rightarrow>
               (case observe_generation sv conn s of
                  Inl err \<Rightarrow> Inl err
                | Inr observed \<Rightarrow>
                    if 0 < observed \<and> \<not> replace then Inl (FlowRefused (AlreadyHasCredential provider))
                    else Inr (client_id, observed))))"

text \<open>The start row is written before the flow exists; reading 1 of the clock dates the flow.\<close>

definition open_flow :: "('s, 'p) flow_service \<Rightarrow> int \<Rightarrow> (nat \<Rightarrow> string option) \<Rightarrow> string \<Rightarrow> string \<Rightarrow> string
    \<Rightarrow> connector \<Rightarrow> string \<times> int \<Rightarrow> ('s, 'p) flow_world \<Rightarrow> (flow_fault + flow_started) \<times> ('s, 'p) flow_world" where
  "open_flow sv now rnd machine provider redirect conn = (\<lambda>(client_id, observed) w.
     (case (random_token (rnd 0), random_token (rnd 1), random_flow_id (rnd 2)) of
        (Some oauth_state, Some verifier, Some i) \<Rightarrow>
          (case authorization_url conn client_id redirect oauth_state verifier of
             None \<Rightarrow> (Inl FlowInternal, w)
           | Some u \<Rightarrow>
               (case fs_append (sc_store sv) 0 (started_event machine provider i conn observed) (fw_store w) of
                  (Inl err, s') \<Rightarrow> (Inl (FlowRefused StartUnrecorded), w\<lparr>fw_store := s'\<rparr>)
                | (Inr _, s') \<Rightarrow>
                    (Inr \<lparr>fr_id = i, fr_url = u, fr_expires = now + sc_ttl sv\<rparr>,
                     put_flow i (new_flow i provider machine redirect conn oauth_state verifier now (sc_ttl sv) observed)
                       (w\<lparr>fw_store := s'\<rparr>))))
      | _ \<Rightarrow> (Inl FlowInternal, w)))"

definition flow_start :: "('s, 'p) flow_service \<Rightarrow> (nat \<Rightarrow> int) \<Rightarrow> (nat \<Rightarrow> string option) \<Rightarrow> string \<Rightarrow> string \<Rightarrow> string
    \<Rightarrow> bool \<Rightarrow> ('s, 'p) flow_world \<Rightarrow> (flow_fault + flow_started) \<times> ('s, 'p) flow_world" where
  "flow_start sv clk rnd machine provider redirect replace w =
     (case start_checks sv provider redirect of
        Inl err \<Rightarrow> (Inl (FlowRefused err), w)
      | Inr conn \<Rightarrow>
          let w1 = sweep sv clk w in
          (case check_flow_budget sv machine w1 of
             Some err \<Rightarrow> (Inl (FlowRefused err), w1)
           | None \<Rightarrow>
               (case start_secrets sv conn provider replace (fw_store w1) of
                  Inl err \<Rightarrow> (Inl err, w1)
                | Inr found \<Rightarrow> open_flow sv (clk 1) rnd machine provider redirect conn found w1)))"

section \<open>The stored credential\<close>

text \<open>
  \<open>Credential\<close>, as it is encoded: a time in a year JSON cannot carry is an error, and the expiry is
  left out when it is unset or the zero time.
\<close>

record credential =
  cd_provider :: string
  cd_type :: string
  cd_access :: string
  cd_refresh :: string
  cd_scope :: string
  cd_obtained :: int
  cd_expires :: "int option"

definition zero_time_ns :: int where "zero_time_ns = -62135596800 * second_ns"

definition new_credential :: "string \<Rightarrow> token_response \<Rightarrow> int \<Rightarrow> credential" where
  "new_credential provider tk now =
     \<lparr>cd_provider = provider, cd_type = tk_type tk, cd_access = tk_access tk, cd_refresh = tk_refresh tk,
      cd_scope = tk_scope tk, cd_obtained = now,
      cd_expires = (if 0 < tk_expires_in tk then Some (now + seconds (tk_expires_in tk)) else None)\<rparr>"

definition json_time :: "int \<Rightarrow> string option" where
  "json_time t =
     (case civil (t div second_ns div 86400) of
        (y, m, d) \<Rightarrow> if 0 \<le> y \<and> y \<le> 9999 then Some (rfc3339_nano t) else None)"

definition omit_empty :: "string \<Rightarrow> string \<Rightarrow> (string \<times> string) list" where
  "omit_empty k v = (if v = [] then [] else [(k, v)])"

definition credential_members :: "credential \<Rightarrow> (string \<times> string) list option" where
  "credential_members c =
     (let before = (''provider'', cd_provider c) # omit_empty ''token_type'' (cd_type c)
            @ (''access_token'', cd_access c) # omit_empty ''refresh_token'' (cd_refresh c)
            @ omit_empty ''scope'' (cd_scope c)
      in case json_time (cd_obtained c) of
           None \<Rightarrow> None
         | Some o_at \<Rightarrow>
             (case cd_expires c of
                None \<Rightarrow> Some (before @ [(''obtained_at'', o_at)])
              | Some e \<Rightarrow>
                  if e = zero_time_ns then Some (before @ [(''obtained_at'', o_at)])
                  else (case json_time e of
                          None \<Rightarrow> None
                        | Some e_at \<Rightarrow> Some (before @ [(''obtained_at'', o_at), (''expires_at'', e_at)]))))"

definition members_text :: "(string \<times> string) list \<Rightarrow> string" where
  "members_text ms = CHR ''{'' # str_join '','' (map (\<lambda>(k, v). json_quote k @ '':'' @ json_quote v) ms) @ ''}''"

definition seal_credential :: "('s, 'p) flow_service \<Rightarrow> int \<Rightarrow> string \<Rightarrow> token_response \<Rightarrow> string option" where
  "seal_credential sv now provider tk =
     (case credential_members (new_credential provider tk now) of
        None \<Rightarrow> None
      | Some ms \<Rightarrow> sc_encrypt sv (members_text ms))"

section \<open>The exchange job\<close>

text \<open>An em dash, in UTF-8.\<close>

definition em_dash :: string where "em_dash = [CHR 0xE2, CHR 0x80, CHR 0x94]"

definition store_diag :: "string \<Rightarrow> diagnostic" where
  "store_diag m = \<lparr>dg_code = CodeStoreFailed, dg_message = m @ ''; start a new flow to retry'', dg_retryable = True\<rparr>"

definition exchange_diag :: diagnostic where
  "exchange_diag = \<lparr>dg_code = CodeExchangeFailed,
     dg_message = ''the provider did not issue a credential for this authorization; start a new flow to retry'',
     dg_retryable = True\<rparr>"

definition replaced_diag :: diagnostic where
  "replaced_diag = \<lparr>dg_code = CodeConcurrentReplacement,
     dg_message = ''another add-credentials flow stored a credential for this provider while this one was in progress; nothing was overwritten '' @ em_dash @ '' re-run add-credentials if you still want to replace it'',
     dg_retryable = True\<rparr>"

definition delivery_diag :: diagnostic where
  "delivery_diag = \<lparr>dg_code = CodeDeliveryFailed,
     dg_message = ''the credential is stored on the server, but the connector could not be given it '' @ em_dash @ '' do NOT authorize again; the server's operator must fix the delivery (the workload_credential component on /healthz names the fault)'',
     dg_retryable = False\<rparr>"

definition failed_with :: "diagnostic \<Rightarrow> pending_terminal" where
  "failed_with d = \<lparr>pt_state = StateFailed, pt_diag = d, pt_actor = ActorSystem\<rparr>"

definition undelivered_decision :: pending_terminal where
  "undelivered_decision = \<lparr>pt_state = StateUndelivered, pt_diag = delivery_diag, pt_actor = ActorSystem\<rparr>"

text \<open>
  The job up to the commit: the secrets are read again, the code is redeemed, the tokens are sealed.
  It reads the store and talks to the provider, and yields the sealed credential or a diagnostic.
\<close>

definition job_exchange :: "('s, 'p) flow_service \<Rightarrow> int \<Rightarrow> flow \<Rightarrow> string \<Rightarrow> 's \<Rightarrow> 'p \<Rightarrow> (diagnostic + string) \<times> 'p" where
  "job_exchange sv now f code s p =
     (case (resolve_driver_secret sv JobClientId (fl_connector f) ''client_id_ref'' s,
            resolve_driver_secret sv JobClientSecret (fl_connector f) ''client_secret_ref'' s) of
        (Inr client_id, Inr client_secret) \<Rightarrow>
          (case exchange_code (sc_endpoint sv) (fl_connector f) client_id client_secret (fl_redirect f) code (fl_verifier f) p of
             (None, p') \<Rightarrow> (Inl exchange_diag, p')
           | (Some tk, p') \<Rightarrow>
               (case seal_credential sv now (fl_provider f) tk of
                  None \<Rightarrow> (Inl (store_diag ''the credential could not be encrypted for storage''), p')
                | Some cipher \<Rightarrow> (Inr cipher, p')))
      | _ \<Rightarrow> (Inl (store_diag ''the server's client credentials for this provider became unreadable''), p))"

text \<open>The commit: one compare-and-swap against the generation seen at the start, with its row.\<close>

definition committed_event :: "flow \<Rightarrow> int \<Rightarrow> audit_event" where
  "committed_event f generation =
     (mk_event EventCredentialFlowCommitted ActorMachine OutcomeAllowed)
       \<lparr>ev_machine := fl_machine f,
        ev_detail := secret_detail (fl_provider f) (fl_id f) (fl_connector f) generation\<rparr>"

fun commit_diag :: "store_error \<Rightarrow> diagnostic" where
  "commit_diag (ErrGenerationConflict ref current expected) = replaced_diag"
| "commit_diag _ = store_diag ''the credential could not be stored; nothing was changed''"

definition job_commit :: "('s, 'p) flow_service \<Rightarrow> flow \<Rightarrow> string \<Rightarrow> 's \<Rightarrow> (diagnostic + int) \<times> 's" where
  "job_commit sv f cipher s =
     apfst (map_sum commit_diag id)
       (fs_put_cas (sc_store sv) (cn_credential_ref (fl_connector f)) cipher (fl_observed f)
          (Some (\<lambda>generation. [committed_event f generation])) s)"

definition delivered :: "('s, 'p) flow_service \<Rightarrow> flow \<Rightarrow> int \<Rightarrow> bool" where
  "delivered sv f generation =
     (case sc_on_committed sv of None \<Rightarrow> True | Some deliver \<Rightarrow> deliver (fl_provider f) generation)"

text \<open>
  The job never returns a fault: an ending whose row cannot be written yet stays decided. Readings 0
  and 1 of the clock date the credential and the ending.
\<close>

definition exchange_and_store :: "('s, 'p) flow_service \<Rightarrow> (nat \<Rightarrow> int) \<Rightarrow> nat \<Rightarrow> string \<Rightarrow> string
    \<Rightarrow> ('s, 'p) flow_world \<Rightarrow> ('s, 'p) flow_world" where
  "exchange_and_store sv clk n i code w =
     (case get_flow i w of
        None \<Rightarrow> w
      | Some f \<Rightarrow>
          (case job_exchange sv (clk 0) f code (fw_store w) (fw_provider w) of
             (Inl d, p') \<Rightarrow> snd (terminate_flow sv (clk 1) n (failed_with d) i (w\<lparr>fw_provider := p'\<rparr>))
           | (Inr cipher, p') \<Rightarrow>
               (case job_commit sv f cipher (fw_store w) of
                  (Inl d, s') \<Rightarrow>
                    snd (terminate_flow sv (clk 1) n (failed_with d) i (w\<lparr>fw_provider := p', fw_store := s'\<rparr>))
                | (Inr generation, s') \<Rightarrow>
                    (let w' = w\<lparr>fw_provider := p', fw_store := s'\<rparr> in
                     if delivered sv f generation then put_flow i (complete_flow (clk 1) f) w'
                     else snd (terminate_flow sv (clk 1) n undelivered_decision i w')))))"

section \<open>The relay\<close>

definition denied_decision :: "string \<Rightarrow> pending_terminal" where
  "denied_decision err =
     \<lparr>pt_state = StateDenied,
      pt_diag = \<lparr>dg_code = CodeProviderDenied,
        dg_message = ''the provider reported that authorization was denied ('' @ sanitize_provider_error err @ '')'',
        dg_retryable = True\<rparr>,
      pt_actor = ActorMachine\<rparr>"

text \<open>
  \<open>relay\<close> consumes the one-shot; a denial ends the flow here, a code is handed to the job, which runs
  after the answer. The result names the code of the job to run.
\<close>

definition relay :: "('s, 'p) flow_service \<Rightarrow> int \<Rightarrow> nat \<Rightarrow> string \<Rightarrow> relay_outcome \<Rightarrow> ('s, 'p) flow_world
    \<Rightarrow> (flow_fault + string option) \<times> ('s, 'p) flow_world" where
  "relay sv now n i out w =
     (case get_flow i w of
        None \<Rightarrow> (Inr None, w)
      | Some f \<Rightarrow>
          (case consume_relay out f of
             (Inl err, _) \<Rightarrow> (Inl (FlowRefused err), w)
           | (Inr code, f') \<Rightarrow>
               if code = [] then
                 (case terminate_flow sv now n (denied_decision (ro_error out)) i (put_flow i f' w) of
                    (Some fault, w') \<Rightarrow> (Inl fault, w')
                  | (None, w') \<Rightarrow> (Inr None, w'))
               else (Inr (Some code), put_flow i f' w)))"

section \<open>Requests and answers\<close>

definition flow_max_request_bytes :: nat where "flow_max_request_bytes = 16384"

definition flow_decode :: "string \<Rightarrow> string list \<Rightarrow> (string \<times> json) list option" where
  "flow_decode body names =
     (case json_first (take flow_max_request_bytes body) of
        Some (JObj kvs, rest) \<Rightarrow> if only_fields names kvs then Some kvs else None
      | Some (JNull, rest) \<Rightarrow> Some []
      | _ \<Rightarrow> None)"

lemma flow_decode_code [code]:
  "flow_decode body names =
     (case json_first (if int (length body) \<le> 16384 then body else take flow_max_request_bytes body) of
        Some (JObj kvs, rest) \<Rightarrow> if only_fields names kvs then Some kvs else None
      | Some (JNull, rest) \<Rightarrow> Some []
      | _ \<Rightarrow> None)"
  by (auto simp: flow_decode_def flow_max_request_bytes_def)

record start_request =
  sq_provider :: string
  sq_replace :: bool
  sq_redirect :: string

definition decode_start :: "string \<Rightarrow> start_request option" where
  "decode_start body =
     (case flow_decode body [''provider'', ''replace'', ''redirect_uri''] of
        None \<Rightarrow> None
      | Some kvs \<Rightarrow>
          (case (dec_field dec_string ''provider'' [] kvs, dec_field dec_bool ''replace'' False kvs,
                 dec_field dec_string ''redirect_uri'' [] kvs) of
             (Some p, Some r, Some u) \<Rightarrow> Some \<lparr>sq_provider = p, sq_replace = r, sq_redirect = u\<rparr>
           | _ \<Rightarrow> None))"

definition decode_relay :: "string \<Rightarrow> relay_outcome option" where
  "decode_relay body =
     (case flow_decode body [''code'', ''error'', ''state''] of
        None \<Rightarrow> None
      | Some kvs \<Rightarrow>
          (case (dec_field dec_string ''code'' [] kvs, dec_field dec_string ''error'' [] kvs,
                 dec_field dec_string ''state'' [] kvs) of
             (Some c, Some e, Some s) \<Rightarrow> Some \<lparr>ro_code = c, ro_error = e, ro_state = s\<rparr>
           | _ \<Rightarrow> None))"

text \<open>An error body carries the fault instead of its words, and the known providers with an unknown one.\<close>

datatype flow_body = FbError flow_fault "string list" | FbStarted flow_started | FbFlow flow_view

type_synonym flow_response = "flow_body response"

definition flow_write_err :: "('s, 'p) flow_service \<Rightarrow> flow_fault \<Rightarrow> flow_response" where
  "flow_write_err sv err =
     (case err of
        TerminalUnrecorded \<Rightarrow> write_json 503 (FbError err [])
      | FlowRefused r \<Rightarrow> write_json (refusal_status r)
          (FbError err (if r = UnknownProvider then sc_providers sv else []))
      | FlowInternal \<Rightarrow> write_json 500 (FbError err []))"

definition handle_start :: "('s, 'p) flow_service \<Rightarrow> (nat \<Rightarrow> int) \<Rightarrow> (nat \<Rightarrow> string option) \<Rightarrow> string \<Rightarrow> string
    \<Rightarrow> ('s, 'p) flow_world \<Rightarrow> flow_response \<times> ('s, 'p) flow_world" where
  "handle_start sv clk rnd body machine w =
     (case decode_start body of
        None \<Rightarrow> (flow_write_err sv (FlowRefused MalformedBody), w)
      | Some rq \<Rightarrow>
          let provider = trim_space (sq_provider rq) in
          if provider = [] then (flow_write_err sv (FlowRefused ProviderRequired), w)
          else (case flow_start sv clk rnd machine provider (sq_redirect rq) (sq_replace rq) w of
                  (Inl err, w') \<Rightarrow> (flow_write_err sv err, w')
                | (Inr st, w') \<Rightarrow> (write_json 201 (FbStarted st), w')))"

text \<open>\<open>lookup\<close>: another machine's flow is not found.\<close>

definition lookup_flow :: "string \<Rightarrow> string \<Rightarrow> ('s, 'p) flow_world \<Rightarrow> flow option" where
  "lookup_flow i machine w =
     (case get_flow i w of None \<Rightarrow> None | Some f \<Rightarrow> if fl_machine f = machine then Some f else None)"

definition show_flow :: "string \<Rightarrow> nat \<Rightarrow> ('s, 'p) flow_world \<Rightarrow> flow_response" where
  "show_flow i st w = write_json st (FbFlow (view_flow (the (get_flow i w))))"

definition check_relay :: "relay_outcome \<Rightarrow> flow_refusal option" where
  "check_relay out =
     (if ro_state out = [] then Some StateRequired
      else if ro_code out = [] \<and> ro_error out = [] then Some OutcomeRequired
      else if ro_code out \<noteq> [] \<and> ro_error out \<noteq> [] then Some OutcomeAmbiguous
      else None)"

text \<open>The settling uses append 0 and readings 0 to 2, the relay append 1 and reading 3.\<close>

definition handle_relay :: "('s, 'p) flow_service \<Rightarrow> (nat \<Rightarrow> int) \<Rightarrow> string \<Rightarrow> string \<Rightarrow> string
    \<Rightarrow> ('s, 'p) flow_world \<Rightarrow> flow_response \<times> string option \<times> ('s, 'p) flow_world" where
  "handle_relay sv clk i body machine w =
     (case lookup_flow i machine w of
        None \<Rightarrow> (flow_write_err sv (FlowRefused UnknownFlow), None, w)
      | Some f \<Rightarrow>
          (case settle sv clk i w of
             (Some err, w1) \<Rightarrow> (flow_write_err sv err, None, w1)
           | (None, w1) \<Rightarrow>
               (case decode_relay body of
                  None \<Rightarrow> (flow_write_err sv (FlowRefused MalformedBody), None, w1)
                | Some out \<Rightarrow>
                    (case check_relay out of
                       Some err \<Rightarrow> (flow_write_err sv (FlowRefused err), None, w1)
                     | None \<Rightarrow>
                         (case relay sv (clk 3) 1 i out w1 of
                            (Inl err, w2) \<Rightarrow> (flow_write_err sv err, None, w2)
                          | (Inr job, w2) \<Rightarrow> (show_flow i 202 w2, job, w2))))))"

definition handle_poll :: "('s, 'p) flow_service \<Rightarrow> (nat \<Rightarrow> int) \<Rightarrow> string \<Rightarrow> string
    \<Rightarrow> ('s, 'p) flow_world \<Rightarrow> flow_response \<times> ('s, 'p) flow_world" where
  "handle_poll sv clk i machine w =
     (case lookup_flow i machine w of
        None \<Rightarrow> (flow_write_err sv (FlowRefused UnknownFlow), w)
      | Some f \<Rightarrow>
          (case settle sv clk i w of
             (Some err, w1) \<Rightarrow> (flow_write_err sv err, w1)
           | (None, w1) \<Rightarrow> (show_flow i 200 w1, w1)))"

section \<open>The SQLite store\<close>

definition sqlite_flow_store :: "(flow_read \<Rightarrow> faults) \<Rightarrow> faults \<Rightarrow> (nat \<Rightarrow> faults) \<Rightarrow> int \<Rightarrow> db flow_store" where
  "sqlite_flow_store rfl cfl afl now =
     \<lparr>fs_get = (\<lambda>which. get_secret (rfl which)),
      fs_put_cas = put_secret_cas cfl now,
      fs_append = (\<lambda>n. append_audit (afl n) now)\<rparr>"

end
