(* ===== verification/Flow_Lemmas.thy ===== *)
theory Flow_Lemmas
  imports Flow_Service Store_Spec
begin

text \<open>
  What the credential flow relies on in its stores, as a locale, the lemmas about its operations
  proved once over it, and its interpretation on the SQLite store.
\<close>

section \<open>What the log shows of a flow\<close>

definition start_recorded :: "audit_event list \<Rightarrow> flow \<Rightarrow> bool" where
  "start_recorded rows f \<longleftrightarrow> (\<exists>r \<in> set rows.
     records r (started_event (fl_machine f) (fl_provider f) (fl_id f) (fl_connector f) (fl_observed f)))"

definition commit_recorded :: "audit_event list \<Rightarrow> flow \<Rightarrow> bool" where
  "commit_recorded rows f \<longleftrightarrow> (\<exists>r \<in> set rows. records r (committed_event f (fl_observed f + 1)))"

definition ending_recorded :: "audit_event list \<Rightarrow> flow \<Rightarrow> bool" where
  "ending_recorded rows f \<longleftrightarrow> (\<exists>d. pt_state d = fl_state f \<and> fl_diag f = Some (pt_diag d)
     \<and> (\<exists>r \<in> set rows. records r (terminal_event f d)))"

text \<open>
  A flow in order with the log: it started on record; it is never shown ended without the row of its
  ending; it is undelivered, or about to be, only with a stored credential; and it expires, or is about
  to, only if nothing was relayed.
\<close>

definition sound_decision :: "audit_event list \<Rightarrow> flow \<Rightarrow> pending_terminal \<Rightarrow> bool" where
  "sound_decision rows f d \<longleftrightarrow> pt_state d \<notin> {StatePending, StateCompleted}
     \<and> (pt_state d = StateUndelivered \<longrightarrow> commit_recorded rows f)
     \<and> (pt_state d = StateExpired \<longleftrightarrow> \<not> fl_relayed f)"

definition flow_sound :: "audit_event list \<Rightarrow> flow \<Rightarrow> bool" where
  "flow_sound rows f \<longleftrightarrow> start_recorded rows f
     \<and> (fl_state f = StateCompleted \<longrightarrow> commit_recorded rows f \<and> fl_relayed f \<and> fl_diag f = None)
     \<and> (fl_state f \<notin> {StatePending, StateCompleted} \<longrightarrow> ending_recorded rows f)
     \<and> (fl_state f = StateUndelivered \<longrightarrow> commit_recorded rows f)
     \<and> (flow_terminal (fl_state f) \<longrightarrow> fl_decided f = None \<and> (fl_state f = StateExpired \<longleftrightarrow> \<not> fl_relayed f))
     \<and> (\<forall>d. fl_decided f = Some d \<longrightarrow> sound_decision rows f d)"

lemmas flow_sound_defs = flow_sound_def start_recorded_def commit_recorded_def ending_recorded_def sound_decision_def

lemma flow_sound_more: "flow_sound rows f \<Longrightarrow> set rows \<subseteq> set rows' \<Longrightarrow> flow_sound rows' f"
  unfolding flow_sound_defs by (elim conjE) (intro conjI; blast)

text \<open>Rows name what no operation changes in a flow.\<close>

definition same_subject :: "flow \<Rightarrow> flow \<Rightarrow> bool" where
  "same_subject f g \<longleftrightarrow> fl_machine g = fl_machine f \<and> fl_provider g = fl_provider f \<and> fl_id g = fl_id f
     \<and> fl_connector g = fl_connector f \<and> fl_observed g = fl_observed f"

lemma same_subject_rows:
  assumes "same_subject f g"
  shows "start_recorded rows g = start_recorded rows f" "commit_recorded rows g = commit_recorded rows f"
    "terminal_event g d = terminal_event f d"
  using assms by (simp_all add: same_subject_def start_recorded_def commit_recorded_def committed_event_def terminal_event_def)

lemma new_flow_sound:
  assumes "r \<in> set rows" "records r (started_event machine provider i conn observed)"
  shows "flow_sound rows (new_flow i provider machine redirect conn os v now ttl observed)"
  using assms by (auto simp: new_flow_def flow_sound_def start_recorded_def flow_terminal_def)

lemma claim_sound:
  assumes "flow_sound rows f" "claim_expiry now f = (b, f')"
  shows "flow_sound rows f'"
  using assms
  by (auto simp: claim_expiry_def expirable_def expiry_decision_def flow_sound_defs flow_terminal_def
      committed_event_def terminal_event_def split: if_splits)

lemma consume_sound:
  assumes "flow_sound rows f" "consume_relay out f = (Inr code, f')"
  shows "flow_sound rows f' \<and> fl_state f' = StatePending \<and> fl_relayed f' \<and> fl_decided f' = None \<and> same_subject f f'"
  using assms
  by (auto simp: consume_relay_def flow_sound_defs flow_terminal_def same_subject_def
      committed_event_def terminal_event_def split: if_splits)

lemma decide_sound:
  assumes "flow_sound rows f" "sound_decision rows f d" "decide d f = (b, f')"
  shows "flow_sound rows f'"
  using assms
  by (auto simp: decide_def flow_sound_defs flow_terminal_def
      committed_event_def terminal_event_def split: if_splits option.splits)

lemma expose_sound:
  assumes "flow_sound rows f" "to_commit f = Some d" "r \<in> set rows" "records r (terminal_event f d)"
  shows "flow_sound rows (expose now d f)"
  using assms
  by (auto simp: to_commit_def expose_def flow_sound_defs flow_terminal_def
      committed_event_def terminal_event_def split: if_splits)

lemma complete_sound:
  assumes "flow_sound rows f" "fl_relayed f" "commit_recorded rows f"
  shows "flow_sound rows (complete_flow now f)"
  using assms
  by (auto simp: complete_flow_def flow_sound_defs flow_terminal_def
      committed_event_def terminal_event_def split: if_splits)

section \<open>The flow table\<close>

definition world_sound :: "('s \<Rightarrow> audit_event list) \<Rightarrow> ('s, 'p) flow_world \<Rightarrow> bool" where
  "world_sound log w \<longleftrightarrow> distinct (map fst (fw_flows w))
     \<and> (\<forall>(i, f) \<in> set (fw_flows w). fl_id f = i \<and> flow_sound (log (fw_store w)) f)"

text \<open>A step that only writes rows: the log grows and no credential changes.\<close>

definition quiet_step :: "('s \<Rightarrow> audit_event list) \<Rightarrow> (string \<Rightarrow> 's \<Rightarrow> int) \<Rightarrow> (string \<Rightarrow> 's \<Rightarrow> string option)
    \<Rightarrow> 's \<Rightarrow> 's \<Rightarrow> bool" where
  "quiet_step log generation cipher_at s s' \<longleftrightarrow> (\<exists>rows. log s' = log s @ rows)
     \<and> (\<forall>ref. generation ref s' = generation ref s \<and> cipher_at ref s' = cipher_at ref s)"

lemma quiet_refl [simp]: "quiet_step log generation cipher_at s s"
  by (simp add: quiet_step_def)

lemma quiet_trans:
  "quiet_step log generation cipher_at s s1 \<Longrightarrow> quiet_step log generation cipher_at s1 s2 \<Longrightarrow>
     quiet_step log generation cipher_at s s2"
  by (auto simp: quiet_step_def)

lemma get_put_flow [simp]: "get_flow j (put_flow i f w) = (if j = i then Some f else get_flow j w)"
  by (simp add: get_flow_def put_flow_def)

lemma get_flow_store [simp]: "get_flow i (w\<lparr>fw_store := s\<rparr>) = get_flow i w"
  "get_flow i (w\<lparr>fw_provider := p\<rparr>) = get_flow i w"
  by (simp_all add: get_flow_def)

lemma put_flow_fields [simp]:
  "fw_store (put_flow i f w) = fw_store w" "fw_provider (put_flow i f w) = fw_provider w"
  by (simp_all add: put_flow_def)

lemma world_sound_flow:
  "world_sound log w \<Longrightarrow> get_flow i w = Some f \<Longrightarrow> fl_id f = i \<and> flow_sound (log (fw_store w)) f"
  by (auto simp: world_sound_def get_flow_def dest: map_of_SomeD)

lemma world_sound_put:
  assumes "world_sound log w" "flow_sound (log (fw_store w)) f" "fl_id f = i"
  shows "world_sound log (put_flow i f w)"
  using assms set_assoc_set_subset [of i f "fw_flows w"]
  by (fastforce simp: world_sound_def put_flow_def intro: distinct_assoc_set)

lemma world_sound_more:
  assumes "world_sound log w" "set (log (fw_store w)) \<subseteq> set (log s')"
  shows "world_sound log (w\<lparr>fw_store := s'\<rparr>)"
  using assms by (auto simp: world_sound_def intro: flow_sound_more)

lemma world_sound_provider [simp]: "world_sound log (w\<lparr>fw_provider := p\<rparr>) = world_sound log w"
  by (simp add: world_sound_def)

lemma world_sound_filter:
  "world_sound log w \<Longrightarrow> world_sound log (w\<lparr>fw_flows := filter p (fw_flows w)\<rparr>)"
  by (auto simp: world_sound_def distinct_map_filter)

lemma section_ids:
  "claim_expiry now f = (b, f1) \<Longrightarrow> fl_id f1 = fl_id f"
  "decide d f = (b, f1) \<Longrightarrow> fl_id f1 = fl_id f"
  "consume_relay out f = (r, f1) \<Longrightarrow> fl_id f1 = fl_id f"
  "fl_id (expose now d f) = fl_id f" "fl_id (complete_flow now f) = fl_id f"
  by (auto simp: claim_expiry_def decide_def consume_relay_def expose_def complete_flow_def split: if_splits)

section \<open>The stores behind the service\<close>

text \<open>
  A store for the flows keeps an audit log and secrets under compare-and-swap, and an audit row
  touches no secret. The service's other fields are free.
\<close>

locale flow_backing =
  rows: audit_sink "\<lambda>n (t :: int). fs_append (sc_store sv) n" log +
  secrets: cas_secrets "fs_get (sc_store sv)" "\<lambda>(k :: flow_read) (t :: int). fs_put_cas (sc_store sv)"
    generation cipher_at log
  for sv :: "('s, 'p) flow_service" and log :: "'s \<Rightarrow> audit_event list"
    and generation :: "string \<Rightarrow> 's \<Rightarrow> int" and cipher_at :: "string \<Rightarrow> 's \<Rightarrow> string option" +
  assumes append_secrets: "fs_append (sc_store sv) n e s = (r, s') \<Longrightarrow>
      generation ref s' = generation ref s \<and> cipher_at ref s' = cipher_at ref s"
begin

lemma append_cases:
  assumes "fs_append (sc_store sv) n e s = (res, s')"
  obtains (written) r where "res = Inr ()" "log s' = log s @ [r]" "records r e" "quiet_step log generation cipher_at s s'"
    | (failed) x where "res = Inl x" "s' = s"
  using rows.append_log_cases [OF assms] append_secrets [OF assms] by (auto simp: quiet_step_def)

lemma commit_terminal_cases:
  assumes "commit_terminal sv now n i w = (res, w')"
  obtains (nothing) "res = None" "w' = w" "Option.bind (get_flow i w) to_commit = None"
    | (unrecorded) f d where "get_flow i w = Some f" "to_commit f = Some d" "res = Some TerminalUnrecorded" "w' = w"
    | (shown) f d r s' where "get_flow i w = Some f" "to_commit f = Some d" "res = None"
        "log s' = log (fw_store w) @ [r]" "records r (terminal_event f d)"
        "quiet_step log generation cipher_at (fw_store w) s'"
        "w' = put_flow i (expose now d f) (w\<lparr>fw_store := s'\<rparr>)"
proof (cases "get_flow i w")
  case None
  have "res = None" "w' = w" "Option.bind (get_flow i w) to_commit = None"
    using assms None by (simp_all add: commit_terminal_def)
  then show ?thesis by (rule nothing)
next
  case (Some f)
  show ?thesis
  proof (cases "to_commit f")
    case None
    have "res = None" "w' = w" "Option.bind (get_flow i w) to_commit = None"
      using assms Some None by (simp_all add: commit_terminal_def)
    then show ?thesis by (rule nothing)
  next
    case com: (Some d)
    obtain ares s' where a: "fs_append (sc_store sv) n (terminal_event f d) (fw_store w) = (ares, s')" by fastforce
    from a show ?thesis
    proof (cases rule: append_cases)
      case (written r)
      have "res = None" "w' = put_flow i (expose now d f) (w\<lparr>fw_store := s'\<rparr>)"
        using assms Some com a written(1) by (simp_all add: commit_terminal_def)
      with written show ?thesis by (intro shown [OF Some com])
    next
      case (failed x)
      have "res = Some TerminalUnrecorded" "w' = w"
        using assms Some com a failed by (simp_all add: commit_terminal_def)
      then show ?thesis by (rule unrecorded [OF Some com])
    qed
  qed
qed

lemma commit_terminal_quiet:
  "commit_terminal sv now n i w = (res, w') \<Longrightarrow> quiet_step log generation cipher_at (fw_store w) (fw_store w')"
  by (erule commit_terminal_cases) simp_all

lemma commit_terminal_sound:
  assumes "world_sound log w" "commit_terminal sv now n i w = (res, w')"
  shows "world_sound log w'"
  using assms(2)
proof (cases rule: commit_terminal_cases)
  case (shown f d r s')
  have more: "world_sound log (w\<lparr>fw_store := s'\<rparr>)"
    using assms(1) shown(4) by (intro world_sound_more) auto
  with world_sound_flow [OF this, of i f] shown(1,2,4,5) have "flow_sound (log s') (expose now d f)" "fl_id f = i"
    by (auto intro: expose_sound)
  with more shown(7) show ?thesis by (simp add: world_sound_put section_ids)
qed (use assms(1) in simp_all)

lemma terminate_quiet:
  "terminate_flow sv now n d i w = (res, w') \<Longrightarrow> quiet_step log generation cipher_at (fw_store w) (fw_store w')"
  by (auto simp: terminate_flow_def split: option.splits prod.splits bool.splits dest: commit_terminal_quiet)

lemma terminate_sound:
  assumes "world_sound log w" "terminate_flow sv now n d i w = (res, w')"
    and "\<And>f. get_flow i w = Some f \<Longrightarrow> sound_decision (log (fw_store w)) f d"
  shows "world_sound log w'"
proof (cases "get_flow i w")
  case (Some f)
  obtain b f' where f': "decide d f = (b, f')" by fastforce
  have "flow_sound (log (fw_store w)) f'" "fl_id f' = i"
    using world_sound_flow [OF assms(1) Some] decide_sound [OF _ assms(3) [OF Some] f'] section_ids(2) [OF f'] by auto
  then have "world_sound log (put_flow i f' w)" using assms(1) by (intro world_sound_put)
  with assms(1,2) Some f' show ?thesis
    by (auto simp: terminate_flow_def split: bool.splits intro: commit_terminal_sound)
qed (use assms(1,2) in \<open>simp add: terminate_flow_def\<close>)

lemma expire_quiet:
  "expire_flow sv now1 now2 n i w = (res, w') \<Longrightarrow> quiet_step log generation cipher_at (fw_store w) (fw_store w')"
  by (auto simp: expire_flow_def split: option.splits prod.splits bool.splits dest: commit_terminal_quiet)

lemma expire_sound:
  assumes "world_sound log w" "expire_flow sv now1 now2 n i w = (res, w')"
  shows "world_sound log w'"
proof (cases "get_flow i w")
  case (Some f)
  obtain b f' where f': "claim_expiry now1 f = (b, f')" by fastforce
  have "flow_sound (log (fw_store w)) f'" "fl_id f' = i"
    using world_sound_flow [OF assms(1) Some] claim_sound [OF _ f'] section_ids(1) [OF f'] by auto
  then have "world_sound log (put_flow i f' w)" using assms(1) by (intro world_sound_put)
  with assms Some f' show ?thesis
    by (auto simp: expire_flow_def split: bool.splits intro: commit_terminal_sound)
qed (use assms in \<open>simp add: expire_flow_def\<close>)

lemma settle_ok:
  assumes "settle sv clk i w = (res, w')"
  shows "quiet_step log generation cipher_at (fw_store w) (fw_store w')"
    and "world_sound log w \<Longrightarrow> world_sound log w'"
  using assms
  by (auto simp: settle_def split: option.splits if_splits
      dest: commit_terminal_quiet expire_quiet intro: commit_terminal_sound expire_sound)

lemma expire_all_ok:
  "quiet_step log generation cipher_at (fw_store w) (fw_store (expire_all sv clk n ids w))
     \<and> (world_sound log w \<longrightarrow> world_sound log (expire_all sv clk n ids w))"
proof (induction ids arbitrary: n w)
  case (Cons i ids)
  obtain res w1 where e: "expire_flow sv (clk (2 * n)) (clk (2 * n + 1)) n i w = (res, w1)" by fastforce
  with Cons [of w1 "Suc n"] expire_quiet [OF e] expire_sound [OF _ e] show ?case
    by (auto intro: quiet_trans)
qed simp

lemma sweep_ok:
  "quiet_step log generation cipher_at (fw_store w) (fw_store (sweep sv clk w))"
  "world_sound log w \<Longrightarrow> world_sound log (sweep sv clk w)"
proof -
  let ?kept = "filter (\<lambda>(i, f). \<not> forgettable sv (clk 0) f) (fw_flows w)"
  note e = expire_all_ok [of "w\<lparr>fw_flows := ?kept\<rparr>" clk 1 "map fst (filter (\<lambda>(i, f). expirable (clk 0) f) (fw_flows w))"]
  from e show "quiet_step log generation cipher_at (fw_store w) (fw_store (sweep sv clk w))"
    by (simp add: sweep_def Let_def)
  show "world_sound log (sweep sv clk w)" if "world_sound log w"
    using e world_sound_filter [OF that] by (simp add: sweep_def Let_def)
qed

lemma relay_ok:
  assumes "relay sv now n i out w = (res, w')"
  shows "quiet_step log generation cipher_at (fw_store w) (fw_store w')"
    and "world_sound log w \<Longrightarrow> world_sound log w'"
proof -
  have both: "quiet_step log generation cipher_at (fw_store w) (fw_store w')
      \<and> (world_sound log w \<longrightarrow> world_sound log w')"
  proof (cases "get_flow i w")
    case None
    with assms show ?thesis by (simp add: relay_def)
  next
    case (Some f)
    obtain r f' where c: "consume_relay out f = (r, f')" by fastforce
    show ?thesis
    proof (cases r)
      case (Inl err)
      with assms Some c show ?thesis by (simp add: relay_def)
    next
      case (Inr code)
      have put: "world_sound log (put_flow i f' w)" if "world_sound log w"
        using world_sound_flow [OF that Some] consume_sound [of _ f out code f'] c Inr section_ids(3) [OF c] that
        by (auto intro: world_sound_put)
      show ?thesis
      proof (cases "code = []")
        case False
        with assms Some c Inr put show ?thesis by (auto simp: relay_def)
      next
        case True
        obtain fault w2 where t: "terminate_flow sv now n (denied_decision (ro_error out)) i (put_flow i f' w) = (fault, w2)"
          by fastforce
        with assms Some c Inr True have w': "w' = w2" by (auto simp: relay_def split: option.splits)
        have "fl_relayed f'" using c Inr by (auto simp: consume_relay_def split: if_splits)
        then have "sound_decision rows f' (denied_decision (ro_error out))" for rows
          by (simp add: sound_decision_def denied_decision_def)
        then have "world_sound log w2" if "world_sound log w"
          using that by (intro terminate_sound [OF put t]) auto
        with terminate_quiet [OF t] w' show ?thesis by simp
      qed
    qed
  qed
  from both show "quiet_step log generation cipher_at (fw_store w) (fw_store w')"
    and "world_sound log w \<Longrightarrow> world_sound log w'" by simp_all
qed

lemma open_flow_ok:
  assumes "open_flow sv now rnd machine provider redirect conn found w = (res, w')"
  shows "quiet_step log generation cipher_at (fw_store w) (fw_store w')"
    and "world_sound log w \<Longrightarrow> world_sound log w'"
proof -
  obtain client_id observed where found: "found = (client_id, observed)" by fastforce
  have both: "quiet_step log generation cipher_at (fw_store w) (fw_store w')
      \<and> (world_sound log w \<longrightarrow> world_sound log w')"
  proof (cases "\<exists>os v i u. random_token (rnd 0) = Some os \<and> random_token (rnd 1) = Some v
      \<and> random_flow_id (rnd 2) = Some i \<and> authorization_url conn client_id redirect os v = Some u")
    case False
    with assms found show ?thesis by (auto simp: open_flow_def split: option.splits)
  next
    case True
    then obtain os v i u where t: "random_token (rnd 0) = Some os" "random_token (rnd 1) = Some v"
      "random_flow_id (rnd 2) = Some i" "authorization_url conn client_id redirect os v = Some u" by blast
    obtain ares s' where a: "fs_append (sc_store sv) 0 (started_event machine provider i conn observed) (fw_store w) = (ares, s')"
      by fastforce
    from a show ?thesis
    proof (cases rule: append_cases)
      case (failed x)
      with assms found t a show ?thesis by (simp add: open_flow_def)
    next
      case (written r)
      let ?f = "new_flow i provider machine redirect conn os v now (sc_ttl sv) observed"
      have w': "w' = put_flow i ?f (w\<lparr>fw_store := s'\<rparr>)"
        using assms found t a written(1) by (simp add: open_flow_def)
      have "world_sound log w'" if "world_sound log w"
      proof -
        have "world_sound log (w\<lparr>fw_store := s'\<rparr>)" using that written(2) by (intro world_sound_more) auto
        moreover have "flow_sound (log s') ?f" using written(2,3) by (intro new_flow_sound [of r]) auto
        ultimately show ?thesis unfolding w' by (intro world_sound_put) (auto simp: new_flow_def)
      qed
      with written(4) w' show ?thesis by simp
    qed
  qed
  from both show "quiet_step log generation cipher_at (fw_store w) (fw_store w')"
    and "world_sound log w \<Longrightarrow> world_sound log w'" by simp_all
qed

lemma flow_start_ok:
  assumes "flow_start sv clk rnd machine provider redirect replace w = (res, w')"
  shows "quiet_step log generation cipher_at (fw_store w) (fw_store w')"
    and "world_sound log w \<Longrightarrow> world_sound log w'"
  using assms sweep_ok [of w clk]
  by (auto simp: flow_start_def Let_def split: sum.splits option.splits
      dest: open_flow_ok(1) intro: quiet_trans open_flow_ok(2))

lemma job_commit_cases:
  assumes "job_commit sv f cipher s = (res, s')"
  obtains (refused) d where "res = Inl d" "s' = s"
    | (stored) r where "res = Inr (fl_observed f + 1)"
        "generation (cn_credential_ref (fl_connector f)) s = fl_observed f"
        "generation (cn_credential_ref (fl_connector f)) s' = fl_observed f + 1"
        "cipher_at (cn_credential_ref (fl_connector f)) s' = Some cipher"
        "\<And>ref. ref \<noteq> cn_credential_ref (fl_connector f) \<Longrightarrow> cipher_at ref s' = cipher_at ref s"
        "log s' = log s @ [r]" "records r (committed_event f (fl_observed f + 1))"
proof -
  obtain cres where c: "fs_put_cas (sc_store sv) (cn_credential_ref (fl_connector f)) cipher (fl_observed f)
      (Some (\<lambda>generation. [committed_event f generation])) s = (cres, s')" and res: "res = map_sum commit_diag id cres"
    using assms by (auto simp: job_commit_def apfst_def map_prod_def split: prod.splits)
  show ?thesis
  proof (cases cres)
    case (Inl err)
    with c res show ?thesis by (intro refused) (auto dest: secrets.cas_err)
  next
    case (Inr k)
    from secrets.cas_ok [OF c [unfolded Inr]] obtain rs where ok:
      "generation (cn_credential_ref (fl_connector f)) s = fl_observed f" "k = fl_observed f + 1"
      "generation (cn_credential_ref (fl_connector f)) s' = k"
      "cipher_at (cn_credential_ref (fl_connector f)) s' = Some cipher"
      "log s' = log s @ rs" "list_all2 records rs [committed_event f k]" by blast
    then obtain r where "rs = [r]" "records r (committed_event f k)" by (auto simp: list_all2_Cons2)
    with ok secrets.cas_other [OF c [unfolded Inr]] res Inr show ?thesis by (intro stored [of r]) auto
  qed
qed

lemma exchange_cases:
  assumes "exchange_and_store sv clk n i code w = w'" "get_flow i w = Some f"
  obtains (failed) d p' where "w' = snd (terminate_flow sv (clk 1) n (failed_with d) i (w\<lparr>fw_provider := p'\<rparr>))"
    | (stored) cipher p' s1 r where
        "job_exchange sv (clk 0) f code (fw_store w) (fw_provider w) = (Inr cipher, p')"
        "generation (cn_credential_ref (fl_connector f)) (fw_store w) = fl_observed f"
        "generation (cn_credential_ref (fl_connector f)) s1 = fl_observed f + 1"
        "cipher_at (cn_credential_ref (fl_connector f)) s1 = Some cipher"
        "\<And>ref. ref \<noteq> cn_credential_ref (fl_connector f) \<Longrightarrow> cipher_at ref s1 = cipher_at ref (fw_store w)"
        "log s1 = log (fw_store w) @ [r]" "records r (committed_event f (fl_observed f + 1))"
        "w' = (if delivered sv f (fl_observed f + 1)
               then put_flow i (complete_flow (clk 1) f) (w\<lparr>fw_provider := p', fw_store := s1\<rparr>)
               else snd (terminate_flow sv (clk 1) n undelivered_decision i (w\<lparr>fw_provider := p', fw_store := s1\<rparr>)))"
proof -
  obtain res p' where j: "job_exchange sv (clk 0) f code (fw_store w) (fw_provider w) = (res, p')" by fastforce
  show ?thesis
  proof (cases res)
    case (Inl d)
    with assms j show ?thesis by (intro failed [of d p']) (auto simp: exchange_and_store_def)
  next
    case (Inr cipher)
    obtain cres s1 where c: "job_commit sv f cipher (fw_store w) = (cres, s1)" by fastforce
    from c show ?thesis
    proof (cases rule: job_commit_cases)
      case (refused d)
      with assms j Inr c show ?thesis by (intro failed [of d p']) (auto simp: exchange_and_store_def)
    next
      case landed: (stored r)
      have "w' = (if delivered sv f (fl_observed f + 1)
          then put_flow i (complete_flow (clk 1) f) (w\<lparr>fw_provider := p', fw_store := s1\<rparr>)
          else snd (terminate_flow sv (clk 1) n undelivered_decision i (w\<lparr>fw_provider := p', fw_store := s1\<rparr>)))"
        using assms j Inr c landed(1) by (simp add: exchange_and_store_def Let_def)
      with j Inr landed(2-) show ?thesis by (intro stored [of cipher p' s1 r]) simp_all
    qed
  qed
qed

text \<open>The flow the job works on: relayed, with no ending in sight.\<close>

lemma exchange_sound:
  assumes "world_sound log w" "get_flow i w = Some f" "fl_relayed f"
  shows "world_sound log (exchange_and_store sv clk n i code w)"
proof -
  obtain w' where w': "exchange_and_store sv clk n i code w = w'" by simp
  from w' assms(2) have "world_sound log w'"
  proof (cases rule: exchange_cases)
    case (failed d p')
    obtain res where t: "terminate_flow sv (clk 1) n (failed_with d) i (w\<lparr>fw_provider := p'\<rparr>) = (res, w')"
      using failed by (metis prod.collapse)
    show ?thesis
      by (rule terminate_sound [OF _ t]) (use assms in \<open>auto simp: sound_decision_def failed_with_def\<close>)
  next
    case (stored cipher p' s1 r)
    let ?w = "w\<lparr>fw_provider := p', fw_store := s1\<rparr>"
    have w1: "world_sound log ?w"
      using assms(1) stored(6) world_sound_more [of log "w\<lparr>fw_provider := p'\<rparr>" s1] by auto
    have f: "flow_sound (log s1) f" "fl_id f = i" "commit_recorded (log s1) f"
      using world_sound_flow [OF w1, of i f] assms(2) stored(6,7) by (auto simp: commit_recorded_def get_flow_def)
    show ?thesis
    proof (cases "delivered sv f (fl_observed f + 1)")
      case True
      with stored(8) w1 f assms(3) show ?thesis
        by (auto intro!: world_sound_put complete_sound simp: section_ids)
    next
      case False
      then obtain res where t: "terminate_flow sv (clk 1) n undelivered_decision i ?w = (res, w')"
        using stored(8) by (metis prod.collapse)
      have "sound_decision (log (fw_store ?w)) f undelivered_decision"
        using f(3) assms(3) by (simp add: sound_decision_def undelivered_decision_def)
      with assms(2) show ?thesis by (intro terminate_sound [OF w1 t]) (auto simp: get_flow_def)
    qed
  qed
  with w' show ?thesis by simp
qed

end

section \<open>SQLite behind the service\<close>

definition db_cipher :: "string \<Rightarrow> db \<Rightarrow> string option" where
  "db_cipher ref db = map_option s_cipher (select1 (\<lambda>s. s_ref s = ref) (db_secrets db))"

interpretation sqlite_flow: flow_backing "sv\<lparr>sc_store := sqlite_flow_store rfl cfl afl now\<rparr>" db_audit secret_gen db_cipher
  for sv :: "(db, 'p) flow_service" and rfl cfl afl now
proof unfold_locales
  fix n and t :: int and e s u s'
  assume "fs_append (sc_store (sv\<lparr>sc_store := sqlite_flow_store rfl cfl afl now\<rparr>)) n e s = (Inr u, s')"
  then show "\<exists>r. db_audit s' = db_audit s @ [r] \<and> records r e"
    by (auto simp: sqlite_flow_store_def dest: store_log.append_ok)
next
  fix n and t :: int and e s x s'
  assume "fs_append (sc_store (sv\<lparr>sc_store := sqlite_flow_store rfl cfl afl now\<rparr>)) n e s = (Inl x, s')"
  then show "s' = s" by (auto simp: sqlite_flow_store_def dest: store_log.append_err)
next
  fix f ref s sec
  assume "fs_get (sc_store (sv\<lparr>sc_store := sqlite_flow_store rfl cfl afl now\<rparr>)) f ref s = Inr sec"
  then show "secret_gen ref s = s_gen sec \<and> db_cipher ref s = Some (s_cipher sec)"
    by (auto simp: sqlite_flow_store_def db_cipher_def dest: store_secrets.get_current)
next
  fix f :: flow_read and t :: int and ref c n au s k s'
  assume "fs_put_cas (sc_store (sv\<lparr>sc_store := sqlite_flow_store rfl cfl afl now\<rparr>)) ref c n (Some au) s = (Inr k, s')"
  then show "secret_gen ref s = n \<and> k = n + 1 \<and> secret_gen ref s' = k \<and> db_cipher ref s' = Some c
      \<and> (\<exists>rows. db_audit s' = db_audit s @ rows \<and> list_all2 records rows (au k))"
    by (auto simp: sqlite_flow_store_def db_cipher_def dest: store_secrets.cas_ok)
next
  fix f :: flow_read and t :: int and ref c n aud s k s' ref'
  assume "fs_put_cas (sc_store (sv\<lparr>sc_store := sqlite_flow_store rfl cfl afl now\<rparr>)) ref c n aud s = (Inr k, s')" "ref' \<noteq> ref"
  then show "db_cipher ref' s' = db_cipher ref' s"
    by (auto simp: sqlite_flow_store_def db_cipher_def dest: store_secrets.cas_other)
next
  fix f :: flow_read and t :: int and ref c n aud s x s'
  assume "fs_put_cas (sc_store (sv\<lparr>sc_store := sqlite_flow_store rfl cfl afl now\<rparr>)) ref c n aud s = (Inl x, s')"
  then show "s' = s" by (auto simp: sqlite_flow_store_def dest: store_secrets.cas_err)
next
  fix n e s r s' ref
  assume "fs_append (sc_store (sv\<lparr>sc_store := sqlite_flow_store rfl cfl afl now\<rparr>)) n e s = (r, s')"
  then have "db_secrets s' = db_secrets s"
    by (auto simp: sqlite_flow_store_def append_audit_def append_audit_row_def insert_audit_def Let_def split: option.splits if_splits sum.splits)
  then show "secret_gen ref s' = secret_gen ref s \<and> db_cipher ref s' = db_cipher ref s"
    by (simp add: secret_gen_def db_cipher_def)
qed

end
