(* ===== verification/Flow_Steps.thy ===== *)
theory Flow_Steps
  imports Flow_Lemmas
begin

text \<open>
  The service as a transition system: starts, relays, polls and exchange jobs in any order, beside
  the other users of the store. Every step may meet its own store faults. The second component of a
  state lists the jobs that were handed over and have not run.
\<close>

type_synonym 'p flow_run = "(db, 'p) flow_world \<times> (string \<times> string) list"

definition on_sqlite :: "(db, 'p) flow_service \<Rightarrow> (flow_read \<Rightarrow> faults) \<Rightarrow> faults \<Rightarrow> (nat \<Rightarrow> faults) \<Rightarrow> int
    \<Rightarrow> (db, 'p) flow_service" where
  "on_sqlite sv rfl cfl afl now = sv\<lparr>sc_store := sqlite_flow_store rfl cfl afl now\<rparr>"

inductive flow_step :: "(db, 'p) flow_service \<Rightarrow> 'p flow_run \<Rightarrow> 'p flow_run \<Rightarrow> bool" for sv where
  step_start: "handle_start (on_sqlite sv rfl cfl afl now) clk rnd body machine w = (resp, w') \<Longrightarrow>
    (\<And>st. rs_body resp = FbStarted st \<Longrightarrow> get_flow (fr_id st) w = None) \<Longrightarrow> flow_step sv (w, js) (w', js)"
| step_poll: "handle_poll (on_sqlite sv rfl cfl afl now) clk i machine w = (resp, w') \<Longrightarrow>
    flow_step sv (w, js) (w', js)"
| step_relay: "handle_relay (on_sqlite sv rfl cfl afl now) clk i body machine w = (resp, job, w') \<Longrightarrow>
    flow_step sv (w, js) (w', case job of None \<Rightarrow> js | Some code \<Rightarrow> (i, code) # js)"
| step_job: "(i, code) \<in> set js \<Longrightarrow>
    flow_step sv (w, js) (exchange_and_store (on_sqlite sv rfl cfl afl now) clk n i code w, remove1 (i, code) js)"
| step_store: "db_step (fw_store w) s' \<Longrightarrow> flow_step sv (w, js) (w\<lparr>fw_store := s'\<rparr>, js)"

inductive_cases flow_stepE: "flow_step sv (w, js) r"

section \<open>A flow in the hands of its job\<close>

definition busy :: "flow \<Rightarrow> bool" where
  "busy f \<longleftrightarrow> fl_state f = StatePending \<and> fl_relayed f \<and> fl_decided f = None"

lemma busy_stays:
  assumes "busy f"
  shows "claim_expiry now f = (False, f)" "to_commit f = None" "\<not> expirable now f" "\<not> forgettable sv now f"
    "consume_relay out f = (Inl AlreadyRelayed, f)"
  using assms by (auto simp: busy_def claim_expiry_def expirable_def to_commit_def forgettable_def
      consume_relay_def flow_terminal_def)

lemma consumed_busy: "consume_relay out f = (Inr code, f') \<Longrightarrow> busy f'"
  by (auto simp: consume_relay_def busy_def flow_terminal_def split: if_splits)

lemma commit_terminal_busy:
  "get_flow j w = Some f \<Longrightarrow> busy f \<Longrightarrow> get_flow j (snd (commit_terminal sv now n i w)) = Some f"
  by (auto simp: commit_terminal_def busy_stays split: option.splits prod.splits sum.splits)

lemma terminate_busy:
  "get_flow j w = Some f \<Longrightarrow> busy f \<Longrightarrow> i \<noteq> j \<Longrightarrow> get_flow j (snd (terminate_flow sv now n d i w)) = Some f"
  by (auto simp: terminate_flow_def commit_terminal_busy split: option.splits prod.splits bool.splits)

lemma expire_busy:
  assumes "get_flow j w = Some f" "busy f"
  shows "get_flow j (snd (expire_flow sv now1 now2 n i w)) = Some f"
  using assms by (cases "i = j")
     (auto simp: expire_flow_def commit_terminal_busy busy_stays split: option.splits prod.splits bool.splits)

lemma settle_busy:
  "get_flow j w = Some f \<Longrightarrow> busy f \<Longrightarrow> get_flow j (snd (settle sv clk i w)) = Some f"
  by (auto simp: settle_def expire_busy commit_terminal_busy split: option.splits)

lemma expire_all_busy:
  "get_flow j w = Some f \<Longrightarrow> busy f \<Longrightarrow> get_flow j (expire_all sv clk n ids w) = Some f"
  by (induction ids arbitrary: n w) (simp_all add: expire_busy)

lemma map_of_filter_keep:
  "map_of m j = Some f \<Longrightarrow> p (j, f) \<Longrightarrow> distinct (map fst m) \<Longrightarrow> map_of (filter p m) j = Some f"
  by (induction m) (auto split: if_splits)

lemma sweep_busy:
  assumes "get_flow j w = Some f" "busy f" "distinct (map fst (fw_flows w))"
  shows "get_flow j (sweep sv clk w) = Some f"
  using assms unfolding sweep_def Let_def
  by (intro expire_all_busy) (auto simp: get_flow_def busy_stays intro: map_of_filter_keep)

lemma open_flow_busy:
  assumes "get_flow j w = Some f" "open_flow sv now rnd machine provider redirect conn found w = (res, w')"
    and "\<And>st. res = Inr st \<Longrightarrow> fr_id st \<noteq> j"
  shows "get_flow j w' = Some f"
  using assms by (auto simp: open_flow_def split: option.splits prod.splits sum.splits)

lemma flow_start_busy:
  assumes "get_flow j w = Some f" "busy f" "distinct (map fst (fw_flows w))"
    and "flow_start sv clk rnd machine provider redirect replace w = (res, w')"
    and "\<And>st. res = Inr st \<Longrightarrow> fr_id st \<noteq> j"
  shows "get_flow j w' = Some f"
  using assms sweep_busy [OF assms(1-3), of sv clk]
  by (auto simp: flow_start_def Let_def split: sum.splits option.splits intro: open_flow_busy)

lemma handle_start_cases:
  assumes "handle_start sv clk rnd body machine w = (resp, w')"
  obtains (refused) err where "w' = w" "resp = flow_write_err sv err"
    | (ran) provider redirect replace res where "flow_start sv clk rnd machine provider redirect replace w = (res, w')"
        "resp = (case res of Inl err \<Rightarrow> flow_write_err sv err | Inr st \<Rightarrow> write_json 201 (FbStarted st))"
proof (cases "\<exists>rq. decode_start body = Some rq \<and> trim_space (sq_provider rq) \<noteq> []")
  case True
  then obtain rq where rq: "decode_start body = Some rq" "trim_space (sq_provider rq) \<noteq> []" by blast
  obtain res w1 where st: "flow_start sv clk rnd machine (trim_space (sq_provider rq)) (sq_redirect rq) (sq_replace rq) w = (res, w1)"
    by fastforce
  with assms rq have "w' = w1"
    "resp = (case res of Inl err \<Rightarrow> flow_write_err sv err | Inr st \<Rightarrow> write_json 201 (FbStarted st))"
    by (auto simp: handle_start_def split: sum.splits)
  with st show ?thesis by (intro ran) simp_all
next
  case False
  with assms have "w' = w \<and> (\<exists>err. resp = flow_write_err sv err)"
    by (auto simp: handle_start_def split: option.splits)
  then show ?thesis using refused by blast
qed

lemma flow_answer_bodies [simp]:
  "rs_body (flow_write_err sv err) \<noteq> FbStarted st" "rs_body (flow_write_err sv err) \<noteq> FbFlow v"
  "rs_body (write_json n b) = b"
  by (auto simp: flow_write_err_def write_json_def split: flow_fault.splits)

lemma handle_poll_cases:
  assumes "handle_poll sv clk i machine w = (resp, w')"
  obtains (unknown) "lookup_flow i machine w = None" "w' = w" "resp = flow_write_err sv (FlowRefused UnknownFlow)"
    | (unsettled) f err where "lookup_flow i machine w = Some f" "settle sv clk i w = (Some err, w')" "resp = flow_write_err sv err"
    | (shown) f where "lookup_flow i machine w = Some f" "settle sv clk i w = (None, w')" "resp = show_flow i 200 w'"
  using assms by (auto simp: handle_poll_def split: option.splits prod.splits)

lemma handle_relay_cases:
  assumes "handle_relay sv clk i body machine w = (resp, job, w')"
  obtains (unknown) "lookup_flow i machine w = None" "w' = w" "job = None" "resp = flow_write_err sv (FlowRefused UnknownFlow)"
    | (refused) f res err where "lookup_flow i machine w = Some f" "settle sv clk i w = (res, w')" "job = None"
        "resp = flow_write_err sv err"
    | (failed) f w1 out err where "lookup_flow i machine w = Some f" "settle sv clk i w = (None, w1)"
        "relay sv (clk 3) 1 i out w1 = (Inl err, w')" "job = None" "resp = flow_write_err sv err"
    | (relayed) f w1 out where "lookup_flow i machine w = Some f" "settle sv clk i w = (None, w1)"
        "decode_relay body = Some out" "check_relay out = None"
        "relay sv (clk 3) 1 i out w1 = (Inr job, w')" "resp = show_flow i 202 w'"
  using assms by (auto simp: handle_relay_def split: option.splits prod.splits sum.splits)

section \<open>The handlers keep the log and the table in order\<close>

context flow_backing
begin

lemma handle_start_ok:
  assumes "handle_start sv clk rnd body machine w = (resp, w')"
  shows "quiet_step log generation cipher_at (fw_store w) (fw_store w')"
    and "world_sound log w \<Longrightarrow> world_sound log w'"
  using assms by (auto elim!: handle_start_cases dest: flow_start_ok)

lemma handle_poll_ok:
  assumes "handle_poll sv clk i machine w = (resp, w')"
  shows "quiet_step log generation cipher_at (fw_store w) (fw_store w')"
    and "world_sound log w \<Longrightarrow> world_sound log w'"
  using assms by (auto elim!: handle_poll_cases dest: settle_ok)

lemma handle_relay_ok:
  assumes "handle_relay sv clk i body machine w = (resp, job, w')"
  shows "quiet_step log generation cipher_at (fw_store w) (fw_store w')"
    and "world_sound log w \<Longrightarrow> world_sound log w'"
  using assms by (auto elim!: handle_relay_cases dest: settle_ok relay_ok intro: quiet_trans)

end

section \<open>The invariant of a run\<close>

definition jobs_busy :: "'p flow_run \<Rightarrow> bool" where
  "jobs_busy r \<longleftrightarrow> distinct (map fst (snd r))
     \<and> (\<forall>(i, code) \<in> set (snd r). \<exists>f. get_flow i (fst r) = Some f \<and> busy f)"

lemma jobs_busyI:
  assumes "jobs_busy (w, js)"
    and "\<And>j f. get_flow j w = Some f \<Longrightarrow> busy f \<Longrightarrow> get_flow j w' = Some f"
  shows "jobs_busy (w', js)"
  using assms by (fastforce simp: jobs_busy_def)

lemma relay_busy:
  assumes "relay sv now n i out w = (res, w')" "get_flow j w = Some f" "busy f"
  shows "get_flow j w' = Some f"
proof (cases "i = j")
  case True
  with assms show ?thesis by (simp add: relay_def busy_stays)
next
  case False
  have "get_flow j (snd (terminate_flow sv now n (denied_decision (ro_error out)) i (put_flow i f' w))) = Some f" for f'
    using assms(2,3) False by (intro terminate_busy) auto
  with assms False show ?thesis
    by (auto simp: relay_def split: option.splits prod.splits sum.splits if_splits) (metis snd_conv)+
qed

lemma relay_spawns:
  assumes "relay sv now n i out w = (Inr (Some code), w')"
  shows "\<exists>f. get_flow i w' = Some f \<and> busy f" "\<And>g. get_flow i w = Some g \<Longrightarrow> \<not> busy g"
proof -
  have "\<exists>f g. get_flow i w = Some g \<and> consume_relay out g = (Inr code, f) \<and> w' = put_flow i f w"
    using assms by (auto simp: relay_def split: option.splits prod.splits sum.splits if_splits)
  then obtain f g where fg: "get_flow i w = Some g" "consume_relay out g = (Inr code, f)" "w' = put_flow i f w"
    by blast
  then show "\<exists>f. get_flow i w' = Some f \<and> busy f" by (auto dest: consumed_busy)
  show "\<not> busy h" if "get_flow i w = Some h" for h
    using fg that busy_stays(5) [of h out] by auto
qed

lemma exchange_other:
  assumes "i \<noteq> j" "get_flow j w = Some f" "busy f"
  shows "get_flow j (exchange_and_store sv clk n i code w) = Some f"
  using assms
  by (auto simp: exchange_and_store_def Let_def terminate_busy split: option.splits prod.splits sum.splits)

lemma step_jobs_busy:
  assumes "flow_step sv r r'" "jobs_busy r" "world_sound db_audit (fst r)"
  shows "jobs_busy r'"
  using assms
proof cases
  case (step_start rfl cfl afl now clk rnd body machine w resp w' js)
  have d: "distinct (map fst (fw_flows w))" using assms(3) step_start(1) by (simp add: world_sound_def)
  show ?thesis
    using assms(2) unfolding step_start(1,2)
  proof (rule jobs_busyI)
    fix j f assume f: "get_flow j w = Some f" "busy f"
    from step_start(3) show "get_flow j w' = Some f"
    proof (cases rule: handle_start_cases)
      case (ran provider redirect replace res)
      have "fr_id st \<noteq> j" if "res = Inr st" for st using step_start(4) ran(2) that f(1) by fastforce
      then show ?thesis by (rule flow_start_busy [OF f d ran(1)])
    qed (use f in simp)
  qed
next
  case (step_poll rfl cfl afl now clk i machine w resp w' js)
  show ?thesis
    using assms(2) unfolding step_poll(1,2)
  proof (rule jobs_busyI)
    fix j f assume f: "get_flow j w = Some f" "busy f"
    from step_poll(3) show "get_flow j w' = Some f"
      by (cases rule: handle_poll_cases) (use settle_busy [OF f] f in \<open>metis snd_conv\<close>)+
  qed
next
  case (step_relay rfl cfl afl now clk i body machine w resp job w' js)
  have keep: "get_flow j w' = Some f" if f: "get_flow j w = Some f" "busy f" for j f
    using step_relay(3)
  proof (cases rule: handle_relay_cases)
    case (failed g w1 out err)
    with settle_busy [OF f] f(2) show ?thesis by (metis relay_busy snd_conv)
  next
    case (relayed g w1 out)
    with settle_busy [OF f] f(2) show ?thesis by (metis relay_busy snd_conv)
  qed (use settle_busy [OF f] f in \<open>metis snd_conv\<close>)+
  have same: "jobs_busy (w', js)" using assms(2) keep unfolding step_relay(1) by (rule jobs_busyI)
  show ?thesis
  proof (cases job)
    case (Some code)
    from step_relay(3) obtain w1 out where w1: "settle (on_sqlite sv rfl cfl afl now) clk i w = (None, w1)"
      "relay (on_sqlite sv rfl cfl afl now) (clk 3) 1 i out w1 = (Inr (Some code), w')"
      using Some by (auto elim: handle_relay_cases)
    have "i \<notin> fst ` set js"
    proof
      assume "i \<in> fst ` set js"
      then obtain f where f: "get_flow i w = Some f" "busy f"
        using assms(2) by (auto simp: step_relay(1) jobs_busy_def)
      with settle_busy [OF f, of "on_sqlite sv rfl cfl afl now" clk i] w1(1) have "get_flow i w1 = Some f" by simp
      with relay_spawns(2) [OF w1(2)] f(2) show False by blast
    qed
    with same relay_spawns(1) [OF w1(2)] Some step_relay(2) show ?thesis by (auto simp: jobs_busy_def)
  qed (use same step_relay(2) in simp)
next
  case (step_job i code js w rfl cfl afl now clk n)
  have "get_flow j (exchange_and_store (on_sqlite sv rfl cfl afl now) clk n i code w) = Some f"
    if "(j, c) \<in> set (remove1 (i, code) js)" "get_flow j w = Some f" "busy f" for j c f
  proof (rule exchange_other [OF _ that(2,3)])
    have "distinct (map fst js)" using assms(2) step_job(1) by (simp add: jobs_busy_def)
    then have "distinct js" "inj_on fst (set js)" by (simp_all add: distinct_map)
    with that(1) step_job(3) show "i \<noteq> j" using inj_onD [of fst "set js" "(i, code)" "(j, c)"] by auto
  qed
  moreover have "distinct (map fst (remove1 (i, code) js))"
    using assms(2) step_job(1) set_remove1_subset [of "(i, code)" js]
    by (auto simp: jobs_busy_def distinct_map distinct_remove1 intro: inj_on_subset)
  ultimately show ?thesis using assms(2) step_job(1,2) set_remove1_subset [of "(i, code)" js]
    unfolding jobs_busy_def by fastforce
next
  case (step_store w s' js)
  show ?thesis using assms(2) unfolding step_store(1,2) by (rule jobs_busyI) simp
qed

lemma step_world_sound:
  assumes "flow_step sv r r'" "jobs_busy r" "world_sound db_audit (fst r)"
  shows "world_sound db_audit (fst r')"
  using assms
proof cases
  case (step_start rfl cfl afl now clk rnd body machine w resp w' js)
  with assms(3) sqlite_flow.handle_start_ok(2) show ?thesis by (auto simp: on_sqlite_def)
next
  case (step_poll rfl cfl afl now clk i machine w resp w' js)
  with assms(3) sqlite_flow.handle_poll_ok(2) show ?thesis by (auto simp: on_sqlite_def)
next
  case (step_relay rfl cfl afl now clk i body machine w resp job w' js)
  with assms(3) sqlite_flow.handle_relay_ok(2) show ?thesis by (auto simp: on_sqlite_def)
next
  case (step_job i code js w rfl cfl afl now clk n)
  then obtain f where "get_flow i w = Some f" "busy f" using assms(2) by (auto simp: jobs_busy_def)
  with step_job assms(3) sqlite_flow.exchange_sound show ?thesis by (auto simp: on_sqlite_def busy_def)
next
  case (step_store w s' js)
  with assms(3) show ?thesis by (auto dest!: db_step_rows intro!: world_sound_more)
qed

definition fresh_run :: "db \<Rightarrow> 'p \<Rightarrow> 'p flow_run" where
  "fresh_run db p = (\<lparr>fw_store = db, fw_provider = p, fw_flows = []\<rparr>, [])"

lemma run_invariant:
  "(flow_step sv)\<^sup>*\<^sup>* (fresh_run db p) r \<Longrightarrow> jobs_busy r \<and> world_sound db_audit (fst r)"
proof (induction rule: rtranclp_induct)
  case base
  show ?case by (simp add: fresh_run_def jobs_busy_def world_sound_def)
next
  case (step r r')
  with step_jobs_busy [OF step.hyps(2)] step_world_sound [OF step.hyps(2)] show ?case by blast
qed

section \<open>Endings of one flow\<close>

text \<open>Either the ending shows and its row is in the log, or it is decided and waits for its row.\<close>

definition ended_with :: "audit_event list \<Rightarrow> pending_terminal \<Rightarrow> flow \<Rightarrow> bool" where
  "ended_with rows d f \<longleftrightarrow>
     fl_state f = pt_state d \<and> fl_diag f = Some (pt_diag d) \<and> (\<exists>r \<in> set rows. records r (terminal_event f d))
     \<or> fl_state f = StatePending \<and> fl_decided f = Some d"

context flow_backing
begin

lemma terminate_ended:
  assumes "get_flow i w = Some f" "busy f" "terminate_flow sv now n d i w = (res, w')"
  shows "\<exists>f'. get_flow i w' = Some f' \<and> same_subject f f' \<and> ended_with (log (fw_store w')) d f'"
proof -
  let ?f = "f\<lparr>fl_decided := Some d\<rparr>"
  have d: "decide d f = (True, ?f)" "to_commit ?f = Some d"
    using assms(2) by (simp_all add: decide_def busy_def flow_terminal_def to_commit_def)
  have ct: "commit_terminal sv now n i (put_flow i ?f w) = (res, w')"
    using assms(1,3) d(1) by (simp add: terminate_flow_def)
  then show ?thesis
  proof (cases rule: commit_terminal_cases)
    case nothing
    then show ?thesis using d(2) by simp
  next
    case (unrecorded g d')
    then show ?thesis using assms(2) by (auto simp: ended_with_def same_subject_def busy_def)
  next
    case (shown g d' r s')
    then have "g = ?f" "d' = d" using d(2) by auto
    with shown(4,5,7) assms(2) show ?thesis
      by (auto simp: ended_with_def same_subject_def busy_def expose_def flow_terminal_def terminal_event_def)
  qed
qed

lemma settle_subject:
  assumes "get_flow i w = Some f" "settle sv clk i w = (res, w')"
  shows "\<exists>f'. get_flow i w' = Some f' \<and> same_subject f f'"
proof -
  have ct: "\<exists>f'. get_flow i w' = Some f' \<and> same_subject g f'"
    if "commit_terminal sv now n i v = (res, w')" "get_flow i v = Some g" for now n v g
    using that(1) by (cases rule: commit_terminal_cases)
      (use that(2) in \<open>auto simp: same_subject_def expose_def\<close>)
  obtain b f' where c: "claim_expiry (clk 1) f = (b, f')" by fastforce
  then have s: "same_subject f f'" by (auto simp: claim_expiry_def same_subject_def split: if_splits)
  show ?thesis
  proof (cases "expirable (clk 0) f \<and> b")
    case True
    with assms c have "commit_terminal sv (clk 2) 0 i (put_flow i f' w) = (res, w')"
      by (simp add: settle_def expire_flow_def)
    from ct [OF this, of f'] s show ?thesis by (auto simp: same_subject_def)
  next
    case False
    then show ?thesis
      using assms c ct [of "clk 1" 0 w f] by (auto simp: settle_def expire_flow_def same_subject_def split: if_splits)
  qed
qed

end

end
