(* ===== verification/Flow_Life.thy ===== *)
theory Flow_Life
  imports Flow_Steps
begin

text \<open>
  One flow under every interleaving. A step is one section under the service's lock, or the append of
  an ending's row; whoever commits an ending holds the flow's own lock from reading the decision to
  showing the state. Polls, sweeps and relays may arrive at any time, so their steps are always open.
\<close>

datatype worker = Idle | Denying string | Redeeming | Stored | Finished

record life =
  lf_flow :: flow
  lf_worker :: worker
  lf_writer :: "(pending_terminal \<times> bool) option"
  lf_endings :: "pending_terminal list"
  lf_commits :: nat

definition born :: "flow \<Rightarrow> life" where
  "born f = \<lparr>lf_flow = f, lf_worker = Idle, lf_writer = None, lf_endings = [], lf_commits = 0\<rparr>"

inductive life_step :: "life \<Rightarrow> life \<Rightarrow> bool" where
  life_expire: "claim_expiry now (lf_flow l) = (True, f) \<Longrightarrow> life_step l (l\<lparr>lf_flow := f\<rparr>)"
| life_relay: "consume_relay out (lf_flow l) = (Inr code, f) \<Longrightarrow>
    life_step l (l\<lparr>lf_flow := f, lf_worker := (if code = [] then Denying (ro_error out) else Redeeming)\<rparr>)"
| life_deny: "lf_worker l = Denying err \<Longrightarrow> decide (denied_decision err) (lf_flow l) = (b, f) \<Longrightarrow>
    life_step l (l\<lparr>lf_flow := f, lf_worker := Finished\<rparr>)"
| life_fail: "lf_worker l = Redeeming \<Longrightarrow> decide (failed_with d) (lf_flow l) = (b, f) \<Longrightarrow>
    life_step l (l\<lparr>lf_flow := f, lf_worker := Finished\<rparr>)"
| life_store: "lf_worker l = Redeeming \<Longrightarrow>
    life_step l (l\<lparr>lf_worker := Stored, lf_commits := Suc (lf_commits l)\<rparr>)"
| life_complete: "lf_worker l = Stored \<Longrightarrow>
    life_step l (l\<lparr>lf_flow := complete_flow now (lf_flow l), lf_worker := Finished\<rparr>)"
| life_undelivered: "lf_worker l = Stored \<Longrightarrow> decide undelivered_decision (lf_flow l) = (b, f) \<Longrightarrow>
    life_step l (l\<lparr>lf_flow := f, lf_worker := Finished\<rparr>)"
| life_read: "lf_writer l = None \<Longrightarrow> to_commit (lf_flow l) = Some d \<Longrightarrow>
    life_step l (l\<lparr>lf_writer := Some (d, False)\<rparr>)"
| life_unwritten: "lf_writer l = Some (d, False) \<Longrightarrow> life_step l (l\<lparr>lf_writer := None\<rparr>)"
| life_write: "lf_writer l = Some (d, False) \<Longrightarrow>
    life_step l (l\<lparr>lf_writer := Some (d, True), lf_endings := lf_endings l @ [d]\<rparr>)"
| life_show: "lf_writer l = Some (d, True) \<Longrightarrow>
    life_step l (l\<lparr>lf_flow := expose now d (lf_flow l), lf_writer := None\<rparr>)"

text \<open>
  The invariant: the worker's progress, the flow's decision and state, the writer's hold and the rows
  written so far agree.
\<close>

definition ending_pending :: "life \<Rightarrow> pending_terminal \<Rightarrow> bool" where
  "ending_pending l d \<longleftrightarrow> fl_state (lf_flow l) = StatePending \<and> fl_decided (lf_flow l) = Some d
     \<and> pt_state d \<notin> {StatePending, StateCompleted} \<and> lf_worker l \<in> {Idle, Finished}
     \<and> (lf_writer l = None \<and> lf_endings l = [] \<or> lf_writer l = Some (d, False) \<and> lf_endings l = []
          \<or> lf_writer l = Some (d, True) \<and> lf_endings l = [d])"

definition life_ok :: "life \<Rightarrow> bool" where
  "life_ok l \<longleftrightarrow>
     (lf_worker l = Idle \<longleftrightarrow> \<not> fl_relayed (lf_flow l))
     \<and> (lf_commits l = (if lf_worker l = Stored \<or> lf_worker l = Finished \<and>
           (fl_state (lf_flow l) \<in> {StateCompleted, StateUndelivered}
            \<or> (\<exists>d. fl_decided (lf_flow l) = Some d \<and> pt_state d = StateUndelivered)) then 1 else 0))
     \<and> (fl_state (lf_flow l) = StatePending \<and> fl_decided (lf_flow l) = None
            \<and> lf_writer l = None \<and> lf_endings l = [] \<and> lf_worker l \<noteq> Finished
        \<or> (\<exists>d. ending_pending l d \<and> (pt_state d = StateExpired \<longleftrightarrow> lf_worker l = Idle))
        \<or> fl_state (lf_flow l) = StateCompleted \<and> fl_decided (lf_flow l) = None
            \<and> lf_writer l = None \<and> lf_endings l = [] \<and> lf_worker l = Finished
        \<or> (\<exists>d. fl_state (lf_flow l) = pt_state d \<and> pt_state d \<notin> {StatePending, StateCompleted}
            \<and> fl_decided (lf_flow l) = None \<and> lf_writer l = None \<and> lf_endings l = [d]
            \<and> fl_diag (lf_flow l) = Some (pt_diag d)
            \<and> lf_worker l \<in> {Idle, Finished} \<and> (pt_state d = StateExpired \<longleftrightarrow> lf_worker l = Idle)))"

lemma born_ok: "life_ok (born (new_flow i p m r c os v now ttl n))"
  by (simp add: life_ok_def born_def new_flow_def)

lemma life_step_ok:
  assumes "life_step l l'" "life_ok l"
  shows "life_ok l'"
  using assms
proof cases
  case (life_expire now f)
  with assms(2) show ?thesis
    by (auto simp: life_ok_def ending_pending_def claim_expiry_def expirable_def flow_terminal_def expiry_decision_def
        split: if_splits)
next
  case (life_relay out code f)
  with assms(2) show ?thesis
    by (auto simp: life_ok_def ending_pending_def consume_relay_def flow_terminal_def split: if_splits)
next
  case (life_deny err b f)
  with assms(2) show ?thesis
    by (auto simp: life_ok_def ending_pending_def decide_def denied_decision_def flow_terminal_def split: if_splits)
next
  case (life_fail d b f)
  with assms(2) show ?thesis
    by (auto simp: life_ok_def ending_pending_def decide_def failed_with_def flow_terminal_def split: if_splits)
next
  case life_store
  with assms(2) show ?thesis by (auto simp: life_ok_def ending_pending_def)
next
  case (life_complete now)
  with assms(2) show ?thesis by (auto simp: life_ok_def ending_pending_def complete_flow_def flow_terminal_def)
next
  case (life_undelivered b f)
  with assms(2) show ?thesis
    by (auto simp: life_ok_def ending_pending_def decide_def undelivered_decision_def flow_terminal_def split: if_splits)
next
  case (life_read d)
  with assms(2) show ?thesis by (auto simp: life_ok_def ending_pending_def to_commit_def flow_terminal_def split: if_splits)
next
  case (life_unwritten d)
  with assms(2) show ?thesis by (auto simp: life_ok_def ending_pending_def)
next
  case (life_write d)
  with assms(2) show ?thesis by (auto simp: life_ok_def ending_pending_def)
next
  case (life_show d now)
  with assms(2) show ?thesis by (auto simp: life_ok_def ending_pending_def expose_def flow_terminal_def split: if_splits)
qed

end
