(* ===== verification/Flow_Props.thy ===== *)
theory Flow_Props
  imports Flow_Life
begin

text \<open>
  The properties of the credential flow: one ending for every flow under every interleaving, endings
  shown only on record, what the exchange job does to the stored credential, abandoned flows, the
  consent URL, redirect addresses and the budget of a machine.
\<close>

section \<open>A service for the examples\<close>

definition sample_connector :: connector where
  "sample_connector =
     \<lparr>cn_provider = ''mail'', cn_credential_ref = ''mail-token'',
      cn_credential = \<lparr>cq_driver = driver_oauth2,
        cq_params = [(''auth_endpoint'', ''https://p.example/auth?hd=x''), (''token_endpoint'', ''https://p.example/token''),
          (''client_id_ref'', ''cid''), (''client_secret_ref'', ''csec'')],
        cq_scopes = [''a'', ''b'']\<rparr>,
      cn_delivery = None, cn_server = \<lparr>ms_name = ''m'', ms_transport = ''stdio'', ms_source = ''x''\<rparr>,
      cn_inventory = [], cn_tools = [], cn_excluded = []\<rparr>"

definition sample_flow :: flow where
  "sample_flow = new_flow ''flow-1'' ''mail'' ''m-01'' ''http://127.0.0.1:5000'' sample_connector ''st'' ''vf'' 0 1000 0"

definition flow_db :: db where
  "flow_db = empty_db\<lparr>db_secrets :=
     [\<lparr>s_ref = ''cid'', s_cipher = ''id'', s_gen = 1, s_created = 0, s_updated = 0\<rparr>,
      \<lparr>s_ref = ''csec'', s_cipher = ''key'', s_gen = 1, s_created = 0, s_updated = 0\<rparr>]\<rparr>"

text \<open>Its provider counts the exchanges and always issues a token; its keyring is the identity.\<close>

definition sample_service :: "(db, nat) flow_service" where
  "sample_service =
     \<lparr>sc_connector = (\<lambda>p. if p = ''mail'' then Some sample_connector else None), sc_providers = [''mail''],
      sc_store = sqlite_flow_store (\<lambda>_. no_faults) no_faults (\<lambda>_. no_faults) 50,
      sc_encrypt = Some, sc_decrypt = Some,
      sc_endpoint = (\<lambda>url form n. (Some (200, ''{\"access_token\":\"t\"}''), Suc n)),
      sc_on_committed = None, sc_ttl = 1000, sc_retention = 1000, sc_max_active = 2\<rparr>"

definition sample_world :: "flow \<Rightarrow> (db, nat) flow_world" where
  "sample_world f = \<lparr>fw_store = flow_db, fw_provider = 0, fw_flows = [(fl_id f, f)]\<rparr>"

lemmas flow_samples = sample_connector_def sample_flow_def flow_db_def sample_service_def sample_world_def

section \<open>One ending\<close>

lemma lives_ok: "life_step\<^sup>*\<^sup>* l l' \<Longrightarrow> life_ok l \<Longrightarrow> life_ok l'"
  by (induction rule: rtranclp_induct) (auto intro: life_step_ok)

text \<open>
  C8. However polls, sweeps, relays and the exchange job interleave, a flow ends at most once. At most
  one ending is written to the log and at most one credential is stored; it is shown completed only
  with its credential stored and no failure on record, and shown failed in any way only when exactly
  that ending is on record; a stored credential never ends as a failure other than undelivered; an
  expired flow was never relayed; and no section ever finds the flow ended under its feet.
\<close>

theorem flow_ends_once:
  assumes "life_step\<^sup>*\<^sup>* (born (new_flow i provider machine redirect conn os v now ttl observed)) l"
  shows "length (lf_endings l) \<le> 1 \<and> lf_commits l \<le> 1
    \<and> (fl_state (lf_flow l) = StateCompleted \<longrightarrow> lf_commits l = 1 \<and> lf_endings l = [])
    \<and> (fl_state (lf_flow l) \<notin> {StatePending, StateCompleted} \<longrightarrow>
         (\<exists>d. lf_endings l = [d] \<and> pt_state d = fl_state (lf_flow l) \<and> fl_diag (lf_flow l) = Some (pt_diag d)))
    \<and> (lf_commits l = 1 \<longrightarrow> fl_state (lf_flow l) \<in> {StatePending, StateCompleted, StateUndelivered})
    \<and> (fl_state (lf_flow l) = StateExpired \<longrightarrow> \<not> fl_relayed (lf_flow l))
    \<and> (lf_worker l = Stored \<or> lf_writer l \<noteq> None \<longrightarrow> fl_state (lf_flow l) = StatePending)"
proof -
  have ok: "life_ok l" using assms born_ok by (rule lives_ok)
  show ?thesis
    using ok by (auto simp: life_ok_def ending_pending_def split: if_splits option.splits bool.splits)
qed

lemma flow_ends_once_witness:
  "\<exists>l. life_step\<^sup>*\<^sup>* (born sample_flow) l \<and> fl_state (lf_flow l) = StateExpired \<and> length (lf_endings l) \<le> 1
     \<and> \<not> fl_relayed (lf_flow l)"
proof -
  let ?f = "sample_flow\<lparr>fl_decided := Some expiry_decision\<rparr>"
  let ?l = "(born sample_flow)\<lparr>lf_flow := ?f\<rparr>"
  let ?r = "?l\<lparr>lf_writer := Some (expiry_decision, False)\<rparr>"
  let ?w = "?l\<lparr>lf_writer := Some (expiry_decision, True), lf_endings := [expiry_decision]\<rparr>"
  let ?e = "?w\<lparr>lf_flow := expose 5 expiry_decision ?f, lf_writer := None\<rparr>"
  have "life_step (born sample_flow) ?l"
    by (rule life_expire [of 2000]) (simp add: born_def claim_expiry_def expirable_def flow_samples new_flow_def flow_terminal_def)
  moreover have "life_step ?l ?r"
    by (rule life_read) (simp_all add: born_def to_commit_def flow_samples new_flow_def flow_terminal_def)
  moreover have "life_step ?r ?w"
    using life_write [of ?r expiry_decision] by (simp add: born_def)
  moreover have "life_step ?w ?e"
    using life_show [of ?w expiry_decision 5] by simp
  ultimately have run: "life_step\<^sup>*\<^sup>* (born sample_flow) ?e"
    by (blast intro: converse_rtranclp_into_rtranclp)
  have "fl_state (lf_flow ?e) = StateExpired"
    by (simp add: expose_def flow_samples new_flow_def flow_terminal_def expiry_decision_def)
  note once = flow_ends_once [OF run [unfolded sample_flow_def], folded sample_flow_def]
  have "length (lf_endings ?e) \<le> 1" using once by (rule conjunct1)
  moreover have "\<not> fl_relayed (lf_flow ?e)"
    using once [THEN conjunct2, THEN conjunct2, THEN conjunct2, THEN conjunct2, THEN conjunct2, THEN conjunct1]
      \<open>fl_state (lf_flow ?e) = StateExpired\<close> by (rule mp)
  ultimately show ?thesis using run \<open>fl_state (lf_flow ?e) = StateExpired\<close> by blast
qed

section \<open>What a poll shows\<close>

text \<open>
  Over any run of starts, relays, polls, exchange jobs and other users of the store, under any
  store faults, a poll that shows a flow ended shows the caller's own flow, whose start is in the log
  and whose ending is in the log: the commit row of its credential if it is completed, the row of
  exactly that ending and diagnostic otherwise, and both if it is undelivered.
\<close>

theorem shown_endings_recorded:
  assumes "(flow_step sv)\<^sup>*\<^sup>* (fresh_run db p) (w, js)"
    and "handle_poll (on_sqlite sv rfl cfl afl now) clk i machine w = (resp, w')"
    and "rs_body resp = FbFlow v" "flow_terminal (fv_state v)"
  shows "\<exists>f. get_flow i w' = Some f \<and> v = view_flow f \<and> fl_machine f = machine
     \<and> start_recorded (db_audit (fw_store w')) f
     \<and> (if fv_state v = StateCompleted then commit_recorded (db_audit (fw_store w')) f
        else ending_recorded (db_audit (fw_store w')) f)
     \<and> (fv_state v = StateUndelivered \<longrightarrow> commit_recorded (db_audit (fw_store w')) f)"
proof -
  have "world_sound db_audit w" using run_invariant [OF assms(1)] by simp
  with assms(2) have sound: "world_sound db_audit w'"
    using sqlite_flow.handle_poll_ok(2) by (simp add: on_sqlite_def)
  from assms(2) obtain f where f: "lookup_flow i machine w = Some f"
      "settle (on_sqlite sv rfl cfl afl now) clk i w = (None, w')" "resp = show_flow i 200 w'"
    using assms(3) by (auto elim!: handle_poll_cases)
  then have "get_flow i w = Some f" "fl_machine f = machine"
    by (auto simp: lookup_flow_def split: option.splits if_splits)
  with f(2) sqlite_flow.settle_subject obtain f' where f': "get_flow i w' = Some f'" "fl_machine f' = machine"
    by (fastforce simp: on_sqlite_def same_subject_def)
  have v: "v = view_flow f'" using f(3) f'(1) assms(3) by (simp add: show_flow_def)
  have "flow_sound (db_audit (fw_store w')) f'" using world_sound_flow [OF sound f'(1)] by simp
  with f' v assms(4) show ?thesis
    by (intro exI [of _ f']) (auto simp: flow_sound_def view_flow_def flow_terminal_def)
qed

section \<open>The exchange job\<close>

lemma terminate_provider:
  "terminate_flow sv now n d i w = (res, w') \<Longrightarrow> fw_provider w' = fw_provider w"
  by (auto simp: terminate_flow_def commit_terminal_def split: option.splits prod.splits bool.splits sum.splits)

text \<open>
  C9. The exchange job on a relayed flow either stores the sealed tokens as the next generation of
  exactly the credential the flow observed, with its commit row in the log, and then shows it
  completed, or undelivered if the delivery failed; or it leaves every secret as it was and ends the
  flow failed. An ending that cannot be recorded yet stays decided and hidden. No other secret changes.
\<close>

theorem exchange_outcome:
  assumes "get_flow i w = Some f" "busy f"
    and "w' = exchange_and_store (on_sqlite sv rfl cfl afl now) clk n i code w"
  shows "let ref = cn_credential_ref (fl_connector f) in \<exists>f'. get_flow i w' = Some f' \<and>
     ((\<exists>cipher. job_exchange (on_sqlite sv rfl cfl afl now) (clk 0) f code (fw_store w) (fw_provider w)
             = (Inr cipher, fw_provider w')
         \<and> secret_gen ref (fw_store w) = fl_observed f \<and> secret_gen ref (fw_store w') = fl_observed f + 1
         \<and> db_cipher ref (fw_store w') = Some cipher
         \<and> (\<forall>other. other \<noteq> ref \<longrightarrow> db_cipher other (fw_store w') = db_cipher other (fw_store w))
         \<and> commit_recorded (db_audit (fw_store w')) f
         \<and> (if delivered sv f (fl_observed f + 1) then fl_state f' = StateCompleted \<and> fl_diag f' = None
            else ended_with (db_audit (fw_store w')) undelivered_decision f'))
      \<or> (\<forall>other. secret_gen other (fw_store w') = secret_gen other (fw_store w)
            \<and> db_cipher other (fw_store w') = db_cipher other (fw_store w))
         \<and> (\<exists>d. ended_with (db_audit (fw_store w')) (failed_with d) f'))"
proof -
  let ?sv = "on_sqlite sv rfl cfl afl now"
  have run: "exchange_and_store (sv\<lparr>sc_store := sqlite_flow_store rfl cfl afl now\<rparr>) clk n i code w = w'"
    using assms(3) by (simp add: on_sqlite_def)
  have del: "delivered ?sv f k = delivered sv f k" for k by (simp add: delivered_def on_sqlite_def)
  from run assms(1) show ?thesis
  proof (cases rule: sqlite_flow.exchange_cases)
    case (failed d p')
    then obtain res where t: "terminate_flow (sv\<lparr>sc_store := sqlite_flow_store rfl cfl afl now\<rparr>) (clk 1) n
        (failed_with d) i (w\<lparr>fw_provider := p'\<rparr>) = (res, w')" by (metis prod.collapse)
    have "quiet_step db_audit secret_gen db_cipher (fw_store w) (fw_store w')"
      using sqlite_flow.terminate_quiet [OF t] by simp
    moreover have "\<exists>f'. get_flow i w' = Some f' \<and> ended_with (db_audit (fw_store w')) (failed_with d) f'"
      using sqlite_flow.terminate_ended [OF _ assms(2) t] assms(1) by auto
    ultimately show ?thesis by (auto simp: quiet_step_def Let_def)
  next
    case (stored cipher p' s1 r)
    let ?w = "w\<lparr>fw_provider := p', fw_store := s1\<rparr>"
    have com: "commit_recorded (db_audit s1) f" using stored(6,7) by (auto simp: commit_recorded_def)
    show ?thesis
    proof (cases "delivered sv f (fl_observed f + 1)")
      case True
      then have w': "w' = put_flow i (complete_flow (clk 1) f) ?w" using stored(8) del by (simp add: on_sqlite_def)
      then show ?thesis using True stored(1-5) com assms(2)
        by (auto simp: Let_def on_sqlite_def complete_flow_def busy_def flow_terminal_def)
    next
      case False
      then obtain res where t: "terminate_flow (sv\<lparr>sc_store := sqlite_flow_store rfl cfl afl now\<rparr>) (clk 1) n
          undelivered_decision i ?w = (res, w')" using stored(8) del by (metis on_sqlite_def prod.collapse)
      have q: "quiet_step db_audit secret_gen db_cipher s1 (fw_store w')"
        using sqlite_flow.terminate_quiet [OF t] by simp
      then have "commit_recorded (db_audit (fw_store w')) f"
        using com by (auto simp: quiet_step_def commit_recorded_def)
      moreover obtain f' where "get_flow i w' = Some f'" "ended_with (db_audit (fw_store w')) undelivered_decision f'"
        using sqlite_flow.terminate_ended [OF _ assms(2) t] assms(1) by (auto simp: get_flow_def)
      moreover have "fw_provider w' = p'" using terminate_provider [OF t] by simp
      ultimately show ?thesis using False stored(1-5) q by (auto simp: Let_def on_sqlite_def quiet_step_def)
    qed
  qed
qed

lemma exchange_outcome_witness:
  "let f = sample_flow\<lparr>fl_relayed := True\<rparr>;
       sv = on_sqlite sample_service (\<lambda>_. no_faults) no_faults (\<lambda>_. no_faults) 50;
       w' = exchange_and_store sv (\<lambda>_. 5) 0 ''flow-1'' ''c0de'' (sample_world f)
   in secret_gen ''mail-token'' (fw_store w') = 1 \<and> commit_recorded (db_audit (fw_store w')) f"
proof -
  let ?f = "sample_flow\<lparr>fl_relayed := True\<rparr>"
  let ?sv = "on_sqlite sample_service (\<lambda>_. no_faults) no_faults (\<lambda>_. no_faults) 50"
  let ?w' = "exchange_and_store ?sv (\<lambda>_. 5) 0 ''flow-1'' ''c0de'' (sample_world ?f)"
  have f: "get_flow ''flow-1'' (sample_world ?f) = Some ?f" "busy ?f" by code_simp+
  have gen: "secret_gen ''mail-token'' (fw_store ?w') = 1" by code_simp
  have "secret_gen ''mail-token'' (fw_store (sample_world ?f)) = 0" by code_simp
  with gen exchange_outcome [OF f refl, unfolded Let_def] have "commit_recorded (db_audit (fw_store ?w')) ?f" by fastforce
  with gen show ?thesis by (simp only: Let_def simp_thms)
qed

section \<open>Starting a flow\<close>

definition query_of :: "url \<Rightarrow> string \<Rightarrow> string list option" where
  "query_of u = map_of (parse_query (u_query u))"

lemma consent_values_get:
  "map_of (consent_values conn client_id redirect os v q) k =
     (let ps = cq_params (cn_credential conn) in
      if k = ''prompt'' \<and> param ps ''prompt'' \<noteq> [] then Some [param ps ''prompt'']
      else if k = ''access_type'' \<and> param ps ''access_type'' \<noteq> [] then Some [param ps ''access_type'']
      else if k = ''code_challenge_method'' then Some [''S256'']
      else if k = ''code_challenge'' then Some [code_challenge v]
      else if k = ''state'' then Some [os]
      else if k = ''scope'' then Some [str_join '' '' (cq_scopes (cn_credential conn))]
      else if k = ''redirect_uri'' then Some [redirect]
      else if k = ''client_id'' then Some [client_id]
      else if k = ''response_type'' then Some [''code''] else map_of q k)"
  by (simp add: consent_values_def Let_def values_set_get)

lemma consent_values_proper: "proper_values q \<Longrightarrow> proper_values (consent_values conn client_id redirect os v q)"
  by (simp add: consent_values_def Let_def proper_values_set)

lemma authorization_url_query:
  assumes "authorization_url conn client_id redirect os v = Some u"
  shows "\<exists>u0. url_parse (param (cq_params (cn_credential conn)) ''auth_endpoint'') = Some u0
     \<and> u = u0\<lparr>u_query := u_query u\<rparr>
     \<and> query_of u = map_of (consent_values conn client_id redirect os v (parse_query (u_query u0)))"
  using assms
  by (auto simp: authorization_url_def query_of_def parse_encode_values consent_values_proper proper_parse_query
      split: option.splits)

lemma observed_generation:
  "observe_generation (on_sqlite sv rfl cfl afl now) conn db = Inr n \<Longrightarrow> secret_gen (cn_credential_ref conn) db = n"
  by (auto simp: observe_generation_def on_sqlite_def sqlite_flow_store_def get_secret_def query1_def secret_gen_def
      split: sum.splits option.splits if_splits)

definition open_flows :: "string \<Rightarrow> ('s, 'p) flow_world \<Rightarrow> nat" where
  "open_flows machine w = length (filter (\<lambda>(i, f). fl_machine f = machine \<and> \<not> flow_terminal (fl_state f)) (fw_flows w))"

lemma open_flows_put: "open_flows machine (put_flow i f w) \<le> Suc (open_flows machine w)"
proof -
  have "length (filter P (assoc_set i f m)) \<le> Suc (length (filter P m))" for P m
    by (induction m rule: assoc_set.induct [of _ i f]) auto
  then show ?thesis by (simp add: open_flows_def put_flow_def)
qed

lemma open_flow_started:
  assumes "open_flow sv now rnd machine provider redirect conn (client_id, observed) w = (Inr st, w')"
  obtains os v s' where "authorization_url conn client_id redirect os v = Some (fr_url st)"
    "w' = put_flow (fr_id st) (new_flow (fr_id st) provider machine redirect conn os v now (sc_ttl sv) observed)
       (w\<lparr>fw_store := s'\<rparr>)"
    "fs_append (sc_store sv) 0 (started_event machine provider (fr_id st) conn observed) (fw_store w) = (Inr (), s')"
  using assms by (auto simp: open_flow_def split: option.splits prod.splits sum.splits)

lemma flow_start_started:
  assumes "flow_start sv clk rnd machine provider redirect replace w = (Inr st, w')"
  obtains conn client_id observed w1 where "start_checks sv provider redirect = Inr conn" "w1 = sweep sv clk w"
    "check_flow_budget sv machine w1 = None" "start_secrets sv conn provider replace (fw_store w1) = Inr (client_id, observed)"
    "open_flow sv (clk 1) rnd machine provider redirect conn (client_id, observed) w1 = (Inr st, w')"
  using assms by (auto simp: flow_start_def Let_def split: sum.splits option.splits)

text \<open>
  C10. A started flow is pending, belongs to its caller and is in the log; its redirect address passed the
  loopback rules; it holds the current generation of the provider's credential, which is zero unless
  the caller asked to replace it; and the consent URL is the provider's endpoint with a query that
  parses back to exactly this flow's state, PKCE challenge, redirect address and scopes, and to
  the endpoint's own parameters otherwise.
\<close>

theorem started_flow_bound:
  assumes "flow_start (on_sqlite sv rfl cfl afl now) clk rnd machine provider redirect replace w = (Inr st, w')"
  shows "\<exists>f u0. get_flow (fr_id st) w' = Some f \<and> fl_id f = fr_id st \<and> fl_machine f = machine \<and> fl_provider f = provider
     \<and> fl_redirect f = redirect \<and> fl_state f = StatePending \<and> \<not> fl_relayed f \<and> fl_expires f = fr_expires st
     \<and> start_recorded (db_audit (fw_store w')) f
     \<and> validate_loopback_redirect redirect = None
     \<and> secret_gen (cn_credential_ref (fl_connector f)) (fw_store w') = fl_observed f \<and> (0 < fl_observed f \<longrightarrow> replace)
     \<and> url_parse (param (cq_params (cn_credential (fl_connector f))) ''auth_endpoint'') = Some u0
     \<and> fr_url st = u0\<lparr>u_query := u_query (fr_url st)\<rparr>
     \<and> query_of (fr_url st) ''state'' = Some [fl_oauth_state f]
     \<and> query_of (fr_url st) ''code_challenge'' = Some [b64_raw_url (sha256 (fl_verifier f))]
     \<and> query_of (fr_url st) ''code_challenge_method'' = Some [''S256'']
     \<and> query_of (fr_url st) ''redirect_uri'' = Some [redirect]
     \<and> query_of (fr_url st) ''response_type'' = Some [''code'']
     \<and> (\<forall>k. k \<notin> {''prompt'', ''access_type'', ''code_challenge_method'', ''code_challenge'', ''state'', ''scope'',
            ''redirect_uri'', ''client_id'', ''response_type''} \<longrightarrow> query_of (fr_url st) k = query_of u0 k)"
proof -
  let ?sv = "on_sqlite sv rfl cfl afl now"
  from assms obtain conn client_id observed w1 where a: "start_checks ?sv provider redirect = Inr conn"
    "start_secrets ?sv conn provider replace (fw_store w1) = Inr (client_id, observed)"
    "open_flow ?sv (clk 1) rnd machine provider redirect conn (client_id, observed) w1 = (Inr st, w')"
    by (rule flow_start_started)
  from a(3) obtain os v s' where b: "authorization_url conn client_id redirect os v = Some (fr_url st)"
    "w' = put_flow (fr_id st) (new_flow (fr_id st) provider machine redirect conn os v (clk 1) (sc_ttl ?sv) observed)
       (w1\<lparr>fw_store := s'\<rparr>)"
    "fs_append (sc_store ?sv) 0 (started_event machine provider (fr_id st) conn observed) (fw_store w1) = (Inr (), s')"
    by (rule open_flow_started)
  have gen: "secret_gen (cn_credential_ref conn) (fw_store w1) = observed" "0 < observed \<longrightarrow> replace"
    using a(2) by (auto simp: start_secrets_def dest: observed_generation split: sum.splits if_splits)
  have app: "\<exists>r \<in> set (db_audit s'). records r (started_event machine provider (fr_id st) conn observed)"
    "secret_gen (cn_credential_ref conn) s' = observed"
  proof -
    obtain r where "db_audit s' = db_audit (fw_store w1) @ [r]"
      "records r (started_event machine provider (fr_id st) conn observed)"
      "quiet_step db_audit secret_gen db_cipher (fw_store w1) s'"
      using sqlite_flow.append_cases [OF b(3) [unfolded on_sqlite_def]] by auto
    then show "\<exists>r \<in> set (db_audit s'). records r (started_event machine provider (fr_id st) conn observed)"
      "secret_gen (cn_credential_ref conn) s' = observed" using gen(1) by (auto simp: quiet_step_def)
  qed
  have red: "validate_loopback_redirect redirect = None"
    using a(1) by (auto simp: start_checks_def split: option.splits if_splits)
  have exp: "fr_expires st = clk 1 + sc_ttl ?sv" using a(3) by (auto simp: open_flow_def split: option.splits prod.splits sum.splits)
  from authorization_url_query [OF b(1)] obtain u0 where u:
    "url_parse (param (cq_params (cn_credential conn)) ''auth_endpoint'') = Some u0"
    "fr_url st = u0\<lparr>u_query := u_query (fr_url st)\<rparr>"
    "query_of (fr_url st) = map_of (consent_values conn client_id redirect os v (parse_query (u_query u0)))" by blast
  let ?f = "new_flow (fr_id st) provider machine redirect conn os v (clk 1) (sc_ttl ?sv) observed"
  have f: "get_flow (fr_id st) w' = Some ?f" "fw_store w' = s'" using b(2) by simp_all
  show ?thesis
    by (rule exI [of _ ?f], rule exI [of _ u0], intro conjI)
       (use f app gen red exp u in \<open>simp_all add: new_flow_def start_recorded_def consent_values_get Let_def code_challenge_def query_of_def [of u0]\<close>)
qed

text \<open>A start that succeeds, up to the digest in its URL.\<close>

definition sample_id :: string where "sample_id = ''flow-'' @ take 22 (b64_raw_url ''abc'')"

lemma sample_start:
  "\<exists>st w'. flow_start (on_sqlite sample_service (\<lambda>_. no_faults) no_faults (\<lambda>_. no_faults) 50) (\<lambda>_. 5)
     (\<lambda>_. Some ''abc'') ''m-01'' ''mail'' ''http://127.0.0.1:5000'' False (fst (fresh_run flow_db 0)) = (Inr st, w')
     \<and> fr_id st = sample_id"
proof -
  let ?sv = "on_sqlite sample_service (\<lambda>_. no_faults) no_faults (\<lambda>_. no_faults) 50"
  let ?w = "fst (fresh_run flow_db (0 :: nat))"
  let ?e = "started_event ''m-01'' ''mail'' sample_id sample_connector 0"
  have a: "start_checks ?sv ''mail'' ''http://127.0.0.1:5000'' = Inr sample_connector"
    "check_flow_budget ?sv ''m-01'' ?w = None"
    "start_secrets ?sv sample_connector ''mail'' False (fw_store ?w) = Inr (''id'', 0)"
    "url_parse (param (cq_params (cn_credential sample_connector)) ''auth_endpoint'') \<noteq> None"
    "list_all (\<lambda>k. k \<in> set allowed_detail_keys) [''provider'', ''flow_id'', ''secret_ref'', ''secret_generation'']"
    "show_int 0 = ''0''" "cn_credential_ref sample_connector = ''mail-token''"
    by code_simp+
  have rnd: "random_token (Some ''abc'') = Some (b64_raw_url ''abc'')" "random_flow_id (Some ''abc'') = Some sample_id"
    by (simp_all add: random_token_def random_flow_id_def sample_id_def del: b64_raw_url.simps)
  have s: "sweep ?sv clk ?w = ?w" for clk by (simp add: sweep_def Let_def fresh_run_def)
  obtain u where u: "authorization_url sample_connector ''id'' ''http://127.0.0.1:5000'' (b64_raw_url ''abc'') (b64_raw_url ''abc'') = Some u"
    using a(4) by (auto simp: authorization_url_def simp del: b64_raw_url.simps)
  have d: "ev_detail ?e = [(''provider'', ''mail''), (''flow_id'', sample_id), (''secret_ref'', ''mail-token''), (''secret_generation'', ''0'')]"
    by (simp add: started_event_def secret_detail_def a(6,7))
  have "length sample_id \<le> 27" by (simp add: sample_id_def del: b64_raw_url.simps)
  then have "validate_detail (ev_detail ?e) = None"
    unfolding d using a(5) by (simp add: validate_detail_None_iff max_detail_value_len_def)
  then have "fs_append (sc_store ?sv) 0 ?e (fw_store ?w) = (Inr (), insert_audit 50 ?e (fw_store ?w))"
    by (simp add: on_sqlite_def sqlite_flow_store_def append_audit_def append_audit_row_def no_faults_def)
  with a(1-3) s u rnd have "flow_start ?sv (\<lambda>_. 5) (\<lambda>_. Some ''abc'') ''m-01'' ''mail'' ''http://127.0.0.1:5000'' False ?w
      = (Inr \<lparr>fr_id = sample_id, fr_url = u, fr_expires = 5 + sc_ttl ?sv\<rparr>,
         put_flow sample_id (new_flow sample_id ''mail'' ''m-01'' ''http://127.0.0.1:5000'' sample_connector
             (b64_raw_url ''abc'') (b64_raw_url ''abc'') 5 (sc_ttl ?sv) 0)
           (?w\<lparr>fw_store := insert_audit 50 ?e (fw_store ?w)\<rparr>))"
    by (simp add: flow_start_def open_flow_def Let_def del: b64_raw_url.simps)
  then show ?thesis by (simp del: b64_raw_url.simps)
qed

lemma started_flow_bound_witness:
  "\<exists>w' f st. flow_start (on_sqlite sample_service (\<lambda>_. no_faults) no_faults (\<lambda>_. no_faults) 50) (\<lambda>_. 5)
     (\<lambda>_. Some ''abc'') ''m-01'' ''mail'' ''http://127.0.0.1:5000'' False (fst (fresh_run flow_db 0)) = (Inr st, w')
     \<and> get_flow sample_id w' = Some f \<and> query_of (fr_url st) ''state'' = Some [fl_oauth_state f]
     \<and> start_recorded (db_audit (fw_store w')) f"
proof -
  obtain st w' where st: "flow_start (on_sqlite sample_service (\<lambda>_. no_faults) no_faults (\<lambda>_. no_faults) 50) (\<lambda>_. 5)
     (\<lambda>_. Some ''abc'') ''m-01'' ''mail'' ''http://127.0.0.1:5000'' False (fst (fresh_run flow_db 0)) = (Inr st, w')"
    "fr_id st = sample_id" using sample_start by blast
  from started_flow_bound [OF st(1)] st show ?thesis by metis
qed



section \<open>Whose flow it is\<close>

text \<open>
  Another machine's flow is indistinguishable from one that does not exist: a poll or a relay of
  it is answered exactly as for an unknown id, hands nothing to a job and changes nothing.
\<close>

theorem foreign_flow_hidden:
  assumes "get_flow i w = Some f" "fl_machine f \<noteq> machine" "get_flow j w = None"
  shows "handle_poll sv clk i machine w = handle_poll sv clk' j machine w
    \<and> handle_relay sv clk i body machine w = handle_relay sv clk' j body' machine w
    \<and> snd (handle_poll sv clk i machine w) = w \<and> snd (handle_relay sv clk i body machine w) = (None, w)
    \<and> rs_status (fst (handle_poll sv clk i machine w)) = 404"
proof -
  have "lookup_flow i machine w = None" "lookup_flow j machine w = None"
    using assms by (simp_all add: lookup_flow_def)
  then show ?thesis by (simp add: handle_poll_def handle_relay_def flow_write_err_def write_json_def)
qed

lemma foreign_flow_hidden_witness:
  "rs_status (fst (handle_poll sample_service (\<lambda>_. 5) ''flow-1'' ''m-02'' (sample_world sample_flow))) = 404"
proof -
  have "get_flow ''flow-1'' (sample_world sample_flow) = Some sample_flow" "fl_machine sample_flow \<noteq> ''m-02''"
    "get_flow ''flow-2'' (sample_world sample_flow) = None" by code_simp+
  from foreign_flow_hidden [OF this] show ?thesis by blast
qed

section \<open>Abandoned flows\<close>

lemma append_written:
  assumes "validate_detail (ev_detail e) = None" "\<not> afl n (SAudit 0)"
  shows "fs_append (sc_store (on_sqlite sv rfl cfl afl now)) n e db = (Inr (), insert_audit now e db)"
  using assms by (simp add: on_sqlite_def sqlite_flow_store_def append_audit_def append_audit_row_def)

lemma append_unwritten:
  assumes "afl n (SAudit 0)"
  shows "\<exists>err. fs_append (sc_store (on_sqlite sv rfl cfl afl now)) n e db = (Inl err, db)"
  using assms by (simp add: on_sqlite_def sqlite_flow_store_def append_audit_def append_audit_row_def split: option.splits)

lemma settle_expires:
  assumes "get_flow i w = Some f" "fl_state f = StatePending" "\<not> fl_relayed f"
    and "\<forall>d. fl_decided f = Some d \<longrightarrow> pt_state d = StateExpired" "\<forall>k. fl_expires f < clk k"
    and "validate_detail (ev_detail (terminal_event f expiry_decision)) = None" "\<not> afl 0 (SAudit 0)"
  shows "\<exists>d t w'. settle (on_sqlite sv rfl cfl afl now) clk i w = (None, w') \<and> pt_state d = StateExpired
     \<and> get_flow i w' = Some (expose t d (f\<lparr>fl_decided := Some d\<rparr>))
     \<and> fw_store w' = insert_audit now (terminal_event f d) (fw_store w)"
proof -
  define d where "d = (case fl_decided f of None \<Rightarrow> expiry_decision | Some d \<Rightarrow> d)"
  let ?f = "f\<lparr>fl_decided := Some d\<rparr>" and ?sv = "on_sqlite sv rfl cfl afl now"
  have st: "pt_state d = StateExpired"
    using assms(4) by (auto simp: d_def expiry_decision_def split: option.splits)
  have ev: "terminal_event ?f d = terminal_event f d" "ev_detail (terminal_event f d) = ev_detail (terminal_event f expiry_decision)"
    by (simp_all add: terminal_event_def)
  have commit: "commit_terminal ?sv t 0 i v = (None, put_flow i (expose t d ?f) (v\<lparr>fw_store := insert_audit now (terminal_event f d) (fw_store v)\<rparr>))"
    if "get_flow i v = Some ?f" for t v
    using that assms(2,6,7) ev
    by (simp add: commit_terminal_def to_commit_def flow_terminal_def append_written)
  show ?thesis
  proof (cases "fl_decided f")
    case None
    then have d: "d = expiry_decision" by (simp add: d_def)
    have e: "expirable (clk k) f" for k using None assms(2,3,5) by (simp add: expirable_def flow_terminal_def)
    then have "settle ?sv clk i w = commit_terminal ?sv (clk 2) 0 i (put_flow i ?f w)"
      using assms(1) d by (simp add: settle_def expire_flow_def claim_expiry_def)
    with commit [of "put_flow i ?f w" "clk 2"] st show ?thesis by auto
  next
    case (Some d')
    then have f: "?f = f" by (simp add: d_def)
    have "settle ?sv clk i w = commit_terminal ?sv (clk 1) 0 i w"
      using Some assms(1,2) by (simp add: settle_def expirable_def flow_terminal_def)
    with commit [of w "clk 1"] assms(1) f st show ?thesis
      by (intro exI [of _ d] exI [of _ "clk 1"]) auto
  qed
qed

text \<open>
  C22. A flow nobody relayed an outcome for ends by itself: on the first poll after its window closed
  that finds the audit log working, however many attempts to record its expiry failed before, it is
  shown expired, and the log has grown by exactly the row of that ending.
\<close>

theorem abandoned_flow_expires:
  assumes "lookup_flow i machine w = Some f" "fl_state f = StatePending" "\<not> fl_relayed f"
    and "\<forall>d. fl_decided f = Some d \<longrightarrow> pt_state d = StateExpired" "\<forall>k. fl_expires f < clk k"
    and "validate_detail (ev_detail (terminal_event f expiry_decision)) = None" "\<not> afl 0 (SAudit 0)"
  shows "\<exists>d v r w'. handle_poll (on_sqlite sv rfl cfl afl now) clk i machine w = (write_json 200 (FbFlow v), w')
     \<and> fv_id v = fl_id f \<and> fv_state v = StateExpired \<and> fv_diag v = Some (pt_diag d)
     \<and> db_audit (fw_store w') = db_audit (fw_store w) @ [r] \<and> records r (terminal_event f d)"
proof -
  have f: "get_flow i w = Some f" using assms(1) by (auto simp: lookup_flow_def split: option.splits if_splits)
  from settle_expires [where sv = sv and rfl = rfl and cfl = cfl and now = now and clk = clk and afl = afl, OF f assms(2-7)] obtain d t w' where s:
    "settle (on_sqlite sv rfl cfl afl now) clk i w = (None, w')" "pt_state d = StateExpired"
    "get_flow i w' = Some (expose t d (f\<lparr>fl_decided := Some d\<rparr>))"
    "fw_store w' = insert_audit now (terminal_event f d) (fw_store w)" by blast
  let ?v = "view_flow (expose t d (f\<lparr>fl_decided := Some d\<rparr>))"
  have "handle_poll (on_sqlite sv rfl cfl afl now) clk i machine w = (write_json 200 (FbFlow ?v), w')"
    using assms(1) s(1,3) by (simp add: handle_poll_def show_flow_def)
  moreover have "fv_id ?v = fl_id f" "fv_state ?v = StateExpired" "fv_diag ?v = Some (pt_diag d)"
    using s(2) assms(2) by (simp_all add: view_flow_def expose_def flow_terminal_def)
  ultimately show ?thesis using s(4) by (auto simp: insert_audit_def Let_def)
qed

lemma sample_detail_ok: "validate_detail (ev_detail (terminal_event sample_flow expiry_decision)) = None"
proof -
  have "ev_detail (terminal_event sample_flow expiry_decision)
      = [(''provider'', ''mail''), (''flow_id'', ''flow-1''), (''secret_ref'', ''mail-token'')]"
    by (simp add: terminal_event_def flow_samples new_flow_def)
  moreover have "list_all (\<lambda>k. k \<in> set allowed_detail_keys) [''provider'', ''flow_id'', ''secret_ref'']" by code_simp
  ultimately show ?thesis by (simp add: validate_detail_None_iff max_detail_value_len_def)
qed

lemma abandoned_flow_expires_witness:
  "\<exists>v w'. handle_poll (on_sqlite sample_service (\<lambda>_. no_faults) no_faults (\<lambda>_. no_faults) 50) (\<lambda>_. 2000)
      ''flow-1'' ''m-01'' (sample_world sample_flow) = (write_json 200 (FbFlow v), w') \<and> fv_state v = StateExpired"
proof -
  have "lookup_flow ''flow-1'' ''m-01'' (sample_world sample_flow) = Some sample_flow"
    "fl_state sample_flow = StatePending" "\<not> fl_relayed sample_flow"
    "\<forall>d. fl_decided sample_flow = Some d \<longrightarrow> pt_state d = StateExpired"
    by (simp_all add: flow_samples new_flow_def lookup_flow_def get_flow_def)
  moreover have "fl_expires sample_flow < 2000" by (simp add: flow_samples new_flow_def)
  ultimately show ?thesis
    using abandoned_flow_expires [of "''flow-1''" "''m-01''" "sample_world sample_flow" sample_flow "\<lambda>_. 2000" "\<lambda>_. no_faults"
        sample_service "\<lambda>_. no_faults" no_faults 50] sample_detail_ok by (fastforce simp: no_faults_def)
qed

section \<open>An expiry that could not be recorded\<close>

definition stuck :: "flow \<Rightarrow> bool" where
  "stuck f \<longleftrightarrow> fl_state f = StatePending \<and> fl_decided f \<noteq> None"

lemma commit_terminal_other: "i \<noteq> j \<Longrightarrow> get_flow j (snd (commit_terminal sv now n i w)) = get_flow j w"
  by (auto simp: commit_terminal_def split: option.splits prod.splits sum.splits)

lemma expire_other: "i \<noteq> j \<Longrightarrow> get_flow j (snd (expire_flow sv now1 now2 n i w)) = get_flow j w"
  by (auto simp: expire_flow_def commit_terminal_other split: option.splits prod.splits bool.splits)

lemma stuck_stays:
  "stuck f \<Longrightarrow> claim_expiry now f = (False, f)" "stuck f \<Longrightarrow> \<not> expirable now f" "stuck f \<Longrightarrow> \<not> forgettable sv now f"
  by (auto simp: stuck_def claim_expiry_def expirable_def forgettable_def flow_terminal_def)

lemma expire_all_stuck:
  assumes "get_flow j w = Some f" "stuck f"
  shows "get_flow j (expire_all sv clk n ids w) = Some f"
  using assms(1)
proof (induction ids arbitrary: n w)
  case (Cons i ids)
  have "get_flow j (snd (expire_flow sv (clk (2 * n)) (clk (2 * n + 1)) n i w)) = Some f"
  proof (cases "i = j")
    case True
    with Cons.prems assms(2) show ?thesis by (simp add: expire_flow_def stuck_stays)
  qed (use Cons.prems in \<open>simp add: expire_other\<close>)
  with Cons.IH show ?case by simp
qed simp

lemma sweep_stuck:
  assumes "get_flow j w = Some f" "stuck f"
  shows "get_flow j (sweep sv clk w) = Some f"
proof -
  have "get_flow j (w\<lparr>fw_flows := filter (\<lambda>(i, f). \<not> forgettable sv now f) (fw_flows w)\<rparr>) = Some f" for now
  proof -
    have "map_of (filter (\<lambda>(i, f). \<not> forgettable sv now f) m) j = Some f" if "map_of m j = Some f" for m
      using that stuck_stays(3) [OF assms(2), of sv now] by (induction m) (auto split: if_splits)
    with assms(1) show ?thesis by (simp add: get_flow_def)
  qed
  then show ?thesis unfolding sweep_def Let_def by (rule expire_all_stuck) (rule assms(2))
qed

lemma expire_unrecorded:
  assumes "get_flow i w = Some f" "expirable now1 f" "afl n (SAudit 0)"
  shows "get_flow i (snd (expire_flow (on_sqlite sv rfl cfl afl now) now1 now2 n i w))
    = Some (f\<lparr>fl_decided := Some expiry_decision\<rparr>)"
proof -
  let ?f = "f\<lparr>fl_decided := Some expiry_decision\<rparr>"
  obtain err where "fs_append (sc_store (on_sqlite sv rfl cfl afl now)) n (terminal_event ?f expiry_decision) (fw_store w)
      = (Inl err, fw_store w)" using append_unwritten [where afl = afl, OF assms(3)] by blast
  with assms(1,2) show ?thesis
    by (auto simp: expire_flow_def claim_expiry_def commit_terminal_def to_commit_def expirable_def)
qed

lemma sweep_unrecorded:
  assumes "get_flow i w = Some f" "\<forall>k. expirable (clk k) f" "\<forall>n. afl n (SAudit 0)"
  shows "get_flow i (sweep (on_sqlite sv rfl cfl afl now) clk w) = Some (f\<lparr>fl_decided := Some expiry_decision\<rparr>)"
proof -
  let ?sv = "on_sqlite sv rfl cfl afl now" and ?f = "f\<lparr>fl_decided := Some expiry_decision\<rparr>"
  have "fl_state f = StatePending" using assms(2) by (simp add: expirable_def flow_terminal_def)
  then have stuck: "stuck ?f" by (simp add: stuck_def)
  have all: "get_flow i (expire_all ?sv clk n ids v) = Some ?f"
    if "get_flow i v = Some f" "i \<in> set ids" for n ids v
    using that
  proof (induction ids arbitrary: n v)
    case (Cons j ids)
    let ?v = "snd (expire_flow ?sv (clk (2 * n)) (clk (2 * n + 1)) n j v)"
    show ?case
    proof (cases "j = i")
      case True
      then have "get_flow i ?v = Some ?f" using expire_unrecorded [OF Cons.prems(1)] assms(2,3) by simp
      then show ?thesis using expire_all_stuck [OF _ stuck] by simp
    next
      case False
      with Cons.prems have "get_flow i ?v = Some f" "i \<in> set ids" by (simp_all add: expire_other)
      with Cons.IH show ?thesis by simp
    qed
  qed simp
  have keep: "\<not> forgettable ?sv now' f" for now'
    using \<open>fl_state f = StatePending\<close> by (simp add: forgettable_def flow_terminal_def)
  have kept: "map_of (filter (\<lambda>(i, f). \<not> forgettable ?sv now' f) m) i = Some f" if "map_of m i = Some f" for m now'
    using that keep by (induction m) (auto split: if_splits)
  have "(i, f) \<in> set (fw_flows w)" using assms(1) by (auto simp: get_flow_def dest: map_of_SomeD)
  with assms(2) have "i \<in> set (map fst (filter (\<lambda>(i, f). expirable (clk 0) f) (fw_flows w)))" by force
  with all kept assms(1) show ?thesis by (simp add: sweep_def Let_def get_flow_def)
qed

text \<open>
  The sweep does not retry an expiry: if the log is down for one sweep after a flow's window
  closed, the flow stays open, decided and not shown, through every later sweep, whatever its settings
  and store and clock, although the sweep promises that the next one retries.
\<close>

theorem failed_expiry_never_swept:
  assumes "get_flow i w = Some f" "\<forall>k. expirable (clk k) f" "\<forall>n. afl n (SAudit 0)"
  shows "get_flow i (fold (\<lambda>(sv, clk). sweep sv clk) later (sweep (on_sqlite sv rfl cfl afl now) clk w))
    = Some (f\<lparr>fl_decided := Some expiry_decision\<rparr>)"
proof -
  let ?f = "f\<lparr>fl_decided := Some expiry_decision\<rparr>"
  have "fl_state f = StatePending" using assms(2) by (simp add: expirable_def flow_terminal_def)
  then have stuck: "stuck ?f" by (simp add: stuck_def)
  have "get_flow i v = Some ?f \<Longrightarrow> get_flow i (fold (\<lambda>(sv, clk). sweep sv clk) later v) = Some ?f" for v
    by (induction later arbitrary: v) (auto intro: sweep_stuck [OF _ stuck])
  with sweep_unrecorded [where afl = afl and clk = clk, OF assms] show ?thesis by blast
qed

text \<open>With a share of one, the machine stays locked out a day after the log came back.\<close>

lemma failed_expiry_never_swept_witness:
  "let sv = on_sqlite (sample_service\<lparr>sc_max_active := 1\<rparr>) (\<lambda>_. no_faults) no_faults (\<lambda>_. no_faults) 50;
       w1 = sweep (on_sqlite sample_service (\<lambda>_. no_faults) no_faults (\<lambda>_ st. st = SAudit 0) 50) (\<lambda>_. 2000) (sample_world sample_flow);
       w2 = sweep sv (\<lambda>_. 86400000000000) w1
   in check_flow_budget sv ''m-01'' w2 = Some (TooManyFlows 1)
      \<and> get_flow ''flow-1'' w2 = Some (sample_flow\<lparr>fl_decided := Some expiry_decision\<rparr>)"
proof -
  let ?sv = "on_sqlite (sample_service\<lparr>sc_max_active := 1\<rparr>) (\<lambda>_. no_faults) no_faults (\<lambda>_. no_faults) 50"
  let ?w1 = "sweep (on_sqlite sample_service (\<lambda>_. no_faults) no_faults (\<lambda>_ st. st = SAudit 0) 50) (\<lambda>_. 2000) (sample_world sample_flow)"
  let ?w2 = "sweep ?sv (\<lambda>_. 86400000000000) ?w1"
  have "get_flow ''flow-1'' (sample_world sample_flow) = Some sample_flow" "\<forall>k :: nat. expirable 2000 sample_flow"
    "\<forall>n :: nat. SAudit 0 = SAudit 0"
    by (simp_all add: flow_samples new_flow_def get_flow_def expirable_def flow_terminal_def)
  from failed_expiry_never_swept [where clk = "\<lambda>_. 2000" and afl = "\<lambda>_ st. st = SAudit 0", OF this, where later = "[(?sv, \<lambda>_. 86400000000000)]"]
  have "get_flow ''flow-1'' ?w2 = Some (sample_flow\<lparr>fl_decided := Some expiry_decision\<rparr>)" by simp
  moreover have "check_flow_budget ?sv ''m-01'' ?w2 = Some (TooManyFlows 1)" by code_simp
  ultimately show ?thesis unfolding Let_def by blast
qed

section \<open>A run for the examples\<close>

definition sample_body :: string where
  "sample_body = ''{\"provider\":\"mail\",\"redirect_uri\":\"http://127.0.0.1:5000\"}''"

lemma shown_endings_recorded_witness:
  "\<exists>w w' v. (flow_step sample_service)\<^sup>*\<^sup>* (fresh_run flow_db 0) (w, [])
     \<and> handle_poll (on_sqlite sample_service (\<lambda>_. no_faults) no_faults (\<lambda>_. no_faults) 50) (\<lambda>_. 2000) sample_id ''m-01'' w
         = (write_json 200 (FbFlow v), w')
     \<and> fv_state v = StateExpired \<and> (\<exists>f. get_flow sample_id w' = Some f \<and> ending_recorded (db_audit (fw_store w')) f)"
proof -
  let ?sv = "on_sqlite sample_service (\<lambda>_. no_faults) no_faults (\<lambda>_. no_faults) 50"
  let ?w0 = "fst (fresh_run flow_db (0 :: nat))"
  obtain st w where st: "flow_start ?sv (\<lambda>_. 5) (\<lambda>_. Some ''abc'') ''m-01'' ''mail'' ''http://127.0.0.1:5000'' False ?w0 = (Inr st, w)"
    "fr_id st = sample_id" using sample_start by blast
  have "decode_start sample_body = Some \<lparr>sq_provider = ''mail'', sq_replace = False, sq_redirect = ''http://127.0.0.1:5000''\<rparr>"
    "trim_space ''mail'' = ''mail''" by code_simp+
  with st have hs: "handle_start ?sv (\<lambda>_. 5) (\<lambda>_. Some ''abc'') sample_body ''m-01'' ?w0 = (write_json 201 (FbStarted st), w)"
    by (simp add: handle_start_def)
  have "flow_step sample_service (?w0, []) (w, [])"
    using hs by (rule step_start) (simp add: fresh_run_def get_flow_def)
  then have run: "(flow_step sample_service)\<^sup>*\<^sup>* (fresh_run flow_db 0) (w, [])" by (simp add: fresh_run_def)
  obtain conn client_id observed where o: "start_checks ?sv ''mail'' ''http://127.0.0.1:5000'' = Inr conn"
    "open_flow ?sv 5 (\<lambda>_. Some ''abc'') ''m-01'' ''mail'' ''http://127.0.0.1:5000'' conn (client_id, observed) (sweep ?sv (\<lambda>_. 5) ?w0) = (Inr st, w)"
    using st(1) by (auto elim: flow_start_started)
  have conn: "conn = sample_connector" using o(1) by (auto simp: start_checks_def on_sqlite_def sample_service_def split: if_splits option.splits)
  have ttl: "sc_ttl ?sv = 1000" by (simp add: on_sqlite_def sample_service_def)
  from o(2) obtain os v where f: "get_flow sample_id w = Some (new_flow sample_id ''mail'' ''m-01'' ''http://127.0.0.1:5000'' sample_connector os v 5 1000 observed)"
    using st(2) conn ttl by (auto elim!: open_flow_started)
  let ?f = "new_flow sample_id ''mail'' ''m-01'' ''http://127.0.0.1:5000'' sample_connector os v 5 1000 observed"
  have "ev_detail (terminal_event ?f expiry_decision)
      = [(''provider'', ''mail''), (''flow_id'', sample_id), (''secret_ref'', ''mail-token'')]"
    by (simp add: terminal_event_def sample_connector_def new_flow_def)
  moreover have "list_all (\<lambda>k. k \<in> set allowed_detail_keys) [''provider'', ''flow_id'', ''secret_ref'']" by code_simp
  moreover have "length sample_id \<le> 27" by (simp add: sample_id_def del: b64_raw_url.simps)
  ultimately have "validate_detail (ev_detail (terminal_event ?f expiry_decision)) = None"
    by (simp add: validate_detail_None_iff max_detail_value_len_def)
  then obtain d t w' where s: "settle ?sv (\<lambda>_. 2000) sample_id w = (None, w')" "pt_state d = StateExpired"
    "get_flow sample_id w' = Some (expose t d (?f\<lparr>fl_decided := Some d\<rparr>))"
    using settle_expires [OF f, where clk = "\<lambda>_. 2000" and afl = "\<lambda>_. no_faults" and sv = sample_service
        and rfl = "\<lambda>_. no_faults" and cfl = no_faults and now = 50]
    by (fastforce simp: new_flow_def no_faults_def)
  let ?v = "view_flow (expose t d (?f\<lparr>fl_decided := Some d\<rparr>))"
  have p: "handle_poll ?sv (\<lambda>_. 2000) sample_id ''m-01'' w = (write_json 200 (FbFlow ?v), w')"
    using f s by (simp add: handle_poll_def lookup_flow_def show_flow_def new_flow_def)
  have v: "fv_state ?v = StateExpired" using s(2) by (simp add: view_flow_def expose_def new_flow_def flow_terminal_def)
  from shown_endings_recorded [OF run p _ _] v have "\<exists>f. get_flow sample_id w' = Some f \<and> ending_recorded (db_audit (fw_store w')) f"
    by (auto simp: flow_terminal_def)
  with run p v show ?thesis by blast
qed

end
