(* ===== verification/Workload.thy ===== *)
theory Workload
  imports Go_Query Go_Time Manifest Store
begin

text \<open>
  \<open>internal/server/workloadcred/workloadcred.go\<close>: the file a connector's workload reads its credential
  from, and \<open>cmd/homeplane-server/workload_credential.go\<close>: its delivery after a commit and at start.
  A write is the list of directory states it passes through, so that what a concurrent reader can see
  is part of the model.
\<close>

section \<open>The credential directory\<close>

text \<open>
  The directory is absent, or something else is in its place, or it has permission bits (nine, as a
  number; its last three are those of others). A file has its bits and its bytes.
\<close>

datatype dir_state = DirAbsent | DirBlocked | DirPerm nat

record cred_fs =
  fd_dir :: dir_state
  fd_files :: "(string \<times> nat \<times> string) list"

datatype fs_op = OpStat | OpMkdir | OpChmodDir | OpCreateTemp | OpChmodTemp | OpWrite | OpSync | OpClose
  | OpRename | OpRemove

text \<open>
  The operating system: which operations fail, the owner's bits the umask leaves to a new directory, how
  much a failing write got through, and the part of the temporary name it draws.
\<close>

record cred_os =
  os_fails :: "fs_op \<Rightarrow> bool"
  os_owner :: nat
  os_short :: nat
  os_temp :: string

datatype write_error = FsFailed fs_op | DirIsFile | OtherReadable

definition dir_mode :: nat where "dir_mode = 448"
definition file_mode :: nat where "file_mode = 384"
definition group_file_mode :: nat where "group_file_mode = 432"
definition group_client_mode :: nat where "group_client_mode = 416"

definition set_file :: "string \<Rightarrow> nat \<times> string \<Rightarrow> cred_fs \<Rightarrow> cred_fs" where
  "set_file n x fs = fs\<lparr>fd_files := assoc_set n x (fd_files fs)\<rparr>"

definition del_file :: "string \<Rightarrow> cred_fs \<Rightarrow> cred_fs" where
  "del_file n fs = fs\<lparr>fd_files := assoc_del n (fd_files fs)\<rparr>"

definition file_at :: "string \<Rightarrow> cred_fs \<Rightarrow> (nat \<times> string) option" where
  "file_at n fs = map_of (fd_files fs) n"

section \<open>Writing a secret file\<close>

text \<open>The directory first: an existing one is tightened only where others have a bit.\<close>

definition prepare_dir :: "cred_os \<Rightarrow> cred_fs \<Rightarrow> write_error option \<times> cred_fs list" where
  "prepare_dir os fs =
     (if os_fails os OpStat then (Some (FsFailed OpStat), [])
      else (case fd_dir fs of
        DirPerm p \<Rightarrow>
          if p mod 8 = 0 then (None, [])
          else if os_fails os OpChmodDir then (Some (FsFailed OpChmodDir), [])
          else (None, [fs\<lparr>fd_dir := DirPerm dir_mode\<rparr>])
      | DirBlocked \<Rightarrow> (Some DirIsFile, [])
      | DirAbsent \<Rightarrow>
          if os_fails os OpMkdir then (Some (FsFailed OpMkdir), [])
          else (let made = fs\<lparr>fd_dir := DirPerm (64 * (os_owner os mod 8))\<rparr> in
            if os_fails os OpChmodDir then (Some (FsFailed OpChmodDir), [made])
            else (None, [made, fs\<lparr>fd_dir := DirPerm dir_mode\<rparr>]))))"

definition temp_name :: "cred_os \<Rightarrow> string" where
  "temp_name os = ''.credential-'' @ os_temp os @ ''.tmp''"

text \<open>
  Then the temporary file, at its final bits before it has a byte, and the rename. What was not
  renamed is removed, if that works.
\<close>

definition publish :: "cred_os \<Rightarrow> nat \<Rightarrow> string \<Rightarrow> string \<Rightarrow> cred_fs \<Rightarrow> write_error option \<times> cred_fs list" where
  "publish os mode name body fs =
     (if os_fails os OpCreateTemp then (Some (FsFailed OpCreateTemp), [])
      else (let t = temp_name os;
                s0 = set_file t (384, []) fs;
                s1 = set_file t (mode, []) s0;
                s2 = set_file t (mode, body) s1;
                short = set_file t (mode, take (os_short os) body) s1;
                gone = (\<lambda>s. if os_fails os OpRemove then [] else [del_file t s]) in
        if mode mod 8 \<noteq> 0 then (Some OtherReadable, s0 # gone s0)
        else if os_fails os OpChmodTemp then (Some (FsFailed OpChmodTemp), s0 # gone s0)
        else if os_fails os OpWrite then (Some (FsFailed OpWrite), s0 # s1 # short # gone short)
        else if os_fails os OpSync then (Some (FsFailed OpSync), s0 # s1 # s2 # gone s2)
        else if os_fails os OpClose then (Some (FsFailed OpClose), s0 # s1 # s2 # gone s2)
        else if os_fails os OpRename then (Some (FsFailed OpRename), s0 # s1 # s2 # gone s2)
        else (None, [s0, s1, s2, set_file name (mode, body) (del_file t s2)])))"

definition write_secret_file :: "cred_os \<Rightarrow> nat \<Rightarrow> string \<Rightarrow> string \<Rightarrow> cred_fs \<Rightarrow> write_error option \<times> cred_fs list" where
  "write_secret_file os mode name body fs =
     (case prepare_dir os fs of
        (Some err, tr) \<Rightarrow> (Some err, tr)
      | (None, tr) \<Rightarrow> apsnd ((@) tr) (publish os mode name body (last (fs # tr))))"

section \<open>The account's file name\<close>

datatype account_error = AccountEmpty | AccountTooLong nat | AccountSeparator | AccountSpace | AccountNoFile

fun keep_literal :: "string \<Rightarrow> string" where
  "keep_literal (a # b # c # s) =
     (if [a, b, c] = ''%40'' then CHR ''@'' # keep_literal s
      else if [a, b, c] = ''%2E'' then CHR ''.'' # keep_literal s
      else if [a, b, c] = ''%2D'' then CHR ''-'' # keep_literal s
      else if [a, b, c] = ''%5F'' then CHR ''_'' # keep_literal s
      else a # keep_literal (b # c # s))"
| "keep_literal s = s"

definition path_separators :: string where "path_separators = [CHR ''/'', backslash]"

definition google_account_filename :: "string \<Rightarrow> account_error + string" where
  "google_account_filename account =
     (let a = trim_space account in
      if a = [] then Inl AccountEmpty
      else if 320 < length a then Inl (AccountTooLong (length a))
      else if list_ex (\<lambda>c. c \<in> set path_separators \<or> c = CHR 0x00) a then Inl AccountSeparator
      else (let esc = query_escape a in
        if CHR ''+'' \<in> set esc then Inl AccountSpace
        else (let name = keep_literal esc in
          if name = [] \<or> name = ''.'' \<or> name = ''..'' \<or> list_ex (\<lambda>c. c \<in> set path_separators) name
          then Inl AccountNoFile
          else Inr (name @ ''.json''))))"

section \<open>The two files\<close>

record workload_credential =
  wc_access :: string
  wc_refresh :: string
  wc_token_uri :: string
  wc_client_id :: string
  wc_client_secret :: string
  wc_auth_uri :: string
  wc_scopes :: "string list"
  wc_expires :: "int option"

text \<open>An object of members that are encoded already; an empty list of scopes is \<open>[]\<close>.\<close>

definition object_text :: "(string \<times> string) list \<Rightarrow> string" where
  "object_text ms = CHR ''{'' # str_join '','' (map (\<lambda>(k, v). json_quote k @ '':'' @ v) ms) @ ''}''"

definition strings_text :: "string list \<Rightarrow> string" where
  "strings_text xs = CHR ''['' # str_join '','' (map json_quote xs) @ '']''"

definition user_file_text :: "workload_credential \<Rightarrow> string" where
  "user_file_text c = object_text
     [(''token'', json_quote (wc_access c)), (''refresh_token'', json_quote (wc_refresh c)),
      (''token_uri'', json_quote (wc_token_uri c)), (''client_id'', json_quote (wc_client_id c)),
      (''client_secret'', json_quote (wc_client_secret c)), (''scopes'', strings_text (wc_scopes c)),
      (''expiry'', (case wc_expires c of None \<Rightarrow> ''null'' | Some t \<Rightarrow> json_quote (naive_micro t)))]"

definition client_file_text :: "workload_credential \<Rightarrow> string" where
  "client_file_text c = object_text [(''installed'', object_text
     ([(''client_id'', json_quote (wc_client_id c)), (''client_secret'', json_quote (wc_client_secret c))]
      @ (if wc_auth_uri c = [] then [] else [(''auth_uri'', json_quote (wc_auth_uri c))])
      @ (if wc_token_uri c = [] then [] else [(''token_uri'', json_quote (wc_token_uri c))])
      @ [(''redirect_uris'', strings_text [''http://localhost''])]))]"

datatype materialize_error = UnsupportedFormat string | BadAccount account_error | NoDirectory | NoTokens
  | NoClient | NotWritten write_error

definition client_file_name :: string where "client_file_name = ''client_secret.json''"

text \<open>\<open>Materialize\<close> and \<open>MaterializeClient\<close> yield the name of the file in the directory.\<close>

definition materialize :: "cred_os \<Rightarrow> bool \<Rightarrow> string \<Rightarrow> string \<Rightarrow> string \<Rightarrow> workload_credential \<Rightarrow> cred_fs
    \<Rightarrow> (materialize_error + string) \<times> cred_fs list" where
  "materialize os group_access format dir account c fs =
     (if format \<noteq> google_oauth_user_file then (Inl (UnsupportedFormat format), [])
      else (case google_account_filename account of
        Inl err \<Rightarrow> (Inl (BadAccount err), [])
      | Inr name \<Rightarrow>
          if trim_space dir = [] then (Inl NoDirectory, [])
          else if wc_refresh c = [] \<and> wc_access c = [] then (Inl NoTokens, [])
          else (case write_secret_file os (if group_access then group_file_mode else file_mode) name (user_file_text c) fs of
                  (Some err, tr) \<Rightarrow> (Inl (NotWritten err), tr)
                | (None, tr) \<Rightarrow> (Inr name, tr))))"

definition materialize_client :: "cred_os \<Rightarrow> bool \<Rightarrow> string \<Rightarrow> workload_credential \<Rightarrow> cred_fs
    \<Rightarrow> (materialize_error + string) \<times> cred_fs list" where
  "materialize_client os group_access format c fs =
     (if format \<noteq> google_oauth_user_file then (Inr [], [])
      else if wc_client_id c = [] \<or> wc_client_secret c = [] then (Inl NoClient, [])
      else (case write_secret_file os (if group_access then group_client_mode else file_mode) client_file_name (client_file_text c) fs of
              (Some err, tr) \<Rightarrow> (Inl (NotWritten err), tr)
            | (None, tr) \<Rightarrow> (Inr client_file_name, tr)))"

end
