(* ===== verification/Delivery.thy ===== *)
theory Delivery
  imports Workload Flow_Service
begin

text \<open>
  \<open>cmd/homeplane-server/workload_credential.go\<close>: the delivery of a stored credential to the workload's
  directory, after a commit and at start, and what the health probe is told of it. The source of the
  decrypted credential and the secret reader are interfaces of the program.
\<close>

datatype source_error = SourceStore store_error | SourceDecrypt | SourceDecode

datatype delivery_error = DeliverUnknownProvider string | DeliverSource source_error
  | DeliverParam string | DeliverSecret string store_error | DeliverDecrypt string
  | DeliverWrite materialize_error

record 's delivery =
  wd_connector :: "string \<Rightarrow> connector option"
  wd_source :: "string \<Rightarrow> 's \<Rightarrow> source_error + credential \<times> int"
  wd_secret :: "string \<Rightarrow> 's \<Rightarrow> store_error + secret"
  wd_decrypt :: "string \<Rightarrow> string option"
  wd_dir :: string
  wd_account :: string
  wd_group :: bool

datatype delivery_config_error = AccountWithoutDir | DirWithoutAccount

text \<open>\<open>newWorkloadDelivery\<close>: neither input means no delivery, which is not an error.\<close>

definition new_workload_delivery :: "'s delivery \<Rightarrow> delivery_config_error + 's delivery option" where
  "new_workload_delivery dl =
     (let dir = trim_space (wd_dir dl); account = trim_space (wd_account dl) in
      if dir = [] \<and> account = [] then Inr None
      else if dir = [] then Inl AccountWithoutDir
      else if account = [] then Inl DirWithoutAccount
      else Inr (Some (dl\<lparr>wd_dir := dir, wd_account := account\<rparr>)))"

definition driver_secret :: "'s delivery \<Rightarrow> connector \<Rightarrow> string \<Rightarrow> 's \<Rightarrow> delivery_error + string" where
  "driver_secret dl conn p s =
     (let ref = param (cq_params (cn_credential conn)) p in
      if ref = [] then Inl (DeliverParam p)
      else (case wd_secret dl ref s of
        Inl err \<Rightarrow> Inl (DeliverSecret p err)
      | Inr sec \<Rightarrow> (case wd_decrypt dl (s_cipher sec) of None \<Rightarrow> Inl (DeliverDecrypt p) | Some v \<Rightarrow> Inr v)))"

text \<open>\<open>strings.Fields\<close>.\<close>

fun fields_from :: "string \<Rightarrow> string \<Rightarrow> string list" where
  "fields_from acc (a # b # c # s) =
     (if space1 a then (if acc = [] then [] else [rev acc]) @ fields_from [] (b # c # s)
      else if space2 a b then (if acc = [] then [] else [rev acc]) @ fields_from [] (c # s)
      else if space3 a b c then (if acc = [] then [] else [rev acc]) @ fields_from [] s
      else fields_from (a # acc) (b # c # s))"
| "fields_from acc [a, b] =
     (if space1 a then (if acc = [] then [] else [rev acc]) @ fields_from [] [b]
      else if space2 a b then (if acc = [] then [] else [rev acc])
      else fields_from (a # acc) [b])"
| "fields_from acc [a] = (if space1 a then (if acc = [] then [] else [rev acc]) else [rev (a # acc)])"
| "fields_from acc [] = (if acc = [] then [] else [rev acc])"

definition str_fields :: "string \<Rightarrow> string list" where
  "str_fields s = fields_from [] s"

definition workload_values :: "connector \<Rightarrow> credential \<Rightarrow> string \<Rightarrow> string \<Rightarrow> workload_credential" where
  "workload_values conn cred client_id client_secret =
     \<lparr>wc_access = cd_access cred, wc_refresh = cd_refresh cred,
      wc_token_uri = param (cq_params (cn_credential conn)) ''token_endpoint'',
      wc_client_id = client_id, wc_client_secret = client_secret,
      wc_auth_uri = param (cq_params (cn_credential conn)) ''auth_endpoint'',
      wc_scopes = str_fields (cd_scope cred), wc_expires = cd_expires cred\<rparr>"

text \<open>The credential's file is written first, the client's second.\<close>

definition deliver :: "'s delivery \<Rightarrow> cred_os \<Rightarrow> cred_os \<Rightarrow> string \<Rightarrow> 's \<Rightarrow> cred_fs
    \<Rightarrow> delivery_error option \<times> cred_fs list" where
  "deliver dl os1 os2 provider s fs =
     (case wd_connector dl provider of
        None \<Rightarrow> (Some (DeliverUnknownProvider provider), [])
      | Some conn \<Rightarrow>
          (case cn_delivery conn of
             None \<Rightarrow> (None, [])
           | Some format \<Rightarrow>
               (case wd_source dl provider s of
                  Inl err \<Rightarrow> (Some (DeliverSource err), [])
                | Inr (cred, generation) \<Rightarrow>
                    (case driver_secret dl conn ''client_id_ref'' s of
                       Inl err \<Rightarrow> (Some err, [])
                     | Inr client_id \<Rightarrow>
                         (case driver_secret dl conn ''client_secret_ref'' s of
                            Inl err \<Rightarrow> (Some err, [])
                          | Inr client_secret \<Rightarrow>
                              (let c = workload_values conn cred client_id client_secret in
                               case materialize os1 (wd_group dl) format (wd_dir dl) (wd_account dl) c fs of
                                 (Inl err, tr1) \<Rightarrow> (Some (DeliverWrite err), tr1)
                               | (Inr name, tr1) \<Rightarrow>
                                   (case materialize_client os2 (wd_group dl) format c (last (fs # tr1)) of
                                      (Inl err, tr2) \<Rightarrow> (Some (DeliverWrite err), tr1 @ tr2)
                                    | (Inr client, tr2) \<Rightarrow> (None, tr1 @ tr2))))))))"

text \<open>What the health probe is told: the outcome of the last delivery that was recorded.\<close>

type_synonym delivery_record = "(string \<times> delivery_error) option"

definition record_delivery :: "string \<Rightarrow> delivery_error option \<Rightarrow> delivery_record" where
  "record_delivery provider err = map_option (Pair provider) err"

text \<open>\<open>errors.Is(err, store.ErrNotFound)\<close>: the wrapped causes are looked through.\<close>

definition delivery_not_found :: "delivery_error option \<Rightarrow> bool" where
  "delivery_not_found err \<longleftrightarrow>
     (case err of
        Some (DeliverSource (SourceStore ErrNotFound)) \<Rightarrow> True
      | Some (DeliverSecret p ErrNotFound) \<Rightarrow> True
      | _ \<Rightarrow> False)"

text \<open>\<open>deliverStored\<close>, over the manifest's providers; write \<open>n\<close> meets its own faults.\<close>

fun deliver_stored :: "'s delivery \<Rightarrow> (nat \<Rightarrow> cred_os) \<Rightarrow> nat \<Rightarrow> string list \<Rightarrow> 's \<Rightarrow> delivery_record \<times> cred_fs
    \<Rightarrow> delivery_record \<times> cred_fs" where
  "deliver_stored dl os n [] s st = st"
| "deliver_stored dl os n (p # ps) s (rec, fs) =
     (case deliver dl (os (2 * n)) (os (2 * n + 1)) p s fs of
        (err, tr) \<Rightarrow>
          deliver_stored dl os (Suc n) ps s
            (if delivery_not_found err then rec else record_delivery p err, last (fs # tr)))"

text \<open>The hook of a commit records every outcome.\<close>

definition deliver_committed :: "'s delivery \<Rightarrow> cred_os \<Rightarrow> cred_os \<Rightarrow> string \<Rightarrow> 's \<Rightarrow> cred_fs
    \<Rightarrow> delivery_record \<times> cred_fs list" where
  "deliver_committed dl os1 os2 provider s fs =
     apfst (record_delivery provider) (deliver dl os1 os2 provider s fs)"

end
