(* ===== verification/Workload_Props.thy ===== *)
theory Workload_Props
  imports Delivery
begin

text \<open>
  The properties of credential delivery: what a reader of the directory can see while a file is
  written, the names of the files, and what the health probe is not told.
\<close>

section \<open>Writing\<close>

lemma file_at_set [simp]: "file_at m (set_file n x fs) = (if m = n then Some x else file_at m fs)"
  by (simp add: file_at_def set_file_def)

lemma file_at_del [simp]: "file_at m (del_file n fs) = (if m = n then None else file_at m fs)"
  by (simp add: file_at_def del_file_def)

lemma fd_dir_files [simp]: "fd_dir (set_file n x fs) = fd_dir fs" "fd_dir (del_file n fs) = fd_dir fs"
  by (simp_all add: set_file_def del_file_def)

lemma file_at_dir [simp]: "file_at n (fs\<lparr>fd_dir := d\<rparr>) = file_at n fs"
  by (simp add: file_at_def)

definition closed_dir :: "cred_fs \<Rightarrow> bool" where
  "closed_dir fs \<longleftrightarrow> (\<exists>p. fd_dir fs = DirPerm p \<and> p mod 8 = 0)"

text \<open>What a state of the directory shows, seen from the state the write began in.\<close>

definition write_visible :: "cred_fs \<Rightarrow> string \<Rightarrow> string \<Rightarrow> nat \<Rightarrow> string \<Rightarrow> cred_fs \<Rightarrow> bool" where
  "write_visible fs temp name mode body s \<longleftrightarrow>
     (file_at name s = file_at name fs \<or> file_at name s = Some (mode, body))
     \<and> (\<forall>m. m \<noteq> name \<and> m \<noteq> temp \<longrightarrow> file_at m s = file_at m fs)
     \<and> (\<forall>m bytes. file_at temp s = Some (m, bytes) \<longrightarrow> m \<in> {384, mode} \<and> (bytes \<noteq> [] \<longrightarrow> m mod 8 = 0 \<and> closed_dir s))"

lemma prepare_dir_files:
  assumes "prepare_dir os fs = (r, tr)"
  shows "\<forall>s \<in> set tr. \<forall>n. file_at n s = file_at n fs" "r = None \<Longrightarrow> closed_dir (last (fs # tr))"
  using assms by (auto simp: prepare_dir_def closed_dir_def dir_mode_def Let_def split: if_splits dir_state.splits)

lemma publish_visible:
  assumes "publish os mode name body fs = (r, tr)" "closed_dir fs" "name \<noteq> temp_name os" "file_at (temp_name os) fs = None"
  shows "\<forall>s \<in> set tr. write_visible fs (temp_name os) name mode body s"
    and "file_at name (last (fs # tr)) = (if r = None then Some (mode, body) else file_at name fs)"
    and "r = None \<Longrightarrow> file_at (temp_name os) (last (fs # tr)) = None \<and> mode mod 8 = 0"
    and "closed_dir (last (fs # tr))"
  using assms
  by (auto simp: publish_def write_visible_def closed_dir_def Let_def split: if_splits)

text \<open>
  C23. A secret file is replaced atomically. Whatever operation of the file system fails, in every
  state a reader can meet the file is either what it was or the complete new one at its final
  permissions, and no other file changes; the bytes on the way are only ever in a temporary file that
  others have no bit on, in a directory others have no bit on. The new file is in place exactly when
  the write reports success, and then the temporary one is gone.
\<close>

theorem secret_file_replaced_atomically:
  assumes "write_secret_file os mode name body fs = (r, tr)"
    and "name \<noteq> temp_name os" "file_at (temp_name os) fs = None"
  shows "(\<forall>s \<in> set tr. write_visible fs (temp_name os) name mode body s)
    \<and> file_at name (last (fs # tr)) = (if r = None then Some (mode, body) else file_at name fs)
    \<and> (r = None \<longrightarrow> file_at (temp_name os) (last (fs # tr)) = None \<and> mode mod 8 = 0 \<and> closed_dir (last (fs # tr)))"
proof -
  obtain r1 tr1 where p: "prepare_dir os fs = (r1, tr1)" by fastforce
  note files = prepare_dir_files [OF p]
  have vis1: "\<forall>s \<in> set tr1. write_visible fs (temp_name os) name mode body s"
    using files(1) assms(3) by (auto simp: write_visible_def)
  have last1: "file_at n (last (fs # tr1)) = file_at n fs" for n
    using files(1) last_in_set [of tr1] by (cases "tr1 = []") auto
  show ?thesis
  proof (cases r1)
    case (Some err)
    with assms(1) p have "r = Some err" "tr = tr1" by (simp_all add: write_secret_file_def)
    with vis1 last1 show ?thesis by simp
  next
    case None
    obtain tr2 where q: "publish os mode name body (last (fs # tr1)) = (r, tr2)" and tr: "tr = tr1 @ tr2"
      using assms(1) p None by (auto simp: write_secret_file_def apsnd_def map_prod_def split: prod.splits)
    have c: "closed_dir (last (fs # tr1))" using files(2) None by simp
    note pub = publish_visible [OF q c assms(2)]
    have t: "file_at (temp_name os) (last (fs # tr1)) = None" using last1 assms(3) by simp
    have "last (fs # tr) = last (last (fs # tr1) # tr2)" using tr by (cases tr2) auto
    moreover have "\<forall>s \<in> set tr2. write_visible fs (temp_name os) name mode body s"
      using pub(1) [OF t] last1 by (simp add: write_visible_def)
    moreover note pub(2,3) [OF t] pub(4) [OF t]
    ultimately show ?thesis using vis1 tr last1 by (simp del: last.simps) blast
  qed
qed

lemma secret_file_replaced_atomically_witness:
  "let os = \<lparr>os_fails = (\<lambda>op. op = OpRename), os_owner = 7, os_short = 0, os_temp = ''1''\<rparr>;
       fs = \<lparr>fd_dir = DirPerm 493, fd_files = [(''a.json'', 384, ''old'')]\<rparr>;
       (r, tr) = write_secret_file os 384 ''a.json'' ''new'' fs
   in r = Some (FsFailed OpRename) \<and> file_at ''a.json'' (last (fs # tr)) = Some (384, ''old'')
      \<and> (\<forall>s \<in> set tr. write_visible fs ''.credential-1.tmp'' ''a.json'' 384 ''new'' s)"
proof -
  let ?os = "\<lparr>os_fails = (\<lambda>op. op = OpRename), os_owner = 7, os_short = 0, os_temp = ''1''\<rparr>"
  let ?fs = "\<lparr>fd_dir = DirPerm 493, fd_files = [(''a.json'', 384, ''old'')]\<rparr>"
  let ?w = "write_secret_file ?os 384 ''a.json'' ''new'' ?fs"
  have t: "temp_name ?os = ''.credential-1.tmp''" by (simp add: temp_name_def)
  have h: "?w = (fst ?w, snd ?w)" "''a.json'' \<noteq> temp_name ?os" "file_at (temp_name ?os) ?fs = None"
    by (simp_all add: t file_at_def)
  have r: "fst ?w = Some (FsFailed OpRename)" by code_simp
  from secret_file_replaced_atomically [OF h] r t show ?thesis
    by (auto simp: Let_def case_prod_beta file_at_def)
qed

section \<open>Names\<close>

text \<open>Of the escapes \<open>QueryEscape\<close> produces only the one of \<open>@\<close> is put back.\<close>

definition escape_account :: "char \<Rightarrow> string" where
  "escape_account c = (if c = CHR ''@'' then ''@'' else query_escape [c])"

lemma keep_literal_Cons: "c \<noteq> CHR ''%'' \<Longrightarrow> keep_literal (c # t) = c # keep_literal t"
  by (cases t; cases "tl t") auto

lemma upper_hex_plain: "n < 16 \<Longrightarrow> upper_hex n \<noteq> CHR ''%''"
  using query_plain_simps [of "upper_hex n"]
  by (auto simp: query_plain_def is_alnum_def is_lower_alnum_def upper_hex_def byte_chr)

lemma upper_hex_inj: "n < 16 \<Longrightarrow> m < 16 \<Longrightarrow> upper_hex n = upper_hex m \<Longrightarrow> n = m"
  using url_hex_upper by (metis option.inject)

lemma escape_eq_iff:
  assumes "x < 16" "y < 16"
  shows "upper_hex (byte c div 16) = upper_hex x \<and> upper_hex (byte c mod 16) = upper_hex y \<longleftrightarrow> byte c = 16 * x + y"
proof -
  have "byte c div 16 < 16" "byte c mod 16 < 16" using byte_less_256 [of c] by simp_all
  with assms have "upper_hex (byte c div 16) = upper_hex x \<longleftrightarrow> byte c div 16 = x"
    "upper_hex (byte c mod 16) = upper_hex y \<longleftrightarrow> byte c mod 16 = y"
    by (auto intro: upper_hex_inj)
  moreover have "byte c div 16 = x \<and> byte c mod 16 = y \<longleftrightarrow> byte c = 16 * x + y"
  proof -
    have "(16 * x + y) div 16 = x" "(16 * x + y) mod 16 = y" using assms(2) by simp_all
    then show ?thesis by (metis div_mult_mod_eq mult.commute)
  qed
  ultimately show ?thesis by blast
qed

lemma byte_eq_char: "byte c = byte d \<Longrightarrow> c = d"
  by (metis chr_byte)

lemma hex_digits_upper:
  "CHR ''4'' = upper_hex 4" "CHR ''0'' = upper_hex 0" "CHR ''2'' = upper_hex 2" "CHR ''E'' = upper_hex 14"
  "CHR ''D'' = upper_hex 13" "CHR ''5'' = upper_hex 5" "CHR ''F'' = upper_hex 15"
  by (rule byte_eq_char, simp add: upper_hex_def byte_chr, simp add: byte_def)+

lemma keep_literal_escape: "keep_literal (query_escape s) = concat (map escape_account s)"
proof (induction s)
  case (Cons c s)
  have b: "byte c div 16 < 16" "byte c mod 16 < 16" using byte_less_256 [of c] by simp_all
  let ?h = "upper_hex (byte c div 16)" and ?l = "upper_hex (byte c mod 16)"
  show ?case
  proof (cases "query_plain c \<or> c = CHR '' ''")
    case True
    then have "c \<noteq> CHR ''@''" by (auto simp: query_plain_def is_alnum_def is_lower_alnum_def byte_def)
    with True Cons query_plain_simps [of c] show ?thesis
      by (auto simp: escape_account_def keep_literal_Cons)
  next
    case False
    have e: "query_escape (c # s) = [CHR ''%'', ?h, ?l] @ query_escape s" using False by simp
    have kept: "query_plain (CHR ''.'')" "query_plain (CHR ''-'')" "query_plain (CHR ''_'')"
      by (simp_all add: query_plain_def is_alnum_def is_lower_alnum_def byte_def)
    have no: "byte c \<noteq> 46" "byte c \<noteq> 45" "byte c \<noteq> 95"
      using False kept byte_eq_char [of c "CHR ''.''"] byte_eq_char [of c "CHR ''-''"] byte_eq_char [of c "CHR ''_''"]
      by (auto simp: byte_def)
    have at: "byte c = 64 \<longleftrightarrow> c = CHR ''@''" using byte_eq_char [of c "CHR ''@''"] by (auto simp: byte_def)
    have "keep_literal ([CHR ''%'', ?h, ?l] @ query_escape s)
        = (if c = CHR ''@'' then CHR ''@'' # keep_literal (query_escape s)
           else CHR ''%'' # keep_literal (?h # ?l # query_escape s))"
      using escape_eq_iff [of 4 0 c] escape_eq_iff [of 2 14 c] escape_eq_iff [of 2 13 c] escape_eq_iff [of 5 15 c] no at
      by (auto simp: hex_digits_upper)
    then show ?thesis
      using e Cons upper_hex_plain [OF b(1)] upper_hex_plain [OF b(2)] False
      by (simp add: escape_account_def keep_literal_Cons)
  qed
qed simp

lemma unescape_account:
  "query_unescape (escape_account c @ t) = map_option ((#) c) (query_unescape t)"
proof (cases "c = CHR ''@''")
  case False
  have "query_unescape (query_escape (c # s)) = Some (c # s)" for s by (rule query_unescape_escape)
  have b: "byte c < 256" by (rule byte_less_256)
  have "chr (byte c div 16 * 16 + byte c mod 16) = c" by simp
  moreover have "url_hex (upper_hex (byte c div 16)) = Some (byte c div 16)"
    "url_hex (upper_hex (byte c mod 16)) = Some (byte c mod 16)"
    using b by (simp_all add: url_hex_upper)
  ultimately show ?thesis using False query_plain_simps [of c] by (auto simp: escape_account_def)
qed (simp add: escape_account_def)

lemma keep_literal_round_trip: "query_unescape (keep_literal (query_escape s)) = Some s"
  unfolding keep_literal_escape by (induction s) (simp_all add: unescape_account)

lemma keep_literal_chars:
  assumes "d \<in> set (keep_literal (query_escape s))"
  shows "query_plain d \<or> d \<in> {CHR ''+'', CHR ''%'', CHR ''@''}"
proof -
  obtain c where "d \<in> set (escape_account c)" using assms by (auto simp: keep_literal_escape)
  then show ?thesis using query_escape_chars [of d "[c]"] by (auto simp: escape_account_def split: if_splits)
qed

text \<open>
  The name a credential file gets for an account is one file of the directory: a nonempty stem that
  is neither \<open>.\<close> nor \<open>..\<close>, with no separator and no NUL, and the suffix. The stem decodes back to the
  trimmed account, so two accounts share a file only if they are one account.
\<close>

theorem account_file_round_trip:
  assumes "google_account_filename account = Inr name"
  shows "\<exists>stem. name = stem @ ''.json'' \<and> stem \<notin> {[], ''.'', ''..''}
     \<and> set name \<inter> {CHR ''/'', backslash, CHR 0x00} = {}
     \<and> query_unescape stem = Some (trim_space account)
     \<and> (\<forall>other. google_account_filename other = Inr name \<longrightarrow> trim_space other = trim_space account)"
proof -
  let ?stem = "\<lambda>a. keep_literal (query_escape (trim_space a))"
  have name: "n = ?stem a @ ''.json''" if "google_account_filename a = Inr n" for a n
    using that by (auto simp: google_account_filename_def Let_def split: if_splits)
  have "?stem account \<notin> {[], ''.'', ''..''}"
    using assms by (auto simp: google_account_filename_def Let_def split: if_splits)
  moreover have "set name \<inter> {CHR ''/'', backslash, CHR 0x00} = {}"
  proof -
    have "d \<notin> {CHR ''/'', backslash, CHR 0x00}" if "d \<in> set (?stem account)" for d
      using keep_literal_chars [OF that]
      by (auto simp: query_plain_def is_alnum_def is_lower_alnum_def byte_def)
    then show ?thesis using name [OF assms] by auto
  qed
  moreover have "trim_space other = trim_space account" if "google_account_filename other = Inr name" for other
  proof -
    have "?stem other = ?stem account" using name [OF assms] name [OF that] by simp
    then show ?thesis by (metis keep_literal_round_trip option.inject)
  qed
  ultimately show ?thesis using name [OF assms] keep_literal_round_trip by blast
qed

lemma account_file_round_trip_witness:
  "google_account_filename '' me@x.org '' = Inr ''me@x.org.json''
     \<and> google_account_filename ''me@x.org'' = Inr ''me@x.org.json'' \<and> trim_space ''me@x.org'' = ''me@x.org''"
proof -
  have g: "google_account_filename '' me@x.org '' = Inr ''me@x.org.json''" "trim_space '' me@x.org '' = ''me@x.org''"
    "google_account_filename ''me@x.org'' = Inr ''me@x.org.json''"
    by code_simp+
  from account_file_round_trip [OF g(1)] g show ?thesis by auto
qed

text \<open>An account of this name would take the file of the client configuration.\<close>

lemma account_takes_client_file: "google_account_filename ''client_secret'' = Inr client_file_name"
  by code_simp

section \<open>What the health probe is not told\<close>

text \<open>
  A stored credential that cannot be delivered because the connector's client id or secret is
  missing from the store is taken for a provider with no credential: the delivery fails, nothing is
  written, and what the health probe is told stays as it was, although a failed delivery is meant to
  show there.
\<close>

theorem missing_client_secret_unreported:
  assumes "wd_connector dl p = Some conn" "cn_delivery conn = Some format"
    and "wd_source dl p s = Inr (cred, generation)"
    and "k \<in> {''client_id_ref'', ''client_secret_ref''}"
    and "driver_secret dl conn k s = Inl (DeliverSecret k ErrNotFound)"
    and "k = ''client_secret_ref'' \<longrightarrow> (\<exists>v. driver_secret dl conn ''client_id_ref'' s = Inr v)"
  shows "deliver dl os1 os2 p s fs = (Some (DeliverSecret k ErrNotFound), [])
    \<and> deliver_stored dl os n [p] s (rec, fs) = (rec, fs)"
proof -
  have "deliver dl os1 os2 p s fs = (Some (DeliverSecret k ErrNotFound), [])" for os1 os2
    using assms by (auto simp: deliver_def)
  then show ?thesis by (simp add: delivery_not_found_def)
qed

definition sample_delivery :: "nat delivery" where
  "sample_delivery =
     \<lparr>wd_connector = (\<lambda>p. Some \<lparr>cn_provider = p, cn_credential_ref = ''tok'',
        cn_credential = \<lparr>cq_driver = driver_oauth2, cq_params = [(''client_id_ref'', ''cid''), (''client_secret_ref'', ''csec'')], cq_scopes = []\<rparr>,
        cn_delivery = Some google_oauth_user_file, cn_server = \<lparr>ms_name = ''m'', ms_transport = ''stdio'', ms_source = ''x''\<rparr>,
        cn_inventory = [], cn_tools = [], cn_excluded = []\<rparr>),
      wd_source = (\<lambda>p s. if p = ''mail'' then Inr (\<lparr>cd_provider = ''mail'', cd_type = [], cd_access = ''a'', cd_refresh = ''r'', cd_scope = [],
        cd_obtained = 0, cd_expires = None\<rparr>, 1) else Inl SourceDecrypt),
      wd_secret = (\<lambda>ref s. if ref = ''cid'' \<or> s = 1 then Inr \<lparr>s_ref = ref, s_cipher = ''id'', s_gen = 1, s_created = 0, s_updated = 0\<rparr>
        else Inl ErrNotFound),
      wd_decrypt = Some, wd_dir = ''/d'', wd_account = ''me@x.org'', wd_group = False\<rparr>"

lemma missing_client_secret_unreported_witness:
  "let os = (\<lambda>n :: nat. \<lparr>os_fails = (\<lambda>_. False), os_owner = 7, os_short = 0, os_temp = ''1''\<rparr>);
       fs = \<lparr>fd_dir = DirPerm 448, fd_files = []\<rparr>
   in deliver_stored sample_delivery os 0 [''mail''] 0 (None, fs) = (None, fs)"
proof -
  obtain conn where c: "wd_connector sample_delivery ''mail'' = Some conn" "cn_delivery conn = Some google_oauth_user_file"
    "driver_secret sample_delivery conn ''client_secret_ref'' 0 = Inl (DeliverSecret ''client_secret_ref'' ErrNotFound)"
    "\<exists>v. driver_secret sample_delivery conn ''client_id_ref'' 0 = Inr v"
    by (auto simp: sample_delivery_def driver_secret_def param_def)
  obtain cred g where "wd_source sample_delivery ''mail'' 0 = Inr (cred, g)" by (auto simp: sample_delivery_def)
  from missing_client_secret_unreported [OF c(1,2) this, of "''client_secret_ref''"] c(3,4) show ?thesis by (simp add: Let_def del: deliver_stored.simps)
qed

text \<open>The probe also forgets a failure as soon as a later provider is delivered.\<close>

lemma later_delivery_hides_failure:
  assumes "deliver dl (os (2 * n)) (os (2 * n + 1)) p s fs = (Some err, tr)" "\<not> delivery_not_found (Some err)"
    and "deliver dl (os (2 * Suc n)) (os (2 * Suc n + 1)) q s (last (fs # tr)) = (None, tr')"
  shows "deliver_stored dl os n [p, q] s (rec, fs) = (None, last (last (fs # tr) # tr'))"
proof -
  have "\<not> delivery_not_found None" by (simp add: delivery_not_found_def)
  then show ?thesis
    using assms(2) by (simp only: deliver_stored.simps assms(1,3) prod.case if_False record_delivery_def option.map)
qed

end
