(* ===== verification/Ledger.thy ===== *)
theory Ledger
  imports Go_Time Audit_Model
begin

text \<open>
  \<open>internal/agent/supervise/restart.go\<close> and \<open>liveness.go\<close>: the restart ledger a supervised process
  keeps of its own starts and exits, the crash-loop verdict \<open>status\<close> reads from it, and the probes
  that say whether the process runs. The signal a probe sends and the supervisor it asks are
  parameters.
\<close>

section \<open>The ledger\<close>

record start_entry =
  st_at :: int
  st_pid :: int
  st_reason :: string

record exit_entry =
  ex_at :: int
  ex_code :: int
  ex_detail :: string

record ledger =
  lg_schema :: int
  lg_label :: string
  lg_total_starts :: int
  lg_total_exits :: int
  lg_starts :: "start_entry list"
  lg_exits :: "exit_entry list"

definition ledger_schema_version :: int where "ledger_schema_version = 1"
definition max_retained :: nat where "max_retained = 50"
definition default_crash_loop_window :: int where "default_crash_loop_window = 300 * second_ns"
definition default_crash_loop_threshold :: int where "default_crash_loop_threshold = 5"

definition starts_within :: "ledger \<Rightarrow> int \<Rightarrow> int \<Rightarrow> int" where
  "starts_within l now window = int (length (filter (\<lambda>s. now - window < st_at s) (lg_starts l)))"

definition crash_looping :: "ledger \<Rightarrow> int \<Rightarrow> int \<Rightarrow> int \<Rightarrow> bool" where
  "crash_looping l now window threshold =
     (let w = (if window \<le> 0 then default_crash_loop_window else window);
          t = (if threshold \<le> 0 then default_crash_loop_threshold else threshold)
      in t < starts_within l now w)"

definition last_opt :: "'a list \<Rightarrow> 'a option" where
  "last_opt xs = (if xs = [] then None else Some (last xs))"

definition last_start :: "ledger \<Rightarrow> start_entry option" where "last_start l = last_opt (lg_starts l)"
definition last_exit :: "ledger \<Rightarrow> exit_entry option" where "last_exit l = last_opt (lg_exits l)"

definition self_reported_running :: "ledger \<Rightarrow> bool" where
  "self_reported_running l =
     (case last_start l of
        None \<Rightarrow> False
      | Some s \<Rightarrow> (case last_exit l of None \<Rightarrow> True | Some e \<Rightarrow> ex_at e < st_at s))"

text \<open>\<open>RFC3339\<close> in UTC, and the bytes of the em dash.\<close>

definition rfc3339 :: "int \<Rightarrow> string" where
  "rfc3339 t = date_time t @ ''Z''"

definition em_dash :: string where
  "em_dash = [CHR 0xE2, CHR 0x80, CHR 0x94]"

definition summary :: "ledger \<Rightarrow> int \<Rightarrow> string" where
  "summary l now =
     (if lg_total_starts l = 0 then ''never started''
      else (let s = (case last_start l of None \<Rightarrow> \<lparr>st_at = -62135596800 * second_ns, st_pid = 0, st_reason = []\<rparr>
                                        | Some s \<Rightarrow> s) in
        show_int (lg_total_starts l) @ '' starts (last '' @ rfc3339 (st_at s)
        @ (if 0 < st_pid s \<and> self_reported_running l then '', pid '' @ show_int (st_pid s) else [])
        @ '')''
        @ (if crash_looping l now default_crash_loop_window default_crash_loop_threshold
           then '' '' @ em_dash @ '' CRASH-LOOPING: '' @ show_int (starts_within l now default_crash_loop_window)
                @ '' starts in the last 5m0s''
           else [])
        @ (case last_exit l of
             None \<Rightarrow> []
           | Some e \<Rightarrow> if self_reported_running l then [] else ''; last exit code '' @ show_int (ex_code e))))"

section \<open>The tracker\<close>

text \<open>
  The ledger's file: absent, unreadable, not a ledger, or a ledger. An encoded time has a year of four
  digits, and the encoder replaces bytes that are not UTF-8.
\<close>

datatype ledger_file = NoLedger | UnreadableLedger | NotALedger | Holds ledger

datatype ledger_error = TrackerUnnamed | LedgerUnread | LedgerUnparsed | LedgerUnencoded | LedgerUnwritten

record tracker =
  tk_dir :: string
  tk_label :: string

definition trim_retained :: "'a list \<Rightarrow> 'a list" where
  "trim_retained xs = (if length xs \<le> max_retained then xs else drop (length xs - max_retained) xs)"

definition tracker_load :: "tracker \<Rightarrow> ledger_file \<Rightarrow> ledger_error + ledger" where
  "tracker_load tk f =
     (case f of
        NoLedger \<Rightarrow> Inr \<lparr>lg_schema = ledger_schema_version, lg_label = tk_label tk, lg_total_starts = 0,
                         lg_total_exits = 0, lg_starts = [], lg_exits = []\<rparr>
      | UnreadableLedger \<Rightarrow> Inl LedgerUnread
      | NotALedger \<Rightarrow> Inl LedgerUnparsed
      | Holds l \<Rightarrow> Inr (if lg_label l = [] then l\<lparr>lg_label := tk_label tk\<rparr> else l))"

definition encodable_time :: "int \<Rightarrow> bool" where
  "encodable_time t = (case civil (t div second_ns div 86400) of (y, m, d) \<Rightarrow> 0 \<le> y \<and> y \<le> 9999)"

definition encodable :: "ledger \<Rightarrow> bool" where
  "encodable l \<longleftrightarrow> list_all (\<lambda>s. encodable_time (st_at s)) (lg_starts l)
     \<and> list_all (\<lambda>e. encodable_time (ex_at e)) (lg_exits l)"

definition encoded :: "ledger \<Rightarrow> ledger" where
  "encoded l = l\<lparr>lg_label := utf8_coerce (lg_label l),
                 lg_starts := map (\<lambda>s. s\<lparr>st_reason := utf8_coerce (st_reason s)\<rparr>) (lg_starts l),
                 lg_exits := map (\<lambda>e. e\<lparr>ex_detail := utf8_coerce (ex_detail e)\<rparr>) (lg_exits l)\<rparr>"

text \<open>Whether the directory can be created and the file replaced is the caller's \<open>wr\<close>.\<close>

definition mutate :: "tracker \<Rightarrow> bool \<Rightarrow> (ledger \<Rightarrow> ledger) \<Rightarrow> ledger_file
    \<Rightarrow> (ledger_error + ledger) \<times> ledger_file" where
  "mutate tk wr fn f =
     (if tk_dir tk = [] \<or> tk_label tk = [] then (Inl TrackerUnnamed, f)
      else (case tracker_load tk f of
              Inl err \<Rightarrow> (Inl err, f)
            | Inr l0 \<Rightarrow>
                (let l1 = fn (l0\<lparr>lg_schema := ledger_schema_version, lg_label := tk_label tk\<rparr>);
                     l = l1\<lparr>lg_starts := sort_key st_at (lg_starts l1), lg_exits := sort_key ex_at (lg_exits l1)\<rparr>
                 in if \<not> encodable l then (Inl LedgerUnencoded, f)
                    else if \<not> wr then (Inl LedgerUnwritten, f)
                    else (Inr l, Holds (encoded l)))))"

definition record_start :: "tracker \<Rightarrow> bool \<Rightarrow> int \<Rightarrow> int \<Rightarrow> string \<Rightarrow> ledger_file
    \<Rightarrow> (ledger_error + ledger) \<times> ledger_file" where
  "record_start tk wr now pid reason =
     mutate tk wr (\<lambda>l. l\<lparr>lg_total_starts := lg_total_starts l + 1,
                         lg_starts := trim_retained (lg_starts l @ [\<lparr>st_at = now, st_pid = pid, st_reason = reason\<rparr>])\<rparr>)"

definition record_exit :: "tracker \<Rightarrow> bool \<Rightarrow> int \<Rightarrow> int \<Rightarrow> string \<Rightarrow> ledger_file
    \<Rightarrow> (ledger_error + ledger) \<times> ledger_file" where
  "record_exit tk wr now code detail =
     mutate tk wr (\<lambda>l. l\<lparr>lg_total_exits := lg_total_exits l + 1,
                         lg_exits := trim_retained (lg_exits l @ [\<lparr>ex_at = now, ex_code = code, ex_detail = detail\<rparr>])\<rparr>)"

text \<open>A file that cannot be removed stays.\<close>

definition tracker_reset :: "bool \<Rightarrow> ledger_file \<Rightarrow> bool \<times> ledger_file" where
  "tracker_reset removable f = (if f = NoLedger \<or> removable then (True, NoLedger) else (False, f))"

section \<open>Liveness\<close>

datatype liveness = LiveUnknown string | Dead string | Alive string

text \<open>What signal 0 answered, or that the process could not be looked up.\<close>

datatype signal_answer = NotFound | SignalOk | NoProcess | NotPermitted | SignalFault string

definition process_probe :: "(int \<Rightarrow> signal_answer) \<Rightarrow> ledger \<Rightarrow> liveness" where
  "process_probe sig l =
     (case last_start l of
        None \<Rightarrow> Dead ''never started''
      | Some s \<Rightarrow>
          (let rest =
             (if st_pid s \<le> 0 then LiveUnknown ''the last start recorded no pid''
              else (let pid = ''pid '' @ show_int (st_pid s) in
                case sig (st_pid s) of
                  NotFound \<Rightarrow> Dead (pid @ '' is gone'')
                | SignalOk \<Rightarrow> Alive (pid @ '' is alive'')
                | NoProcess \<Rightarrow> Dead (pid @ '' is gone and recorded no exit (killed)'')
                | NotPermitted \<Rightarrow> LiveUnknown (pid @ '' is not ours (reused?)'')
                | SignalFault msg \<Rightarrow> LiveUnknown (pid @ '': '' @ msg)))
           in case last_exit l of
                None \<Rightarrow> rest
              | Some e \<Rightarrow>
                  if st_at s < ex_at e
                  then Dead (''exited with code '' @ show_int (ex_code e) @ '' at '' @ rfc3339 (ex_at e))
                  else rest))"

text \<open>\<open>Observe\<close>: the tracker's ledger and what the probe, by default the one above, says of it.\<close>

definition observe_unit :: "tracker \<Rightarrow> (int \<Rightarrow> signal_answer) \<Rightarrow> (ledger \<Rightarrow> liveness) option \<Rightarrow> ledger_file
    \<Rightarrow> ledger_error + ledger \<times> liveness" where
  "observe_unit tk sig probe f =
     (case tracker_load tk f of
        Inl err \<Rightarrow> Inl err
      | Inr l \<Rightarrow> Inr (l, (case probe of None \<Rightarrow> process_probe sig l | Some p \<Rightarrow> p l)))"

section \<open>The ledger against the history\<close>

text \<open>
  The history is the list of the recorded starts and exits. A ledger shows it when its totals are
  exact and its entries are the last ones of each kind.
\<close>

datatype unit_event = Started int int | Exited int int

fun started_of :: "unit_event list \<Rightarrow> (int \<times> int) list" where
  "started_of [] = []"
| "started_of (Started t p # h) = (t, p) # started_of h"
| "started_of (Exited t c # h) = started_of h"

fun exited_of :: "unit_event list \<Rightarrow> (int \<times> int) list" where
  "exited_of [] = []"
| "exited_of (Started t p # h) = exited_of h"
| "exited_of (Exited t c # h) = (t, c) # exited_of h"

definition last_n :: "nat \<Rightarrow> 'a list \<Rightarrow> 'a list" where
  "last_n n xs = drop (length xs - n) xs"

definition shows_history :: "unit_event list \<Rightarrow> ledger \<Rightarrow> bool" where
  "shows_history h l \<longleftrightarrow>
     lg_total_starts l = int (length (started_of h)) \<and> lg_total_exits l = int (length (exited_of h))
     \<and> map (\<lambda>s. (st_at s, st_pid s)) (lg_starts l) = last_n max_retained (started_of h)
     \<and> map (\<lambda>e. (ex_at e, ex_code e)) (lg_exits l) = last_n max_retained (exited_of h)"

text \<open>A clock that does not run backwards between two entries of one kind.\<close>

definition clock_forward :: "unit_event list \<Rightarrow> bool" where
  "clock_forward h \<longleftrightarrow> sorted (map fst (started_of h)) \<and> sorted (map fst (exited_of h))"

text \<open>
  The calls a supervised unit makes, each with its text and whether its write succeeds; the history
  gains an event where the call returned a ledger.
\<close>

type_synonym unit_call = "unit_event \<times> string \<times> bool"

fun unit_call :: "tracker \<Rightarrow> unit_call \<Rightarrow> ledger_file \<Rightarrow> (ledger_error + ledger) \<times> ledger_file" where
  "unit_call tk (Started t p, msg, wr) f = record_start tk wr t p msg f"
| "unit_call tk (Exited t c, msg, wr) f = record_exit tk wr t c msg f"

fun run_unit :: "tracker \<Rightarrow> unit_call list \<Rightarrow> unit_event list \<times> ledger_file \<Rightarrow> unit_event list \<times> ledger_file" where
  "run_unit tk [] w = w"
| "run_unit tk (c # cs) (h, f) =
     (case unit_call tk c f of
        (Inl err, f') \<Rightarrow> run_unit tk cs (h, f')
      | (Inr l, f') \<Rightarrow> run_unit tk cs (h @ [fst c], f'))"

end
