(* ===== verification/Go_Path.thy ===== *)
theory Go_Path
  imports Go_Text
begin

text \<open>
  Slash-separated paths as \<open>path/filepath\<close> treats them on the machines the agent runs on: the cleaned
  form, joining, the last element and the parent.
\<close>

definition slash :: char where "slash = CHR ''/''"

definition is_abs :: "string \<Rightarrow> bool" where
  "is_abs p = has_prefix p ''/''"

text \<open>
  \<open>Clean\<close> keeps a stack of elements: empty ones and dots are dropped, two dots take back the element
  before them; at the root of an absolute path they are dropped as well.
\<close>

fun clean_stack :: "bool \<Rightarrow> string list \<Rightarrow> string list \<Rightarrow> string list" where
  "clean_stack rooted st [] = rev st"
| "clean_stack rooted st (e # es) =
     (if e = [] \<or> e = ''.'' then clean_stack rooted st es
      else if e = ''..'' then
        (case st of
           [] \<Rightarrow> clean_stack rooted (if rooted then [] else [e]) es
         | s # st' \<Rightarrow> if s = ''..'' then clean_stack rooted (e # st) es else clean_stack rooted st' es)
      else clean_stack rooted (e # st) es)"

definition path_text :: "bool \<Rightarrow> string list \<Rightarrow> string" where
  "path_text rooted es =
     (if rooted then CHR ''/'' # str_join ''/'' es else if es = [] then ''.'' else str_join ''/'' es)"

definition path_clean :: "string \<Rightarrow> string" where
  "path_clean p = path_text (is_abs p) (clean_stack (is_abs p) [] (split_on slash p))"

fun path_join :: "string list \<Rightarrow> string" where
  "path_join [] = []"
| "path_join (e # es) = (if e = [] then path_join es else path_clean (str_join ''/'' (e # es)))"

definition path_base :: "string \<Rightarrow> string" where
  "path_base p =
     (if p = [] then ''.''
      else (let q = rev (dropWhile (\<lambda>c. c = slash) (rev p));
                b = rev (takeWhile (\<lambda>c. c \<noteq> slash) (rev q))
            in if b = [] then ''/'' else b))"

definition path_dir :: "string \<Rightarrow> string" where
  "path_dir p = path_clean (rev (dropWhile (\<lambda>c. c \<noteq> slash) (rev p)))"

lemma path_examples:
  "path_clean ''/a//b/../c/.'' = ''/a/c''" "path_clean [] = ''.''" "path_clean ''../../x'' = ''../../x''"
  "path_clean ''/..'' = ''/''" "path_join [''/u/d'', ''.codex''] = ''/u/d/.codex''" "path_join [[], ''a'', [], ''b''] = ''a/b''"
  "path_dir ''/u/d/x'' = ''/u/d''" "path_dir ''/'' = ''/''" "path_dir ''x'' = ''.''" "path_base ''/u/x/'' = ''x''"
  by code_simp+

end
