(* ===== verification/Supervise.thy ===== *)
theory Supervise
  imports Go_Path Ledger
begin

text \<open>
  \<open>internal/agent/supervise/supervise.go\<close> and its templates: the supervision unit of a long-running
  process, its checks, its text for launchd and systemd, and the installer with the commands that
  activate, stop and start it; and the supervisor probe of \<open>liveness.go\<close>. What a command run through
  the injected runner answers is a parameter.
\<close>

section \<open>Units\<close>

definition launchd :: string where "launchd = ''launchd''"
definition systemd :: string where "systemd = ''systemd''"

definition detect_platform :: "string \<Rightarrow> string \<Rightarrow> string option" where
  "detect_platform runtime_os goos =
     (let os = (if goos = [] then runtime_os else goos) in
      if os = ''darwin'' then Some launchd else if os = ''linux'' then Some systemd else None)"

record unit_spec =
  un_label :: string
  un_description :: string
  un_program :: string
  un_args :: "string list"
  un_env :: "(string \<times> string) list"
  un_workdir :: string
  un_stdout :: string
  un_stderr :: string
  un_keep_alive :: bool
  un_run_at_load :: bool
  un_throttle :: int

definition default_throttle_seconds :: int where "default_throttle_seconds = 10"

definition newline :: char where "newline = CHR 0x0A"
definition tab :: char where "tab = CHR 0x09"
definition creturn :: char where "creturn = CHR 0x0D"

datatype unit_error = LabelMissing | LabelUnsafe string | ProgramMissing | ProgramRelative string
  | ArgNewline string | EnvKeyInvalid string | EnvNewline string | UnsupportedPlatform string
  | SecretInUnit | DirMissing | UnitUnwritten | UnitUnremoved

fun env_error :: "(string \<times> string) list \<Rightarrow> unit_error option" where
  "env_error [] = None"
| "env_error ((k, v) # env) =
     (if trim_space k = [] \<or> contains_any k (CHR ''='' # [newline, creturn]) then Some (EnvKeyInvalid k)
      else if contains_any v [newline, creturn] then Some (EnvNewline k)
      else env_error env)"

text \<open>The environment is a Go map: its pairs are checked in the order the iteration yields them.\<close>

definition unit_validate :: "unit_spec \<Rightarrow> unit_error option" where
  "unit_validate u =
     (if trim_space (un_label u) = [] then Some LabelMissing
      else if contains_any (un_label u) (CHR '' '' # tab # newline # ''/'') then Some (LabelUnsafe (un_label u))
      else if trim_space (un_program u) = [] then Some ProgramMissing
      else if \<not> is_abs (un_program u) then Some (ProgramRelative (un_program u))
      else (case List.find (\<lambda>a. contains_any a [newline, creturn]) (un_args u) of
              Some a \<Rightarrow> Some (ArgNewline a)
            | None \<Rightarrow> env_error (un_env u)))"

definition assert_no_secrets :: "unit_spec \<Rightarrow> string list \<Rightarrow> bool" where
  "assert_no_secrets u secrets \<longleftrightarrow>
     (let fs = [un_program u, un_workdir u, un_stdout u, un_stderr u] @ un_args u
                 @ concat (map (\<lambda>(k, v). [k, v]) (un_env u))
      in list_all (\<lambda>s. trim_space s = [] \<or> \<not> list_ex (\<lambda>f. str_contains f s) fs) secrets)"

definition replace_char :: "char \<Rightarrow> string \<Rightarrow> string \<Rightarrow> string" where
  "replace_char c r s = concat (map (\<lambda>x. if x = c then r else [x]) s)"

definition service_name :: "string \<Rightarrow> string" where
  "service_name label =
     (let name = (if has_prefix label ''com.'' then drop 4 label else label)
      in replace_char (CHR ''.'') ''-'' name @ ''.service'')"

definition file_name :: "unit_spec \<Rightarrow> string \<Rightarrow> unit_error + string" where
  "file_name u p =
     (if p = launchd then Inr (un_label u @ ''.plist'')
      else if p = systemd then Inr (service_name (un_label u))
      else Inl (UnsupportedPlatform p))"

section \<open>Escaping\<close>

definition xml_char :: "char \<Rightarrow> string" where
  "xml_char c =
     (if c = CHR ''&'' then ''&amp;'' else if c = CHR ''<'' then ''&lt;'' else if c = CHR ''>'' then ''&gt;''
      else if c = CHR 0x22 then ''&quot;'' else if c = CHR 0x27 then ''&apos;'' else [c])"

definition xml_escape :: "string \<Rightarrow> string" where
  "xml_escape s = concat (map xml_char s)"

definition single_quote :: char where "single_quote = CHR 0x27"
definition double_quote :: char where "double_quote = CHR 0x22"
definition back_slash :: char where "back_slash = CHR 0x5C"

definition shell_quote :: "string \<Rightarrow> string" where
  "shell_quote s =
     (if s \<noteq> [] \<and> \<not> contains_any s (CHR '' '' # tab # single_quote # double_quote # back_slash # ''$'') then s
      else [single_quote] @ replace_char single_quote [single_quote, back_slash, single_quote, single_quote] s @ [single_quote])"

definition env_quote :: "string \<Rightarrow> string" where
  "env_quote s = [double_quote] @ replace_char double_quote [back_slash, double_quote] s @ [double_quote]"

section \<open>Rendering\<close>

text \<open>Each template as the list of the lines it writes; a map is ranged over in the order of its keys.\<close>

definition unlines :: "string list \<Rightarrow> string" where
  "unlines ls = concat (map (\<lambda>l. l @ [newline]) ls)"

definition sorted_env :: "unit_spec \<Rightarrow> (string \<times> string) list" where
  "sorted_env u = map (\<lambda>k. (k, the (map_of (un_env u) k))) (sort_strings (map fst (un_env u)))"

definition only_if :: "bool \<Rightarrow> 'a list \<Rightarrow> 'a list" where
  "only_if b xs = (if b then xs else [])"

definition xml_key :: "string \<Rightarrow> string" where
  "xml_key k = tab # ''<key>'' @ k @ ''</key>''"

definition xml_string :: "string \<Rightarrow> string" where
  "xml_string s = tab # ''<string>'' @ xml_escape s @ ''</string>''"

definition xml_bool :: "bool \<Rightarrow> string" where
  "xml_bool b = tab # (if b then ''<true/>'' else ''<false/>'')"

definition xml_version :: string where
  "xml_version = ''<?xml version='' @ [double_quote] @ ''1.0'' @ [double_quote] @ '' encoding='' @ [double_quote] @ ''UTF-8''
     @ [double_quote] @ ''?>''"

definition plist_doctype :: string where
  "plist_doctype = ''<!DOCTYPE plist PUBLIC '' @ [double_quote] @ ''-//Apple//DTD PLIST 1.0//EN'' @ [double_quote] @ '' ''
     @ [double_quote] @ ''http://www.apple.com/DTDs/PropertyList-1.0.dtd'' @ [double_quote] @ ''>''"

definition launchd_lines :: "unit_spec \<Rightarrow> string list" where
  "launchd_lines u =
     [xml_version, plist_doctype,
      ''<!-- Generated by homeplane-agent. Do not edit: re-render from internal/agent/supervise. -->'',
      ''<plist version='' @ [double_quote] @ ''1.0'' @ [double_quote] @ ''>'', ''<dict>'',
      xml_key ''Label'', xml_string (un_label u), xml_key ''ProgramArguments'', tab # ''<array>'']
     @ map (\<lambda>a. tab # xml_string a) (un_program u # un_args u)
     @ [tab # ''</array>'']
     @ only_if (un_env u \<noteq> [])
         ([xml_key ''EnvironmentVariables'', tab # ''<dict>'']
          @ concat (map (\<lambda>(k, v). [tab # xml_key (xml_escape k), tab # xml_string v]) (sorted_env u))
          @ [tab # ''</dict>''])
     @ only_if (un_workdir u \<noteq> []) [xml_key ''WorkingDirectory'', xml_string (un_workdir u)]
     @ [xml_key ''RunAtLoad'', xml_bool (un_run_at_load u), xml_key ''KeepAlive'', xml_bool (un_keep_alive u),
        xml_key ''ThrottleInterval'', tab # ''<integer>'' @ show_int (un_throttle u) @ ''</integer>'',
        xml_key ''ProcessType'', tab # ''<string>Background</string>'']
     @ only_if (un_stdout u \<noteq> []) [xml_key ''StandardOutPath'', xml_string (un_stdout u)]
     @ only_if (un_stderr u \<noteq> []) [xml_key ''StandardErrorPath'', xml_string (un_stderr u)]
     @ [''</dict>'', ''</plist>'']"

definition systemd_lines :: "unit_spec \<Rightarrow> string list" where
  "systemd_lines u =
     [''# Generated by homeplane-agent. Do not edit: re-render from internal/agent/supervise.'', ''[Unit]'',
      ''Description='' @ un_description u, ''StartLimitIntervalSec=0'', [], ''[Service]'', ''Type=simple'',
      ''ExecStart='' @ str_join '' '' (map shell_quote (un_program u # un_args u))]
     @ only_if (un_workdir u \<noteq> []) [''WorkingDirectory='' @ un_workdir u]
     @ map (\<lambda>(k, v). ''Environment='' @ env_quote (k @ ''='' @ v)) (sorted_env u)
     @ [''Restart='' @ (if un_keep_alive u then ''always'' else ''on-failure''), ''RestartSec='' @ show_int (un_throttle u)]
     @ only_if (un_stdout u \<noteq> []) [''StandardOutput=append:'' @ un_stdout u]
     @ only_if (un_stderr u \<noteq> []) [''StandardError=append:'' @ un_stderr u]
     @ [[], ''[Install]'', ''WantedBy=default.target'']"

definition unit_view :: "unit_spec \<Rightarrow> unit_spec" where
  "unit_view u = u\<lparr>un_throttle := (if un_throttle u \<le> 0 then default_throttle_seconds else un_throttle u),
                   un_description := (if un_description u = [] then un_label u else un_description u)\<rparr>"

definition unit_render :: "unit_spec \<Rightarrow> string \<Rightarrow> unit_error + string" where
  "unit_render u p =
     (case unit_validate u of
        Some err \<Rightarrow> Inl err
      | None \<Rightarrow>
          if p = launchd then Inr (unlines (launchd_lines (unit_view u)))
          else if p = systemd then Inr (unlines (systemd_lines (unit_view u)))
          else Inl (UnsupportedPlatform p))"

section \<open>The installer\<close>

text \<open>A command line's runner answers whether the command succeeded; the world it runs in is threaded.\<close>

type_synonym 'w runner = "string \<Rightarrow> string list \<Rightarrow> 'w \<Rightarrow> bool \<times> 'w"

record 'w installer =
  in_platform :: string
  in_dir :: string
  in_runner :: "'w runner option"

definition unit_path :: "('w, 'm) installer_scheme \<Rightarrow> unit_spec \<Rightarrow> unit_error + string" where
  "unit_path i u =
     (case file_name u (in_platform i) of
        Inl err \<Rightarrow> Inl err
      | Inr name \<Rightarrow> if trim_space (in_dir i) = [] then Inl DirMissing else Inr (path_join [in_dir i, name]))"

text \<open>The unit files by path; \<open>wr\<close> says whether the file can be replaced.\<close>

type_synonym unit_files = "(string \<times> string) list"

definition install :: "('w, 'm) installer_scheme \<Rightarrow> bool \<Rightarrow> unit_spec \<Rightarrow> string list \<Rightarrow> unit_files
    \<Rightarrow> (unit_error + string) \<times> unit_files" where
  "install i wr u secrets fs =
     (if \<not> assert_no_secrets u secrets then (Inl SecretInUnit, fs)
      else (case unit_render u (in_platform i) of
              Inl err \<Rightarrow> (Inl err, fs)
            | Inr body \<Rightarrow>
                (case unit_path i u of
                   Inl err \<Rightarrow> (Inl err, fs)
                 | Inr path \<Rightarrow> if wr then (Inr path, assoc_set path body fs) else (Inl UnitUnwritten, fs))))"

definition uninstall :: "('w, 'm) installer_scheme \<Rightarrow> bool \<Rightarrow> unit_spec \<Rightarrow> unit_files \<Rightarrow> unit_error option \<times> unit_files" where
  "uninstall i wr u fs =
     (case unit_path i u of
        Inl err \<Rightarrow> (Some err, fs)
      | Inr path \<Rightarrow>
          if map_of fs path = None then (None, fs)
          else if wr then (None, assoc_del path fs) else (Some UnitUnremoved, fs))"

record command =
  cm_name :: string
  cm_args :: "string list"
  cm_optional :: bool

definition cmd :: "string \<Rightarrow> string list \<Rightarrow> command" where
  "cmd n args = \<lparr>cm_name = n, cm_args = args, cm_optional = False\<rparr>"

definition optional_cmd :: "string \<Rightarrow> string list \<Rightarrow> command" where
  "optional_cmd n args = \<lparr>cm_name = n, cm_args = args, cm_optional = True\<rparr>"

definition gui_target :: "string \<Rightarrow> string" where "gui_target uid = ''gui/'' @ uid"

text \<open>The commands of a purpose: for launchd, of the unit's path and label; for systemd, of its service.\<close>

definition platform_commands :: "('w, 'm) installer_scheme \<Rightarrow> unit_spec \<Rightarrow> (string \<Rightarrow> command list) \<Rightarrow> command list
    \<Rightarrow> unit_error + command list" where
  "platform_commands i u on_launchd on_systemd =
     (case unit_path i u of
        Inl err \<Rightarrow> Inl err
      | Inr path \<Rightarrow>
          if in_platform i = launchd then Inr (on_launchd path)
          else if in_platform i = systemd then Inr on_systemd
          else Inl (UnsupportedPlatform (in_platform i)))"

definition activation_commands :: "('w, 'm) installer_scheme \<Rightarrow> unit_spec \<Rightarrow> string \<Rightarrow> unit_error + command list" where
  "activation_commands i u uid =
     (let target = gui_target uid; job = target @ ''/'' @ un_label u in
      platform_commands i u
        (\<lambda>path. [optional_cmd ''launchctl'' [''bootout'', job], cmd ''launchctl'' [''bootstrap'', target, path],
                 cmd ''launchctl'' [''enable'', job], cmd ''launchctl'' [''kickstart'', ''-k'', job]])
        [cmd ''loginctl'' [''enable-linger''], cmd ''systemctl'' [''--user'', ''daemon-reload''],
         cmd ''systemctl'' [''--user'', ''enable'', ''--now'', service_name (un_label u)]])"

definition loaded_command :: "('w, 'm) installer_scheme \<Rightarrow> unit_spec \<Rightarrow> string \<Rightarrow> unit_error + command" where
  "loaded_command i u uid =
     (if in_platform i = launchd then Inr (cmd ''launchctl'' [''print'', gui_target uid @ ''/'' @ un_label u])
      else if in_platform i = systemd then Inr (cmd ''systemctl'' [''--user'', ''is-active'', service_name (un_label u)])
      else Inl (UnsupportedPlatform (in_platform i)))"

definition is_loaded :: "('w, 'm) installer_scheme \<Rightarrow> unit_spec \<Rightarrow> string \<Rightarrow> 'w \<Rightarrow> bool \<times> 'w" where
  "is_loaded i u uid w =
     (case in_runner i of
        None \<Rightarrow> (False, w)
      | Some run \<Rightarrow> (case loaded_command i u uid of Inl err \<Rightarrow> (False, w) | Inr c \<Rightarrow> run (cm_name c) (cm_args c) w))"

definition stop_commands :: "('w, 'm) installer_scheme \<Rightarrow> unit_spec \<Rightarrow> string \<Rightarrow> unit_error + command list" where
  "stop_commands i u uid =
     platform_commands i u (\<lambda>path. [cmd ''launchctl'' [''bootout'', gui_target uid, path]])
       [cmd ''systemctl'' [''--user'', ''stop'', service_name (un_label u)]]"

definition start_commands :: "('w, 'm) installer_scheme \<Rightarrow> unit_spec \<Rightarrow> string \<Rightarrow> unit_error + command list" where
  "start_commands i u uid =
     (let target = gui_target uid; job = target @ ''/'' @ un_label u in
      platform_commands i u
        (\<lambda>path. [optional_cmd ''launchctl'' [''bootout'', job], cmd ''launchctl'' [''bootstrap'', target, path],
                 cmd ''launchctl'' [''kickstart'', ''-k'', job]])
        [cmd ''systemctl'' [''--user'', ''start'', service_name (un_label u)]])"

definition deactivation_commands :: "('w, 'm) installer_scheme \<Rightarrow> unit_spec \<Rightarrow> string \<Rightarrow> unit_error + command list" where
  "deactivation_commands i u uid =
     platform_commands i u (\<lambda>path. [cmd ''launchctl'' [''bootout'', gui_target uid, path]])
       [cmd ''systemctl'' [''--user'', ''disable'', ''--now'', service_name (un_label u)]]"

text \<open>The first command that fails and is not optional stops the sequence and is its error.\<close>

fun run_sequence :: "'w runner \<Rightarrow> command list \<Rightarrow> 'w \<Rightarrow> command option \<times> 'w" where
  "run_sequence run [] w = (None, w)"
| "run_sequence run (c # cs) w =
     (case run (cm_name c) (cm_args c) w of
        (ok, w') \<Rightarrow> if ok \<or> cm_optional c then run_sequence run cs w' else (Some c, w'))"

definition run_commands :: "('w, 'm) installer_scheme \<Rightarrow> command list \<Rightarrow> 'w \<Rightarrow> command option \<times> 'w" where
  "run_commands i cs w = (case in_runner i of None \<Rightarrow> (None, w) | Some run \<Rightarrow> run_sequence run cs w)"

definition activate_unit :: "('w, 'm) installer_scheme \<Rightarrow> unit_spec \<Rightarrow> string \<Rightarrow> 'w
    \<Rightarrow> (unit_error + command list \<times> command option) \<times> 'w" where
  "activate_unit i u uid w =
     (case activation_commands i u uid of
        Inl err \<Rightarrow> (Inl err, w)
      | Inr cs \<Rightarrow> (case run_commands i cs w of (e, w') \<Rightarrow> (Inr (cs, e), w')))"

section \<open>Asking the supervisor\<close>

text \<open>The runner answers the output and whether the command failed.\<close>

definition supervisor_probe :: "string \<Rightarrow> string \<Rightarrow> (string \<Rightarrow> string list \<Rightarrow> string \<times> bool) option \<Rightarrow> ledger \<Rightarrow> liveness" where
  "supervisor_probe platform uid run l =
     (case run of
        None \<Rightarrow> LiveUnknown ''supervise: no liveness probe configured''
      | Some r \<Rightarrow>
          if platform = launchd then
            (case r ''launchctl'' [''print'', ''gui/'' @ uid @ ''/'' @ lg_label l] of (out, failed) \<Rightarrow>
               if failed then Dead (''launchd does not have '' @ lg_label l @ '' loaded'')
               else if str_contains out ''state = running'' then Alive ''launchd reports it running''
               else Dead ''launchd has it loaded but not running'')
          else if platform = systemd then
            (case r ''systemctl'' [''--user'', ''is-active'', service_name (lg_label l)] of (out, failed) \<Rightarrow>
               (let state = trim_space out in
                if failed \<and> state = [] then LiveUnknown ''systemctl could not be queried''
                else if state = ''active'' then Alive ''systemd reports it active''
                else Dead (''systemd reports it '' @ state)))
          else LiveUnknown (''supervise: unsupported supervision platform: '' @ platform))"

end
