(* ===== verification/Supervise_Props.thy ===== *)
theory Supervise_Props
  imports Supervise Go_Query
begin

text \<open>
  What the rendered units say: the arguments in a launchd unit read back exactly, and what a unit the
  checks accept can still put into a systemd unit.
\<close>

section \<open>Escaping and lines\<close>

text \<open>The five entities of XML read back.\<close>

function xml_unescape :: "string \<Rightarrow> string" where
  "xml_unescape s =
     (if s = [] then []
      else if has_prefix s ''&amp;'' then CHR ''&'' # xml_unescape (drop 5 s)
      else if has_prefix s ''&lt;'' then CHR ''<'' # xml_unescape (drop 4 s)
      else if has_prefix s ''&gt;'' then CHR ''>'' # xml_unescape (drop 4 s)
      else if has_prefix s ''&quot;'' then CHR 0x22 # xml_unescape (drop 6 s)
      else if has_prefix s ''&apos;'' then CHR 0x27 # xml_unescape (drop 6 s)
      else hd s # xml_unescape (tl s))"
  by pat_completeness auto
termination by (relation "measure length") auto

declare xml_unescape.simps [simp del]

lemma xml_unescape_Nil [simp]: "xml_unescape [] = []"
  by (simp add: xml_unescape.simps [of "[]"])

lemma xml_unescape_char: "xml_unescape (xml_char c @ s) = c # xml_unescape s"
  by (subst xml_unescape.simps) (simp add: xml_char_def has_prefix_def)

lemma xml_unescape_escape: "xml_unescape (xml_escape s) = s"
  by (induction s) (simp_all add: xml_escape_def xml_unescape_char)

lemma xml_escape_free: "c \<notin> set s \<Longrightarrow> c \<notin> set ''&;ampltgquos'' \<Longrightarrow> c \<notin> set (xml_escape s)"
  by (auto simp: xml_escape_def xml_char_def split: if_splits)

lemma unlines_append [simp]: "unlines (xs @ ys) = unlines xs @ unlines ys"
  by (simp add: unlines_def)

lemma split_unlines:
  assumes "\<forall>l \<in> set ls. newline \<notin> set l"
  shows "split_on newline (unlines ls @ s) = ls @ split_on newline s"
  using assms by (induction ls) (simp_all add: unlines_def split_on_append)

text \<open>A line between two newlines.\<close>

lemma split_on_inner_line:
  assumes "newline \<notin> set l"
  shows "l \<in> set (split_on newline (a @ newline # l @ newline # b))"
proof -
  have "l \<in> set (tl (split_on newline (a @ newline # l @ newline # b)))"
    using assms by (induction a) (auto simp: split_on_append split: list.splits)
  then show ?thesis by (meson list.set_sel(2) split_on_nonempty)
qed

section \<open>Reading a launchd unit back\<close>

text \<open>
  A reader of the program's arguments: the strings of the array after the key, one to a line.
\<close>

definition string_open :: string where "string_open = [tab, tab] @ ''<string>''"
definition string_close :: string where "string_close = ''</string>''"

definition read_string_line :: "string \<Rightarrow> string" where
  "read_string_line l = xml_unescape (drop (length string_open) (take (length l - length string_close) l))"

definition plist_arguments :: "string \<Rightarrow> string list" where
  "plist_arguments doc =
     map read_string_line
       (takeWhile (\<lambda>l. has_prefix l string_open)
         (drop 2 (dropWhile (\<lambda>l. l \<noteq> xml_key ''ProgramArguments'') (split_on newline doc))))"

lemma read_argument_line: "read_string_line (tab # xml_string a) = a"
  by (simp add: read_string_line_def xml_string_def string_open_def string_close_def xml_unescape_escape)

lemma argument_line_open: "has_prefix (tab # xml_string a) string_open"
  by (simp add: xml_string_def string_open_def has_prefix_def)

lemma argument_line_whole: "newline \<notin> set a \<Longrightarrow> newline \<notin> set (tab # xml_string a)"
  using xml_escape_free [of newline a] by (simp add: xml_string_def newline_def tab_def)

lemma contains_any_iff: "contains_any s cs \<longleftrightarrow> set s \<inter> set cs \<noteq> {}"
  by (auto simp: contains_any_def list_ex_iff)

lemma find_None: "List.find p xs = None \<longleftrightarrow> (\<forall>x \<in> set xs. \<not> p x)"
  by (auto simp: find_None_iff)

lemma unit_validateD:
  assumes "unit_validate u = None"
  shows "newline \<notin> set (un_label u)" "\<And>a. a \<in> set (un_args u) \<Longrightarrow> newline \<notin> set a" "is_abs (un_program u)"
  using assms by (auto simp: unit_validate_def contains_any_iff find_None split: if_splits option.splits)

definition plist_head :: "unit_spec \<Rightarrow> string list" where
  "plist_head u = take 7 (launchd_lines u)"

lemma launchd_lines_split:
  "\<exists>rest. launchd_lines u = plist_head u @ [xml_key ''ProgramArguments'', tab # ''<array>'']
     @ map (\<lambda>a. tab # xml_string a) (un_program u # un_args u) @ [tab # ''</array>''] @ rest"
  by (simp add: launchd_lines_def plist_head_def)

lemma plist_head_lines:
  assumes "newline \<notin> set (un_label u)"
  shows "\<forall>l \<in> set (plist_head u). newline \<notin> set l \<and> l \<noteq> xml_key ''ProgramArguments''"
proof -
  have "newline \<notin> set (xml_escape (un_label u))"
    using assms by (intro xml_escape_free) (simp_all add: newline_def)
  then show ?thesis
    by (simp add: plist_head_def launchd_lines_def xml_version_def plist_doctype_def xml_key_def xml_string_def
        newline_def tab_def double_quote_def)
qed


definition sample_unit :: unit_spec where
  "sample_unit = \<lparr>un_label = ''com.homeplane.vault-sync'', un_description = [], un_program = ''/opt/bin/homeplane-agent'',
     un_args = [''-state-dir'', ''/tmp/a&b<c> d''], un_env = [], un_workdir = ''/u/d'', un_stdout = [], un_stderr = [],
     un_keep_alive = True, un_run_at_load = True, un_throttle = 0\<rparr>"


section \<open>What the checks let through\<close>

text \<open>
  C37. The checks refuse a newline in the arguments and the environment, but not in the working
  directory: an accepted unit whose working directory holds a newline writes the text after it as a
  directive of its own into the systemd unit, a command to run before the start included.
\<close>

theorem unit_directive_injection:
  assumes "unit_validate u = None" "newline \<notin> set directive"
  shows "\<exists>doc. unit_render (u\<lparr>un_workdir := dir @ newline # directive\<rparr>) systemd = Inr doc
     \<and> directive \<in> set (split_on newline doc)"
proof -
  let ?u = "u\<lparr>un_workdir := dir @ newline # directive\<rparr>"
  have "unit_validate ?u = None" using assms(1) by (simp add: unit_validate_def cong: option.case_cong split: if_splits)
  then have r: "unit_render ?u systemd = Inr (unlines (systemd_lines (unit_view ?u)))"
    by (simp add: unit_render_def systemd_def launchd_def)
  have ls: "systemd_lines (unit_view ?u) = take 8 (systemd_lines (unit_view ?u))
      @ [''WorkingDirectory='' @ dir @ newline # directive] @ drop 9 (systemd_lines (unit_view ?u))"
    by (simp add: systemd_lines_def only_if_def unit_view_def)
  have "unlines (systemd_lines (unit_view ?u)) = (unlines (take 8 (systemd_lines (unit_view ?u))) @ ''WorkingDirectory='' @ dir)
      @ newline # directive @ newline # unlines (drop 9 (systemd_lines (unit_view ?u)))"
    by (subst ls) (simp add: unlines_def)
  then have "directive \<in> set (split_on newline (unlines (systemd_lines (unit_view ?u))))"
    by (simp only: split_on_inner_line [OF assms(2)])
  with r show ?thesis by blast
qed

lemma unit_directive_injection_witness:
  "\<exists>doc. unit_render (sample_unit\<lparr>un_workdir := ''/w'' @ newline # ''ExecStartPre=/tmp/x''\<rparr>) systemd = Inr doc
     \<and> ''ExecStartPre=/tmp/x'' \<in> set (split_on newline doc)"
proof -
  have "unit_validate sample_unit = None" "newline \<notin> set ''ExecStartPre=/tmp/x''" by code_simp+
  from unit_directive_injection [OF this, of "''/w''"] show ?thesis by simp
qed

text \<open>
  The check for secrets reads neither the label nor the description, and the systemd unit holds both.
\<close>

lemma description_secret_rendered:
  "assert_no_secrets (sample_unit\<lparr>un_description := ''key hunter2''\<rparr>) [''hunter2'']" (is ?a)
  "''Description=key hunter2'' \<in> set (systemd_lines (unit_view (sample_unit\<lparr>un_description := ''key hunter2''\<rparr>)))" (is ?b)
proof -
  show ?a by code_simp
  show ?b by (simp add: systemd_lines_def unit_view_def)
qed

text \<open>The closing quote of an environment line whose value ends in a backslash is escaped by that backslash.\<close>

lemma env_quote_backslash:
  "env_quote (''A=x'' @ [back_slash]) = [double_quote] @ ''A=x'' @ [back_slash, double_quote]"
  by code_simp

end
