(* ===== verification/Harness.thy ===== *)
theory Harness
  imports Supervise
begin

text \<open>
  \<open>internal/agent/harness/harness.go\<close>: the managed MCP server entry and its checks, the outcome of one
  harness and the report of a run; and the endpoint descriptor of \<open>internal/agent/gno/descriptor.go\<close>
  that the retrieval engine's entry is copied from.
\<close>

section \<open>Entries\<close>

definition claude_code :: string where "claude_code = ''claude-code''"
definition codex :: string where "codex = ''codex''"
definition known_harness_names :: "string list" where "known_harness_names = [claude_code, codex]"
definition connector_server_name :: string where "connector_server_name = ''homeplane''"
definition transport_http :: string where "transport_http = ''http''"
definition transport_stdio :: string where "transport_stdio = ''stdio''"

record mcp_entry =
  en_name :: string
  en_transport :: string
  en_url :: string
  en_headers :: "(string \<times> string) list"
  en_command :: string
  en_args :: "string list"
  en_env :: "(string \<times> string) list"

datatype harness_error = UnsafeServerName string | EntryNoUrl string | EntryHttpCommand string | EntryNoCommand string
  | EntryStdioUrl string | EntrySecretEnv string string | EntryTransport string string
  | MalformedConfig string | PreservationFailed string | RolledBack string | RollbackFailed string | ProjectScope string
  | HarnessIo string | KeptChanging

definition name_start :: "char \<Rightarrow> bool" where "name_start c = is_alnum c"
definition bare_key_byte :: "char \<Rightarrow> bool" where "bare_key_byte c \<longleftrightarrow> c = CHR ''-'' \<or> c = CHR ''_'' \<or> is_alnum c"

definition server_name_re :: "string \<Rightarrow> bool" where
  "server_name_re = matches_shape name_start bare_key_byte"

definition validate_server_name :: "string \<Rightarrow> harness_error option" where
  "validate_server_name n = (if server_name_re n then None else Some (UnsafeServerName n))"

text \<open>
  \<open>strings.ToUpper\<close> as far as a search for ASCII letters can tell: the two runes outside ASCII whose
  upper case is an ASCII letter are mapped, all others are kept.
\<close>

definition upper_rune :: "nat \<Rightarrow> nat" where
  "upper_rune r = (if 97 \<le> r \<and> r \<le> 122 then r - 32 else if r = 305 then 73 else if r = 383 then 83 else r)"

definition upper_text :: "string \<Rightarrow> string" where
  "upper_text s = concat (map (\<lambda>r. encode_rune (upper_rune r)) (runes s))"

definition looks_secret :: "string \<Rightarrow> bool" where
  "looks_secret key = list_ex (str_contains (upper_text key)) [''TOKEN'', ''SECRET'', ''PASSWORD'', ''CREDENTIAL'', ''BEARER'']"

text \<open>The environment is a Go map; which of several offending keys is named is the iteration's choice.\<close>

definition entry_validate :: "mcp_entry \<Rightarrow> harness_error option" where
  "entry_validate e =
     (if \<not> server_name_re (en_name e) then Some (UnsafeServerName (en_name e))
      else if en_transport e = transport_http then
        (if trim_space (en_url e) = [] then Some (EntryNoUrl (en_name e))
         else if en_command e \<noteq> [] \<or> en_args e \<noteq> [] then Some (EntryHttpCommand (en_name e))
         else None)
      else if en_transport e = transport_stdio then
        (if trim_space (en_command e) = [] then Some (EntryNoCommand (en_name e))
         else if trim_space (en_url e) \<noteq> [] then Some (EntryStdioUrl (en_name e))
         else (case List.find looks_secret (map fst (en_env e)) of
                 Some k \<Rightarrow> Some (EntrySecretEnv (en_name e) k)
               | None \<Rightarrow> None))
      else Some (EntryTransport (en_name e) (en_transport e)))"

definition redacted :: "mcp_entry \<Rightarrow> mcp_entry" where
  "redacted e = e\<lparr>en_headers := map (\<lambda>(k, v). (k, ''<redacted '' @ show_nat (length v) @ '' bytes>'')) (en_headers e)\<rparr>"

definition entry_text :: "mcp_entry \<Rightarrow> string" where
  "entry_text e =
     (let r = redacted e in
      if en_transport r = transport_http then en_name r @ '' (http '' @ en_url r @ '')''
      else en_name r @ '' (stdio '' @ en_command r @ '' '' @ str_join '' '' (en_args r) @ '')'')"

section \<open>The endpoint descriptor\<close>

record descriptor =
  ds_component :: string
  ds_transport :: string
  ds_command :: string
  ds_args :: "string list"
  ds_env :: "(string \<times> string) list"
  ds_server_name :: string

datatype descriptor_error = NoDescriptor | DescriptorUnread | DescriptorUnparsed | WrongComponent | WrongTransport
  | NoLaunchCommand | RelativeCommand | NoLaunchArgs | NoServerName | SecretEnvKey string | SecretArgument
  | EntryRefused harness_error

definition component_retrieval_engine :: string where "component_retrieval_engine = ''retrieval-engine''"

definition secretish_env_keys :: "string list" where
  "secretish_env_keys = [''TOKEN'', ''SECRET'', ''PASSWORD'', ''KEY'', ''CREDENTIAL'', ''AUTH'']"

definition descriptor_secrets :: "descriptor \<Rightarrow> descriptor_error option" where
  "descriptor_secrets d =
     (case List.find (\<lambda>k. list_ex (str_contains (upper_text k)) secretish_env_keys) (sort_strings (map fst (ds_env d))) of
        Some k \<Rightarrow> Some (SecretEnvKey k)
      | None \<Rightarrow>
          if list_ex (\<lambda>a. str_contains (upper_text a) ''--TOKEN'' \<or> str_contains (upper_text a) ''--PASSWORD'') (ds_args d)
          then Some SecretArgument else None)"

definition descriptor_validate :: "descriptor \<Rightarrow> descriptor_error option" where
  "descriptor_validate d =
     (if ds_component d \<noteq> component_retrieval_engine then Some WrongComponent
      else if ds_transport d \<noteq> transport_stdio then Some WrongTransport
      else if trim_space (ds_command d) = [] then Some NoLaunchCommand
      else if \<not> is_abs (ds_command d) then Some RelativeCommand
      else if ds_args d = [] then Some NoLaunchArgs
      else if trim_space (ds_server_name d) = [] then Some NoServerName
      else descriptor_secrets d)"

text \<open>The descriptor's file: absent, unreadable, not a descriptor, or a descriptor.\<close>

datatype descriptor_file = DescriptorAbsent | DescriptorUnreadable | NotADescriptor | DescriptorHolds descriptor

definition load_descriptor :: "descriptor_file \<Rightarrow> descriptor_error + descriptor" where
  "load_descriptor f =
     (case f of DescriptorAbsent \<Rightarrow> Inl NoDescriptor | DescriptorUnreadable \<Rightarrow> Inl DescriptorUnread
      | NotADescriptor \<Rightarrow> Inl DescriptorUnparsed | DescriptorHolds d \<Rightarrow> Inr d)"

definition entry_from_descriptor :: "descriptor \<Rightarrow> descriptor_error + mcp_entry" where
  "entry_from_descriptor d =
     (case descriptor_validate d of
        Some err \<Rightarrow> Inl err
      | None \<Rightarrow>
          if ds_transport d \<noteq> transport_stdio then Inl WrongTransport
          else (case validate_server_name (ds_server_name d) of
                  Some err \<Rightarrow> Inl (EntryRefused err)
                | None \<Rightarrow>
                    (let e = \<lparr>en_name = ds_server_name d, en_transport = transport_stdio, en_url = [], en_headers = [],
                              en_command = ds_command d, en_args = ds_args d, en_env = ds_env d\<rparr>
                     in case entry_validate e of Some err \<Rightarrow> Inl (EntryRefused err) | None \<Rightarrow> Inr e)))"

definition load_engine_entry :: "descriptor_file \<Rightarrow> descriptor_error + mcp_entry" where
  "load_engine_entry f = (case load_descriptor f of Inl err \<Rightarrow> Inl err | Inr d \<Rightarrow> entry_from_descriptor d)"

section \<open>Outcomes\<close>

datatype harness_status = StatusConfigured | StatusSkipped | StatusFailed | StatusUnset

text \<open>Why a run skipped or failed a harness, in place of the operator's text.\<close>

datatype outcome_reason = NoReason | NotInstalled string | DetectFailed harness_error | RecordUnread | UntouchedMalformed harness_error
  | UntouchedNoBackup | PreflightFailed harness_error | GrantRefused | GrantIncomplete | EngineInactive
  | ApplyFailed harness_error | RecordUnwritten | NoWriter

record harness_outcome =
  oc_harness :: string
  oc_status :: harness_status
  oc_installed :: bool
  oc_config_path :: string
  oc_backup_path :: string
  oc_managed :: "string list"
  oc_retired :: "string list"
  oc_grant_id :: string
  oc_superseded :: string
  oc_endpoint :: string
  oc_capabilities :: "string list"
  oc_reason :: outcome_reason
  oc_changed :: bool
  oc_at :: int

definition degraded :: "harness_outcome list \<Rightarrow> string list" where
  "degraded os = sort_strings (map oc_harness
     (filter (\<lambda>x. oc_installed x \<and> (oc_status x = StatusFailed \<or> oc_status x = StatusSkipped)) os))"

definition configured_names :: "harness_outcome list \<Rightarrow> string list" where
  "configured_names os = sort_strings (map oc_harness (filter (\<lambda>x. oc_status x = StatusConfigured) os))"

definition report_failures :: "harness_outcome list \<Rightarrow> (string \<times> outcome_reason) list" where
  "report_failures os = map (\<lambda>x. (oc_harness x, oc_reason x)) (filter (\<lambda>x. oc_status x = StatusFailed) os)"

end
