(* ===== verification/Harness_Detect.thy ===== *)
theory Harness_Detect
  imports Harness
begin

text \<open>
  \<open>internal/agent/harness/detect.go\<close>: where a harness keeps its user configuration, whether it is
  installed, and the check that keeps a grant token out of a file git can share. What the file system,
  \<open>git check-ignore\<close> and the lookup of an executable answer is a parameter.
\<close>

section \<open>The machine\<close>

datatype stat_answer = StatFile | StatDir | StatMissing | StatFault

record machine_view =
  mv_stat :: "string \<Rightarrow> stat_answer"
  mv_git_entry :: "string \<Rightarrow> bool"
  mv_symlinks :: "string \<Rightarrow> string option"
  mv_git_ignores :: "string \<Rightarrow> string \<Rightarrow> bool"
  mv_env :: "string \<Rightarrow> string"
  mv_home :: "string option"

record locator =
  lo_home :: string
  lo_codex_home :: string
  lo_claude_dir :: string
  lo_look_path :: "string \<Rightarrow> string option"

section \<open>Paths\<close>

definition env_codex_home :: string where "env_codex_home = ''CODEX_HOME''"
definition env_claude_config_dir :: string where "env_claude_config_dir = ''CLAUDE_CONFIG_DIR''"

definition locator_home :: "machine_view \<Rightarrow> locator \<Rightarrow> string option" where
  "locator_home mv l = (if lo_home l \<noteq> [] then Some (lo_home l) else mv_home mv)"

definition config_dir :: "machine_view \<Rightarrow> string \<Rightarrow> string \<Rightarrow> string option \<Rightarrow> string option" where
  "config_dir mv own env fallback =
     (let a = trim_space own; b = trim_space (mv_env mv env) in
      if a \<noteq> [] then Some a else if b \<noteq> [] then Some b else fallback)"

definition claude_config_path :: "machine_view \<Rightarrow> locator \<Rightarrow> string option" where
  "claude_config_path mv l =
     map_option (\<lambda>dir. path_join [dir, ''.claude.json''])
       (config_dir mv (lo_claude_dir l) env_claude_config_dir (locator_home mv l))"

definition codex_config_path :: "machine_view \<Rightarrow> locator \<Rightarrow> string option" where
  "codex_config_path mv l =
     map_option (\<lambda>dir. path_join [dir, ''config.toml''])
       (config_dir mv (lo_codex_home l) env_codex_home
         (map_option (\<lambda>h. path_join [h, ''.codex'']) (locator_home mv l)))"

section \<open>User scope\<close>

definition project_scoped_names :: "string list" where
  "project_scoped_names = [''.mcp.json'', ''mcp.json'']"

text \<open>The first answer going up, the last one at the root; \<open>None\<close> when the walk does not end.\<close>

partial_function (option) walk_up :: "(string \<Rightarrow> 'a option) \<Rightarrow> 'a \<Rightarrow> string \<Rightarrow> 'a option" where
  "walk_up ask at_root cur =
     (case ask cur of
        Some a \<Rightarrow> Some a
      | None \<Rightarrow> (let parent = path_dir cur in if parent = cur then Some at_root else walk_up ask at_root parent))"

declare walk_up.simps [code]

text \<open>\<open>filepath.Rel\<close> by elements: the part of the base that differs is climbed.\<close>

fun drop_common :: "string list \<Rightarrow> string list \<Rightarrow> string list \<times> string list" where
  "drop_common (x # xs) (y # ys) = (if x = y then drop_common xs ys else (x # xs, y # ys))"
| "drop_common xs ys = (xs, ys)"

definition path_elems :: "string \<Rightarrow> string list" where
  "path_elems p = (if path_clean p = ''.'' then [] else filter (\<lambda>e. e \<noteq> []) (split_on slash (path_clean p)))"

definition path_rel :: "string \<Rightarrow> string \<Rightarrow> string option" where
  "path_rel base targ =
     (if path_clean base = path_clean targ then Some ''.''
      else if is_abs (path_clean base) \<noteq> is_abs (path_clean targ) then None
      else (case drop_common (path_elems base) (path_elems targ) of (b, t) \<Rightarrow>
        if b \<noteq> [] \<and> hd b = ''..'' then None
        else Some (str_join ''/'' (replicate (length b) ''..'' @ t))))"

definition resolve_existing :: "machine_view \<Rightarrow> string \<Rightarrow> string option" where
  "resolve_existing mv path =
     (let cleaned = path_clean path in
      walk_up (\<lambda>cur. case mv_symlinks mv cur of
                 None \<Rightarrow> None
               | Some resolved \<Rightarrow> (case path_rel cur cleaned of
                     None \<Rightarrow> Some resolved
                   | Some rest \<Rightarrow> Some (path_clean (path_join [resolved, rest]))))
        cleaned cleaned)"

text \<open>
  The verdict: \<open>None\<close> inside is an accepted path. Only the repository the walk meets first is asked
  whether it ignores the file.
\<close>

definition assert_user_scope :: "machine_view \<Rightarrow> string \<Rightarrow> harness_error option option" where
  "assert_user_scope mv path =
     (if path_base path \<in> set project_scoped_names then Some (Some (ProjectScope path))
      else (case resolve_existing mv (path_dir path) of
              None \<Rightarrow> None
            | Some dir \<Rightarrow>
                (let resolved = path_join [dir, path_base path] in
                 walk_up (\<lambda>cur. if mv_git_entry mv (path_join [cur, ''.git''])
                                 then Some (if mv_git_ignores mv cur resolved then None else Some (ProjectScope path))
                                 else None)
                   None (path_dir resolved))))"

section \<open>Detection\<close>

record detection =
  dt_harness :: string
  dt_installed :: bool
  dt_config_path :: string
  dt_config_exists :: bool
  dt_binary_path :: string
  dt_reason :: string

definition scope_error :: "machine_view \<Rightarrow> string \<Rightarrow> harness_error option" where
  "scope_error mv path = (case assert_user_scope mv path of None \<Rightarrow> None | Some v \<Rightarrow> v)"

definition detect :: "machine_view \<Rightarrow> locator \<Rightarrow> string \<Rightarrow> harness_error + detection" where
  "detect mv l harness =
     (if harness \<noteq> claude_code \<and> harness \<noteq> codex then Inl (HarnessIo ''unknown harness'')
      else (case (if harness = claude_code then claude_config_path mv l else codex_config_path mv l) of
        None \<Rightarrow> Inl (HarnessIo ''home directory'')
      | Some path \<Rightarrow>
          (case scope_error mv path of
             Some err \<Rightarrow> Inl err
           | None \<Rightarrow>
               (let binary = (if harness = claude_code then ''claude'' else ''codex'') in
                if mv_stat mv path = StatDir then Inl (HarnessIo ''config path is a directory'')
                else if mv_stat mv path = StatFault then Inl (HarnessIo ''stat'')
                else (let exists = mv_stat mv path = StatFile;
                          found = (case lo_look_path l binary of None \<Rightarrow> [] | Some p \<Rightarrow> p);
                          inst = (exists \<or> found \<noteq> [])
                  in Inr \<lparr>dt_harness = harness, dt_installed = inst, dt_config_path = path,
                          dt_config_exists = exists, dt_binary_path = found,
                          dt_reason = (if inst then []
                            else ''no '' @ binary @ '' executable on PATH and no configuration at '' @ path)\<rparr>)))))"

fun detect_all :: "machine_view \<Rightarrow> locator \<Rightarrow> string list \<Rightarrow> harness_error + detection list" where
  "detect_all mv l [] = Inr []"
| "detect_all mv l (h # hs) =
     (case detect mv l h of
        Inl err \<Rightarrow> Inl err
      | Inr d \<Rightarrow> (case detect_all mv l hs of Inl err \<Rightarrow> Inl err | Inr ds \<Rightarrow> Inr (d # ds)))"

section \<open>The walk ends\<close>

declare path_join.simps [simp del]

definition elems_size :: "string list \<Rightarrow> nat" where
  "elems_size es = sum_list (map (\<lambda>e. if e = [] then 0 else Suc (length e)) es)"

lemma elems_size_simps [simp]: "elems_size [] = 0" "elems_size (e # es) = (if e = [] then 0 else Suc (length e)) + elems_size es"
  by (simp_all add: elems_size_def)

lemma elems_size_rev [simp]: "elems_size (rev es) = elems_size es"
  by (simp add: elems_size_def rev_map [symmetric])

lemma clean_stack_size: "elems_size (clean_stack r st es) \<le> elems_size st + elems_size es"
proof (induction r st es rule: clean_stack.induct)
  case (2 r st e es)
  show ?case
  proof (cases "e = [] \<or> e = ''.''")
    case True
    with 2(1) show ?thesis by auto
  next
    case no_dot: False
    show ?thesis
    proof (cases "e = ''..''")
      case False
      with no_dot 2(5) show ?thesis by simp
    next
      case True
      show ?thesis
      proof (cases st)
        case Nil
        with no_dot True 2(2) show ?thesis by (cases r) simp_all
      next
        case (Cons s st')
        with no_dot True 2(3,4) show ?thesis by (cases "s = ''..''") fastforce+
      qed
    qed
  qed
qed simp

lemma clean_stack_nonempty: "[] \<notin> set st \<Longrightarrow> [] \<notin> set (clean_stack r st es)"
proof (induction es arbitrary: st)
  case (Cons e es)
  have sub: "[] \<notin> set st'" if "st = s # st'" for s st' using Cons.prems that by simp
  consider "e = []" | "e = ''.''" | "e = ''..''" | "e \<noteq> []" "e \<noteq> ''.''" "e \<noteq> ''..''" by blast
  then show ?case
  proof cases
    case 3
    then show ?thesis using Cons.IH [of "if r then [] else [e]"] Cons.IH [of "e # st"] Cons.IH [of "tl st"] Cons.prems
      by (cases st; cases r) (simp_all, auto)
  qed (use Cons.IH [of st] Cons.IH [of "e # st"] Cons.prems in simp_all)
qed simp

lemma length_join: "[] \<notin> set es \<Longrightarrow> es \<noteq> [] \<Longrightarrow> Suc (length (str_join ''/'' es)) = elems_size es"
  by (induction es rule: induct_list012) auto

lemma split_size: "elems_size (split_on slash s) + length (filter (\<lambda>e. e = []) (split_on slash s)) = Suc (length s)"
proof (induction s)
  case (Cons c s)
  show ?case
  proof (cases "c = slash")
    case True
    with Cons show ?thesis by simp
  next
    case False
    then show ?thesis using Cons split_on_nonempty [of slash s] by (cases "split_on slash s") (auto split: if_splits)
  qed
qed simp

lemma split_on_snoc: "split_on sep (s @ [sep]) = split_on sep s @ [[]]"
  using split_on_nonempty by (induction s) (auto split: list.splits)

lemma length_path_clean:
  "length (path_clean q) \<le> max 1 (length q)"
  "q \<noteq> [] \<Longrightarrow> last q = slash \<Longrightarrow> 2 \<le> length q \<Longrightarrow> length (path_clean q) < length q"
proof -
  let ?es = "split_on slash q" and ?r = "is_abs q"
  let ?cs = "clean_stack ?r [] ?es"
  let ?n = "length (filter (\<lambda>e. e = []) ?es)"
  have size: "elems_size ?cs \<le> elems_size ?es" using clean_stack_size [of ?r "[]" ?es] by simp
  have ne: "[] \<notin> set ?cs" using clean_stack_nonempty [of "[]" ?r ?es] by simp
  have len: "length (path_clean q) = (if ?cs = [] then 1 else if ?r then elems_size ?cs else elems_size ?cs - 1)"
    using length_join [OF ne] by (auto simp: path_clean_def path_text_def)
  have tot: "elems_size ?es + ?n = Suc (length q)" by (rule split_size)
  have rooted: "\<exists>s. q = slash # s" if ?r using that by (cases q) (auto simp: is_abs_def has_prefix_def slash_def)
  have n1: "1 \<le> ?n" if ?r using rooted [OF that] by auto
  show "length (path_clean q) \<le> max 1 (length q)" using len size tot n1 by auto
  assume q: "q \<noteq> []" "last q = slash" "2 \<le> length q"
  have last_split: "1 \<le> length (filter (\<lambda>e. e = []) (split_on slash (s @ [slash])))" for s
    by (simp add: split_on_snoc)
  obtain s where s: "q = s @ [slash]" using q(1,2) by (metis append_butlast_last_id)
  then have n0: "1 \<le> ?n" using last_split by simp
  have n2: "2 \<le> ?n" if ?r
  proof -
    from rooted [OF that] s q(3) obtain t where "q = slash # t @ [slash]" by (cases s) auto
    then show ?thesis using last_split [of t] by simp
  qed
  show "length (path_clean q) < length q" using len size tot n0 n2 q(3) by auto
qed

definition walk_size :: "string \<Rightarrow> nat" where
  "walk_size p = (if p = ''.'' then 0 else Suc (length p))"

lemma path_dir_dot: "path_dir ''.'' = ''.''"
  by code_simp

lemma path_dir_smaller: "path_dir p \<noteq> p \<Longrightarrow> walk_size (path_dir p) < walk_size p"
proof -
  assume ne: "path_dir p \<noteq> p"
  define q where "q = rev (dropWhile (\<lambda>c. c \<noteq> slash) (rev p))"
  have d: "path_dir p = path_clean q" by (simp add: path_dir_def q_def)
  have lq: "length q \<le> length p" using length_dropWhile_le [of "\<lambda>c. c \<noteq> slash" "rev p"] by (simp add: q_def)
  have dot: "path_clean [] = ''.''" by code_simp
  have root: "path_clean ''/'' = ''/''" by code_simp
  have pdot: "p \<noteq> ''.''"
  proof
    assume "p = ''.''"
    with ne path_dir_dot show False by simp
  qed
  show ?thesis
  proof (cases "q = []")
    case True
    with d dot pdot show ?thesis by (simp add: walk_size_def)
  next
    case False
    then have "rev q \<noteq> []" "hd (rev q) = slash" using hd_dropWhile [of "\<lambda>c. c \<noteq> slash" "rev p"] by (auto simp: q_def)
    then have last: "last q = slash" by (simp add: hd_rev)
    show ?thesis
    proof (cases "2 \<le> length q")
      case True
      with length_path_clean(2) [OF False last] lq d pdot show ?thesis by (simp add: walk_size_def)
    next
      case False
      with \<open>q \<noteq> []\<close> last have q: "q = ''/''" by (cases q; cases "tl q") (auto simp: slash_def)
      then have "p \<noteq> ''/''" using d ne root by auto
      with q lq have "1 < length p"
      proof -
        have "length p \<noteq> 1"
        proof
          assume "length p = 1"
          then obtain c where "p = [c]" by (cases p) auto
          with q \<open>p \<noteq> ''/''\<close> show False by (auto simp: q_def split: if_splits)
        qed
        with q lq show ?thesis by auto
      qed
      with d q root pdot show ?thesis by (simp add: walk_size_def)
    qed
  qed
qed

lemma walk_up_ends: "\<exists>a. walk_up ask at_root cur = Some a"
proof (induction cur rule: measure_induct_rule [of walk_size])
  case (less cur)
  show ?case
  proof (cases "ask cur")
    case None
    show ?thesis
    proof (cases "path_dir cur = cur")
      case True
      with None show ?thesis by (simp add: walk_up.simps [of _ _ cur] Let_def)
    next
      case False
      with less path_dir_smaller None show ?thesis by (simp add: walk_up.simps [of _ _ cur] Let_def)
    qed
  next
    case (Some a)
    then show ?thesis by (simp add: walk_up.simps [of _ _ cur])
  qed
qed

lemma resolve_existing_ends: "\<exists>dir. resolve_existing mv p = Some dir"
  by (simp add: resolve_existing_def Let_def walk_up_ends)

text \<open>C33. The check of a destination always reaches a verdict: both climbs, to the nearest existing directory and
  to the nearest repository, end whatever the file system answers and whatever the path is.\<close>

theorem user_scope_check_ends: "\<exists>v. assert_user_scope mv path = Some v"
proof (cases "path_base path \<in> set project_scoped_names")
  case False
  obtain dir where "resolve_existing mv (path_dir path) = Some dir"
    using resolve_existing_ends by blast
  then show ?thesis using False walk_up_ends [of _ None] by (simp add: assert_user_scope_def Let_def)
qed (simp add: assert_user_scope_def)

section \<open>What an accepted path means\<close>

text \<open>The directories above a path, innermost first, up to the one that is its own parent.\<close>

primrec climb :: "nat \<Rightarrow> string \<Rightarrow> string" where
  "climb 0 p = p"
| "climb (Suc n) p = path_dir (climb n p)"

lemma climb_shift: "climb n (path_dir p) = climb (Suc n) p"
  by (induction n) simp_all

lemma climb_root: "path_dir p = p \<Longrightarrow> climb n p = p"
  by (induction n) simp_all

text \<open>A walk answers what the innermost directory with an answer says, or the answer of the root.\<close>

lemma walk_up_innermost:
  "walk_up ask at_root cur = Some a \<Longrightarrow>
     (\<exists>n. ask (climb n cur) = Some a \<and> (\<forall>k < n. ask (climb k cur) = None))
     \<or> (a = at_root \<and> (\<forall>k. ask (climb k cur) = None))"
proof (induction cur rule: measure_induct_rule [of walk_size])
  case (less cur)
  show ?case
  proof (cases "ask cur")
    case (Some b)
    with less.prems have "ask (climb 0 cur) = Some a" by (simp add: walk_up.simps [of _ _ cur])
    then show ?thesis by blast
  next
    case none: None
    show ?thesis
    proof (cases "path_dir cur = cur")
      case True
      with less.prems none show ?thesis by (simp add: walk_up.simps [of _ _ cur] climb_root)
    next
      case False
      with less.prems none have up: "walk_up ask at_root (path_dir cur) = Some a"
        by (simp add: walk_up.simps [of _ _ cur] Let_def)
      have lift: "ask (climb k cur) = None" if "\<forall>j < n. ask (climb j (path_dir cur)) = None" "k < Suc n" for k n
        using that none by (cases k) (simp_all add: climb_shift)
      from less.IH [OF path_dir_smaller [OF False] up] show ?thesis
      proof
        assume "\<exists>n. ask (climb n (path_dir cur)) = Some a \<and> (\<forall>k < n. ask (climb k (path_dir cur)) = None)"
        then obtain n where "ask (climb (Suc n) cur) = Some a" "\<forall>k < Suc n. ask (climb k cur) = None"
          using lift by (auto simp: climb_shift)
        then show ?thesis by blast
      next
        assume "a = at_root \<and> (\<forall>k. ask (climb k (path_dir cur)) = None)"
        then show ?thesis using lift by blast
      qed
    qed
  qed
qed

text \<open>The directories above a file that hold a repository: the innermost one, or none at all.\<close>

definition repository_at :: "machine_view \<Rightarrow> string \<Rightarrow> bool" where
  "repository_at mv dir \<longleftrightarrow> mv_git_entry mv (path_join [dir, ''.git''])"

definition innermost_repository :: "machine_view \<Rightarrow> string \<Rightarrow> nat \<Rightarrow> bool" where
  "innermost_repository mv p n \<longleftrightarrow>
     repository_at mv (climb n p) \<and> (\<forall>k < n. \<not> repository_at mv (climb k p))"

definition outside_repositories :: "machine_view \<Rightarrow> string \<Rightarrow> bool" where
  "outside_repositories mv p \<longleftrightarrow> (\<forall>k. \<not> repository_at mv (climb k p))"

text \<open>C34. An accepted destination does not carry a file name that projects share and, followed through its
  symbolic links, either lies under no repository at all or the innermost repository above it answers that it
  ignores the file.\<close>

theorem accepted_destination_unshared:
  assumes ok: "assert_user_scope mv path = Some None"
    and dir: "resolve_existing mv (path_dir path) = Some dir"
  shows "path_base path \<notin> set project_scoped_names
    \<and> (outside_repositories mv (path_dir (path_join [dir, path_base path]))
       \<or> (\<exists>n. innermost_repository mv (path_dir (path_join [dir, path_base path])) n
             \<and> mv_git_ignores mv (climb n (path_dir (path_join [dir, path_base path]))) (path_join [dir, path_base path])))"
proof -
  let ?file = "path_join [dir, path_base path]"
  let ?ask = "\<lambda>cur. if mv_git_entry mv (path_join [cur, ''.git''])
                   then Some (if mv_git_ignores mv cur ?file then None else Some (ProjectScope path)) else None"
  have name: "path_base path \<notin> set project_scoped_names"
    using ok by (auto simp: assert_user_scope_def split: if_splits)
  then have "walk_up ?ask None (path_dir ?file) = Some None"
    using ok dir by (simp add: assert_user_scope_def Let_def)
  from walk_up_innermost [OF this] show ?thesis
  proof
    assume "\<exists>n. ?ask (climb n (path_dir ?file)) = Some None \<and> (\<forall>k < n. ?ask (climb k (path_dir ?file)) = None)"
    then obtain n where "?ask (climb n (path_dir ?file)) = Some None" "\<forall>k < n. ?ask (climb k (path_dir ?file)) = None"
      by blast
    then have "innermost_repository mv (path_dir ?file) n" "mv_git_ignores mv (climb n (path_dir ?file)) ?file"
      by (auto simp: innermost_repository_def repository_at_def split: if_splits)
    then show ?thesis using name by blast
  next
    assume "(None :: harness_error option) = None \<and> (\<forall>k. ?ask (climb k (path_dir ?file)) = None)"
    then have "outside_repositories mv (path_dir ?file)"
      by (auto simp: outside_repositories_def repository_at_def split: if_splits)
    then show ?thesis using name by blast
  qed
qed

text \<open>A home directory under version control whose one ignore rule names the configuration file.\<close>

definition dotfiles_machine :: machine_view where
  "dotfiles_machine =
     \<lparr>mv_stat = (\<lambda>_. StatFile), mv_git_entry = (\<lambda>p. p = ''/h/.git''), mv_symlinks = (\<lambda>p. Some p),
      mv_git_ignores = (\<lambda>_ p. p = ''/h/.codex/config.toml''), mv_env = (\<lambda>_. []), mv_home = Some ''/h''\<rparr>"

lemma dotfiles_accepted: "assert_user_scope dotfiles_machine ''/h/.codex/config.toml'' = Some None"
  by code_simp

lemma dotfiles_resolved: "resolve_existing dotfiles_machine (path_dir ''/h/.codex/config.toml'') = Some ''/h/.codex''"
  by code_simp

theorem accepted_destination_unshared_witness:
  "\<exists>n. innermost_repository dotfiles_machine (path_dir ''/h/.codex/config.toml'') n
     \<and> mv_git_ignores dotfiles_machine (climb n (path_dir ''/h/.codex/config.toml'')) ''/h/.codex/config.toml''"
proof -
  have joined: "path_join [''/h/.codex'', path_base ''/h/.codex/config.toml''] = ''/h/.codex/config.toml''" by code_simp
  have "repository_at dotfiles_machine (climb 1 (path_dir ''/h/.codex/config.toml''))" by code_simp
  then have "\<not> outside_repositories dotfiles_machine (path_dir ''/h/.codex/config.toml'')"
    unfolding outside_repositories_def by blast
  then show ?thesis
    using accepted_destination_unshared [OF dotfiles_accepted dotfiles_resolved] by (simp only: joined simp_thms)
qed

text \<open>
  Only the file itself is asked about: the copies and temporary files written beside it carry the same token
  under names the rule need not match.
\<close>

lemma siblings_not_asked:
  "assert_user_scope dotfiles_machine ''/h/.codex/config.toml'' = Some None"
  "\<not> mv_git_ignores dotfiles_machine ''/h'' ''/h/.codex/config.toml.homeplane-backup-20260730T101112Z''"
  using dotfiles_accepted by (simp_all add: dotfiles_machine_def)

end
