(* ===== verification/Preserve.thy ===== *)
theory Preserve
  imports Harness Go_Json
begin

text \<open>
  \<open>internal/agent/harness/preserve.go\<close>: the trees a configuration parses to, the subtraction of the managed
  entries, and the comparison that decides whether an edit may be kept. A Go map is the list of its members
  in key order, so that equality of trees is \<open>reflect.DeepEqual\<close>.
\<close>

section \<open>Trees\<close>

datatype leaf = LNull | LBool bool | LNumber nat | LText string | LOther string

datatype config_tree = Leaf leaf | Items "config_tree list" | Table "(string \<times> config_tree) list"

type_synonym members = "(string \<times> config_tree) list"

text \<open>
  Decoding JSON into \<open>map[string]any\<close>: a number becomes the \<open>float64\<close> nearest to its literal, given by its
  bits (\<open>None\<close> is out of range), and the last member of a key wins.
\<close>

definition as_members :: "(string \<times> 'v) list \<Rightarrow> (string \<times> 'v) list" where
  "as_members kvs = sort_key fst (last_wins kvs)"

fun all_some :: "'v option list \<Rightarrow> 'v list option" where
  "all_some [] = Some []"
| "all_some (None # xs) = None"
| "all_some (Some x # xs) = map_option (Cons x) (all_some xs)"

fun all_valued :: "('k \<times> 'v option) list \<Rightarrow> ('k \<times> 'v) list option" where
  "all_valued [] = Some []"
| "all_valued ((k, None) # xs) = None"
| "all_valued ((k, Some x) # xs) = map_option (Cons (k, x)) (all_valued xs)"

fun json_tree :: "(string \<Rightarrow> nat option) \<Rightarrow> json \<Rightarrow> config_tree option" where
  "json_tree float64 JNull = Some (Leaf LNull)"
| "json_tree float64 (JBool b) = Some (Leaf (LBool b))"
| "json_tree float64 (JNum n) = map_option (\<lambda>x. Leaf (LNumber x)) (float64 n)"
| "json_tree float64 (JStr s) = Some (Leaf (LText s))"
| "json_tree float64 (JArr vs) = map_option Items (all_some (map (json_tree float64) vs))"
| "json_tree float64 (JObj kvs) =
     map_option (\<lambda>m. Table (as_members m)) (all_valued (map (\<lambda>(k, v). (k, json_tree float64 v)) kvs))"

definition parse_json_tree :: "(string \<Rightarrow> nat option) \<Rightarrow> string \<Rightarrow> members option" where
  "parse_json_tree float64 raw =
     (if trim_space raw = [] then Some []
      else (case json_unmarshal raw of
              None \<Rightarrow> None
            | Some JNull \<Rightarrow> Some []
            | Some j \<Rightarrow> (case json_tree float64 j of Some (Table m) \<Rightarrow> Some m | _ \<Rightarrow> None)))"

section \<open>Subtracting the managed entries\<close>

definition drop_key :: "string \<Rightarrow> members \<Rightarrow> members" where
  "drop_key k m = filter (\<lambda>p. fst p \<noteq> k) m"

definition put_key :: "string \<Rightarrow> config_tree \<Rightarrow> members \<Rightarrow> members" where
  "put_key k v m = map (\<lambda>p. if fst p = k then (k, v) else p) m"

definition strip_managed :: "members \<Rightarrow> string \<Rightarrow> string list \<Rightarrow> members" where
  "strip_managed tree container names =
     (case map_of tree container of
        Some (Table m) \<Rightarrow>
          (let m' = fold drop_key names m in
           if m' = [] then drop_key container tree else put_key container (Table m') tree)
      | _ \<Rightarrow> tree)"

section \<open>Naming a difference\<close>

text \<open>
  The paths that differ, in key order, cut off after eight. \<open>wide\<close> stands for the ellipsis. A pair of tables is
  compared inside.
\<close>

definition wide :: string where "wide = [CHR 0xE2, CHR 0x80, CHR 0xA6]"

definition sub_path :: "string \<Rightarrow> string \<Rightarrow> string" where
  "sub_path prefix k = (if prefix = [] then k else prefix @ ''.'' @ k)"

definition both_keys :: "members \<Rightarrow> members \<Rightarrow> string list" where
  "both_keys m1 m2 = sort_strings (remdups (map fst m1 @ map fst m2))"

lemma size_map_of: "map_of m k = Some t \<Longrightarrow> size t < size_list (size_prod (\<lambda>_. 0) size) m"
  by (induction m) (auto split: if_splits)

definition unequal_tables :: "config_tree option \<Rightarrow> config_tree option \<Rightarrow> (members \<times> members) option" where
  "unequal_tables b a =
     (case (b, a) of (Some (Table t1), Some (Table t2)) \<Rightarrow> if t1 = t2 then None else Some (t1, t2) | _ \<Rightarrow> None)"

lemma unequal_tablesD:
  "unequal_tables b a = Some (t1, t2) \<Longrightarrow> b = Some (Table t1) \<and> a = Some (Table t2) \<and> t1 \<noteq> t2"
  by (auto simp: unequal_tables_def split: option.splits config_tree.splits if_splits)

definition key_diff :: "string \<Rightarrow> config_tree option \<Rightarrow> config_tree option \<Rightarrow> string list" where
  "key_diff path b a =
     (if b \<noteq> None \<and> a = None then [''lost '' @ path]
      else if b = None \<and> a \<noteq> None then [''added '' @ path]
      else if a = b then [] else [''changed '' @ path])"

text \<open>The loop over the keys \<open>ks\<close>, with what has been found so far.\<close>

function diff_names :: "members \<Rightarrow> members \<Rightarrow> string \<Rightarrow> string list \<Rightarrow> string list \<Rightarrow> string list" where
  "diff_names m1 m2 prefix [] out = out"
| "diff_names m1 m2 prefix (k # ks) out =
     (case unequal_tables (map_of m1 k) (map_of m2 k) of
        Some (t1, t2) \<Rightarrow> diff_names m1 m2 prefix ks (out @ diff_names t1 t2 (sub_path prefix k) (both_keys t1 t2) [])
      | None \<Rightarrow>
          (let out' = out @ key_diff (sub_path prefix k) (map_of m1 k) (map_of m2 k) in
           if length out' \<ge> 8 then out' @ [wide] else diff_names m1 m2 prefix ks out'))"
  by pat_completeness auto

termination
  by (relation "measures [\<lambda>(m1, _, _, _, _). size_list (size_prod (\<lambda>_. 0) size) m1, \<lambda>(_, _, _, ks, _). length ks]")
    (auto dest: size_map_of dest!: unequal_tablesD)

definition diff_paths :: "members \<Rightarrow> members \<Rightarrow> string \<Rightarrow> string list" where
  "diff_paths m1 m2 prefix = diff_names m1 m2 prefix (both_keys m1 m2) []"

definition describe_diff :: "members \<Rightarrow> members \<Rightarrow> string" where
  "describe_diff m1 m2 = str_join ''; '' (diff_paths m1 m2 [])"

section \<open>The check\<close>

record preservation_check =
  pc_parse :: "string \<Rightarrow> members option"
  pc_container :: string
  pc_managed :: "string list"

definition residual :: "preservation_check \<Rightarrow> members \<Rightarrow> members" where
  "residual p tree = strip_managed tree (pc_container p) (pc_managed p)"

definition verify :: "preservation_check \<Rightarrow> string \<Rightarrow> string \<Rightarrow> harness_error option" where
  "verify p orig result =
     (case pc_parse p orig of
        None \<Rightarrow> Some (MalformedConfig orig)
      | Some t1 \<Rightarrow>
          (case pc_parse p result of
             None \<Rightarrow> Some (PreservationFailed ''the rewritten configuration does not parse'')
           | Some t2 \<Rightarrow>
               if residual p t1 = residual p t2 then None
               else Some (PreservationFailed (describe_diff (residual p t1) (residual p t2)))))"

section \<open>Ordered members\<close>

text \<open>A decoded table lists each key once, in order, at every depth.\<close>

fun ordered :: "config_tree \<Rightarrow> bool" where
  "ordered (Table m) \<longleftrightarrow> sorted_wrt (<) (map fst m) \<and> list_all (\<lambda>p. ordered (snd p)) m"
| "ordered _ \<longleftrightarrow> True"

definition ordered_members :: "members \<Rightarrow> bool" where
  "ordered_members m \<longleftrightarrow> ordered (Table m)"

lemma ordered_members_keys: "ordered_members m \<Longrightarrow> sorted_wrt (<) (map fst m)"
  by (simp add: ordered_members_def)

lemma members_of_map: "distinct (map fst a) \<Longrightarrow> map (\<lambda>k. (k, the (map_of a k))) (map fst a) = a"
  by (auto simp: comp_def intro!: map_idI)

lemma members_eqI:
  assumes "sorted_wrt (<) (map fst a)" "sorted_wrt (<) (map fst b)" "map_of a = map_of b"
  shows "a = (b :: (string \<times> 'v) list)"
proof -
  have "set (map fst a) = set (map fst b)"
    using assms(3) by (metis dom_map_of_conv_image_fst set_map)
  then have keys: "map fst a = map fst b"
    using assms(1,2) by (simp only: strict_sorted_equal)
  have "distinct (map fst a)" "distinct (map fst b)" using assms(1,2) strict_sorted_iff by blast+
  then show ?thesis using members_of_map [of a] members_of_map [of b] keys assms(3) by simp
qed

lemma members_eq_iff:
  "ordered_members a \<Longrightarrow> ordered_members b \<Longrightarrow> a = b \<longleftrightarrow> (\<forall>k \<in> set (both_keys a b). map_of a k = map_of b k)"
proof -
  assume ord: "ordered_members a" "ordered_members b"
  have "map_of a k = map_of b k" if "k \<notin> set (both_keys a b)" for k
  proof -
    have "k \<notin> fst ` set a" "k \<notin> fst ` set b" using that by (auto simp: both_keys_def)
    then show ?thesis by (simp add: map_of_eq_None_iff [THEN iffD2])
  qed
  then show ?thesis
    using members_eqI [OF ord [THEN ordered_members_keys]] by blast
qed

lemma ordered_inside: "ordered_members m \<Longrightarrow> map_of m k = Some (Table t) \<Longrightarrow> ordered_members t"
  by (auto simp: ordered_members_def list_all_iff dest!: map_of_SomeD bspec)

lemma ordered_drop_key: "ordered_members m \<Longrightarrow> ordered_members (drop_key k m)"
  by (auto simp: ordered_members_def drop_key_def list_all_iff sorted_wrt_map sorted_wrt_filter)

lemma ordered_drop_keys: "ordered_members m \<Longrightarrow> ordered_members (fold drop_key ks m)"
  by (induction ks arbitrary: m) (simp_all add: ordered_drop_key)

lemma keys_put_key: "map fst (put_key k v m) = map fst m"
  by (induction m) (auto simp: put_key_def)

lemma ordered_put_key: "ordered_members m \<Longrightarrow> ordered_members t \<Longrightarrow> ordered_members (put_key k (Table t) m)"
  by (auto simp: ordered_members_def keys_put_key) (auto simp: put_key_def list_all_iff)

lemma ordered_residual: "ordered_members m \<Longrightarrow> ordered_members (strip_managed m c names)"
  by (auto simp: strip_managed_def Let_def ordered_inside ordered_drop_keys ordered_drop_key ordered_put_key
      split: option.splits config_tree.splits)

section \<open>Decoded trees are ordered\<close>

lemma last_wins_subset: "set (last_wins m) \<subseteq> set m"
  by (induction m rule: last_wins.induct) (auto split: if_splits)

lemma distinct_last_wins: "distinct (map fst (last_wins m))"
proof (induction m rule: last_wins.induct)
  case (2 k v m)
  have "k \<notin> fst ` set (last_wins m)" if "k \<notin> fst ` set m" using that last_wins_subset by fastforce
  then show ?case using 2 by auto
qed simp

lemma keys_as_members: "sorted_wrt (<) (map fst (as_members m))"
proof -
  have "distinct (map fst (sort_key fst (last_wins m)))"
    using distinct_last_wins [of m] by (simp add: distinct_map)
  moreover have "sorted (map fst (sort_key fst (last_wins m)))" by simp
  ultimately show ?thesis unfolding as_members_def by (simp add: strict_sorted_iff)
qed

lemma all_valued_set: "all_valued xs = Some m \<Longrightarrow> (k, v) \<in> set m \<Longrightarrow> (k, Some v) \<in> set xs"
  by (induction xs arbitrary: m rule: all_valued.induct) auto

lemma json_tree_ordered: "json_tree float64 j = Some t \<Longrightarrow> ordered t"
proof (induction j arbitrary: t)
  case (JObj kvs)
  from JObj.prems obtain m where m: "all_valued (map (\<lambda>(k, v). (k, json_tree float64 v)) kvs) = Some m" "t = Table (as_members m)"
    by auto
  have "ordered v" if "(k, v) \<in> set (as_members m)" for k v
  proof -
    have "(k, v) \<in> set m" using that last_wins_subset by (fastforce simp: as_members_def)
    from all_valued_set [OF m(1) this] obtain w where "(k, w) \<in> set kvs" "json_tree float64 w = Some v" by auto
    then show ?thesis using JObj.IH by fastforce
  qed
  then show ?case unfolding m(2) by (auto simp: keys_as_members list_all_iff)
qed auto



section \<open>What the check accepts\<close>

lemma map_of_drop_key: "map_of (drop_key c m) k = (if k = c then None else map_of m k)"
  by (induction m) (auto simp: drop_key_def)

lemma map_of_drop_keys: "map_of (fold drop_key ks m) k = (if k \<in> set ks then None else map_of m k)"
  by (induction ks arbitrary: m) (auto simp: map_of_drop_key)

lemma map_of_put_key: "map_of (put_key c v m) k = (if k = c \<and> map_of m c \<noteq> None then Some v else map_of m k)"
  by (induction m) (auto simp: put_key_def)

text \<open>
  What is left of the container: nothing when it is absent or a table of managed entries only, the table without
  them otherwise, and the value as it is when it is not a table.
\<close>

definition container_rest :: "members \<Rightarrow> string \<Rightarrow> string list \<Rightarrow> config_tree option" where
  "container_rest tree c names =
     (case map_of tree c of
        Some (Table m) \<Rightarrow> (let rest = filter (\<lambda>p. fst p \<notin> set names) m in if rest = [] then None else Some (Table rest))
      | v \<Rightarrow> v)"

lemma fold_drop_key: "fold drop_key names m = filter (\<lambda>p. fst p \<notin> set names) m"
  by (induction names arbitrary: m) (auto simp: drop_key_def intro!: filter_cong)

lemma map_of_residual: "map_of (strip_managed tree c names) k = (if k = c then container_rest tree c names else map_of tree k)"
  by (auto simp: strip_managed_def container_rest_def fold_drop_key Let_def map_of_drop_key map_of_put_key
      split: option.splits config_tree.splits)


lemma diff_names_Nil:
  "ordered_members m1 \<Longrightarrow> ordered_members m2 \<Longrightarrow>
     diff_names m1 m2 prefix ks out = [] \<longleftrightarrow> out = [] \<and> (\<forall>k \<in> set ks. map_of m1 k = map_of m2 k)"
proof (induction m1 m2 prefix ks out rule: diff_names.induct)
  case (2 m1 m2 prefix k ks out)
  show ?case
  proof (cases "unequal_tables (map_of m1 k) (map_of m2 k)")
    case None
    then have "key_diff (sub_path prefix k) (map_of m1 k) (map_of m2 k) = [] \<longleftrightarrow> map_of m1 k = map_of m2 k"
      by (auto simp: key_diff_def)
    then show ?thesis using None 2 by (auto simp: Let_def)
  next
    case (Some ts)
    obtain t1 t2 where ts: "ts = (t1, t2)" by fastforce
    note both = unequal_tablesD [OF Some [unfolded ts]]
    have "diff_names t1 t2 (sub_path prefix k) (both_keys t1 t2) [] \<noteq> []"
      using 2(2) [OF Some ts [symmetric]] both members_eq_iff ordered_inside 2(4,5) ts by metis
    moreover from both have "map_of m1 k \<noteq> map_of m2 k" by auto
    ultimately show ?thesis using Some ts 2(3) [OF Some ts [symmetric]] 2(4,5) by simp
  qed
qed simp

text \<open>The message of a refused edit names the difference: the list of differing paths is empty only when the
  two trees are the same, at every depth.\<close>

theorem diff_paths_empty_iff:
  assumes "ordered_members m1" "ordered_members m2"
  shows "diff_paths m1 m2 prefix = [] \<longleftrightarrow> m1 = m2"
  using diff_names_Nil [OF assms] members_eq_iff [OF assms] by (simp add: diff_paths_def)

theorem diff_paths_empty_iff_witness:
  "diff_paths [(''mcpServers'', Table [(''own'', Leaf (LBool True))])] [(''mcpServers'', Table [(''own'', Leaf LNull)])] [] \<noteq> []"
  using diff_paths_empty_iff [of "[(''mcpServers'', Table [(''own'', Leaf (LBool True))])]"
      "[(''mcpServers'', Table [(''own'', Leaf LNull)])]" "[]"]
  by (simp add: ordered_members_def)

text \<open>A file with one setting of the user's, before and after a managed entry is written beside it.\<close>

definition example_check :: preservation_check where
  "example_check = \<lparr>pc_parse = parse_json_tree (\<lambda>_. None), pc_container = ''s'', pc_managed = [''m'']\<rparr>"

lemma example_parses:
  \<open>pc_parse example_check ''{"a":true}'' = Some [(''a'', Leaf (LBool True))]\<close>
  \<open>pc_parse example_check ''{"a":true,"s":{"m":true}}'' = Some [(''a'', Leaf (LBool True)), (''s'', Table [(''m'', Leaf (LBool True))])]\<close>
  by code_simp+


end
