(* ===== verification/Toml_Edit.thy ===== *)
theory Toml_Edit
  imports Harness Go_Json
begin

text \<open>
  \<open>internal/agent/harness/tomledit.go\<close>: the byte spans of the tables of a TOML file, found with just the
  lexical state that tells a table header from text, the cutting of tables by span, and the rendering
  of a managed entry.
\<close>

section \<open>Lines\<close>

text \<open>The lines of a file, each with its newline where it has one.\<close>

fun chunks :: "string \<Rightarrow> string list" where
  "chunks [] = []"
| "chunks (c # s) =
     (if c = newline then [c] # chunks s
      else case chunks s of [] \<Rightarrow> [[c]] | l # ls \<Rightarrow> (c # l) # ls)"

definition chunk_text :: "string \<Rightarrow> string" where
  "chunk_text l = takeWhile (\<lambda>c. c \<noteq> newline) l"

definition blank :: "char \<Rightarrow> bool" where "blank c \<longleftrightarrow> c = CHR '' '' \<or> c = tab"

section \<open>The lexical state\<close>

record line_state =
  ls_in_multi :: bool
  ls_delim :: string
  ls_depth :: int

definition line_start :: line_state where
  "line_start = \<lparr>ls_in_multi = False, ls_delim = [], ls_depth = 0\<rparr>"

definition multi_basic :: string where "multi_basic = [double_quote, double_quote, double_quote]"
definition multi_literal :: string where "multi_literal = [single_quote, single_quote, single_quote]"

text \<open>Past the closing quote of a basic string, or to the end of the line.\<close>

fun skip_basic :: "string \<Rightarrow> string" where
  "skip_basic [] = []"
| "skip_basic (c # s) =
     (if c = back_slash then skip_basic (drop 1 s) else if c = double_quote then s else skip_basic s)"

definition skip_literal :: "string \<Rightarrow> string" where
  "skip_literal s = drop 1 (dropWhile (\<lambda>c. c \<noteq> single_quote) s)"

lemma length_skip_basic: "length (skip_basic s) \<le> length s"
  by (induction s rule: skip_basic.induct) (auto intro: le_trans le_SucI)

lemma length_skip_literal: "length (skip_literal s) \<le> length s"
  unfolding skip_literal_def using length_dropWhile_le [of "\<lambda>c. c \<noteq> single_quote" s] by simp

function scan_line :: "line_state \<Rightarrow> string \<Rightarrow> line_state" where
  "scan_line st line =
     (case line of [] \<Rightarrow> st | c # s \<Rightarrow>
      if ls_in_multi st then
        (if has_prefix (c # s) (ls_delim st) then scan_line (st\<lparr>ls_in_multi := False, ls_delim := []\<rparr>) (drop 2 s)
         else if ls_delim st = multi_basic \<and> c = back_slash then scan_line st (drop 1 s)
         else scan_line st s)
      else if c = CHR ''#'' then st
      else if has_prefix (c # s) multi_basic then scan_line (st\<lparr>ls_in_multi := True, ls_delim := multi_basic\<rparr>) (drop 2 s)
      else if has_prefix (c # s) multi_literal then scan_line (st\<lparr>ls_in_multi := True, ls_delim := multi_literal\<rparr>) (drop 2 s)
      else if c = double_quote then scan_line st (skip_basic s)
      else if c = single_quote then scan_line st (skip_literal s)
      else if c = CHR ''['' \<or> c = CHR ''{'' then scan_line (st\<lparr>ls_depth := ls_depth st + 1\<rparr>) s
      else if c = CHR '']'' \<or> c = CHR ''}'' then scan_line (st\<lparr>ls_depth := ls_depth st - 1\<rparr>) s
      else scan_line st s)"
  by pat_completeness auto
termination
  by (relation "measure (\<lambda>(st, s). length s)")
    (simp_all add: length_skip_basic length_skip_literal le_imp_less_Suc)

declare scan_line.simps [simp del]

lemma scan_line_Nil [simp]: "scan_line st [] = st"
  by (simp add: scan_line.simps)

section \<open>Table headers\<close>

datatype key_error = EmptySegment | UnreadableQuoted | UnterminatedQuoted | UnterminatedLiteral | UnreadableSegment string

text \<open>
  \<open>strconv.Unquote\<close> of a double-quoted text, given the bytes between its quotes: the Go escapes, of
  which the hexadecimal and octal ones of two and three digits give a byte and the others a rune.
\<close>

fun hex_number :: "nat \<Rightarrow> string \<Rightarrow> nat option" where
  "hex_number acc [] = Some acc"
| "hex_number acc (c # s) = (case hex_value c of None \<Rightarrow> None | Some v \<Rightarrow> hex_number (16 * acc + v) s)"

definition octal3 :: "string \<Rightarrow> nat option" where
  "octal3 s =
     (if length s = 3 \<and> list_all (\<lambda>c. 48 \<le> byte c \<and> byte c \<le> 55) s
      then (let n = foldl (\<lambda>n c. 8 * n + (byte c - 48)) 0 s in if n \<le> 255 then Some n else None)
      else None)"

definition rune_text :: "nat \<Rightarrow> string option" where
  "rune_text r = (if 1114111 < r \<or> (55296 \<le> r \<and> r \<le> 57343) then None else Some (encode_rune r))"

definition go_escape :: "char \<Rightarrow> string \<Rightarrow> (string \<times> nat) option" where
  "go_escape c s =
     (if c = CHR ''a'' then Some ([chr 7], 0) else if c = CHR ''b'' then Some ([chr 8], 0)
      else if c = CHR ''f'' then Some ([chr 12], 0) else if c = CHR ''n'' then Some ([chr 10], 0)
      else if c = CHR ''r'' then Some ([chr 13], 0) else if c = CHR ''t'' then Some ([chr 9], 0)
      else if c = CHR ''v'' then Some ([chr 11], 0)
      else if c = back_slash \<or> c = double_quote then Some ([c], 0)
      else if c = CHR ''x'' then
        (if length s < 2 then None else map_option (\<lambda>n. ([chr n], 2)) (hex_number 0 (take 2 s)))
      else if c = CHR ''u'' then
        (if length s < 4 then None
         else case hex_number 0 (take 4 s) of None \<Rightarrow> None | Some r \<Rightarrow> map_option (\<lambda>t. (t, 4)) (rune_text r))
      else if c = CHR ''U'' then
        (if length s < 8 then None
         else case hex_number 0 (take 8 s) of None \<Rightarrow> None | Some r \<Rightarrow> map_option (\<lambda>t. (t, 8)) (rune_text r))
      else map_option (\<lambda>n. ([chr n], 2)) (octal3 (c # take 2 s)))"

function go_unquote :: "string \<Rightarrow> string option" where
  "go_unquote line =
     (case line of [] \<Rightarrow> Some [] | c # s \<Rightarrow>
      if c = double_quote \<or> c = newline then None
      else if c = back_slash then
        (case s of
           [] \<Rightarrow> None
         | e # s' \<Rightarrow> (case go_escape e s' of
               None \<Rightarrow> None
             | Some (t, n) \<Rightarrow> map_option (\<lambda>r. t @ r) (go_unquote (drop n s'))))
      else if byte c < 128 then map_option (\<lambda>r. c # r) (go_unquote s)
      else (case decode_rune (c # s) of (r, w) \<Rightarrow> map_option (\<lambda>t. encode_rune r @ t) (go_unquote (drop (w - 1) s))))"
  by pat_completeness auto
termination by (relation "measure length") auto

declare go_unquote.simps [simp del]

text \<open>The offset of the closing quote of a basic-quoted key, escapes skipped.\<close>

fun closing_quote :: "string \<Rightarrow> nat option" where
  "closing_quote [] = None"
| "closing_quote (c # s) =
     (if c = back_slash then (case s of [] \<Rightarrow> None | e # s' \<Rightarrow> map_option (\<lambda>n. n + 2) (closing_quote s'))
      else if c = double_quote then Some 0 else map_option Suc (closing_quote s))"

text \<open>A segment and what follows it.\<close>

definition parse_key_segment :: "string \<Rightarrow> key_error + string \<times> string" where
  "parse_key_segment b =
     (case b of
        [] \<Rightarrow> Inl EmptySegment
      | c # s \<Rightarrow>
          if c = double_quote then
            (case closing_quote s of
               None \<Rightarrow> Inl UnterminatedQuoted
             | Some n \<Rightarrow> (case go_unquote (take n s) of
                   None \<Rightarrow> Inl UnreadableQuoted
                 | Some seg \<Rightarrow> Inr (seg, drop (Suc n) s)))
          else if c = single_quote then
            (if single_quote \<in> set s
             then Inr (takeWhile (\<lambda>c. c \<noteq> single_quote) s, drop 1 (dropWhile (\<lambda>c. c \<noteq> single_quote) s))
             else Inl UnterminatedLiteral)
          else if bare_key_byte c
          then Inr (takeWhile bare_key_byte b, dropWhile bare_key_byte b)
          else Inl (UnreadableSegment b))"

lemma parse_key_segment_shorter: "parse_key_segment b = Inr (seg, rest) \<Longrightarrow> length rest < length b"
  using length_dropWhile_le [of "\<lambda>c. c \<noteq> single_quote" "tl b"] length_dropWhile_le [of bare_key_byte "tl b"]
  by (auto simp: parse_key_segment_def le_imp_less_Suc less_Suc_eq_le split: list.splits if_splits option.splits)

datatype header_error = UnterminatedHeader | EmptyHeader | UnexpectedByte char | BadSegment key_error
  | UnterminatedArray | TrailingContent string

text \<open>The segments up to the closing bracket, and what follows it.\<close>

function parse_segments :: "bool \<Rightarrow> string list \<Rightarrow> string \<Rightarrow> header_error + string list \<times> string" where
  "parse_segments expect key line =
     (case dropWhile blank line of
        [] \<Rightarrow> Inl UnterminatedHeader
      | c # s \<Rightarrow>
          if c = CHR '']'' then (if expect then Inl EmptyHeader else Inr (key, s))
          else if \<not> expect then (if c \<noteq> CHR ''.'' then Inl (UnexpectedByte c) else parse_segments True key s)
          else (case parse_key_segment (c # s) of
                  Inl err \<Rightarrow> Inl (BadSegment err)
                | Inr (seg, rest) \<Rightarrow> parse_segments False (key @ [seg]) rest))"
  by pat_completeness auto
termination
proof (relation "measure (\<lambda>(expect, key, line). length line)")
  fix expect key line c s
  assume "dropWhile blank line = c # s"
  then have "length (c # s) \<le> length line" using length_dropWhile_le [of blank line] by simp
  then show "((True, key, s), (expect, key, line)) \<in> measure (\<lambda>(expect, key, line). length line)" by simp
next
  fix expect key line c s b x y
  assume "dropWhile blank line = c # s" "parse_key_segment (c # s) = Inr b" "(x, y) = b"
  moreover from this(1) have "length (c # s) \<le> length line" using length_dropWhile_le [of blank line] by simp
  ultimately show "((False, key @ [x], y), (expect, key, line)) \<in> measure (\<lambda>(expect, key, line). length line)"
    using parse_key_segment_shorter [of "c # s" x y] by simp
qed auto

declare parse_segments.simps [simp del]

definition parse_table_header :: "string \<Rightarrow> header_error + string list \<times> bool" where
  "parse_table_header line =
     (let arr = has_prefix (drop 1 line) ''[''; body = drop (if arr then 2 else 1) line in
      case parse_segments True [] body of
        Inl err \<Rightarrow> Inl err
      | Inr (key, s) \<Rightarrow>
          if arr \<and> \<not> has_prefix s '']'' then Inl UnterminatedArray
          else (let rest = dropWhile blank (drop (if arr then 1 else 0) s) in
            if rest \<noteq> [] \<and> hd rest \<noteq> CHR ''#'' then Inl (TrailingContent rest) else Inr (key, arr)))"

section \<open>Spans\<close>

record toml_span =
  sp_key :: "string list"
  sp_array :: bool
  sp_start :: nat
  sp_end :: nat

datatype toml_error = BadHeader nat header_error | Unbalanced nat | UnterminatedMulti string | UnterminatedNesting int

definition last_line_start :: "string \<Rightarrow> nat" where
  "last_line_start body = length body - length (takeWhile (\<lambda>c. c \<noteq> newline) (rev body))"

definition without_newline :: "string \<Rightarrow> string" where
  "without_newline body = (if body \<noteq> [] \<and> last body = newline then butlast body else body)"

definition slice :: "nat \<Rightarrow> nat \<Rightarrow> string \<Rightarrow> string" where
  "slice a b s = take (b - a) (drop a s)"

lemma last_line_start_less: "body \<noteq> [] \<Longrightarrow> last_line_start (without_newline body) < length body"
proof (cases "last body = newline")
  case True
  assume "body \<noteq> []"
  then have "length (without_newline body) < length body" using True by (simp add: without_newline_def)
  then show ?thesis unfolding last_line_start_def by simp
next
  case False
  assume ne: "body \<noteq> []"
  with False obtain b c where b: "body = b @ [c]" "c \<noteq> newline" by (metis rev_exhaust last_snoc)
  then show ?thesis by (simp add: without_newline_def last_line_start_def)
qed

function trim_attached :: "string \<Rightarrow> nat \<Rightarrow> nat \<Rightarrow> nat" where
  "trim_attached src start e =
     (if e \<le> start then e
      else (let b = last_line_start (without_newline (take e src)); t = trim_space (slice b e src) in
        if b \<le> start then e
        else if t \<noteq> [] \<and> hd t \<noteq> CHR ''#'' then e
        else trim_attached src start b))"
  by pat_completeness auto
termination
proof (relation "measure (\<lambda>(src, start, e). e)")
  fix src :: string and start e b :: nat and t
  assume *: "\<not> e \<le> start" "b = last_line_start (without_newline (take e src))" "\<not> b \<le> start"
  show "((src, start, b), (src, start, e)) \<in> measure (\<lambda>(src, start, e). e)"
  proof (cases "src = []")
    case True
    with * show ?thesis by (simp add: without_newline_def last_line_start_def)
  next
    case False
    with *(1) have "take e src \<noteq> []" by auto
    from last_line_start_less [OF this] *(2) show ?thesis by simp
  qed
qed auto

declare trim_attached.simps [simp del]

definition close_span :: "string \<Rightarrow> nat \<Rightarrow> toml_span list \<Rightarrow> toml_span list" where
  "close_span src e spans =
     (if spans = [] then []
      else butlast spans @ [(last spans)\<lparr>sp_end := trim_attached src (sp_start (last spans)) e\<rparr>])"

definition header_of :: "line_state \<Rightarrow> string \<Rightarrow> (header_error + string list \<times> bool) option" where
  "header_of st line =
     (if \<not> ls_in_multi st \<and> ls_depth st = 0
      then (let t = dropWhile blank line in
        if t \<noteq> [] \<and> hd t = CHR ''['' then Some (parse_table_header t) else None)
      else None)"

fun scan_lines :: "string \<Rightarrow> nat \<Rightarrow> nat \<Rightarrow> line_state \<Rightarrow> toml_span list \<Rightarrow> string list
    \<Rightarrow> toml_error + line_state \<times> toml_span list" where
  "scan_lines src n pos st spans [] = Inr (st, spans)"
| "scan_lines src n pos st spans (l # ls) =
     (let rest = (\<lambda>spans'. let st' = scan_line st (chunk_text l) in
            if ls_depth st' < 0 then Inl (Unbalanced n)
            else scan_lines src (Suc n) (pos + length l) st' spans' ls)
      in case header_of st (chunk_text l) of
           None \<Rightarrow> rest spans
         | Some (Inl err) \<Rightarrow> Inl (BadHeader n err)
         | Some (Inr (key, arr)) \<Rightarrow>
             rest (close_span src pos spans @ [\<lparr>sp_key = key, sp_array = arr, sp_start = pos, sp_end = length src\<rparr>]))"

definition scan_tables :: "string \<Rightarrow> toml_error + toml_span list" where
  "scan_tables src =
     (case scan_lines src 1 0 line_start [] (chunks src) of
        Inl err \<Rightarrow> Inl err
      | Inr (st, spans) \<Rightarrow>
          if ls_in_multi st then Inl (UnterminatedMulti (ls_delim st))
          else if ls_depth st \<noteq> 0 then Inl (UnterminatedNesting (ls_depth st))
          else Inr (close_span src (length src) spans))"

section \<open>Editing\<close>

text \<open>The cut spans are those the predicate selects; \<open>cutp\<close> is the end of the last one, if any.\<close>

fun remove_from :: "string \<Rightarrow> (string list \<Rightarrow> bool) \<Rightarrow> nat \<Rightarrow> nat option \<Rightarrow> toml_span list \<Rightarrow> string" where
  "remove_from src match prev cutp [] = drop prev src"
| "remove_from src match prev cutp (s # ss) =
     (if \<not> match (sp_key s) then remove_from src match prev cutp ss
      else (let start = (if cutp = Some prev \<and> trim_space (slice prev (sp_start s) src) = [] then prev else sp_start s)
        in slice prev start src @ remove_from src match (sp_end s) (Some (sp_end s)) ss))"

definition remove_tables :: "string \<Rightarrow> toml_span list \<Rightarrow> (string list \<Rightarrow> bool) \<Rightarrow> string" where
  "remove_tables src spans match = remove_from src match 0 None spans"

definition trailing_space :: "char \<Rightarrow> bool" where
  "trailing_space c \<longleftrightarrow> c = CHR '' '' \<or> c = tab \<or> c = creturn \<or> c = newline"

definition trim_right :: "(char \<Rightarrow> bool) \<Rightarrow> string \<Rightarrow> string" where
  "trim_right p s = rev (dropWhile p (rev s))"

definition append_block :: "string \<Rightarrow> string \<Rightarrow> string" where
  "append_block src block =
     (let body = trim_right trailing_space src in
      (if body = [] then [] else body @ [newline, newline]) @ trim_right (\<lambda>c. c = newline) block @ [newline])"

section \<open>Rendering\<close>

definition upper_hex4 :: "nat \<Rightarrow> string" where
  "upper_hex4 n = map (\<lambda>d. chr (if d < 10 then 48 + d else 55 + d)) [n div 4096 mod 16, n div 256 mod 16, n div 16 mod 16, n mod 16]"

definition toml_rune :: "nat \<Rightarrow> string" where
  "toml_rune r =
     (if r = 34 then [back_slash, double_quote] else if r = 92 then [back_slash, back_slash]
      else if r = 8 then back_slash # ''b'' else if r = 9 then back_slash # ''t''
      else if r = 10 then back_slash # ''n'' else if r = 12 then back_slash # ''f''
      else if r = 13 then back_slash # ''r''
      else if r = rune_error \<or> (is_control r \<and> r < 128) then back_slash # CHR ''u'' # upper_hex4 r
      else encode_rune r)"

definition quote_toml :: "string \<Rightarrow> string" where
  "quote_toml s = double_quote # concat (map toml_rune (runes s)) @ [double_quote]"

definition is_bare_key :: "string \<Rightarrow> bool" where
  "is_bare_key s \<longleftrightarrow> s \<noteq> [] \<and> list_all bare_key_byte s"

definition toml_pair_lines :: "(string \<times> string) list \<Rightarrow> string list" where
  "toml_pair_lines pairs =
     map (\<lambda>k. (if is_bare_key k then k else quote_toml k) @ '' = '' @ quote_toml (the (map_of pairs k)))
       (sort_strings (map fst pairs))"

text \<open>The lines of a rendered entry.\<close>

definition toml_entry_lines :: "string list \<Rightarrow> mcp_entry \<Rightarrow> string list" where
  "toml_entry_lines root e =
     (let path = str_join ''.'' (root @ [en_name e]) in
      [CHR ''['' # path @ '']'']
      @ (if en_transport e = transport_http then [''url = '' @ quote_toml (en_url e)]
         else if en_transport e = transport_stdio then
           [''command = '' @ quote_toml (en_command e)]
           @ only_if (en_args e \<noteq> []) [''args = ['' @ str_join '', '' (map quote_toml (en_args e)) @ '']'']
         else [])
      @ only_if (en_headers e \<noteq> []) ([[], CHR ''['' # path @ ''.http_headers]''] @ toml_pair_lines (en_headers e))
      @ only_if (en_env e \<noteq> []) ([[], CHR ''['' # path @ ''.env]''] @ toml_pair_lines (en_env e)))"

definition render_toml_entry :: "string list \<Rightarrow> mcp_entry \<Rightarrow> harness_error + string" where
  "render_toml_entry root e =
     (case entry_validate e of Some err \<Rightarrow> Inl err | None \<Rightarrow> Inr (unlines (toml_entry_lines root e)))"

section \<open>The Codex writer's rewrite\<close>

definition codex_container :: string where "codex_container = ''mcp_servers''"

definition managed_key :: "string list \<Rightarrow> string list \<Rightarrow> bool" where
  "managed_key managed key \<longleftrightarrow> 2 \<le> length key \<and> key ! 0 = codex_container \<and> key ! 1 \<in> set managed"

fun append_entries :: "mcp_entry list \<Rightarrow> string \<Rightarrow> harness_error + string" where
  "append_entries [] out = Inr out"
| "append_entries (e # es) out =
     (case render_toml_entry [codex_container] e of
        Inl err \<Rightarrow> Inl err
      | Inr block \<Rightarrow> append_entries es (append_block out block))"

definition rewrite_codex :: "string \<Rightarrow> mcp_entry list \<Rightarrow> string list \<Rightarrow> harness_error + string" where
  "rewrite_codex orig entries managed =
     (case scan_tables orig of
        Inl err \<Rightarrow> Inl (MalformedConfig ''toml'')
      | Inr spans \<Rightarrow>
          (case append_entries entries (remove_tables orig spans (managed_key managed)) of
             Inl err \<Rightarrow> Inl err
           | Inr out \<Rightarrow> if trim_space out = [] then Inr [] else Inr out))"

end
