(* ===== verification/Json_Edit.thy ===== *)
theory Json_Edit
  imports Harness Go_Json
begin

text \<open>
  \<open>internal/agent/harness/jsonedit.go\<close> and the Claude Code half of \<open>writer.go\<close>: a JSON object as the list
  of its members with their raw bytes, read, edited and written back in its order and layout.
\<close>

section \<open>Objects\<close>

type_synonym json_object = "(string \<times> string) list"

datatype object_error = NotAnObject | BadMember | TrailingAfterObject

text \<open>
  The members after the opening brace: a key, the raw bytes of its value, and a comma or the closing
  brace. A key that was seen keeps its place and takes the new value.
\<close>

fun object_members :: "nat \<Rightarrow> bool \<Rightarrow> json_object \<Rightarrow> string \<Rightarrow> (json_object \<times> string) option" where
  "object_members 0 opening obj s = None"
| "object_members (Suc f) opening obj s =
     (case skip_ws s of
        [] \<Rightarrow> None
      | q # r \<Rightarrow>
          if opening \<and> q = CHR ''}'' then Some (obj, r)
          else if q \<noteq> quote then None
          else (case scan_str r of
             None \<Rightarrow> None
           | Some (k, r1) \<Rightarrow>
               (case skip_ws r1 of
                  [] \<Rightarrow> None
                | c # r2 \<Rightarrow>
                    if c \<noteq> CHR '':'' then None
                    else (let v = skip_ws r2 in case p_value (parse_fuel v) 0 v of
                        POk x r3 \<Rightarrow>
                          (let obj' = assoc_set (unquote k) (take (length v - length r3) v) obj in
                           case skip_ws r3 of
                             [] \<Rightarrow> None
                           | e # r4 \<Rightarrow>
                               if e = CHR '','' then object_members f False obj' r4
                               else if e = CHR ''}'' then Some (obj', r4) else None)
                      | _ \<Rightarrow> None))))"

definition parse_json_object :: "string \<Rightarrow> object_error + json_object" where
  "parse_json_object raw =
     (if trim_space raw = [] then Inr []
      else (case skip_ws raw of
              [] \<Rightarrow> Inl NotAnObject
            | c # r \<Rightarrow>
                if c \<noteq> CHR ''{'' then Inl NotAnObject
                else (case object_members (Suc (length raw)) True [] r of
                        None \<Rightarrow> Inl BadMember
                      | Some (obj, rest) \<Rightarrow> if skip_ws rest = [] then Inr obj else Inl TrailingAfterObject)))"

definition object_get :: "json_object \<Rightarrow> string \<Rightarrow> string option" where
  "object_get obj k = map_of obj k"

definition object_set :: "string \<Rightarrow> string \<Rightarrow> json_object \<Rightarrow> json_object" where
  "object_set k v obj = assoc_set k v obj"

definition object_delete :: "string \<Rightarrow> json_object \<Rightarrow> json_object" where
  "object_delete k obj = assoc_del k obj"

definition object_marshal :: "json_object \<Rightarrow> string" where
  "object_marshal obj = CHR ''{'' # str_join '','' (map (\<lambda>(k, v). json_quote k @ '':'' @ v) obj) @ ''}''"

section \<open>Layout\<close>

definition detect_json_indent :: "string \<Rightarrow> string" where
  "detect_json_indent original =
     (let t = trim_space original in
      if t = [] then ''  ''
      else if newline \<notin> set t then []
      else takeWhile (\<lambda>c. c = CHR '' '' \<or> c = tab) (drop 1 (dropWhile (\<lambda>c. c \<noteq> newline) t)))"

text \<open>
  \<open>json.Indent\<close> of a valid text: white space between tokens is dropped, strings are copied, and the
  punctuation gets a new line or a space; the indent after an opening bracket waits for a first element.
\<close>

definition new_line :: "string \<Rightarrow> nat \<Rightarrow> string" where
  "new_line unit depth = newline # concat (replicate depth unit)"

fun indent_from :: "nat \<Rightarrow> string \<Rightarrow> nat \<Rightarrow> bool \<Rightarrow> string \<Rightarrow> string" where
  "indent_from 0 unit depth waiting s = []"
| "indent_from (Suc f) unit depth waiting s =
     (case s of
        [] \<Rightarrow> []
      | c # r \<Rightarrow>
          if json_space c then indent_from f unit depth waiting r
          else if c = CHR ''}'' \<or> c = CHR '']'' then
            (if waiting then c # indent_from f unit depth False r
             else new_line unit (depth - 1) @ c # indent_from f unit (depth - 1) False r)
          else (let d = (if waiting then Suc depth else depth); nl = (if waiting then new_line unit d else []) in
            if c = CHR ''{'' \<or> c = CHR ''['' then nl @ c # indent_from f unit d True r
            else if c = CHR '','' then nl @ c # new_line unit d @ indent_from f unit d False r
            else if c = CHR '':'' then nl @ c # CHR '' '' # indent_from f unit d False r
            else if c = quote then
              (case scan_str r of
                 None \<Rightarrow> nl @ c # indent_from f unit d False r
               | Some (t, r') \<Rightarrow> nl @ c # t @ quote # indent_from f unit d False r')
            else nl @ c # indent_from f unit d False r))"

definition json_indent :: "string \<Rightarrow> string \<Rightarrow> string option" where
  "json_indent unit s =
     (if json_unmarshal s = None then None else Some (indent_from (Suc (length s)) unit 0 False s))"

definition marshal_like :: "string \<Rightarrow> json_object \<Rightarrow> string option" where
  "marshal_like original obj =
     (let compact = object_marshal obj; unit = detect_json_indent original in
      if unit = [] then Some (compact @ [newline])
      else map_option (\<lambda>t. t @ [newline]) (json_indent unit compact))"

section \<open>The Claude Code writer's rewrite\<close>

definition claude_container :: string where "claude_container = ''mcpServers''"

definition json_strings :: "string list \<Rightarrow> string" where
  "json_strings xs = CHR ''['' # str_join '','' (map json_quote xs) @ '']''"

text \<open>A Go map of strings is encoded with its keys sorted.\<close>

definition json_string_map :: "(string \<times> string) list \<Rightarrow> string" where
  "json_string_map m =
     CHR ''{'' # str_join '','' (map (\<lambda>k. json_quote k @ '':'' @ json_quote (the (map_of m k))) (sort_strings (map fst m))) @ ''}''"

definition marshal_claude_entry :: "mcp_entry \<Rightarrow> harness_error + string" where
  "marshal_claude_entry e =
     (if en_transport e = transport_http then
        Inr (object_marshal ([(''type'', json_quote ''http''), (''url'', json_quote (en_url e))]
          @ only_if (en_headers e \<noteq> []) [(''headers'', json_string_map (en_headers e))]))
      else if en_transport e = transport_stdio then
        Inr (object_marshal ([(''type'', json_quote ''stdio''), (''command'', json_quote (en_command e)),
            (''args'', json_strings (en_args e))]
          @ only_if (en_env e \<noteq> []) [(''env'', json_string_map (en_env e))]))
      else Inl (EntryTransport (en_name e) (en_transport e)))"

fun set_entries :: "mcp_entry list \<Rightarrow> json_object \<Rightarrow> harness_error + json_object" where
  "set_entries [] servers = Inr servers"
| "set_entries (e # es) servers =
     (case marshal_claude_entry e of
        Inl err \<Rightarrow> Inl err
      | Inr v \<Rightarrow> set_entries es (object_set (en_name e) v servers))"

text \<open>The edited root object.\<close>

definition claude_root :: "string \<Rightarrow> mcp_entry list \<Rightarrow> string list \<Rightarrow> harness_error + json_object" where
  "claude_root orig entries managed =
     (case parse_json_object orig of
        Inl err \<Rightarrow> Inl (MalformedConfig ''json'')
      | Inr root \<Rightarrow>
          (case (case object_get root claude_container of None \<Rightarrow> Inr [] | Some raw \<Rightarrow> parse_json_object raw) of
             Inl err \<Rightarrow> Inl (MalformedConfig claude_container)
           | Inr servers \<Rightarrow>
               (case set_entries entries (fold object_delete managed servers) of
                  Inl err \<Rightarrow> Inl err
                | Inr servers' \<Rightarrow>
                    if servers' = [] then Inr (object_delete claude_container root)
                    else Inr (object_set claude_container (object_marshal servers') root))))"

definition rewrite_claude :: "string \<Rightarrow> mcp_entry list \<Rightarrow> string list \<Rightarrow> harness_error + string" where
  "rewrite_claude orig entries managed =
     (case claude_root orig entries managed of
        Inl err \<Rightarrow> Inl err
      | Inr root \<Rightarrow> (case marshal_like orig root of None \<Rightarrow> Inl (HarnessIo ''indent'') | Some out \<Rightarrow> Inr out))"

end
