(* ===== verification/Config_Writer.thy ===== *)
theory Config_Writer
  imports Harness_Detect Preserve Toml_Edit Json_Edit
begin

text \<open>
  \<open>internal/agent/harness/writer.go\<close> and \<open>backup.go\<close>: the write procedure both harnesses share. The file belongs
  to programs that are not this one, so every system call is a step at which other processes may have changed
  the disk and at which the call may fail.
\<close>

section \<open>The disk and the system calls\<close>

record disk_file =
  df_data :: string
  df_mode :: nat

type_synonym disk = "string \<Rightarrow> disk_file option"

text \<open>
  What happens at the \<open>n\<close>-th system call of the run: what other processes did to the disk before it, whether
  it fails, how many bytes a failing write leaves, and the clock as \<open>20060102T150405Z\<close>.
\<close>

record os_env =
  ev_other :: "nat \<Rightarrow> disk \<Rightarrow> disk"
  ev_fault :: "nat \<Rightarrow> bool"
  ev_short :: "nat \<Rightarrow> nat"
  ev_stamp :: "nat \<Rightarrow> string"

record os_world =
  ow_disk :: disk
  ow_step :: nat

definition file_perm :: nat where "file_perm = 384"

definition os_step :: "os_env \<Rightarrow> os_world \<Rightarrow> bool \<times> os_world" where
  "os_step e w = (ev_fault e (ow_step w), \<lparr>ow_disk = ev_other e (ow_step w) (ow_disk w), ow_step = Suc (ow_step w)\<rparr>)"

text \<open>Calls that do not touch a file of the model; the first that fails stops.\<close>

primrec os_steps :: "nat \<Rightarrow> os_env \<Rightarrow> os_world \<Rightarrow> bool \<times> os_world" where
  "os_steps 0 e w = (False, w)"
| "os_steps (Suc n) e w = (case os_step e w of (bad, w1) \<Rightarrow> if bad then (True, w1) else os_steps n e w1)"

definition put_file :: "string \<Rightarrow> disk_file option \<Rightarrow> os_world \<Rightarrow> os_world" where
  "put_file p f w = w\<lparr>ow_disk := (ow_disk w)(p := f)\<rparr>"

datatype read_answer = ReadFault | ReadMissing | ReadData string

definition read_file :: "os_env \<Rightarrow> string \<Rightarrow> os_world \<Rightarrow> read_answer \<times> os_world" where
  "read_file e p w =
     (case os_step e w of (bad, w1) \<Rightarrow>
        ((if bad then ReadFault else case ow_disk w1 p of None \<Rightarrow> ReadMissing | Some f \<Rightarrow> ReadData (df_data f)), w1))"

text \<open>\<open>readFileAllowingMissing\<close>: \<open>None\<close> is a failure.\<close>

definition read_allowing_missing :: "os_env \<Rightarrow> string \<Rightarrow> os_world \<Rightarrow> string option \<times> os_world" where
  "read_allowing_missing e p w =
     (case read_file e p w of (a, w1) \<Rightarrow>
        ((case a of ReadFault \<Rightarrow> None | ReadMissing \<Rightarrow> Some [] | ReadData d \<Rightarrow> Some d), w1))"

definition chmod_file :: "os_env \<Rightarrow> string \<Rightarrow> os_world \<Rightarrow> bool \<times> os_world" where
  "chmod_file e p w =
     (case os_step e w of (bad, w1) \<Rightarrow>
        case ow_disk w1 p of
          None \<Rightarrow> (False, w1)
        | Some f \<Rightarrow> if bad then (False, w1) else (True, put_file p (Some (f\<lparr>df_mode := file_perm\<rparr>)) w1))"

text \<open>
  \<open>writeFileAtomic\<close>. Making the temporary file, its mode, its bytes, the flush and the close precede the rename;
  opening and flushing the directory follow it. A temporary file that is left behind is not in the model's disk.
\<close>

definition steps_before_rename :: nat where "steps_before_rename = 5"
definition steps_after_rename :: nat where "steps_after_rename = 2"

definition write_file_atomic :: "os_env \<Rightarrow> string \<Rightarrow> string \<Rightarrow> os_world \<Rightarrow> bool \<times> os_world" where
  "write_file_atomic e p data w =
     (case os_steps steps_before_rename e w of (bad, w1) \<Rightarrow>
        if bad then (False, w1)
        else (case os_step e w1 of (bad, w2) \<Rightarrow>
          if bad then (False, w2)
          else (case os_steps steps_after_rename e (put_file p (Some \<lparr>df_data = data, df_mode = file_perm\<rparr>) w2) of
                  (bad, w3) \<Rightarrow> (\<not> bad, w3))))"

section \<open>Backups\<close>

definition backup_suffix :: string where "backup_suffix = ''.homeplane-backup-''"
definition max_backup_names :: nat where "max_backup_names = 100"

definition backup_name :: "string \<Rightarrow> nat \<Rightarrow> string" where
  "backup_name base attempt = (if attempt = 0 then base else base @ ''-'' @ show_nat attempt)"

text \<open>
  The exclusive creation, tried under one name after the other, and then the copy. A write that fails leaves the
  bytes it managed; a file that others removed meanwhile is not made again.
\<close>

definition fill_backup :: "os_env \<Rightarrow> string \<Rightarrow> string \<Rightarrow> os_world \<Rightarrow> bool \<times> os_world" where
  "fill_backup e p data w =
     (case os_step e w of (bad, w1) \<Rightarrow>
        (let written = (if bad then take (ev_short e (ow_step w)) data else data);
             w2 = put_file p (map_option (\<lambda>f. f\<lparr>df_data := written\<rparr>) (ow_disk w1 p)) w1
         in if bad then (False, w2)
            else (case os_steps 2 e w2 of (bad, w3) \<Rightarrow> (\<not> bad, w3))))"

function create_backup :: "os_env \<Rightarrow> string \<Rightarrow> string \<Rightarrow> nat \<Rightarrow> os_world \<Rightarrow> string option \<times> os_world" where
  "create_backup e base data attempt w =
     (case os_step e w of (bad, w1) \<Rightarrow>
        (let candidate = backup_name base attempt in
         if ow_disk w1 candidate \<noteq> None then
           (if attempt > max_backup_names then (None, w1) else create_backup e base data (Suc attempt) w1)
         else if bad then (None, w1)
         else (case fill_backup e candidate data (put_file candidate (Some \<lparr>df_data = [], df_mode = file_perm\<rparr>) w1) of
                 (ok, w2) \<Rightarrow> (if ok then Some candidate else None, w2))))"
  by pat_completeness auto
termination
  by (relation "measure (\<lambda>(e, base, data, attempt, w). Suc max_backup_names - attempt)") auto

declare create_backup.simps [simp del]

text \<open>\<open>backupFile\<close>: the name of the copy, empty when there is nothing to copy; \<open>None\<close> is a failure.\<close>

definition backup_file :: "os_env \<Rightarrow> string \<Rightarrow> os_world \<Rightarrow> string option \<times> os_world" where
  "backup_file e p w =
     (case read_file e p w of (a, w1) \<Rightarrow>
        case a of
          ReadFault \<Rightarrow> (None, w1)
        | ReadMissing \<Rightarrow> (Some [], w1)
        | ReadData d \<Rightarrow> create_backup e (p @ backup_suffix @ ev_stamp e (ow_step w1)) d 0 w1)"

definition remove_file :: "os_env \<Rightarrow> string \<Rightarrow> os_world \<Rightarrow> bool \<times> os_world" where
  "remove_file e p w =
     (case os_step e w of (bad, w1) \<Rightarrow>
        if ow_disk w1 p = None then (True, w1) else if bad then (False, w1) else (True, put_file p None w1))"

definition restore_from_backup :: "os_env \<Rightarrow> string \<Rightarrow> string \<Rightarrow> os_world \<Rightarrow> bool \<times> os_world" where
  "restore_from_backup e p backup w =
     (if backup = [] then remove_file e p w
      else (case read_file e backup w of (a, w1) \<Rightarrow>
              case a of ReadData d \<Rightarrow> write_file_atomic e p d w1 | _ \<Rightarrow> (False, w1)))"

section \<open>One merge\<close>

record config_format =
  cf_container :: string
  cf_parse :: "string \<Rightarrow> members option"
  cf_rewrite :: "string \<Rightarrow> mcp_entry list \<Rightarrow> string list \<Rightarrow> harness_error + string"

record merge_result =
  mr_backup :: string
  mr_changed :: bool
  mr_retry :: bool
  mr_error :: "harness_error option"

definition merge_failed :: "string \<Rightarrow> bool \<Rightarrow> harness_error \<Rightarrow> merge_result" where
  "merge_failed backup changed err = \<lparr>mr_backup = backup, mr_changed = changed, mr_retry = False, mr_error = Some err\<rparr>"

definition merge_done :: "string \<Rightarrow> bool \<Rightarrow> bool \<Rightarrow> merge_result" where
  "merge_done backup changed retry = \<lparr>mr_backup = backup, mr_changed = changed, mr_retry = retry, mr_error = None\<rparr>"

definition check_of :: "config_format \<Rightarrow> string list \<Rightarrow> preservation_check" where
  "check_of fmt managed = \<lparr>pc_parse = cf_parse fmt, pc_container = cf_container fmt, pc_managed = managed\<rparr>"

text \<open>
  The second half of \<open>applyOnce\<close>: the last look (\<open>land\<close>), then the replacement and the check of what landed
  (\<open>replace_file\<close>).
\<close>

definition replace_file :: "os_env \<Rightarrow> config_format \<Rightarrow> string \<Rightarrow> string list \<Rightarrow> string \<Rightarrow> string \<Rightarrow> string \<Rightarrow> os_world
    \<Rightarrow> merge_result \<times> os_world" where
  "replace_file e fmt p managed backup orig result w =
     (case write_file_atomic e p result w of
        (False, w2) \<Rightarrow> (merge_failed backup False (HarnessIo ''write''), w2)
      | (True, w2) \<Rightarrow>
          (case read_file e p w2 of
             (ReadData landed, w3) \<Rightarrow>
               (case verify (check_of fmt managed) orig landed of
                  None \<Rightarrow> (merge_done backup True False, w3)
                | Some err \<Rightarrow>
                    (case restore_from_backup e p backup w3 of
                       (True, w4) \<Rightarrow> (merge_failed backup True (RolledBack backup), w4)
                     | (False, w4) \<Rightarrow> (merge_failed backup True (RollbackFailed backup), w4)))
           | (_, w3) \<Rightarrow> (merge_failed backup True (HarnessIo ''re-read''), w3)))"

definition land :: "os_env \<Rightarrow> config_format \<Rightarrow> string \<Rightarrow> string list \<Rightarrow> string \<Rightarrow> string \<Rightarrow> string \<Rightarrow> os_world
    \<Rightarrow> merge_result \<times> os_world" where
  "land e fmt p managed backup orig result w =
     (case read_allowing_missing e p w of
        (None, w1) \<Rightarrow> (merge_failed backup False (HarnessIo ''read''), w1)
      | (Some current, w1) \<Rightarrow>
          if current \<noteq> orig then (merge_done backup False True, w1)
          else replace_file e fmt p managed backup orig result w1)"

definition apply_once :: "os_env \<Rightarrow> config_format \<Rightarrow> string \<Rightarrow> mcp_entry list \<Rightarrow> string list \<Rightarrow> os_world
    \<Rightarrow> merge_result \<times> os_world" where
  "apply_once e fmt p entries managed w =
     (case read_allowing_missing e p w of
        (None, w1) \<Rightarrow> (merge_failed [] False (HarnessIo ''read''), w1)
      | (Some orig, w1) \<Rightarrow>
          (case backup_file e p w1 of
             (None, w2) \<Rightarrow> (merge_failed [] False (HarnessIo ''backup''), w2)
           | (Some backup, w2) \<Rightarrow>
               if trim_space orig \<noteq> [] \<and> cf_parse fmt orig = None
               then (merge_failed backup False (MalformedConfig p), w2)
               else (case cf_rewrite fmt orig entries managed of
                  Inl err \<Rightarrow> (merge_failed backup False err, w2)
                | Inr result \<Rightarrow>
                    (case verify (check_of fmt managed) orig result of
                       Some err \<Rightarrow> (merge_failed backup False err, w2)
                     | None \<Rightarrow>
                         if orig = result then
                           (case chmod_file e p w2 of
                              (False, w3) \<Rightarrow> (merge_failed backup False (HarnessIo ''tighten permissions''), w3)
                            | (True, w3) \<Rightarrow> (merge_done backup False False, w3))
                         else land e fmt p managed backup orig result w2))))"

section \<open>Apply\<close>

definition managed_names :: "mcp_entry list \<Rightarrow> string list \<Rightarrow> string list" where
  "managed_names entries retire = sort_strings (remdups (map en_name entries @ retire))"

definition max_merge_attempts :: nat where "max_merge_attempts = 5"

record apply_result =
  ar_backup :: string
  ar_changed :: bool
  ar_error :: "harness_error option"

function merge_loop :: "os_env \<Rightarrow> config_format \<Rightarrow> string \<Rightarrow> mcp_entry list \<Rightarrow> string list \<Rightarrow> nat \<Rightarrow> string \<Rightarrow> os_world
    \<Rightarrow> apply_result \<times> os_world" where
  "merge_loop e fmt p entries managed attempt backup w =
     (case apply_once e fmt p entries managed w of (m, w1) \<Rightarrow>
        (let backup' = (if mr_backup m \<noteq> [] then mr_backup m else backup) in
         if mr_error m \<noteq> None then (\<lparr>ar_backup = backup', ar_changed = False, ar_error = mr_error m\<rparr>, w1)
         else if \<not> mr_retry m then (\<lparr>ar_backup = backup', ar_changed = mr_changed m, ar_error = None\<rparr>, w1)
         else if attempt \<ge> max_merge_attempts then (\<lparr>ar_backup = backup', ar_changed = False, ar_error = Some KeptChanging\<rparr>, w1)
         else merge_loop e fmt p entries managed (Suc attempt) backup' w1))"
  by pat_completeness auto
termination
  by (relation "measure (\<lambda>(e, fmt, p, entries, managed, attempt, backup, w). max_merge_attempts - attempt)") auto

declare merge_loop.simps [simp del]

definition first_refusal :: "('x \<Rightarrow> 'y option) \<Rightarrow> 'x list \<Rightarrow> 'y option" where
  "first_refusal f xs = (case List.find (\<lambda>x. f x \<noteq> None) xs of None \<Rightarrow> None | Some x \<Rightarrow> f x)"

definition apply_config :: "machine_view \<Rightarrow> os_env \<Rightarrow> config_format \<Rightarrow> string \<Rightarrow> mcp_entry list \<Rightarrow> string list \<Rightarrow> os_world
    \<Rightarrow> apply_result \<times> os_world" where
  "apply_config mv e fmt p entries retire w =
     (let refuse = (\<lambda>err. \<lparr>ar_backup = [], ar_changed = False, ar_error = Some err\<rparr>) in
      case scope_error mv p of
        Some err \<Rightarrow> (refuse err, w)
      | None \<Rightarrow>
          (case first_refusal entry_validate entries of
             Some err \<Rightarrow> (refuse err, w)
           | None \<Rightarrow>
               (case first_refusal validate_server_name retire of
                  Some err \<Rightarrow> (refuse err, w)
                | None \<Rightarrow>
                    (case os_step e w of (bad, w1) \<Rightarrow>
                       if bad then (refuse (HarnessIo ''create directory''), w1)
                       else merge_loop e fmt p entries (managed_names entries retire) 0 [] w1))))"

definition preflight :: "os_env \<Rightarrow> config_format \<Rightarrow> string \<Rightarrow> os_world \<Rightarrow> harness_error option \<times> os_world" where
  "preflight e fmt p w =
     (case read_file e p w of (a, w1) \<Rightarrow>
        ((case a of
            ReadMissing \<Rightarrow> None
          | ReadFault \<Rightarrow> Some (HarnessIo ''read'')
          | ReadData d \<Rightarrow> if trim_space d = [] \<or> cf_parse fmt d \<noteq> None then None else Some (MalformedConfig p)), w1))"

section \<open>The two formats\<close>

text \<open>The TOML parser is a package of its own: what it reads is a parameter.\<close>

definition claude_format :: "(string \<Rightarrow> nat option) \<Rightarrow> config_format" where
  "claude_format float64 = \<lparr>cf_container = claude_container, cf_parse = parse_json_tree float64, cf_rewrite = rewrite_claude\<rparr>"

definition codex_format :: "(string \<Rightarrow> members option) \<Rightarrow> config_format" where
  "codex_format toml = \<lparr>cf_container = codex_container, cf_parse = toml, cf_rewrite = rewrite_codex\<rparr>"

end
