(* ===== verification/Configure.thy ===== *)
theory Configure
  imports Config_Writer
begin

text \<open>
  \<open>internal/agent/harness/configure.go\<close>: a run over the harnesses of the machine. For each one it detects the
  installation, reads the record of the previous run, asks the server for a grant and has the writer put the
  managed entries into the configuration. The server is a state of its own behind the issuer.
\<close>

section \<open>Grants, records and the run's settings\<close>

record harness_grant =
  hg_id :: string
  hg_capabilities :: "string list"
  hg_endpoint :: string
  hg_token :: string
  hg_superseded :: string

type_synonym 'srv grant_issuer = "string \<Rightarrow> 'srv \<Rightarrow> harness_grant option \<times> 'srv"

record harness_record =
  hr_schema :: int
  hr_harness :: string
  hr_config_path :: string
  hr_managed :: "string list"
  hr_grant_id :: string
  hr_endpoint :: string
  hr_capabilities :: "string list"
  hr_at :: int

definition record_schema_version :: int where "record_schema_version = 1"

text \<open>A record's file: absent, not a record, or a record.\<close>

datatype record_file = NoRecord | CorruptRecord | RecordHolds harness_record

record 'srv configurator =
  cg_state_dir :: string
  cg_locator :: locator
  cg_issuer :: "'srv grant_issuer option"
  cg_only :: "string list"
  cg_lock :: "bool option"
  cg_now :: "string \<Rightarrow> int"
  cg_machine :: machine_view
  cg_float64 :: "string \<Rightarrow> nat option"
  cg_toml :: "string \<Rightarrow> members option"
  cg_descriptor :: descriptor_file

record 'srv cfg_world =
  cw_os :: os_world
  cw_srv :: 'srv
  cw_records :: "string \<Rightarrow> record_file"

datatype configure_error = NoIssuer | NoStateDir | UnknownHarness string | LockFailed | EngineUnusable descriptor_error

section \<open>Selection\<close>

fun known_of :: "string list \<Rightarrow> configure_error + string list" where
  "known_of [] = Inr []"
| "known_of (h # hs) =
     (let n = to_lower (trim_space h) in
      if n \<notin> set known_harness_names then Inl (UnknownHarness n)
      else (case known_of hs of Inl err \<Rightarrow> Inl err | Inr ns \<Rightarrow> Inr (n # ns)))"

definition selected :: "'srv configurator \<Rightarrow> configure_error + string list" where
  "selected cg = (if cg_only cg = [] then Inr known_harness_names else known_of (cg_only cg))"

section \<open>Records\<close>

definition empty_record :: "string \<Rightarrow> harness_record" where
  "empty_record h = \<lparr>hr_schema = 0, hr_harness = h, hr_config_path = [], hr_managed = [], hr_grant_id = [], hr_endpoint = [],
     hr_capabilities = [], hr_at = 0\<rparr>"

definition load_record :: "os_env \<Rightarrow> string \<Rightarrow> 'srv cfg_world \<Rightarrow> harness_record option \<times> 'srv cfg_world" where
  "load_record e h w =
     (case os_step e (cw_os w) of (bad, o1) \<Rightarrow>
        ((if bad then None
          else case cw_records w h of RecordHolds r \<Rightarrow> Some r | _ \<Rightarrow> Some (empty_record h)),
         w\<lparr>cw_os := o1\<rparr>))"

text \<open>The directory, and the record's file replaced as a configuration is.\<close>

definition save_record :: "os_env \<Rightarrow> harness_record \<Rightarrow> 'srv cfg_world \<Rightarrow> bool \<times> 'srv cfg_world" where
  "save_record e r w =
     (case os_steps (Suc steps_before_rename) e (cw_os w) of (bad, o1) \<Rightarrow>
        if bad then (False, w\<lparr>cw_os := o1\<rparr>)
        else (case os_step e o1 of (bad, o2) \<Rightarrow>
          if bad then (False, w\<lparr>cw_os := o2\<rparr>)
          else (case os_steps steps_after_rename e o2 of (bad, o3) \<Rightarrow>
            (\<not> bad, w\<lparr>cw_os := o3, cw_records := (cw_records w)(hr_harness r := RecordHolds r)\<rparr>))))"

fun load_known :: "os_env \<Rightarrow> string list \<Rightarrow> 'srv cfg_world \<Rightarrow> harness_record list option \<times> 'srv cfg_world" where
  "load_known e [] w = (Some [], w)"
| "load_known e (h # hs) w =
     (case os_step e (cw_os w) of (bad, o1) \<Rightarrow>
        (let w0 = w\<lparr>cw_os := o1\<rparr> in
         if bad \<or> cw_records w h = NoRecord then load_known e hs w0
         else (case load_record e h w0 of
                 (None, w1) \<Rightarrow> (None, w1)
               | (Some r, w1) \<Rightarrow>
                   (case load_known e hs w1 of (rs, w2) \<Rightarrow>
                      (map_option (\<lambda>xs. (if hr_grant_id r = [] then [] else [r]) @ xs) rs, w2)))))"

definition load_records :: "os_env \<Rightarrow> 'srv cfg_world \<Rightarrow> harness_record list option \<times> 'srv cfg_world" where
  "load_records e w = load_known e known_harness_names w"

section \<open>One harness\<close>

definition connector_entry :: "harness_grant \<Rightarrow> mcp_entry" where
  "connector_entry g = \<lparr>en_name = connector_server_name, en_transport = transport_http, en_url = hg_endpoint g,
     en_headers = [(''Authorization'', ''Bearer '' @ hg_token g)], en_command = [], en_args = [], en_env = []\<rparr>"

definition format_for :: "'srv configurator \<Rightarrow> string \<Rightarrow> config_format option" where
  "format_for cg h =
     (if h = claude_code then Some (claude_format (cg_float64 cg))
      else if h = codex then Some (codex_format (cg_toml cg)) else None)"

text \<open>What the machine says of a path on the disk of the run.\<close>

definition view_at :: "machine_view \<Rightarrow> disk \<Rightarrow> machine_view" where
  "view_at mv d = mv\<lparr>mv_stat := (\<lambda>p. if d p \<noteq> None then StatFile
     else if mv_stat mv p = StatFile then StatMissing else mv_stat mv p)\<rparr>"

definition fresh_outcome :: "string \<Rightarrow> int \<Rightarrow> harness_outcome" where
  "fresh_outcome h now = \<lparr>oc_harness = h, oc_status = StatusUnset, oc_installed = False, oc_config_path = [], oc_backup_path = [],
     oc_managed = [], oc_retired = [], oc_grant_id = [], oc_superseded = [], oc_endpoint = [], oc_capabilities = [],
     oc_reason = NoReason, oc_changed = False, oc_at = now\<rparr>"

definition failed :: "harness_outcome \<Rightarrow> outcome_reason \<Rightarrow> harness_outcome" where
  "failed x reason = x\<lparr>oc_status := StatusFailed, oc_reason := reason\<rparr>"

definition skipped :: "harness_outcome \<Rightarrow> outcome_reason \<Rightarrow> harness_outcome" where
  "skipped x reason = x\<lparr>oc_status := StatusSkipped, oc_reason := reason\<rparr>"

definition is_malformed :: "harness_error \<Rightarrow> bool" where
  "is_malformed err = (case err of MalformedConfig _ \<Rightarrow> True | _ \<Rightarrow> False)"

definition granted_entries :: "harness_grant \<Rightarrow> mcp_entry option \<Rightarrow> mcp_entry list" where
  "granted_entries g engine = connector_entry g # (case engine of None \<Rightarrow> [] | Some e \<Rightarrow> [e])"

text \<open>The outcome once a grant is held, before the file is written.\<close>

definition granted_outcome :: "harness_outcome \<Rightarrow> harness_grant \<Rightarrow> mcp_entry option \<Rightarrow> harness_record \<Rightarrow> harness_outcome" where
  "granted_outcome x g engine prior =
     (let names = map en_name (granted_entries g engine) in
      x\<lparr>oc_grant_id := hg_id g, oc_superseded := hg_superseded g, oc_endpoint := hg_endpoint g,
        oc_capabilities := hg_capabilities g,
        oc_reason := (if engine = None then EngineInactive else oc_reason x),
        oc_managed := sort_strings names,
        oc_retired := sort_strings (filter (\<lambda>n. n \<notin> set names) (hr_managed prior))\<rparr>)"

text \<open>The last part: the file, then the record.\<close>

definition write_granted :: "'srv configurator \<Rightarrow> os_env \<Rightarrow> config_format \<Rightarrow> harness_outcome \<Rightarrow> harness_grant
    \<Rightarrow> mcp_entry option \<Rightarrow> 'srv cfg_world \<Rightarrow> harness_outcome \<times> 'srv cfg_world" where
  "write_granted cg e fmt x g engine w =
     (case apply_config (cg_machine cg) e fmt (oc_config_path x) (granted_entries g engine) (oc_retired x) (cw_os w) of (r, o1) \<Rightarrow>
        (let w1 = w\<lparr>cw_os := o1\<rparr>; y = x\<lparr>oc_backup_path := ar_backup r\<rparr> in
         case ar_error r of
           Some err \<Rightarrow> ((if is_malformed err then skipped y (UntouchedMalformed err) else failed y (ApplyFailed err)), w1)
         | None \<Rightarrow>
             (let z = y\<lparr>oc_changed := ar_changed r\<rparr> in
              case save_record e
                  \<lparr>hr_schema = record_schema_version, hr_harness = oc_harness x, hr_config_path = oc_config_path x,
                   hr_managed = oc_managed x, hr_grant_id = hg_id g, hr_endpoint = hg_endpoint g,
                   hr_capabilities = hg_capabilities g, hr_at = oc_at x\<rparr> w1 of
                (False, w2) \<Rightarrow> (failed z RecordUnwritten, w2)
              | (True, w2) \<Rightarrow> (z\<lparr>oc_status := StatusConfigured\<rparr>, w2))))"

definition configure_one :: "'srv configurator \<Rightarrow> 'srv grant_issuer \<Rightarrow> os_env \<Rightarrow> string \<Rightarrow> mcp_entry option \<Rightarrow> 'srv cfg_world
    \<Rightarrow> harness_outcome \<times> 'srv cfg_world" where
  "configure_one cg issue e h engine w =
     (let x = fresh_outcome h (cg_now cg h) in
      case detect (view_at (cg_machine cg) (ow_disk (cw_os w))) (cg_locator cg) h of
        Inl err \<Rightarrow> (failed x (DetectFailed err), w)
      | Inr d \<Rightarrow>
          (let y = x\<lparr>oc_config_path := dt_config_path d, oc_installed := dt_installed d\<rparr> in
           if \<not> dt_installed d then (skipped y (NotInstalled (dt_reason d)), w)
           else (case format_for cg h of
             None \<Rightarrow> (failed y NoWriter, w)
           | Some fmt \<Rightarrow>
               (case load_record e h w of
                  (None, w1) \<Rightarrow> (failed y RecordUnread, w1)
                | (Some prior, w1) \<Rightarrow>
                    (case preflight e fmt (dt_config_path d) (cw_os w1) of
                       (Some err, o2) \<Rightarrow>
                         if is_malformed err
                         then (case backup_file e (dt_config_path d) o2 of
                                 (None, o3) \<Rightarrow> (failed y UntouchedNoBackup, w1\<lparr>cw_os := o3\<rparr>)
                               | (Some b, o3) \<Rightarrow> (skipped (y\<lparr>oc_backup_path := b\<rparr>) (UntouchedMalformed err), w1\<lparr>cw_os := o3\<rparr>))
                         else (failed y (PreflightFailed err), w1\<lparr>cw_os := o2\<rparr>)
                     | (None, o2) \<Rightarrow>
                         (case issue h (cw_srv w1) of
                            (None, srv) \<Rightarrow> (failed y GrantRefused, w1\<lparr>cw_os := o2, cw_srv := srv\<rparr>)
                          | (Some g, srv) \<Rightarrow>
                              (let w2 = w1\<lparr>cw_os := o2, cw_srv := srv\<rparr> in
                               if trim_space (hg_token g) = [] \<or> trim_space (hg_endpoint g) = []
                               then (failed y GrantIncomplete, w2)
                               else write_granted cg e fmt (granted_outcome y g engine prior) g engine w2)))))))"

section \<open>The run\<close>

fun configure_all :: "'srv configurator \<Rightarrow> 'srv grant_issuer \<Rightarrow> os_env \<Rightarrow> string list \<Rightarrow> mcp_entry option \<Rightarrow> 'srv cfg_world
    \<Rightarrow> harness_outcome list \<times> 'srv cfg_world" where
  "configure_all cg issue e [] engine w = ([], w)"
| "configure_all cg issue e (h # hs) engine w =
     (case configure_one cg issue e h engine w of (x, w1) \<Rightarrow>
        case configure_all cg issue e hs engine w1 of (xs, w2) \<Rightarrow> (x # xs, w2))"

definition configure :: "'srv configurator \<Rightarrow> os_env \<Rightarrow> 'srv cfg_world
    \<Rightarrow> (configure_error + harness_outcome list) \<times> 'srv cfg_world" where
  "configure cg e w =
     (case cg_issuer cg of
        None \<Rightarrow> (Inl NoIssuer, w)
      | Some issue \<Rightarrow>
          if trim_space (cg_state_dir cg) = [] then (Inl NoStateDir, w)
          else (case selected cg of
            Inl err \<Rightarrow> (Inl err, w)
          | Inr wanted \<Rightarrow>
              if cg_lock cg = Some False then (Inl LockFailed, w)
              else (case load_engine_entry (cg_descriptor cg) of
                Inl NoDescriptor \<Rightarrow> apfst Inr (configure_all cg issue e wanted None w)
              | Inl err \<Rightarrow> (Inl (EngineUnusable err), w)
              | Inr engine \<Rightarrow> apfst Inr (configure_all cg issue e wanted (Some engine) w))))"

end
