(* ===== verification/Config_Props.thy ===== *)
theory Config_Props
  imports Config_Writer
begin

text \<open>
  What a run of the write procedure leaves on the disk: with no one else writing, whatever fails; and with one
  edit of another process at a given system call.
\<close>

section \<open>System calls with no one else writing\<close>

definition quiet :: "os_env \<Rightarrow> bool" where
  "quiet e \<longleftrightarrow> (\<forall>n d. ev_other e n d = d)"

definition content :: "disk \<Rightarrow> string \<Rightarrow> string" where
  "content d p = (case d p of None \<Rightarrow> [] | Some f \<Rightarrow> df_data f)"

definition private_file :: "string \<Rightarrow> disk_file" where
  "private_file data = \<lparr>df_data = data, df_mode = file_perm\<rparr>"

lemma os_step_quiet [simp]: "quiet e \<Longrightarrow> ow_disk (snd (os_step e w)) = ow_disk w"
  by (auto simp: os_step_def quiet_def)

lemma os_steps_quiet [simp]: "quiet e \<Longrightarrow> ow_disk (snd (os_steps n e w)) = ow_disk w"
  by (induction n arbitrary: w) (auto simp: case_prod_beta)

lemma disk_put_file [simp]: "ow_disk (put_file p f w) = (ow_disk w)(p := f)"
  by (simp add: put_file_def)

lemma read_file_quiet:
  "quiet e \<Longrightarrow> read_file e p w = (a, w1) \<Longrightarrow> ow_disk w1 = ow_disk w
     \<and> (a = ReadMissing \<longrightarrow> ow_disk w p = None) \<and> (\<forall>d. a = ReadData d \<longrightarrow> (\<exists>f. ow_disk w p = Some f \<and> df_data f = d))"
  by (auto simp: read_file_def case_prod_beta split: if_splits option.splits)

lemma read_allowing_missing_quiet:
  "quiet e \<Longrightarrow> read_allowing_missing e p w = (a, w1) \<Longrightarrow> ow_disk w1 = ow_disk w
     \<and> (a = None \<or> a = Some (content (ow_disk w) p))"
  by (auto simp: read_allowing_missing_def read_file_def content_def case_prod_beta split: if_splits option.splits)

lemma chmod_file_quiet:
  "quiet e \<Longrightarrow> chmod_file e p w = (ok, w1) \<Longrightarrow>
     (\<not> ok \<longrightarrow> ow_disk w1 = ow_disk w)
     \<and> (ok \<longrightarrow> (\<exists>f. ow_disk w p = Some f \<and> ow_disk w1 = (ow_disk w)(p \<mapsto> f\<lparr>df_mode := file_perm\<rparr>)))"
  by (auto simp: chmod_file_def case_prod_beta split: if_splits option.splits)

lemma write_file_atomic_quiet:
  "quiet e \<Longrightarrow> write_file_atomic e p data w = (ok, w1) \<Longrightarrow>
     (\<not> ok \<longrightarrow> ow_disk w1 = ow_disk w \<or> ow_disk w1 = (ow_disk w)(p \<mapsto> private_file data))
     \<and> (ok \<longrightarrow> ow_disk w1 = (ow_disk w)(p \<mapsto> private_file data))"
  by (auto simp: write_file_atomic_def private_file_def case_prod_beta split: if_splits)

section \<open>The backup\<close>

lemma fill_backup_quiet:
  "quiet e \<Longrightarrow> fill_backup e b data w = (ok, w1) \<Longrightarrow>
     (\<forall>q. q \<noteq> b \<longrightarrow> ow_disk w1 q = ow_disk w q)
     \<and> (ok \<longrightarrow> ow_disk w1 b = map_option (\<lambda>f. f\<lparr>df_data := data\<rparr>) (ow_disk w b))"
  by (auto simp: fill_backup_def Let_def case_prod_beta split: if_splits)

lemma create_backup_quiet:
  "quiet e \<Longrightarrow> create_backup e base data attempt w = (r, w1) \<Longrightarrow>
     ow_disk w \<subseteq>\<^sub>m ow_disk w1
     \<and> (\<forall>q. length q < length base \<longrightarrow> ow_disk w1 q = ow_disk w q)
     \<and> (\<forall>b. r = Some b \<longrightarrow> length base \<le> length b \<and> ow_disk w1 b = Some (private_file data))"
proof (induction e base data attempt w rule: create_backup.induct)
  case (1 e base data attempt w)
  obtain bad w0 where s: "os_step e w = (bad, w0)" by fastforce
  then have d: "ow_disk w0 = ow_disk w" using os_step_quiet [OF 1(2), of w] by simp
  let ?b = "backup_name base attempt"
  have len: "length base \<le> length ?b" by (simp add: backup_name_def)
  let ?fill = "fill_backup e ?b data (put_file ?b (Some \<lparr>df_data = [], df_mode = file_perm\<rparr>) w0)"
  have step: "(r, w1) = (if ow_disk w0 ?b \<noteq> None
      then (if attempt > max_backup_names then (None, w0) else create_backup e base data (Suc attempt) w0)
      else if bad then (None, w0) else (case ?fill of (ok, w2) \<Rightarrow> (if ok then Some ?b else None, w2)))"
    unfolding 1(3) [symmetric] by (subst create_backup.simps) (simp only: s prod.case Let_def)
  show ?case
  proof (cases "ow_disk w0 ?b = None")
    case taken: False
    show ?thesis
    proof (cases "attempt > max_backup_names")
      case True
      with step taken d show ?thesis by simp
    next
      case more: False
      with step taken have "create_backup e base data (Suc attempt) w0 = (r, w1)" by simp
      from 1(1) [OF s [symmetric] refl taken more 1(2) this] d show ?thesis by simp
    qed
  next
    case free: True
    show ?thesis
    proof (cases bad)
      case True
      with step free d show ?thesis by simp
    next
      case False
      obtain ok w2 where f: "?fill = (ok, w2)" by fastforce
      have r: "r = (if ok then Some ?b else None)" "w1 = w2" using step free False f by simp_all
      have w2: "ow_disk w2 q = ow_disk w q" if "q \<noteq> ?b" for q
        using fill_backup_quiet [OF 1(2) f] that d by simp
      have "ow_disk w ?b = None" using free d by simp
      then have "ow_disk w \<subseteq>\<^sub>m ow_disk w2" unfolding map_le_def by (metis w2 domIff)
      moreover have "ow_disk w2 ?b = Some (private_file data)" if ok
        using fill_backup_quiet [OF 1(2) f] that by (simp add: private_file_def)
      moreover have "ow_disk w2 q = ow_disk w q" if "length q < length base" for q
        using w2 [of q] that len by (cases "q = ?b") simp_all
      ultimately show ?thesis using r len by simp
    qed
  qed
qed

lemma backup_file_quiet:
  assumes "quiet e" "backup_file e p w = (r, w1)"
  shows "ow_disk w1 p = ow_disk w p
    \<and> (\<forall>b f. r = Some b \<longrightarrow> ow_disk w p = Some f \<longrightarrow> b \<noteq> p \<and> ow_disk w1 b = Some (private_file (df_data f)))"
proof -
  obtain a w0 where a: "read_file e p w = (a, w0)" by fastforce
  note rd = read_file_quiet [OF assms(1) a]
  show ?thesis
  proof (cases a)
    case (ReadData d)
    let ?base = "p @ backup_suffix @ ev_stamp e (ow_step w0)"
    have c: "create_backup e ?base d 0 w0 = (r, w1)" using assms(2) a ReadData by (simp add: backup_file_def)
    have "length p < length ?base" by (simp add: backup_suffix_def)
    then show ?thesis using create_backup_quiet [OF assms(1) c] rd ReadData by fastforce
  qed (use assms(2) a rd in \<open>auto simp: backup_file_def\<close>)
qed

section \<open>One merge\<close>

text \<open>What the second half leaves when the file is what was merged and the edit has passed its check.\<close>

lemma land_quiet:
  assumes q: "quiet e" and orig: "content (ow_disk w) p = orig"
    and ok: "verify (check_of fmt managed) orig result = None"
    and run: "land e fmt p managed backup orig result w = (m, w1)"
  shows "mr_backup m = backup \<and> \<not> mr_retry m
    \<and> (ow_disk w1 = ow_disk w \<or> ow_disk w1 = (ow_disk w)(p \<mapsto> private_file result))
    \<and> (mr_error m = None \<longrightarrow> mr_changed m \<and> ow_disk w1 = (ow_disk w)(p \<mapsto> private_file result))
    \<and> (\<forall>x. mr_error m \<noteq> Some (MalformedConfig x))"
proof -
  obtain c w2 where c: "read_allowing_missing e p w = (c, w2)" by fastforce
  note c' = read_allowing_missing_quiet [OF q c, unfolded orig]
  show ?thesis
  proof (cases c)
    case None
    with run c c' show ?thesis by (auto simp: land_def merge_failed_def)
  next
    case (Some x)
    with c' have x: "x = orig" by simp
    obtain ok' w3 where wr: "write_file_atomic e p result w2 = (ok', w3)" by fastforce
    note wr' = write_file_atomic_quiet [OF q wr]
    show ?thesis
    proof (cases ok')
      case False
      with run c c' Some x wr wr' show ?thesis by (auto simp: land_def replace_file_def merge_failed_def)
    next
      case True
      obtain a w4 where a: "read_file e p w3 = (a, w4)" by fastforce
      have w3: "ow_disk w3 = (ow_disk w)(p \<mapsto> private_file result)" using wr' True c' by simp
      note a' = read_file_quiet [OF q a, unfolded w3]
      then have "a = ReadFault \<or> a = ReadData result" by (cases a) (auto simp: private_file_def)
      then show ?thesis
        using run c Some x wr True a a' ok by (auto simp: land_def replace_file_def merge_failed_def merge_done_def)
    qed
  qed
qed

text \<open>
  What a merge may leave of the file: as it was, with its mode tightened, or replaced by an edit that passed the
  check, with a copy of the original beside it.
\<close>

definition left_alone :: "disk \<Rightarrow> disk \<Rightarrow> string \<Rightarrow> bool" where
  "left_alone d d' p \<longleftrightarrow> d' p = d p"

definition tightened :: "disk \<Rightarrow> disk \<Rightarrow> string \<Rightarrow> bool" where
  "tightened d d' p \<longleftrightarrow> (\<exists>f. d p = Some f \<and> d' p = Some (f\<lparr>df_mode := file_perm\<rparr>))"

definition backed_up :: "disk \<Rightarrow> disk \<Rightarrow> string \<Rightarrow> string \<Rightarrow> bool" where
  "backed_up d d' p backup \<longleftrightarrow> (case d p of None \<Rightarrow> True | Some f \<Rightarrow> d' backup = Some (private_file (df_data f)))"

definition merged :: "config_format \<Rightarrow> string list \<Rightarrow> disk \<Rightarrow> disk \<Rightarrow> string \<Rightarrow> string \<Rightarrow> bool" where
  "merged fmt managed d d' p backup \<longleftrightarrow>
     (\<exists>result. d' p = Some (private_file result) \<and> verify (check_of fmt managed) (content d p) result = None)
     \<and> backed_up d d' p backup"

lemma apply_once_quiet:
  assumes q: "quiet e" and run: "apply_once e fmt p entries managed w = (m, w1)"
  shows "\<not> mr_retry m
    \<and> (left_alone (ow_disk w) (ow_disk w1) p \<or> tightened (ow_disk w) (ow_disk w1) p
       \<or> merged fmt managed (ow_disk w) (ow_disk w1) p (mr_backup m))
    \<and> (mr_error m = None \<longrightarrow> (\<exists>result f. cf_rewrite fmt (content (ow_disk w) p) entries managed = Inr result
         \<and> verify (check_of fmt managed) (content (ow_disk w) p) result = None
         \<and> ow_disk w1 p = Some f \<and> df_data f = result \<and> df_mode f = file_perm
         \<and> mr_changed m = (result \<noteq> content (ow_disk w) p)))
    \<and> (\<forall>x. mr_error m = Some (MalformedConfig x) \<longrightarrow>
         left_alone (ow_disk w) (ow_disk w1) p \<and> backed_up (ow_disk w) (ow_disk w1) p (mr_backup m))
    \<and> (\<forall>err. cf_rewrite fmt (content (ow_disk w) p) entries managed = Inl err \<longrightarrow> left_alone (ow_disk w) (ow_disk w1) p)"
proof -
  let ?orig = "content (ow_disk w) p"
  obtain c w2 where c: "read_allowing_missing e p w = (c, w2)" by fastforce
  note c' = read_allowing_missing_quiet [OF q c]
  obtain b w3 where b: "backup_file e p w2 = (b, w3)" by fastforce
  note b' = backup_file_quiet [OF q b]
  have p3: "ow_disk w3 p = ow_disk w p" using b' c' by simp
  have copied: "backed_up (ow_disk w) (ow_disk w3) p backup" if "b = Some backup" for backup
    using b' c' that by (auto simp: backed_up_def split: option.splits)
  have aside: "backup \<noteq> p \<or> ow_disk w p = None" if "b = Some backup" for backup
    using b' c' that by (cases "ow_disk w p") auto
  show ?thesis
  proof (cases "c = None \<or> b = None")
    case True
    then show ?thesis using run c b p3 c' by (cases c) (auto simp: apply_once_def merge_failed_def left_alone_def)
  next
    case False
    then obtain backup where B: "b = Some backup" and C: "c = Some ?orig" using c' by auto
    note head = run [unfolded apply_once_def c [unfolded C] prod.case option.case b [unfolded B]]
    show ?thesis
    proof (cases "trim_space ?orig \<noteq> [] \<and> cf_parse fmt ?orig = None")
      case True
      then show ?thesis using head p3 copied [OF B] by (auto simp: merge_failed_def left_alone_def)
    next
      case parses: False
      show ?thesis
      proof (cases "cf_rewrite fmt ?orig entries managed")
        case (Inl err)
        then show ?thesis using head parses p3 copied [OF B] by (auto simp: merge_failed_def left_alone_def)
      next
        case (Inr result)
        show ?thesis
        proof (cases "verify (check_of fmt managed) ?orig result")
          case (Some err)
          then show ?thesis using head parses Inr p3 copied [OF B] by (auto simp: merge_failed_def left_alone_def)
        next
          case ok: None
          show ?thesis
          proof (cases "?orig = result")
            case True
            obtain tight w4 where ch: "chmod_file e p w3 = (tight, w4)" by fastforce
            note chmod_file_quiet [OF q ch]
            then show ?thesis using head parses Inr ok True ch p3
              by (cases tight) (auto simp: merge_failed_def merge_done_def left_alone_def tightened_def content_def)
          next
            case False
            have run': "land e fmt p managed backup ?orig result w3 = (m, w1)"
              using head parses Inr ok False by auto
            have "content (ow_disk w3) p = ?orig" using p3 by (simp add: content_def)
            note l = land_quiet [OF q this ok run']
            have kept: "backed_up (ow_disk w) (ow_disk w1) p backup"
              using l copied [OF B] aside [OF B] by (auto simp: backed_up_def split: option.splits)
            show ?thesis using l Inr ok p3 kept False
              by (auto simp: left_alone_def merged_def private_file_def)
          qed
        qed
      qed
    qed
  qed
qed

section \<open>A run with no one else writing\<close>

lemma merge_loop_quiet:
  assumes q: "quiet e" and run: "merge_loop e fmt p entries managed attempt [] w = (r, w1)"
  obtains m where "apply_once e fmt p entries managed w = (m, w1)" "ar_backup r = mr_backup m"
    "ar_error r = mr_error m" "mr_error m = None \<Longrightarrow> ar_changed r = mr_changed m"
proof -
  obtain m w2 where m: "apply_once e fmt p entries managed w = (m, w2)" by fastforce
  have once: "\<not> mr_retry m" using apply_once_quiet [OF q m] by (rule conjunct1)
  have "(r, w1) = (let backup' = (if mr_backup m \<noteq> [] then mr_backup m else []) in
         if mr_error m \<noteq> None then (\<lparr>ar_backup = backup', ar_changed = False, ar_error = mr_error m\<rparr>, w2)
         else if \<not> mr_retry m then (\<lparr>ar_backup = backup', ar_changed = mr_changed m, ar_error = None\<rparr>, w2)
         else if attempt \<ge> max_merge_attempts then (\<lparr>ar_backup = backup', ar_changed = False, ar_error = Some KeptChanging\<rparr>, w2)
         else merge_loop e fmt p entries managed (Suc attempt) backup' w2)"
    unfolding run [symmetric] by (subst merge_loop.simps) (simp only: m prod.case)
  then have "w1 = w2" "ar_backup r = mr_backup m" "ar_error r = mr_error m"
      "mr_error m = None \<Longrightarrow> ar_changed r = mr_changed m"
    using once by (cases "mr_error m = None"; simp add: Let_def)+
  then show ?thesis using that [of m] m by simp
qed

lemma os_step_disk: "quiet e \<Longrightarrow> os_step e w = (bad, w1) \<Longrightarrow> ow_disk w1 = ow_disk w"
  using os_step_quiet [of e w] by simp

lemma content_cong: "ow_disk w1 = ow_disk w \<Longrightarrow> content (ow_disk w1) p = content (ow_disk w) p"
  by simp

text \<open>A run refuses before its first system call, fails to make the directory, or is one merge.\<close>

lemma apply_config_quiet:
  assumes q: "quiet e" and run: "apply_config mv e fmt p entries retire w = (r, w1)"
  obtains (refused) err where "ow_disk w1 = ow_disk w" "ar_error r = Some err"
      "scope_error mv p = Some err \<or> first_refusal entry_validate entries = Some err
        \<or> first_refusal validate_server_name retire = Some err \<or> err = HarnessIo ''create directory''"
    | (ran) m w0 where "ow_disk w0 = ow_disk w" "apply_once e fmt p entries (managed_names entries retire) w0 = (m, w1)"
      "ar_backup r = mr_backup m" "ar_error r = mr_error m" "mr_error m = None \<Longrightarrow> ar_changed r = mr_changed m"
proof -
  obtain bad w0 where st: "os_step e w = (bad, w0)" by fastforce
  note d = os_step_disk [OF q st]
  consider (no) "scope_error mv p \<noteq> None \<or> first_refusal entry_validate entries \<noteq> None
        \<or> first_refusal validate_server_name retire \<noteq> None \<or> bad"
    | (yes) "scope_error mv p = None" "first_refusal entry_validate entries = None"
        "first_refusal validate_server_name retire = None" "\<not> bad" by blast
  then show ?thesis
  proof cases
    case no
    then show ?thesis using run st d refused by (auto simp: apply_config_def Let_def split: option.splits)
  next
    case yes
    then have "merge_loop e fmt p entries (managed_names entries retire) 0 [] w0 = (r, w1)"
      using run st by (simp add: apply_config_def)
    from merge_loop_quiet [OF q this] show ?thesis using ran d by metis
  qed
qed

lemma first_refusal_from: "first_refusal f xs = Some y \<Longrightarrow> \<exists>x. f x = Some y"
  by (auto simp: first_refusal_def split: option.splits)

lemma entry_validate_not_malformed: "entry_validate e \<noteq> Some (MalformedConfig x)"
  by (auto simp: entry_validate_def split: option.splits)

lemma validate_server_name_not_malformed: "validate_server_name n \<noteq> Some (MalformedConfig x)"
  by (simp add: validate_server_name_def)

lemma walk_up_answer: "walk_up ask at_root cur = Some a \<Longrightarrow> a = at_root \<or> (\<exists>p. ask p = Some a)"
  using walk_up_innermost by metis

lemma scope_error_not_malformed: "scope_error mv p \<noteq> Some (MalformedConfig x)"
  by (auto simp: scope_error_def assert_user_scope_def Let_def dest!: walk_up_answer split: option.splits if_splits)

text \<open>C24. As long as no other process writes, and whatever fails at whichever system call, a run leaves the
  configuration file as it was, or the same bytes with their mode tightened, or an edit that passed the
  preservation check against the original; and in the last case the original is in the reported backup.\<close>

theorem config_kept_or_merged:
  assumes "quiet e" "apply_config mv e fmt p entries retire w = (r, w1)"
  shows "left_alone (ow_disk w) (ow_disk w1) p \<or> tightened (ow_disk w) (ow_disk w1) p
    \<or> merged fmt (managed_names entries retire) (ow_disk w) (ow_disk w1) p (ar_backup r)"
  using assms
proof (cases rule: apply_config_quiet)
  case refused
  then show ?thesis by (simp add: left_alone_def)
next
  case (ran m w0)
  from apply_once_quiet [OF assms(1) ran(2)] show ?thesis unfolding ran(1,3) by blast
qed

text \<open>A run that reports success left in the file, readable by its owner only, exactly the rewriting of what the
  file held, which had passed the check; and reports a change exactly when the bytes differ.\<close>

theorem successful_apply:
  assumes "quiet e" "apply_config mv e fmt p entries retire w = (r, w1)" "ar_error r = None"
  shows "\<exists>f. ow_disk w1 p = Some f \<and> df_mode f = file_perm
    \<and> cf_rewrite fmt (content (ow_disk w) p) entries (managed_names entries retire) = Inr (df_data f)
    \<and> verify (check_of fmt (managed_names entries retire)) (content (ow_disk w) p) (df_data f) = None
    \<and> ar_changed r = (df_data f \<noteq> content (ow_disk w) p)"
  using assms(1,2)
proof (cases rule: apply_config_quiet)
  case refused
  then show ?thesis using assms(3) by simp
next
  case (ran m w0)
  then show ?thesis using apply_once_quiet [OF assms(1) ran(2)] assms(3) by auto
qed

text \<open>A configuration reported as malformed was not touched, and the copy of it is where the report says.\<close>

theorem malformed_left_alone:
  assumes "quiet e" "apply_config mv e fmt p entries retire w = (r, w1)" "ar_error r = Some (MalformedConfig x)"
  shows "left_alone (ow_disk w) (ow_disk w1) p \<and> backed_up (ow_disk w) (ow_disk w1) p (ar_backup r)"
  using assms(1,2)
proof (cases rule: apply_config_quiet)
  case (refused err)
  then show ?thesis
    using assms(3) scope_error_not_malformed entry_validate_not_malformed validate_server_name_not_malformed
    by (auto dest!: first_refusal_from)
next
  case (ran m w0)
  have "mr_error m = Some (MalformedConfig x)" using ran(4) assms(3) by simp
  then show ?thesis using apply_once_quiet [OF assms(1) ran(2)] unfolding ran(1,3) by blast
qed

section \<open>A concrete run\<close>

definition plain_machine :: machine_view where
  "plain_machine = \<lparr>mv_stat = (\<lambda>_. StatFile), mv_git_entry = (\<lambda>_. False), mv_symlinks = (\<lambda>p. Some p),
     mv_git_ignores = (\<lambda>_ _. False), mv_env = (\<lambda>_. []), mv_home = Some ''/h''\<rparr>"

definition calm :: os_env where
  "calm = \<lparr>ev_other = (\<lambda>_ d. d), ev_fault = (\<lambda>_. False), ev_short = (\<lambda>_. 0), ev_stamp = (\<lambda>_. ''T'')\<rparr>"

definition holding :: "string \<Rightarrow> os_world" where
  "holding data = \<lparr>ow_disk = [''/h/c'' \<mapsto> \<lparr>df_data = data, df_mode = 420\<rparr>], ow_step = 0\<rparr>"

definition sample_entry :: mcp_entry where
  "sample_entry = \<lparr>en_name = ''m'', en_transport = ''http'', en_url = ''u'', en_headers = [], en_command = [],
     en_args = [], en_env = []\<rparr>"

definition sample_run :: "string \<Rightarrow> apply_result \<times> os_world" where
  "sample_run data = apply_config plain_machine calm (claude_format (\<lambda>_. None)) ''/h/c'' [sample_entry] [] (holding data)"

lemma calm_quiet: "quiet calm"
  by (simp add: quiet_def calm_def)

lemma sample_run_pair: "apply_config plain_machine calm (claude_format (\<lambda>_. None)) ''/h/c'' [sample_entry] [] (holding data)
    = (fst (sample_run data), snd (sample_run data))"
  by (simp add: sample_run_def)

lemma sample_changed:
  \<open>ow_disk (snd (sample_run ''{"a":true}'')) ''/h/c''
     = Some (private_file (''{"a":true,"mcpServers":{"m":{"type":"http","url":"u"}}}'' @ [newline]))\<close>
  \<open>ow_disk (holding ''{"a":true}'') ''/h/c'' = Some \<lparr>df_data = ''{"a":true}'', df_mode = 420\<rparr>\<close>
  \<open>ar_error (fst (sample_run ''{"a":true}'')) = None\<close>
  by code_simp+

theorem config_kept_or_merged_witness:
  \<open>merged (claude_format (\<lambda>_. None)) (managed_names [sample_entry] []) (ow_disk (holding ''{"a":true}''))
     (ow_disk (snd (sample_run ''{"a":true}''))) ''/h/c'' (ar_backup (fst (sample_run ''{"a":true}'')))\<close>
  using config_kept_or_merged [OF calm_quiet sample_run_pair, of \<open>''{"a":true}''\<close>]
  by (simp add: left_alone_def tightened_def sample_changed private_file_def)

theorem successful_apply_witness:
  \<open>ar_changed (fst (sample_run ''{"a":true}''))\<close>
  using successful_apply [OF calm_quiet sample_run_pair sample_changed(3)] sample_changed
  by (auto simp: private_file_def content_def)

lemma sample_malformed: "ar_error (fst (sample_run ''{'')) = Some (MalformedConfig ''/h/c'')"
  by code_simp

theorem malformed_left_alone_witness:
  "left_alone (ow_disk (holding ''{'')) (ow_disk (snd (sample_run ''{''))) ''/h/c''"
  using malformed_left_alone [OF calm_quiet sample_run_pair sample_malformed] by blast

section \<open>An edit of another process\<close>

text \<open>
  No call fails, and before system call \<open>k\<close> another process saves the file with contents of its own. Call 7 is
  the last look, call 13 the rename, call 16 the read of what landed.
\<close>

definition one_edit :: "nat \<Rightarrow> string \<Rightarrow> disk_file \<Rightarrow> string \<Rightarrow> os_env" where
  "one_edit k p f stamp = \<lparr>ev_other = (\<lambda>n d. if n = k then d(p \<mapsto> f) else d), ev_fault = (\<lambda>_. False),
     ev_short = (\<lambda>_. 0), ev_stamp = (\<lambda>_. stamp)\<rparr>"

lemma one_edit_step [simp]:
  "os_step (one_edit k p f stamp) w =
     (False, \<lparr>ow_disk = (if ow_step w = k then (ow_disk w)(p \<mapsto> f) else ow_disk w), ow_step = Suc (ow_step w)\<rparr>)"
  by (simp add: os_step_def one_edit_def)

lemma one_edit_steps:
  "os_steps n (one_edit k p f stamp) w =
     (False, \<lparr>ow_disk = (if ow_step w \<le> k \<and> k < ow_step w + n then (ow_disk w)(p \<mapsto> f) else ow_disk w),
              ow_step = ow_step w + n\<rparr>)"
proof (induction n arbitrary: w)
  case (Suc n)
  show ?case by (auto simp: Suc)
qed auto

lemma one_edit_write:
  "write_file_atomic (one_edit k p f stamp) p data w =
     (True, \<lparr>ow_disk = (if ow_step w + 6 \<le> k \<and> k < ow_step w + 8 then (ow_disk w)(p \<mapsto> f)
                       else (ow_disk w)(p \<mapsto> private_file data)), ow_step = ow_step w + 8\<rparr>)"
  by (auto simp: write_file_atomic_def one_edit_steps steps_before_rename_def steps_after_rename_def put_file_def
      private_file_def)

lemma one_edit_backup:
  assumes "ow_disk w p = Some g" "ow_disk w (p @ backup_suffix @ stamp) = None" "ow_step w + 5 \<le> k"
  shows "backup_file (one_edit k p f stamp) p w =
    (Some (p @ backup_suffix @ stamp),
     \<lparr>ow_disk = (ow_disk w)(p @ backup_suffix @ stamp \<mapsto> private_file (df_data g)), ow_step = ow_step w + 5\<rparr>)"
proof -
  have "ev_stamp (one_edit k p f stamp) n = stamp" for n by (simp add: one_edit_def)
  then show ?thesis using assms
    by (simp add: backup_file_def read_file_def create_backup.simps [of _ _ _ 0] backup_name_def fill_backup_def Let_def
        one_edit_steps put_file_def private_file_def)
qed

lemma one_edit_reaches_replacement:
  assumes time: "8 \<le> k"
    and disk: "d p = Some g" "d (p @ backup_suffix @ stamp) = None"
    and reads: "trim_space (df_data g) = [] \<or> cf_parse fmt (df_data g) \<noteq> None"
    and edit: "cf_rewrite fmt (df_data g) entries managed = Inr result" "result \<noteq> df_data g"
      "verify (check_of fmt managed) (df_data g) result = None"
  shows "apply_once (one_edit k p f stamp) fmt p entries managed \<lparr>ow_disk = d, ow_step = Suc 0\<rparr> =
    replace_file (one_edit k p f stamp) fmt p managed (p @ backup_suffix @ stamp) (df_data g) result
      \<lparr>ow_disk = d(p @ backup_suffix @ stamp \<mapsto> private_file (df_data g)), ow_step = 8\<rparr>"
proof -
  let ?e = "one_edit k p f stamp" and ?b = "p @ backup_suffix @ stamp"
  have [simp]: "backup_suffix \<noteq> []" by (simp add: backup_suffix_def)
  let ?w7 = "\<lparr>ow_disk = d(?b \<mapsto> private_file (df_data g)), ow_step = 7\<rparr>"
  have first: "read_allowing_missing ?e p \<lparr>ow_disk = d, ow_step = Suc 0\<rparr> = (Some (df_data g), \<lparr>ow_disk = d, ow_step = 2\<rparr>)"
    using time disk by (simp add: read_allowing_missing_def read_file_def)
  have copy: "backup_file ?e p \<lparr>ow_disk = d, ow_step = 2\<rparr> = (Some ?b, ?w7)"
    using time disk by (subst one_edit_backup [where g = g]) simp_all
  have look: "read_allowing_missing ?e p ?w7 = (Some (df_data g), \<lparr>ow_disk = ow_disk ?w7, ow_step = 8\<rparr>)"
    using time disk by (simp add: read_allowing_missing_def read_file_def)
  then have "land ?e fmt p managed ?b (df_data g) result ?w7 =
      replace_file ?e fmt p managed ?b (df_data g) result \<lparr>ow_disk = ow_disk ?w7, ow_step = 8\<rparr>"
    by (simp add: land_def)
  then show ?thesis using reads edit by (auto simp: apply_once_def first copy)
qed

text \<open>C32. Between the last look at the file and the rename that replaces it the temporary copy is made, written and
  flushed to the disk. A save of another process in that time is lost: the run reports success, the file
  holds the merge of the older contents, and no file on the disk holds the saved ones.\<close>

theorem edit_during_replacement_lost:
  assumes time: "8 \<le> k" "k \<le> 13"
    and disk: "d p = Some g" "d (p @ backup_suffix @ stamp) = None"
    and accepted: "scope_error mv p = None" "first_refusal entry_validate entries = None"
      "first_refusal validate_server_name retire = None"
    and reads: "trim_space (df_data g) = [] \<or> cf_parse fmt (df_data g) \<noteq> None"
    and edit: "cf_rewrite fmt (df_data g) entries (managed_names entries retire) = Inr result" "result \<noteq> df_data g"
      "verify (check_of fmt (managed_names entries retire)) (df_data g) result = None"
  shows "apply_config mv (one_edit k p f stamp) fmt p entries retire \<lparr>ow_disk = d, ow_step = 0\<rparr> =
    (\<lparr>ar_backup = p @ backup_suffix @ stamp, ar_changed = True, ar_error = None\<rparr>,
     \<lparr>ow_disk = d(p @ backup_suffix @ stamp \<mapsto> private_file (df_data g), p \<mapsto> private_file result), ow_step = 17\<rparr>)"
proof -
  let ?e = "one_edit k p f stamp" and ?b = "p @ backup_suffix @ stamp" and ?m = "managed_names entries retire"
  have [simp]: "backup_suffix \<noteq> []" by (simp add: backup_suffix_def)
  let ?w7 = "\<lparr>ow_disk = d(?b \<mapsto> private_file (df_data g)), ow_step = 7\<rparr>"
  let ?w16 = "\<lparr>ow_disk = (ow_disk ?w7)(p \<mapsto> private_file result), ow_step = 16\<rparr>"
  have replace: "write_file_atomic ?e p result \<lparr>ow_disk = ow_disk ?w7, ow_step = 8\<rparr> = (True, ?w16)"
    using time by (simp add: one_edit_write)
  have reread: "read_file ?e p ?w16 = (ReadData result, \<lparr>ow_disk = ow_disk ?w16, ow_step = 17\<rparr>)"
    using time by (simp add: read_file_def private_file_def)
  have "replace_file ?e fmt p ?m ?b (df_data g) result \<lparr>ow_disk = ow_disk ?w7, ow_step = 8\<rparr> = (merge_done ?b True False, \<lparr>ow_disk = ow_disk ?w16, ow_step = 17\<rparr>)"
    by (simp only: replace_file_def replace reread edit prod.case option.case read_answer.case bool.case simp_thms if_False)
  then have "apply_once ?e fmt p entries ?m \<lparr>ow_disk = d, ow_step = Suc 0\<rparr> =
      (merge_done ?b True False, \<lparr>ow_disk = ow_disk ?w16, ow_step = 17\<rparr>)"
    using one_edit_reaches_replacement [OF _ disk reads edit, of k f] time by simp
  then show ?thesis
    using time accepted by (simp add: apply_config_def merge_loop.simps [of _ _ _ _ _ 0] merge_done_def Let_def)
qed

lemma sample_accepted:
  "scope_error plain_machine ''/h/c'' = None" "first_refusal entry_validate [sample_entry] = None"
  "first_refusal validate_server_name [] = None"
  by code_simp+

lemma sample_edit:
  \<open>cf_rewrite (claude_format (\<lambda>_. None)) ''{"a":true}'' [sample_entry] (managed_names [sample_entry] [])
     = Inr (''{"a":true,"mcpServers":{"m":{"type":"http","url":"u"}}}'' @ [newline])\<close>
  \<open>''{"a":true,"mcpServers":{"m":{"type":"http","url":"u"}}}'' @ [newline] \<noteq> ''{"a":true}''\<close>
  \<open>verify (check_of (claude_format (\<lambda>_. None)) (managed_names [sample_entry] [])) ''{"a":true}''
     (''{"a":true,"mcpServers":{"m":{"type":"http","url":"u"}}}'' @ [newline]) = None\<close>
  \<open>trim_space ''{"a":true}'' = [] \<or> cf_parse (claude_format (\<lambda>_. None)) ''{"a":true}'' \<noteq> None\<close>
  by code_simp+

definition another_save :: disk_file where
  \<open>another_save = \<lparr>df_data = ''{"a":false}'', df_mode = 384\<rparr>\<close>

theorem edit_during_replacement_lost_witness:
  \<open>ar_error (fst (apply_config plain_machine (one_edit 9 ''/h/c'' another_save ''T'') (claude_format (\<lambda>_. None)) ''/h/c''
      [sample_entry] [] \<lparr>ow_disk = ow_disk (holding ''{"a":true}''), ow_step = 0\<rparr>)) = None\<close>
proof -
  have disk: \<open>ow_disk (holding ''{"a":true}'') ''/h/c'' = Some \<lparr>df_data = ''{"a":true}'', df_mode = 420\<rparr>\<close>
    \<open>ow_disk (holding ''{"a":true}'') (''/h/c'' @ backup_suffix @ ''T'') = None\<close>
    by (simp_all add: holding_def backup_suffix_def)
  have time: "8 \<le> (9 :: nat)" "(9 :: nat) \<le> 13" by simp_all
  show ?thesis
    by (subst edit_during_replacement_lost [OF time disk sample_accepted, unfolded disk_file.simps, OF sample_edit(4,1,2,3)]) simp
qed

text \<open>
  A save that comes after the rename is compared with the contents the merge started from. If it changed anything
  else, the run takes it for damage of its own and puts the old contents back over it.
\<close>

lemma edit_after_replacement_undone:
  assumes time: "14 \<le> k" "k \<le> 16"
    and disk: "d p = Some g" "d (p @ backup_suffix @ stamp) = None"
    and accepted: "scope_error mv p = None" "first_refusal entry_validate entries = None"
      "first_refusal validate_server_name retire = None"
    and reads: "trim_space (df_data g) = [] \<or> cf_parse fmt (df_data g) \<noteq> None"
    and edit: "cf_rewrite fmt (df_data g) entries (managed_names entries retire) = Inr result" "result \<noteq> df_data g"
      "verify (check_of fmt (managed_names entries retire)) (df_data g) result = None"
    and save: "verify (check_of fmt (managed_names entries retire)) (df_data g) (df_data f) = Some err"
  shows "apply_config mv (one_edit k p f stamp) fmt p entries retire \<lparr>ow_disk = d, ow_step = 0\<rparr> =
    (\<lparr>ar_backup = p @ backup_suffix @ stamp, ar_changed = False, ar_error = Some (RolledBack (p @ backup_suffix @ stamp))\<rparr>,
     \<lparr>ow_disk = d(p @ backup_suffix @ stamp \<mapsto> private_file (df_data g), p \<mapsto> private_file (df_data g)), ow_step = 26\<rparr>)"
proof -
  let ?e = "one_edit k p f stamp" and ?b = "p @ backup_suffix @ stamp" and ?m = "managed_names entries retire"
  have [simp]: "backup_suffix \<noteq> []" by (simp add: backup_suffix_def)
  let ?w7 = "\<lparr>ow_disk = d(?b \<mapsto> private_file (df_data g)), ow_step = 7\<rparr>"
  define w16 where "w16 = snd (write_file_atomic ?e p result \<lparr>ow_disk = ow_disk ?w7, ow_step = 8\<rparr>)"
  have replace: "write_file_atomic ?e p result \<lparr>ow_disk = ow_disk ?w7, ow_step = 8\<rparr> = (True, w16)"
    by (simp add: one_edit_write w16_def)
  let ?w17 = "\<lparr>ow_disk = (ow_disk ?w7)(p \<mapsto> f), ow_step = 17\<rparr>"
  have reread: "read_file ?e p w16 = (ReadData (df_data f), ?w17)"
    using time by (auto simp: read_file_def one_edit_write w16_def)
  let ?w26 = "\<lparr>ow_disk = (ow_disk ?w7)(p \<mapsto> private_file (df_data g)), ow_step = 26\<rparr>"
  have undone: "restore_from_backup ?e p ?b ?w17 = (True, ?w26)"
    using time by (simp add: restore_from_backup_def read_file_def one_edit_write private_file_def)
  have "replace_file ?e fmt p ?m ?b (df_data g) result \<lparr>ow_disk = ow_disk ?w7, ow_step = 8\<rparr> = (merge_failed ?b True (RolledBack ?b), ?w26)"
    by (simp only: replace_file_def replace reread save undone prod.case option.case read_answer.case bool.case simp_thms if_False)
  then have "apply_once ?e fmt p entries ?m \<lparr>ow_disk = d, ow_step = Suc 0\<rparr> = (merge_failed ?b True (RolledBack ?b), ?w26)"
    using one_edit_reaches_replacement [OF _ disk reads edit, of k f] time by simp
  then show ?thesis
    using time accepted by (simp add: apply_config_def merge_loop.simps [of _ _ _ _ _ 0] merge_failed_def Let_def)
qed

end
