(* ===== verification/Toml_Lemmas.thy ===== *)
theory Toml_Lemmas
  imports Toml_Edit "HOL-Library.Sublist"
begin

text \<open>
  The scanner on the lines of a file: what a scan says of the lines themselves, the groups of lines its
  spans stand for, and what is left when some of the groups are cut.
\<close>

section \<open>Lines\<close>

definition full_line :: "string \<Rightarrow> bool" where
  "full_line l \<longleftrightarrow> l \<noteq> [] \<and> last l = newline \<and> newline \<notin> set (butlast l)"

definition line_ok :: "string \<Rightarrow> bool" where
  "line_ok l \<longleftrightarrow> l \<noteq> [] \<and> newline \<notin> set (butlast l)"

fun lines_ok :: "string list \<Rightarrow> bool" where
  "lines_ok [] = True"
| "lines_ok [l] = line_ok l"
| "lines_ok (l # l' # ls) = (full_line l \<and> lines_ok (l' # ls))"

lemma full_line_ok: "full_line l \<Longrightarrow> line_ok l"
  by (simp add: full_line_def line_ok_def)

lemma lines_ok_Cons: "lines_ok (l # ls) \<Longrightarrow> line_ok l \<and> lines_ok ls"
  by (cases ls) (auto simp: full_line_ok)

lemma concat_chunks [simp]: "concat (chunks s) = s"
  by (induction s rule: chunks.induct) (auto split: list.splits)

lemma chunks_eq_Nil [simp]: "chunks s = [] \<longleftrightarrow> s = []"
  by (cases s) (auto split: list.splits)

lemma chunks_newline: "newline \<notin> set t \<Longrightarrow> chunks (t @ newline # s) = (t @ [newline]) # chunks s"
  by (induction t) auto

lemma chunks_plain: "newline \<notin> set t \<Longrightarrow> t \<noteq> [] \<Longrightarrow> chunks t = [t]"
proof (induction t)
  case (Cons a t)
  then show ?case by (cases "t = []") auto
qed simp

lemma full_lineE:
  assumes "full_line l"
  obtains t where "l = t @ [newline]" "newline \<notin> set t"
  using assms by (metis append_butlast_last_id full_line_def)

lemma chunks_full: "full_line l \<Longrightarrow> chunks (l @ s) = l # chunks s"
  by (erule full_lineE) (simp add: chunks_newline)

lemma chunks_line: "line_ok l \<Longrightarrow> chunks l = [l]"
proof (cases "last l = newline")
  case True
  assume "line_ok l"
  with True have "full_line l" by (simp add: full_line_def line_ok_def)
  from chunks_full [OF this, of "[]"] show ?thesis by simp
next
  case False
  assume l: "line_ok l"
  then have "set l = insert (last l) (set (butlast l))"
    by (metis Un_insert_right append_butlast_last_id line_ok_def list.set(1) list.simps(15) set_append sup_bot_right)
  with False l show ?thesis by (intro chunks_plain) (auto simp: line_ok_def)
qed

lemma chunks_concat: "lines_ok ls \<Longrightarrow> chunks (concat ls) = ls"
  by (induction ls rule: lines_ok.induct) (simp_all add: chunks_line chunks_full)

lemma lines_ok_chunks: "lines_ok (chunks s)"
proof (induction s rule: chunks.induct)
  case (2 c s)
  show ?case
  proof (cases "c = newline")
    case True
    with 2 show ?thesis by (cases "chunks s") (auto simp: line_ok_def full_line_def)
  next
    case False
    with 2 show ?thesis
      by (cases "chunks s" rule: lines_ok.cases) (auto simp: line_ok_def full_line_def)
  qed
qed simp

lemma lines_ok_append:
  "lines_ok (ls @ ls') \<longleftrightarrow> (if ls' = [] then lines_ok ls else (\<forall>l \<in> set ls. full_line l) \<and> lines_ok ls')"
  by (induction ls rule: lines_ok.induct) (auto simp: neq_Nil_conv)

lemma chunks_append:
  assumes "\<forall>l \<in> set ls. full_line l"
  shows "chunks (concat ls @ s) = ls @ chunks s"
  using assms by (induction ls) (auto simp: chunks_full)

lemma lines_ok_subseq: "subseq ls' ls \<Longrightarrow> lines_ok ls \<Longrightarrow> lines_ok ls'"
proof (induction rule: list_emb.induct)
  case (list_emb_Cons xs ys y)
  then show ?case using lines_ok_Cons by blast
next
  case (list_emb_Cons2 x y xs ys)
  then have ok: "lines_ok xs" using lines_ok_Cons by blast
  show ?case
  proof (cases xs)
    case Nil
    with list_emb_Cons2 show ?thesis using lines_ok_Cons by auto
  next
    case (Cons z zs)
    with list_emb_Cons2(2) obtain z' zs' where "ys = z' # zs'" by (cases ys) auto
    with list_emb_Cons2 ok Cons show ?thesis by auto
  qed
qed simp

lemma chunk_text_full: "newline \<notin> set t \<Longrightarrow> chunk_text (t @ newline # s) = t"
  by (induction t) (auto simp: chunk_text_def)

lemma chunk_text_plain: "newline \<notin> set t \<Longrightarrow> chunk_text t = t"
  by (auto simp: chunk_text_def takeWhile_eq_all_conv)

section \<open>The scan of a list of lines\<close>

text \<open>A blank or comment-only line.\<close>

definition note_line :: "string \<Rightarrow> bool" where
  "note_line l \<longleftrightarrow> (let t = trim_space l in t = [] \<or> hd t = CHR ''#'')"

fun scan_keys :: "line_state \<Rightarrow> string list \<Rightarrow> (line_state \<times> string list list) option" where
  "scan_keys st [] = Some (st, [])"
| "scan_keys st (l # ls) =
     (let st' = scan_line st (chunk_text l) in
      if ls_depth st' < 0 then None
      else case header_of st (chunk_text l) of
             None \<Rightarrow> scan_keys st' ls
           | Some (Inl err) \<Rightarrow> None
           | Some (Inr (key, arr)) \<Rightarrow> map_option (\<lambda>(s, ks). (s, key # ks)) (scan_keys st' ls))"

lemma cons_keys:
  "(\<lambda>(s, ks). (s, k # ks)) \<circ> (\<lambda>(s, ks). (s, b @ ks)) = (\<lambda>(s, ks). (s, k # b @ ks))"
  by auto

lemma scan_keys_append:
  "scan_keys st (ls @ ls') =
     (case scan_keys st ls of
        None \<Rightarrow> None
      | Some (st', ks) \<Rightarrow> map_option (\<lambda>(s, ks'). (s, ks @ ks')) (scan_keys st' ls'))"
proof (induction ls arbitrary: st)
  case Nil
  show ?case by (cases "scan_keys st ls'") auto
next
  case (Cons l ls)
  show ?case
    by (simp add: Let_def Cons.IH option.map_comp cons_keys split: option.split sum.split prod.split)
qed

lemma scan_keys_appendI:
  "scan_keys st ls = Some (st', ks) \<Longrightarrow> scan_keys st' ls' = Some (st'', ks') \<Longrightarrow> scan_keys st (ls @ ls') = Some (st'', ks @ ks')"
  by (simp add: scan_keys_append)

text \<open>The delimiter is set exactly inside a multi-line string, so a state at the top level is the first one.\<close>

definition state_ok :: "line_state \<Rightarrow> bool" where
  "state_ok st \<longleftrightarrow> (if ls_in_multi st then ls_delim st = multi_basic \<or> ls_delim st = multi_literal else ls_delim st = [])"

definition at_top :: "line_state \<Rightarrow> bool" where
  "at_top st \<longleftrightarrow> \<not> ls_in_multi st \<and> ls_depth st = 0"

lemma at_top_start [simp]: "at_top line_start" "state_ok line_start"
  by (simp_all add: at_top_def line_start_def state_ok_def)

lemma at_top_eq: "state_ok st \<Longrightarrow> at_top st \<Longrightarrow> st = line_start"
  by (simp add: state_ok_def at_top_def line_start_def)

lemma scan_line_ok: "state_ok st \<Longrightarrow> state_ok (scan_line st l)"
proof (induction l arbitrary: st rule: length_induct)
  case (1 line)
  show ?case
  proof (cases line)
    case Nil
    with 1 show ?thesis by simp
  next
    case (Cons c s)
    have IH: "state_ok (scan_line st' s')" if "state_ok st'" "length s' \<le> length s" for st' s'
      using 1(1) Cons that by (simp add: less_Suc_eq_le)
    show ?thesis
      apply (subst scan_line.simps)
      unfolding Cons list.case if_split [of state_ok]
      using 1(2) length_skip_basic length_skip_literal
      by (intro conjI impI IH) (simp_all add: state_ok_def)
  qed
qed

lemma scan_keys_ok: "scan_keys st ls = Some (st', ks) \<Longrightarrow> state_ok st \<Longrightarrow> state_ok st'"
  by (induction ls arbitrary: st ks) (auto simp: Let_def scan_line_ok split: if_splits option.splits sum.splits)

section \<open>Groups\<close>

text \<open>
  A group is a table: its key, whether it is an element of an array of tables, its header line and the
  lines up to the next header. The lines that end the group without belonging to it are its notes.
\<close>

type_synonym group = "string list \<times> bool \<times> string \<times> string list"

definition grp_key :: "group \<Rightarrow> string list" where "grp_key g = fst g"
definition grp_lines :: "group \<Rightarrow> string list" where "grp_lines g = fst (snd (snd g)) # snd (snd (snd g))"

definition own_lines :: "group \<Rightarrow> string list" where
  "own_lines g = fst (snd (snd g)) # rev (dropWhile note_line (rev (snd (snd (snd g)))))"

definition grp_notes :: "group \<Rightarrow> string list" where
  "grp_notes g = rev (takeWhile note_line (rev (snd (snd (snd g)))))"

lemma own_notes: "own_lines g @ grp_notes g = grp_lines g"
  by (simp add: own_lines_def grp_notes_def grp_lines_def flip: rev_append)

lemma grp_notes_notes: "l \<in> set (grp_notes g) \<Longrightarrow> note_line l"
  by (auto simp: grp_notes_def dest: set_takeWhileD)

fun span_list :: "string \<Rightarrow> nat \<Rightarrow> bool \<Rightarrow> group list \<Rightarrow> toml_span list" where
  "span_list src p closed [] = []"
| "span_list src p closed (g # gs) =
     \<lparr>sp_key = grp_key g, sp_array = fst (snd g), sp_start = p,
      sp_end = (if closed \<or> gs \<noteq> [] then trim_attached src p (p + length (concat (grp_lines g))) else length src)\<rparr>
     # span_list src (p + length (concat (grp_lines g))) closed gs"

lemma span_list_eq_Nil [simp]: "span_list src p b gs = [] \<longleftrightarrow> gs = []"
  by (cases gs) auto

lemma close_span_append: "ss' \<noteq> [] \<Longrightarrow> close_span src e (ss @ ss') = ss @ close_span src e ss'"
  by (simp add: close_span_def butlast_append)

lemma close_span_list:
  "close_span src (p + length (concat (concat (map grp_lines gs)))) (span_list src p False gs) = span_list src p True gs"
proof (induction gs arbitrary: p)
  case (Cons g gs)
  show ?case
  proof (cases "gs = []")
    case True
    then show ?thesis by (simp add: close_span_def)
  next
    case False
    have "close_span src e (s # span_list src q False gs) = s # close_span src e (span_list src q False gs)" for e s q
      using close_span_append [of "span_list src q False gs" src e "[s]"] False by simp
    with Cons.IH [of "p + length (concat (grp_lines g))"] False show ?thesis by (simp add: add.assoc)
  qed
qed (simp add: close_span_def)

text \<open>The groups of a scan: where a header is read the state is at the top.\<close>

definition grp_reads :: "group \<Rightarrow> bool" where
  "grp_reads g \<longleftrightarrow> (\<exists>st. scan_keys line_start (grp_lines g) = Some (st, [grp_key g]))"

fun chained :: "line_state \<Rightarrow> group list \<Rightarrow> line_state \<Rightarrow> bool" where
  "chained st [] st' \<longleftrightarrow> st' = st"
| "chained st (g # gs) st' \<longleftrightarrow> at_top st \<and> header_of st (chunk_text (hd (grp_lines g))) \<noteq> None
     \<and> (\<exists>s. scan_keys st (grp_lines g) = Some (s, [grp_key g]) \<and> chained s gs st')"

lemma header_of_top: "header_of st l = Some h \<Longrightarrow> at_top st"
  by (auto simp: header_of_def at_top_def split: if_splits)

lemma scan_lines_groups:
  assumes "scan_lines src n pos st spans ls = Inr (st', spans')"
  shows "\<exists>body gs s. ls = body @ concat (map grp_lines gs) \<and> scan_keys st body = Some (s, []) \<and> chained s gs st'
     \<and> spans' = (if gs = [] then spans
                 else close_span src (pos + length (concat body)) spans @ span_list src (pos + length (concat body)) False gs)"
  using assms
proof (induction ls arbitrary: n pos st spans)
  case Nil
  then show ?case by (intro exI [of _ "[]"]) auto
next
  case (Cons l ls)
  let ?st = "scan_line st (chunk_text l)"
  show ?case
  proof (cases "header_of st (chunk_text l)")
    case None
    with Cons.prems have d: "\<not> ls_depth ?st < 0"
      "scan_lines src (Suc n) (pos + length l) ?st spans ls = Inr (st', spans')"
      by (auto simp: Let_def split: if_splits)
    from Cons.IH [OF d(2)] obtain body gs s where
      *: "ls = body @ concat (map grp_lines gs)" "scan_keys ?st body = Some (s, [])" "chained s gs st'"
      "spans' = (if gs = [] then spans else close_span src (pos + length l + length (concat body)) spans
         @ span_list src (pos + length l + length (concat body)) False gs)" by blast
    then show ?thesis using None d
      by (intro exI [of _ "l # body"] exI [of _ gs] exI [of _ s]) (simp add: Let_def add.assoc)
  next
    case (Some h)
    with Cons.prems obtain key arr where h: "h = Inr (key, arr)" by (cases h) (auto simp: Let_def)
    let ?spans = "close_span src pos spans @ [\<lparr>sp_key = key, sp_array = arr, sp_start = pos, sp_end = length src\<rparr>]"
    from Cons.prems Some h have d: "\<not> ls_depth ?st < 0"
      "scan_lines src (Suc n) (pos + length l) ?st ?spans ls = Inr (st', spans')"
      by (auto simp: Let_def split: if_splits)
    from Cons.IH [OF d(2)] obtain body gs s where
      *: "ls = body @ concat (map grp_lines gs)" "scan_keys ?st body = Some (s, [])" "chained s gs st'"
      "spans' = (if gs = [] then ?spans else close_span src (pos + length l + length (concat body)) ?spans
         @ span_list src (pos + length l + length (concat body)) False gs)" by blast
    let ?g = "(key, arr, l, body) :: group"
    have g: "grp_lines ?g = l # body" "grp_key ?g = key" by (simp_all add: grp_lines_def grp_key_def)
    have "chained st (?g # gs) st'" using * d Some h header_of_top [OF Some] by (simp add: g Let_def)
    moreover have "spans' = close_span src pos spans @ span_list src pos False (?g # gs)"
      using *(4) by (simp add: g close_span_append) (simp add: close_span_def add.assoc grp_key_def)
    ultimately show ?thesis using *(1)
      by (intro exI [of _ "[]"] exI [of _ "?g # gs"] exI [of _ st]) (simp add: g)
  qed
qed

lemma chained_read:
  assumes "chained st gs st'" "state_ok st" "at_top st'"
  shows "scan_keys st (concat (map grp_lines gs)) = Some (line_start, map grp_key gs)
     \<and> st = line_start \<and> (\<forall>g \<in> set gs. scan_keys line_start (grp_lines g) = Some (line_start, [grp_key g]))"
  using assms
proof (induction gs arbitrary: st)
  case Nil
  then show ?case using at_top_eq by auto
next
  case (Cons g gs)
  then obtain s where s: "at_top st" "scan_keys st (grp_lines g) = Some (s, [grp_key g])" "chained s gs st'" by auto
  then have st: "st = line_start" "state_ok s" using Cons.prems(2) at_top_eq scan_keys_ok by blast+
  from Cons.IH [OF s(3) st(2) Cons.prems(3)] have "s = line_start"
    "scan_keys line_start (concat (map grp_lines gs)) = Some (line_start, map grp_key gs)"
    "\<forall>g \<in> set gs. scan_keys line_start (grp_lines g) = Some (line_start, [grp_key g])" by auto
  with s(2) st(1) show ?case by (simp add: scan_keys_append)
qed

text \<open>A file that is scanned is its first lines and its groups, each of which reads as its own key.\<close>

theorem scan_tables_groups:
  assumes "scan_tables src = Inr spans"
  shows "\<exists>body gs. chunks src = body @ concat (map grp_lines gs)
     \<and> scan_keys line_start body = Some (line_start, [])
     \<and> (\<forall>g \<in> set gs. scan_keys line_start (grp_lines g) = Some (line_start, [grp_key g]))
     \<and> spans = span_list src (length (concat body)) True gs"
proof -
  from assms obtain st ss where ss: "scan_lines src 1 0 line_start [] (chunks src) = Inr (st, ss)"
    "at_top st" "spans = close_span src (length src) ss"
    by (auto simp: scan_tables_def at_top_def split: sum.splits if_splits)
  from scan_lines_groups [OF ss(1)] obtain body gs s where
    *: "chunks src = body @ concat (map grp_lines gs)" "scan_keys line_start body = Some (s, [])" "chained s gs st"
      "ss = (if gs = [] then [] else close_span src (length (concat body)) [] @ span_list src (length (concat body)) False gs)"
    by auto
  have "state_ok s" using scan_keys_ok [OF *(2)] by simp
  from chained_read [OF *(3) this ss(2)] have r: "s = line_start"
    "\<forall>g \<in> set gs. scan_keys line_start (grp_lines g) = Some (line_start, [grp_key g])" by auto
  have "src = concat (body @ concat (map grp_lines gs))" using *(1) concat_chunks by metis
  then have "length src = length (concat body) + length (concat (concat (map grp_lines gs)))" by simp
  then have "spans = span_list src (length (concat body)) True gs"
    using ss(3) *(4) close_span_list [of src "length (concat body)" gs] by (auto simp: close_span_def)
  with * r show ?thesis by blast
qed

lemma scan_keys_tables:
  assumes "scan_keys line_start (chunks src) = Some (st, ks)" "at_top st"
  shows "\<exists>spans. scan_tables src = Inr spans \<and> map sp_key spans = ks"
proof -
  have close: "map sp_key (close_span src e ss) = map sp_key ss" for e ss
    by (cases ss rule: rev_cases) (simp_all add: close_span_def)
  have "\<exists>ss'. scan_lines src n pos st0 ss ls = Inr (st', ss') \<and> map sp_key ss' = map sp_key ss @ ks'"
    if "scan_keys st0 ls = Some (st', ks')" for n pos st0 ss ls st' ks'
    using that
  proof (induction ls arbitrary: n pos st0 ss ks')
    case (Cons l ls)
    let ?st = "scan_line st0 (chunk_text l)"
    have d: "\<not> ls_depth ?st < 0" using Cons.prems by (auto simp: Let_def)
    show ?case
    proof (cases "header_of st0 (chunk_text l)")
      case None
      with Cons d show ?thesis by (simp add: Let_def)
    next
      case (Some h)
      with Cons.prems obtain key arr where h: "h = Inr (key, arr)" by (cases h) (auto simp: Let_def d)
      with Cons.prems Some d obtain ks where ks: "scan_keys ?st ls = Some (st', ks)" "ks' = key # ks"
        by (auto simp: Let_def)
      let ?ss = "close_span src pos ss @ [\<lparr>sp_key = key, sp_array = arr, sp_start = pos, sp_end = length src\<rparr>]"
      from Cons.IH [OF ks(1), of "Suc n" "pos + length l" ?ss] Some h d ks(2) show ?thesis
        by (auto simp: Let_def close)
    qed
  qed simp
  from this [OF assms(1), of 1 0 "[]"] assms(2) show ?thesis
    by (auto simp: scan_tables_def at_top_def close)
qed

section \<open>Trimming and cutting\<close>

lemma last_line_start_lines:
  assumes "line_ok d" "b = [] \<or> last b = newline"
  shows "last_line_start (without_newline (b @ d)) = length b"
proof -
  have stop: "takeWhile (\<lambda>c. c \<noteq> newline) (rev t @ rev b) = rev t" if "newline \<notin> set t" for t
  proof -
    have "takeWhile (\<lambda>c. c \<noteq> newline) (rev t @ rev b) = rev t @ takeWhile (\<lambda>c. c \<noteq> newline) (rev b)"
      using that by (intro takeWhile_append2) auto
    also have "takeWhile (\<lambda>c. c \<noteq> newline) (rev b) = []"
      using assms(2) by (cases b rule: rev_cases) auto
    finally show ?thesis by simp
  qed
  obtain t c where d: "d = t @ [c]" "newline \<notin> set t"
    using assms(1) by (metis append_butlast_last_id line_ok_def)
  show ?thesis
  proof (cases "c = newline")
    case True
    then have "without_newline (b @ d) = b @ t" using d by (simp add: without_newline_def butlast_append)
    with stop [OF d(2)] show ?thesis by (simp add: last_line_start_def)
  next
    case False
    then have "without_newline (b @ d) = b @ d" using d by (simp add: without_newline_def)
    moreover have "newline \<notin> set d" using d False by auto
    ultimately show ?thesis using stop [of d] by (simp add: last_line_start_def)
  qed
qed

lemma lines_end: "\<forall>l \<in> set ls. full_line l \<Longrightarrow> concat ls = [] \<or> last (concat ls) = newline"
  by (cases ls rule: rev_cases) (auto simp: full_line_def)

lemma slice_middle: "slice (length a) (length a + length b) (a @ b @ c) = b"
  by (simp add: slice_def)

lemma trim_attached_lines:
  assumes "lines_ok (pre @ (h # bd) @ post)"
  shows "trim_attached (concat (pre @ (h # bd) @ post)) (length (concat pre)) (length (concat pre) + length (concat (h # bd)))
    = length (concat pre) + length (concat (h # rev (dropWhile note_line (rev bd))))"
  using assms
proof (induction bd arbitrary: post rule: rev_induct)
  case Nil
  let ?src = "concat (pre @ [h] @ post)" and ?p = "length (concat pre)"
  have h: "line_ok h" "\<forall>l \<in> set pre. full_line l"
    using Nil by (auto simp: lines_ok_append dest: lines_ok_Cons)
  have "take (?p + length h) ?src = concat pre @ h" by simp
  then have "last_line_start (without_newline (take (?p + length h) ?src)) = ?p"
    using last_line_start_lines [OF h(1) lines_end [OF h(2)]] by simp
  then show ?case by (subst trim_attached.simps) (simp add: Let_def)
next
  case (snoc d bd)
  define q where "q = concat (pre @ h # bd)"
  define src where "src = concat (pre @ (h # bd @ [d]) @ post)"
  define e where "e = length q + length d"
  define p where "p = length (concat pre)"
  have ok: "line_ok d" "\<forall>l \<in> set (pre @ h # bd). full_line l" "lines_ok (pre @ (h # bd) @ d # post)"
    using snoc.prems lines_ok_append [of "pre @ h # bd" "d # post"] lines_ok_Cons [of d post] by simp_all
  have src: "src = q @ d @ concat post" by (simp add: src_def q_def)
  have p: "p < length q" using ok(2) by (simp add: p_def q_def full_line_def)
  have "take e src = q @ d" by (simp add: src e_def)
  then have b: "last_line_start (without_newline (take e src)) = length q"
    using last_line_start_lines [OF ok(1) lines_end [OF ok(2)]] by (simp add: q_def)
  have sl: "slice (length q) e src = d" unfolding src e_def by (rule slice_middle)
  have step: "trim_attached src p e = (if note_line d then trim_attached src p (length q) else e)"
  proof -
    have "p < e" using p by (simp add: e_def)
    with p show ?thesis by (subst trim_attached.simps) (simp add: b sl Let_def note_line_def)
  qed
  have "trim_attached src p (length q) = p + length (concat (h # rev (dropWhile note_line (rev bd))))"
    using snoc.IH [OF ok(3)] by (simp add: src_def p_def q_def)
  with step have "trim_attached src p e = p + length (concat (h # rev (dropWhile note_line (rev (bd @ [d])))))"
    by (simp add: e_def q_def p_def)
  then show ?case by (simp add: src_def e_def q_def p_def add.assoc)
qed

lemma trim_group:
  assumes "lines_ok (pre @ grp_lines g @ post)"
  shows "trim_attached (concat (pre @ grp_lines g @ post)) (length (concat pre)) (length (concat pre) + length (concat (grp_lines g)))
    = length (concat pre) + length (concat (own_lines g))"
  using trim_attached_lines [of pre "fst (snd (snd g))" "snd (snd (snd g))" post] assms
  by (simp add: grp_lines_def own_lines_def)

text \<open>
  What cutting leaves: the lines not written yet go out before a table that is cut, unless they are
  blank and follow another one that was.
\<close>

fun left_lines :: "(string list \<Rightarrow> bool) \<Rightarrow> bool \<Rightarrow> string list \<Rightarrow> group list \<Rightarrow> string list" where
  "left_lines m b ls [] = ls"
| "left_lines m b ls (g # gs) =
     (if \<not> m (grp_key g) then left_lines m b (ls @ grp_lines g) gs
      else (if b \<and> trim_space (concat ls) = [] then [] else ls) @ left_lines m True (grp_notes g) gs)"

lemma remove_from_groups:
  assumes "lines_ok (pre @ ls @ concat (map grp_lines gs))" "src = concat (pre @ ls @ concat (map grp_lines gs))"
    "b = (cutp = Some (length (concat pre)))"
  shows "remove_from src m (length (concat pre)) cutp (span_list src (length (concat (pre @ ls))) True gs)
     = concat (left_lines m b ls gs)"
  using assms
proof (induction gs arbitrary: pre ls b cutp)
  case (Cons g gs)
  let ?p = "length (concat (pre @ ls))"
  show ?case
  proof (cases "m (grp_key g)")
    case False
    with Cons.IH [of pre "ls @ grp_lines g" b cutp] Cons.prems show ?thesis by (simp add: add.assoc)
  next
    case True
    have "trim_attached src ?p (?p + length (concat (grp_lines g))) = ?p + length (concat (own_lines g))"
      using trim_group [of "pre @ ls" g "concat (map grp_lines gs)"] Cons.prems(1,2) by simp
    then have e: "trim_attached src ?p (?p + length (concat (grp_lines g))) = length (concat (pre @ ls @ own_lines g))"
      by simp
    have src: "src = concat pre @ concat ls @ concat (grp_lines g @ concat (map grp_lines gs))" using Cons.prems(2) by simp
    have sl: "slice (length (concat pre)) ?p src = concat ls"
      unfolding src using slice_middle [of "concat pre" "concat ls"] by simp
    have "remove_from src m (length (concat (pre @ ls @ own_lines g))) (Some (length (concat (pre @ ls @ own_lines g))))
        (span_list src (length (concat ((pre @ ls @ own_lines g) @ grp_notes g))) True gs)
      = concat (left_lines m True (grp_notes g) gs)"
      using Cons.prems(1,2) by (intro Cons.IH) (simp_all add: own_notes [of g, symmetric])
    moreover have "length (concat ((pre @ ls @ own_lines g) @ grp_notes g)) = ?p + length (concat (grp_lines g))"
      using own_notes [of g, symmetric] by simp
    ultimately have rest: "remove_from src m (length (concat (pre @ ls @ own_lines g))) (Some (length (concat (pre @ ls @ own_lines g))))
        (span_list src (?p + length (concat (grp_lines g))) True gs) = concat (left_lines m True (grp_notes g) gs)"
      by (simp only:)
    have out: "slice (length (concat pre)) (if b \<and> trim_space (concat ls) = [] then length (concat pre) else ?p) src
      = concat (if b \<and> trim_space (concat ls) = [] then [] else ls)"
      using sl by (simp add: slice_def)
    show ?thesis
      unfolding span_list.simps remove_from.simps toml_span.select_convs e Let_def sl Cons.prems(3) [symmetric]
      by (simp only: True not_True_eq_False simp_thms if_True if_False out rest left_lines.simps) (simp only: concat_append)
  qed
qed simp

end
