(* ===== verification/Toml_Rescan.thy ===== *)
theory Toml_Rescan
  imports Toml_Lemmas
begin

text \<open>
  The edited file scans again: what is left after cutting reads as the keys that were not cut, trailing
  white space can be taken away, and a rendered entry reads as its own tables.
\<close>

section \<open>Text the scanner passes over\<close>

text \<open>The bytes of white space, and the bytes that change nothing outside a string.\<close>

definition space_byte :: "char \<Rightarrow> bool" where
  "space_byte c \<longleftrightarrow> space1 c \<or> 128 \<le> byte c"

definition harmless :: "char \<Rightarrow> bool" where
  "harmless c \<longleftrightarrow> c \<notin> {CHR ''#'', double_quote, single_quote, CHR ''['', CHR '']'', CHR ''{'', CHR ''}''}"

lemma space_byte_harmless: "space_byte c \<Longrightarrow> harmless c \<and> c \<noteq> back_slash"
  by (auto simp: space_byte_def space1_def harmless_def double_quote_def single_quote_def back_slash_def byte_def)

lemma trim_left_split: "\<exists>w. s = w @ trim_left s \<and> (\<forall>c \<in> set w. space_byte c)"
proof (induction s rule: trim_left.induct)
  case (1 a b c s)
  consider "space1 a" | "\<not> space1 a" "space2 a b" | "\<not> space1 a" "\<not> space2 a b" "space3 a b c"
    | "\<not> space1 a" "\<not> space2 a b" "\<not> space3 a b c" by blast
  then show ?case
  proof cases
    case 1
    with "1.IH"(1) obtain w where "b # c # s = w @ trim_left (b # c # s)" "\<forall>c \<in> set w. space_byte c" by blast
    with 1 show ?thesis by (intro exI [of _ "a # w"]) (auto simp: space_byte_def)
  next
    case 2
    with "1.IH"(2) obtain w where "c # s = w @ trim_left (c # s)" "\<forall>c \<in> set w. space_byte c" by blast
    with 2 show ?thesis by (intro exI [of _ "a # b # w"]) (auto simp: space_byte_def space2_def)
  next
    case 3
    with "1.IH"(3) obtain w where "s = w @ trim_left s" "\<forall>c \<in> set w. space_byte c" by blast
    with 3 show ?thesis by (intro exI [of _ "a # b # c # w"]) (auto simp: space_byte_def space3_def)
  next
    case 4
    then show ?thesis by (intro exI [of _ "[]"]) simp
  qed
next
  case (2 a b)
  consider "space1 a" | "\<not> space1 a" "space2 a b" | "\<not> space1 a" "\<not> space2 a b" by blast
  then show ?case
  proof cases
    case 1
    with "2.IH" obtain w where "[b] = w @ trim_left [b]" "\<forall>c \<in> set w. space_byte c" by blast
    with 1 show ?thesis by (intro exI [of _ "a # w"]) (auto simp: space_byte_def)
  next
    case 2
    then show ?thesis by (intro exI [of _ "[a, b]"]) (auto simp: space_byte_def space2_def)
  next
    case 3
    then show ?thesis by (intro exI [of _ "[]"]) simp
  qed
next
  case (3 a)
  show ?case by (cases "space1 a") (auto simp: space_byte_def intro: exI [of _ "[a]"])
qed simp

lemma trim_left_rev_split: "\<exists>w. s = w @ trim_left_rev s \<and> (\<forall>c \<in> set w. space_byte c)"
proof (induction s rule: trim_left_rev.induct)
  case (1 c b a s)
  consider "space1 c" | "\<not> space1 c" "space2 b c" | "\<not> space1 c" "\<not> space2 b c" "space3 a b c"
    | "\<not> space1 c" "\<not> space2 b c" "\<not> space3 a b c" by blast
  then show ?case
  proof cases
    case 1
    with "1.IH"(1) obtain w where "b # a # s = w @ trim_left_rev (b # a # s)" "\<forall>c \<in> set w. space_byte c" by blast
    with 1 show ?thesis by (intro exI [of _ "c # w"]) (auto simp: space_byte_def)
  next
    case 2
    with "1.IH"(2) obtain w where "a # s = w @ trim_left_rev (a # s)" "\<forall>c \<in> set w. space_byte c" by blast
    with 2 show ?thesis by (intro exI [of _ "c # b # w"]) (auto simp: space_byte_def space2_def)
  next
    case 3
    with "1.IH"(3) obtain w where "s = w @ trim_left_rev s" "\<forall>c \<in> set w. space_byte c" by blast
    with 3 show ?thesis by (intro exI [of _ "c # b # a # w"]) (auto simp: space_byte_def space3_def)
  next
    case 4
    then show ?thesis by (intro exI [of _ "[]"]) simp
  qed
next
  case (2 c b)
  consider "space1 c" | "\<not> space1 c" "space2 b c" | "\<not> space1 c" "\<not> space2 b c" by blast
  then show ?case
  proof cases
    case 1
    with "2.IH" obtain w where "[b] = w @ trim_left_rev [b]" "\<forall>c \<in> set w. space_byte c" by blast
    with 1 show ?thesis by (intro exI [of _ "c # w"]) (auto simp: space_byte_def)
  next
    case 2
    then show ?thesis by (intro exI [of _ "[c, b]"]) (auto simp: space_byte_def space2_def)
  next
    case 3
    then show ?thesis by (intro exI [of _ "[]"]) simp
  qed
next
  case (3 c)
  show ?case by (cases "space1 c") (auto simp: space_byte_def intro: exI [of _ "[c]"])
qed simp

lemma trim_space_split:
  obtains a b where "s = a @ trim_space s @ b" "\<forall>c \<in> set a. space_byte c" "\<forall>c \<in> set b. space_byte c"
proof -
  from trim_left_split obtain a where a: "s = a @ trim_left s" "\<forall>c \<in> set a. space_byte c" by blast
  from trim_left_rev_split obtain b where b: "rev (trim_left s) = b @ trim_left_rev (rev (trim_left s))"
    "\<forall>c \<in> set b. space_byte c" by blast
  from arg_cong [OF b(1), of rev] have "trim_left s = trim_space s @ rev b" by (simp add: trim_space_def)
  with a b(2) that [of a "rev b"] show thesis by simp
qed

text \<open>One step of the scan.\<close>

lemma scan_line_Cons:
  "scan_line st (c # s) =
     (if ls_in_multi st then
        (if has_prefix (c # s) (ls_delim st) then scan_line (st\<lparr>ls_in_multi := False, ls_delim := []\<rparr>) (drop 2 s)
         else if ls_delim st = multi_basic \<and> c = back_slash then scan_line st (drop 1 s)
         else scan_line st s)
      else if c = CHR ''#'' then st
      else if has_prefix (c # s) multi_basic then scan_line (st\<lparr>ls_in_multi := True, ls_delim := multi_basic\<rparr>) (drop 2 s)
      else if has_prefix (c # s) multi_literal then scan_line (st\<lparr>ls_in_multi := True, ls_delim := multi_literal\<rparr>) (drop 2 s)
      else if c = double_quote then scan_line st (skip_basic s)
      else if c = single_quote then scan_line st (skip_literal s)
      else if c = CHR ''['' \<or> c = CHR ''{'' then scan_line (st\<lparr>ls_depth := ls_depth st + 1\<rparr>) s
      else if c = CHR '']'' \<or> c = CHR ''}'' then scan_line (st\<lparr>ls_depth := ls_depth st - 1\<rparr>) s
      else scan_line st s)"
  by (subst scan_line.simps) simp

lemma multi_prefix: "has_prefix (c # s) multi_basic \<Longrightarrow> c = double_quote" "has_prefix (c # s) multi_literal \<Longrightarrow> c = single_quote"
  by (auto simp: has_prefix_def multi_basic_def multi_literal_def)

lemma scan_line_harmless:
  assumes "\<not> ls_in_multi st" "harmless c"
  shows "scan_line st (c # s) = scan_line st s"
  using assms multi_prefix [of c s] by (auto simp: scan_line_Cons harmless_def)

lemma scan_line_harmless_text:
  "\<not> ls_in_multi st \<Longrightarrow> \<forall>c \<in> set w. harmless c \<Longrightarrow> scan_line st (w @ s) = scan_line st s"
  by (induction w) (simp_all add: scan_line_harmless)

lemma scan_line_comment: "\<not> ls_in_multi st \<Longrightarrow> scan_line st (CHR ''#'' # s) = st"
  by (simp add: scan_line_Cons)

lemma set_chunk_text: "set (chunk_text l) \<subseteq> set l"
  unfolding chunk_text_def by (auto dest: set_takeWhileD)

lemma chunk_text_prefix: "chunk_text (w @ CHR ''#'' # s) = (if newline \<in> set w then chunk_text w else w @ CHR ''#'' # chunk_text s)"
  by (induction w) (auto simp: chunk_text_def newline_def)

lemma header_of_bracket: "header_of st l = Some h \<Longrightarrow> CHR ''['' \<in> set l"
proof -
  assume "header_of st l = Some h"
  then have "dropWhile blank l \<noteq> []" "hd (dropWhile blank l) = CHR ''[''"
    by (auto simp: header_of_def Let_def split: if_splits)
  then have "CHR ''['' \<in> set (dropWhile blank l)" by (metis hd_in_set)
  then show ?thesis by (rule set_dropWhileD)
qed

lemma header_of_harmless:
  assumes "\<forall>c \<in> set w. harmless c"
  shows "header_of st (w @ CHR ''#'' # s) = None"
proof -
  have "hd (dropWhile blank (w @ CHR ''#'' # s)) \<noteq> CHR ''[''"
    using assms by (induction w) (auto simp: harmless_def blank_def tab_def)
  then show ?thesis by (simp add: header_of_def Let_def)
qed

text \<open>A note line leaves the state at the top and is no header.\<close>

lemma note_line_passes:
  assumes "note_line l"
  shows "header_of line_start (chunk_text l) = None \<and> scan_line line_start (chunk_text l) = line_start"
proof -
  have top: "\<not> ls_in_multi line_start" by (simp add: line_start_def)
  have plain: "header_of line_start t = None \<and> scan_line line_start t = line_start" if "\<forall>c \<in> set t. harmless c" for t
  proof -
    have "header_of line_start t = None"
    proof (cases "header_of line_start t")
      case (Some h)
      from header_of_bracket [OF this] that show ?thesis by (auto simp: harmless_def)
    qed
    then show ?thesis using scan_line_harmless_text [OF top that, of "[]"] by simp
  qed
  obtain a b where l: "l = a @ trim_space l @ b" "\<forall>c \<in> set a. space_byte c" "\<forall>c \<in> set b. space_byte c"
    by (rule trim_space_split)
  show ?thesis
  proof (cases "trim_space l")
    case Nil
    with l have "\<forall>c \<in> set l. harmless c" using space_byte_harmless by fastforce
    then show ?thesis using set_chunk_text by (intro plain) blast
  next
    case (Cons c t)
    with assms have c: "c = CHR ''#''" by (simp add: note_line_def)
    have a: "\<forall>c \<in> set a. harmless c" using l(2) space_byte_harmless by blast
    from l(1) Cons c have eq: "l = a @ CHR ''#'' # t @ b" by simp
    show ?thesis
    proof (cases "newline \<in> set a")
      case True
      then have "chunk_text l = chunk_text a" unfolding eq by (simp add: chunk_text_prefix)
      with a show ?thesis using plain [of "chunk_text a"] set_chunk_text [of a] by auto
    next
      case False
      then have "chunk_text l = a @ CHR ''#'' # chunk_text (t @ b)" unfolding eq by (simp add: chunk_text_prefix)
      with a show ?thesis
        using header_of_harmless [OF a] scan_line_harmless_text [OF top a] scan_line_comment [OF top] by simp
    qed
  qed
qed

lemma notes_pass: "\<forall>l \<in> set ls. note_line l \<Longrightarrow> scan_keys line_start ls = Some (line_start, [])"
proof (induction ls)
  case (Cons l ls)
  then have "header_of line_start (chunk_text l) = None \<and> scan_line line_start (chunk_text l) = line_start"
    by (intro note_line_passes) simp
  moreover have "ls_depth line_start = 0" by (simp add: line_start_def)
  ultimately show ?case using Cons by simp
qed simp

lemma blank_lines_no_keys:
  assumes "trim_space (concat ls) = []" "scan_keys st ls = Some (st', ks)"
  shows "ks = []"
proof -
  obtain a b where "concat ls = a @ trim_space (concat ls) @ b" "\<forall>c \<in> set a. space_byte c" "\<forall>c \<in> set b. space_byte c"
    by (rule trim_space_split)
  then have "CHR ''['' \<notin> set (concat ls)" using assms(1) space_byte_harmless by (auto simp: harmless_def)
  then show ?thesis using assms(2)
  proof (induction ls arbitrary: st ks)
    case (Cons l ls)
    have "header_of st (chunk_text l) = None"
      using header_of_bracket [of st "chunk_text l"] set_chunk_text [of l] Cons.prems(1)
      by (cases "header_of st (chunk_text l)") auto
    with Cons show ?case by (auto simp: Let_def split: if_splits)
  qed simp
qed

text \<open>What is left reads as the keys that were not cut.\<close>

lemma left_lines_read:
  assumes "scan_keys line_start ls = Some (line_start, ks)"
    "\<forall>g \<in> set gs. scan_keys line_start (grp_lines g) = Some (line_start, [grp_key g])"
  shows "scan_keys line_start (left_lines m b ls gs) = Some (line_start, ks @ filter (\<lambda>k. \<not> m k) (map grp_key gs))"
  using assms
proof (induction gs arbitrary: ls ks b)
  case (Cons g gs)
  show ?case
  proof (cases "m (grp_key g)")
    case False
    have "scan_keys line_start (ls @ grp_lines g) = Some (line_start, ks @ [grp_key g])"
      using Cons.prems by (intro scan_keys_appendI) auto
    from Cons.IH [OF this, of b] False Cons.prems show ?thesis by simp
  next
    case True
    have "scan_keys line_start (grp_notes g) = Some (line_start, [])"
      using grp_notes_notes by (intro notes_pass) blast
    from Cons.IH [OF this, of True] Cons.prems(2)
    have rest: "scan_keys line_start (left_lines m True (grp_notes g) gs) = Some (line_start, filter (\<lambda>k. \<not> m k) (map grp_key gs))"
      by simp
    show ?thesis
    proof (cases "b \<and> trim_space (concat ls) = []")
      case blank: True
      with blank_lines_no_keys [OF _ Cons.prems(1)] have "ks = []" by blast
      with rest True blank show ?thesis by simp
    next
      case False
      from scan_keys_appendI [OF Cons.prems(1) rest] True False show ?thesis by auto
    qed
  qed
qed simp

lemma left_lines_subseq: "subseq (left_lines m b ls gs) (ls @ concat (map grp_lines gs))"
proof (induction gs arbitrary: ls b)
  case (Cons g gs)
  have "subseq (left_lines m True (grp_notes g) gs) (grp_notes g @ concat (map grp_lines gs))" by (rule Cons.IH)
  then have "subseq (left_lines m True (grp_notes g) gs) (grp_lines g @ concat (map grp_lines gs))"
    unfolding own_notes [of g, symmetric] append_assoc by (rule list_emb_append2)
  then have "subseq (xs @ left_lines m True (grp_notes g) gs) (ls @ grp_lines g @ concat (map grp_lines gs))"
    if "subseq xs ls" for xs using that by (rule list_emb_append_mono [rotated])
  from this [of ls] this [of "[]"] Cons.IH [of b "ls @ grp_lines g"] show ?case by simp
qed simp

theorem remove_tables_reads:
  assumes "scan_tables src = Inr spans"
  shows "scan_keys line_start (chunks (remove_tables src spans m)) = Some (line_start, filter (\<lambda>k. \<not> m k) (map sp_key spans))"
proof -
  from scan_tables_groups [OF assms] obtain body gs where
    *: "chunks src = body @ concat (map grp_lines gs)" "scan_keys line_start body = Some (line_start, [])"
      "\<forall>g \<in> set gs. scan_keys line_start (grp_lines g) = Some (line_start, [grp_key g])"
      "spans = span_list src (length (concat body)) True gs" by blast
  have keys: "map sp_key (span_list s p b gs) = map grp_key gs" for s p b
    by (induction gs arbitrary: p) auto
  have ok: "lines_ok (body @ concat (map grp_lines gs))" using lines_ok_chunks [of src] *(1) by simp
  have "src = concat (body @ concat (map grp_lines gs))" using *(1) concat_chunks by metis
  with remove_from_groups [of "[]" body gs src False None m] ok *(4)
  have "remove_tables src spans m = concat (left_lines m False body gs)"
    by (simp add: remove_tables_def)
  moreover have "lines_ok (left_lines m False body gs)" using lines_ok_subseq [OF left_lines_subseq ok] .
  ultimately have "chunks (remove_tables src spans m) = left_lines m False body gs" using chunks_concat by simp
  with left_lines_read [OF *(2,3), of m False] *(4) show ?thesis by (simp add: keys)
qed

end
