(* ===== verification/Toml_Tail.thy ===== *)
theory Toml_Tail
  imports Toml_Rescan
begin

text \<open>White space at the end of a line, and of a file, changes nothing the scanner reads.\<close>

definition line_space :: "char \<Rightarrow> bool" where
  "line_space c \<longleftrightarrow> c = CHR '' '' \<or> c = tab \<or> c = creturn"

lemmas char_defs = line_space_def tab_def creturn_def double_quote_def single_quote_def back_slash_def newline_def

lemma line_space_other:
  "line_space c \<Longrightarrow> c \<noteq> double_quote \<and> c \<noteq> single_quote \<and> c \<noteq> back_slash \<and> c \<noteq> newline \<and> \<not> bare_key_byte c \<and> harmless c
     \<and> c \<noteq> CHR ''.'' \<and> c \<noteq> CHR ''#'' \<and> c \<noteq> CHR ''['' \<and> c \<noteq> CHR '']''"
  by (auto simp: char_defs bare_key_byte_def is_alnum_def is_lower_alnum_def byte_def harmless_def)

lemma has_prefix_tail:
  assumes "\<forall>c \<in> set w. c \<notin> set p"
  shows "has_prefix (s @ w) p = has_prefix s p"
  using assms
proof (induction p arbitrary: s)
  case (Cons a p)
  then show ?case by (cases s; cases w) (auto simp: has_prefix_def)
qed (simp add: has_prefix_def)

lemma dropWhile_keep: "dropWhile p l = c # t \<Longrightarrow> dropWhile p (l @ w) = c # t @ w"
  by (induction l) (auto split: if_splits)

lemma quote_split:
  assumes "single_quote \<in> set s"
  shows "dropWhile (\<lambda>c. c \<noteq> single_quote) (s @ v) = dropWhile (\<lambda>c. c \<noteq> single_quote) s @ v"
    "takeWhile (\<lambda>c. c \<noteq> single_quote) (s @ v) = takeWhile (\<lambda>c. c \<noteq> single_quote) s"
    "dropWhile (\<lambda>c. c \<noteq> single_quote) s \<noteq> []"
  using assms by (induction s) auto

lemma skip_basic_space: "\<forall>c \<in> set w. line_space c \<Longrightarrow> skip_basic w = []"
proof (induction w)
  case (Cons c w)
  with line_space_other [of c] show ?case by simp
qed simp

lemma closing_quote_space: "\<forall>c \<in> set w. line_space c \<Longrightarrow> closing_quote w = None"
proof (induction w)
  case (Cons c w)
  with line_space_other [of c] show ?case by simp
qed simp

lemma skip_basic_tail:
  assumes "\<forall>c \<in> set w. line_space c"
  shows "skip_basic (s @ w) = skip_basic s @ w \<or> (skip_basic (s @ w) = [] \<and> skip_basic s = [])"
proof (induction s rule: skip_basic.induct)
  case 1
  show ?case using skip_basic_space [OF assms] by simp
next
  case (2 c s)
  consider (a) "c = back_slash" "s = []" | (b) a t where "c = back_slash" "s = a # t" | (d) "c \<noteq> back_slash" by (cases s) blast+
  then show ?case
  proof cases
    case a
    have "\<forall>c \<in> set (drop 1 w). line_space c" using assms in_set_dropD [of _ 1 w] by simp
    from skip_basic_space [OF this] show ?thesis using a by simp
  next
    case b
    from 2(1) [OF b(1)] have "skip_basic (t @ w) = skip_basic t @ w \<or> skip_basic (t @ w) = [] \<and> skip_basic t = []" unfolding b(2) by simp
    then show ?thesis unfolding b by simp
  next
    case d
    show ?thesis
    proof (cases "c = double_quote")
      case True
      with d show ?thesis by simp
    next
      case False
      from 2(2) [OF d False] show ?thesis using d False by simp
    qed
  qed
qed

lemma skip_literal_tail:
  assumes "\<forall>c \<in> set w. line_space c"
  shows "skip_literal (s @ w) = skip_literal s @ w \<or> (skip_literal (s @ w) = [] \<and> skip_literal s = [])"
proof (cases "single_quote \<in> set s")
  case True
  from quote_split [OF this] show ?thesis
    by (cases "dropWhile (\<lambda>c. c \<noteq> single_quote) s") (auto simp: skip_literal_def)
next
  case False
  have "single_quote \<notin> set w" using assms line_space_other by blast
  with False have "dropWhile (\<lambda>c. c \<noteq> single_quote) (s @ w) = []" by (auto simp: dropWhile_eq_Nil_conv)
  moreover have "dropWhile (\<lambda>c. c \<noteq> single_quote) s = []" using False by (auto simp: dropWhile_eq_Nil_conv)
  ultimately have "skip_literal (s @ w) = [] \<and> skip_literal s = []" unfolding skip_literal_def by (simp only: drop_Nil simp_thms)
  then show ?thesis by simp
qed

lemma delim_tail: "state_ok st \<Longrightarrow> ls_in_multi st \<Longrightarrow> line_space c \<Longrightarrow> c \<notin> set (ls_delim st)"
  using line_space_other [of c] by (auto simp: state_ok_def multi_basic_def multi_literal_def)

lemma scan_line_space:
  assumes "\<forall>c \<in> set w. line_space c" "state_ok st"
  shows "scan_line st w = st"
  using assms(1)
proof (induction w)
  case (Cons c w)
  show ?case
  proof (cases "ls_in_multi st")
    case True
    have "c \<notin> set (ls_delim st)" "ls_delim st \<noteq> []"
      using delim_tail [OF assms(2) True] Cons.prems True assms(2)
      by (auto simp: state_ok_def multi_basic_def multi_literal_def)
    then have "\<not> has_prefix (c # w) (ls_delim st)" by (cases "ls_delim st") (auto simp: has_prefix_def)
    with True Cons line_space_other [of c] show ?thesis by (simp add: scan_line_Cons)
  next
    case False
    with Cons line_space_other [of c] show ?thesis by (simp add: scan_line_harmless)
  qed
qed simp

lemma scan_line_tail:
  assumes "\<forall>c \<in> set w. line_space c" "state_ok st"
  shows "scan_line st (l @ w) = scan_line st l"
  using assms
proof (induction l arbitrary: st w rule: length_induct)
  case (1 l)
  show ?case
  proof (cases l)
    case Nil
    with 1(2,3) show ?thesis by (simp add: scan_line_space)
  next
    case (Cons c s)
    have IH: "scan_line st' (x @ v) = scan_line st' x" if "length x \<le> length s" "state_ok st'" "set v \<subseteq> set w" for st' x v
      using 1(1) [rule_format, of x v st'] that 1(2) Cons by (auto simp: less_Suc_eq_le)
    have same: "has_prefix (c # s @ w) p = has_prefix (c # s) p" if "p \<in> {ls_delim st, multi_basic, multi_literal}" for p
    proof -
      have "\<forall>a \<in> set w. a \<notin> set p"
        using that 1(2,3) line_space_other by (auto simp: state_ok_def multi_basic_def multi_literal_def split: if_splits)
      from has_prefix_tail [OF this, of "c # s"] show ?thesis by simp
    qed
    have drops: "scan_line st' (drop n (s @ w)) = scan_line st' (drop n s)" if "state_ok st'" for st' n
      using IH [of "drop n s" st' "drop (n - length s) w"] that set_drop_subset by force
    have basic: "scan_line st (skip_basic (s @ w)) = scan_line st (skip_basic s)"
      using skip_basic_tail [OF 1(2), of s] IH [OF length_skip_basic [of s] 1(3) order_refl] by auto
    have literal: "scan_line st (skip_literal (s @ w)) = scan_line st (skip_literal s)"
      using skip_literal_tail [OF 1(2), of s] IH [OF length_skip_literal [of s] 1(3) order_refl] by auto
    have rest: "scan_line st' (s @ w) = scan_line st' s" if "state_ok st'" for st'
      using IH [of s st' w] that by simp
    have ok: "state_ok (st\<lparr>ls_in_multi := False, ls_delim := []\<rparr>)"
      "state_ok (st\<lparr>ls_in_multi := True, ls_delim := multi_basic\<rparr>)" "state_ok (st\<lparr>ls_in_multi := True, ls_delim := multi_literal\<rparr>)"
      "state_ok (st\<lparr>ls_depth := d\<rparr>)" for d
      using 1(3) by (simp_all add: state_ok_def split: if_splits)
    show ?thesis
      unfolding Cons append_Cons scan_line_Cons
      by (simp only: same insertI1 insertI2 drops ok 1(3) basic literal rest)
  qed
qed

section \<open>Headers\<close>

lemma closing_quote_tail:
  assumes "closing_quote (s @ w) = Some n" "\<forall>c \<in> set w. line_space c"
  shows "closing_quote s = Some n \<and> n < length s"
  using assms(1)
proof (induction s arbitrary: n rule: closing_quote.induct)
  case 1
  with assms(2) show ?case by (simp add: closing_quote_space)
next
  case (2 c s)
  consider "c = back_slash" "s = []" | a t where "c = back_slash" "s = a # t" | "c \<noteq> back_slash" "c = double_quote"
    | "c \<noteq> back_slash" "c \<noteq> double_quote" by (cases s) auto
  then show ?case
  proof cases
    case 1
    have "closing_quote (tl w) = None" using assms(2) by (cases w) (simp_all add: closing_quote_space)
    with 2(3) 1 show ?thesis by (cases w) simp_all
  next
    case 2
    with "2.prems" obtain m where "closing_quote (t @ w) = Some m" "n = m + 2" by auto
    with "2.IH"(1) [OF 2] 2 show ?thesis by simp
  next
    case 3
    with 2(3) show ?thesis by simp
  next
    case 4
    with "2.prems" obtain m where "closing_quote (s @ w) = Some m" "n = Suc m" by auto
    with "2.IH"(2) [OF 4] 4 show ?thesis by simp
  qed
qed

lemma dropWhile_tail:
  assumes "\<forall>c \<in> set w. \<not> p c"
  shows "dropWhile p (s @ w) = dropWhile p s @ w \<and> takeWhile p (s @ w) = takeWhile p s"
proof (induction s)
  case Nil
  from assms show ?case by (cases w) auto
qed simp

lemma parse_key_segment_tail:
  assumes "parse_key_segment (c # s @ w) = Inr (seg, rest)" "\<forall>c \<in> set w. line_space c"
  shows "\<exists>r. rest = r @ w \<and> parse_key_segment (c # s) = Inr (seg, r)"
proof -
  consider "c = double_quote" | "c \<noteq> double_quote" "c = single_quote" | "c \<noteq> double_quote" "c \<noteq> single_quote" by blast
  then show ?thesis
  proof cases
    case 1
    with assms(1) obtain n where n: "closing_quote (s @ w) = Some n" "go_unquote (take n (s @ w)) = Some seg" "rest = drop (Suc n) (s @ w)"
      by (auto simp: parse_key_segment_def split: option.splits)
    with closing_quote_tail [OF n(1) assms(2)] 1 show ?thesis by (simp add: parse_key_segment_def)
  next
    case 2
    have "single_quote \<notin> set w" using assms(2) line_space_other by blast
    with assms(1) 2 have s: "single_quote \<in> set s" by (auto simp: parse_key_segment_def split: if_splits)
    from quote_split [OF s] s 2 assms(1) show ?thesis
      by (cases "dropWhile (\<lambda>c. c \<noteq> single_quote) s") (auto simp: parse_key_segment_def)
  next
    case 3
    have "\<forall>c \<in> set w. \<not> bare_key_byte c" using assms(2) line_space_other by blast
    from dropWhile_tail [OF this, of "c # s"] 3 assms(1) show ?thesis
      by (auto simp: parse_key_segment_def split: if_splits)
  qed
qed

lemma parse_segments_tail:
  assumes "parse_segments expect key (s @ w) = Inr (key', rest)" "\<forall>c \<in> set w. line_space c"
  shows "\<exists>r. rest = r @ w \<and> parse_segments expect key s = Inr (key', r)"
  using assms(1)
proof (induction expect key s rule: parse_segments.induct)
  case (1 expect key line)
  show ?case
  proof (cases "dropWhile blank line")
    case Nil
    then have d: "dropWhile blank (line @ w) = dropWhile blank w"
      by (metis dropWhile_append2 dropWhile_eq_Nil_conv)
    show ?thesis
    proof (cases "dropWhile blank w")
      case Nil
      with 1(3) d show ?thesis by (simp add: parse_segments.simps [of _ _ "line @ w"])
    next
      case (Cons a v)
      then have "a \<in> set w" by (metis list.set_intros(1) set_dropWhileD)
      then have "line_space a" using assms(2) by blast
      with line_space_other [of a] 1(3) d Cons show ?thesis
        by (auto simp: parse_segments.simps [of _ _ "line @ w"] parse_key_segment_def split: if_splits)
    qed
  next
    case (Cons c s)
    then have d: "dropWhile blank (line @ w) = c # s @ w" by (rule dropWhile_keep)
    show ?thesis
    proof (cases "c = CHR '']'' \<or> \<not> expect")
      case True
      with 1 Cons d show ?thesis
        by (auto simp: parse_segments.simps [of _ _ "line @ w"] parse_segments.simps [of _ _ line] split: if_splits)
    next
      case False
      with 1(3) d obtain seg r where r: "parse_key_segment (c # s @ w) = Inr (seg, r)"
        "parse_segments False (key @ [seg]) r = Inr (key', rest)"
        by (auto simp: parse_segments.simps [of _ _ "line @ w"] split: sum.splits)
      from parse_key_segment_tail [OF r(1) assms(2)] obtain r' where r': "r = r' @ w" "parse_key_segment (c # s) = Inr (seg, r')"
        by blast
      from 1(2) [OF Cons _ _ r'(2)] False r(2) r'(1) have "\<exists>q. rest = q @ w \<and> parse_segments False (key @ [seg]) r' = Inr (key', q)"
        by auto
      with False Cons r'(2) show ?thesis by (auto simp: parse_segments.simps [of _ _ line])
    qed
  qed
qed

lemma parse_table_header_tail:
  assumes "parse_table_header (c # t @ w) = Inr h" "\<forall>c \<in> set w. line_space c"
  shows "parse_table_header (c # t) = Inr h"
proof -
  define arr where "arr = has_prefix t ''[''"
  have p: "has_prefix (s @ w) [a] = has_prefix s [a]" if "a = CHR ''['' \<or> a = CHR '']''" for s a
    using that assms(2) line_space_other by (intro has_prefix_tail) auto
  have dr: "drop (if arr then 1 else 0) (t @ w) = drop (if arr then 1 else 0) t @ w"
    by (cases t) (auto simp: arr_def has_prefix_def)
  from assms(1) obtain key r where
    r: "parse_segments True [] (drop (if arr then 1 else 0) (t @ w)) = Inr (key, r)" "arr \<Longrightarrow> has_prefix r '']''"
      "h = (key, arr)" "\<not> (dropWhile blank (drop (if arr then 1 else 0) r) \<noteq> [] \<and> hd (dropWhile blank (drop (if arr then 1 else 0) r)) \<noteq> CHR ''#'')"
    by (auto simp: parse_table_header_def p arr_def Let_def split: sum.splits if_splits)
  from parse_segments_tail [OF r(1) [unfolded dr] assms(2)] obtain q where
    q: "r = q @ w" "parse_segments True [] (drop (if arr then 1 else 0) t) = Inr (key, q)" by blast
  have pq: "arr \<Longrightarrow> has_prefix q '']''" using r(2) q(1) p by simp
  have "drop (if arr then 1 else 0) r = drop (if arr then 1 else 0) q @ w"
    using pq q(1) by (cases q) (auto simp: has_prefix_def)
  with r(4) have "\<not> (dropWhile blank (drop (if arr then 1 else 0) q) \<noteq> [] \<and> hd (dropWhile blank (drop (if arr then 1 else 0) q)) \<noteq> CHR ''#'')"
    by (auto simp: dropWhile_append split: if_splits)
  with q(2) pq r(3) show ?thesis
    by (auto simp: parse_table_header_def arr_def [symmetric] Let_def)
qed

lemma header_of_tail:
  assumes "\<forall>e. header_of st (l @ w) \<noteq> Some (Inl e)" "\<forall>c \<in> set w. line_space c" "l \<noteq> []" "\<not> line_space (last l)"
  shows "header_of st l = header_of st (l @ w)"
proof -
  have "\<not> blank (last l)" using assms(4) by (auto simp: blank_def line_space_def)
  then have "dropWhile blank l \<noteq> []" using assms(3) by (metis dropWhile_eq_Nil_conv last_in_set)
  then obtain c t where t: "dropWhile blank l = c # t" by (cases "dropWhile blank l") auto
  then have d: "dropWhile blank (l @ w) = c # t @ w" by (rule dropWhile_keep)
  show ?thesis
  proof (cases "parse_table_header (c # t @ w)")
    case (Inl e)
    with assms(1) d t show ?thesis by (auto simp: header_of_def split: if_splits)
  next
    case (Inr h)
    from parse_table_header_tail [OF this assms(2)] Inr d t show ?thesis
      by (cases "c = CHR ''[''") (simp_all add: header_of_def)
  qed
qed

section \<open>The end of a file\<close>

lemma chunk_text_space: "\<forall>c \<in> set l. trailing_space c \<Longrightarrow> \<forall>c \<in> set (chunk_text l). line_space c"
  unfolding chunk_text_def by (auto simp: trailing_space_def line_space_def dest: set_takeWhileD)

lemma blank_lines_pass:
  assumes "\<forall>l \<in> set ls. \<forall>c \<in> set l. trailing_space c" "state_ok st" "scan_keys st ls = Some (st', ks)"
  shows "st' = st \<and> ks = []"
  using assms
proof (induction ls)
  case (Cons l ls)
  have sp: "\<forall>c \<in> set (chunk_text l). line_space c" using Cons.prems(1) by (intro chunk_text_space) simp
  have "header_of st (chunk_text l) = None"
  proof (cases "header_of st (chunk_text l)")
    case (Some h)
    from header_of_bracket [OF this] sp line_space_other show ?thesis by blast
  qed
  with Cons scan_line_space [OF sp Cons.prems(2)] show ?case by (simp add: Let_def split: if_splits)
qed simp

lemma chunks_last:
  assumes "s \<noteq> []" "last s \<noteq> newline"
  obtains fl l where "s = concat fl @ l" "\<forall>x \<in> set fl. full_line x" "l \<noteq> []" "newline \<notin> set l" "last l = last s"
proof -
  obtain fl l where c: "chunks s = fl @ [l]" using assms(1) by (metis chunks_eq_Nil rev_exhaust)
  have ok: "\<forall>x \<in> set fl. full_line x" "line_ok l" using lines_ok_chunks [of s] c by (auto simp: lines_ok_append)
  have s: "s = concat fl @ l" using concat_chunks [of s] c by simp
  have l: "l \<noteq> []" "last l = last s" using ok(2) s by (auto simp: line_ok_def)
  moreover have "newline \<notin> set l"
  proof
    assume "newline \<in> set l"
    then have "newline \<in> set (butlast l @ [last l])" using l(1) by simp
    with ok(2) l(2) assms(2) show False by (auto simp: line_ok_def)
  qed
  ultimately show thesis using that s ok(1) by blast
qed

lemma tail_read:
  assumes "scan_keys line_start (chunks (body @ w)) = Some (line_start, ks)" "\<forall>c \<in> set w. trailing_space c"
    "body \<noteq> []" "\<not> trailing_space (last body)"
  shows "scan_keys line_start (chunks (body @ [newline])) = Some (line_start, ks)"
proof -
  from assms(4) have "last body \<noteq> newline" by (simp add: trailing_space_def)
  from chunks_last [OF assms(3) this] obtain fl l where
    l: "body = concat fl @ l" "\<forall>x \<in> set fl. full_line x" "l \<noteq> []" "newline \<notin> set l" "last l = last body" .
  define v where "v = takeWhile (\<lambda>c. c \<noteq> newline) w"
  define x where "x = drop 1 (dropWhile (\<lambda>c. c \<noteq> newline) w)"
  have v: "newline \<notin> set v" "\<forall>c \<in> set v. line_space c" "\<forall>c \<in> set x. trailing_space c"
    using assms(2) by (auto simp: v_def x_def line_space_def trailing_space_def dest!: set_takeWhileD in_set_dropD set_dropWhileD)
  have w: "w = v \<and> x = [] \<or> w = v @ newline # x"
  proof (cases "dropWhile (\<lambda>c. c \<noteq> newline) w")
    case Nil
    with takeWhile_dropWhile_id [of "\<lambda>c. c \<noteq> newline" w] have "w = v" by (simp only: v_def append_Nil2)
    with Nil show ?thesis by (simp only: x_def drop_Nil simp_thms)
  next
    case (Cons a t)
    then have "a = newline" by (metis (mono_tags) hd_dropWhile list.sel(1) list.distinct(1))
    with Cons takeWhile_dropWhile_id [of "\<lambda>c. c \<noteq> newline" w] show ?thesis by (simp add: v_def x_def)
  qed
  obtain m where m: "chunks (l @ w) = m # chunks x" "chunk_text m = l @ v"
  proof (cases "w = v \<and> x = []")
    case True
    have nl: "newline \<notin> set (l @ v)" using l(4) v(1) by simp
    from True l(3) chunks_plain [OF nl] chunk_text_plain [OF nl] that [of "l @ v"] show thesis by simp
  next
    case False
    with w have "w = v @ newline # x" by blast
    moreover have nl: "newline \<notin> set (l @ v)" using l(4) v(1) by simp
    ultimately have "chunks (l @ w) = ((l @ v) @ [newline]) # chunks x" using chunks_newline [OF nl, of x] by simp
    moreover have "chunk_text ((l @ v) @ [newline]) = l @ v" using chunk_text_full [OF nl, of "[]"] by simp
    ultimately show thesis using that by blast
  qed
  have chunks1: "chunks (body @ w) = fl @ m # chunks x"
    using chunks_append [OF l(2), of "l @ w"] m(1) l(1) by simp
  have chunks2: "chunks (body @ [newline]) = fl @ [l @ [newline]]"
    using chunks_append [OF l(2), of "l @ [newline]"] chunks_newline [OF l(4), of "[]"] l(1) by simp
  from assms(1) obtain s ks1 ks2 where
    s: "scan_keys line_start fl = Some (s, ks1)" "scan_keys s (m # chunks x) = Some (line_start, ks2)" "ks = ks1 @ ks2"
    by (auto simp: chunks1 scan_keys_append split: option.splits)
  have ok: "state_ok s" using scan_keys_ok [OF s(1)] by simp
  have sl: "scan_line s (l @ v) = scan_line s l" by (rule scan_line_tail [OF v(2) ok])
  have "\<forall>e. header_of s (l @ v) \<noteq> Some (Inl e)" using s(2) m(2) by (auto simp: Let_def split: if_splits)
  moreover have "\<not> line_space (last l)" using assms(4) l(5) by (auto simp: line_space_def trailing_space_def)
  ultimately have h: "header_of s l = header_of s (l @ v)" using v(2) l(3) by (intro header_of_tail)
  have xs: "\<forall>y \<in> set (chunks x). \<forall>c \<in> set y. trailing_space c"
  proof -
    have "(\<Union>y \<in> set (chunks x). set y) = set x" using concat_chunks [of x] by (metis set_concat)
    with v(3) show ?thesis by blast
  qed
  have "chunk_text (l @ [newline]) = l" using chunk_text_full [OF l(4), of "[]"] by simp
  moreover have "scan_keys (scan_line s l) (chunks x) = Some (st', ks') \<Longrightarrow> st' = scan_line s l \<and> ks' = []" for st' ks'
    by (rule blank_lines_pass [OF xs scan_line_ok [OF ok]])
  ultimately have "scan_keys s [l @ [newline]] = Some (line_start, ks2)"
    using s(2) m(2) sl h by (fastforce simp: Let_def split: if_splits option.splits sum.splits)
  with scan_keys_appendI [OF s(1)] s(3) show ?thesis by (simp add: chunks2)
qed

text \<open>Joining a block that reads as its own keys.\<close>

lemma trim_right_split:
  obtains w where "s = trim_right p s @ w" "\<forall>c \<in> set w. p c"
proof -
  have "trim_right p s @ rev (takeWhile p (rev s)) = rev (takeWhile p (rev s) @ dropWhile p (rev s))"
    unfolding trim_right_def by (simp only: rev_append)
  then have "s = trim_right p s @ rev (takeWhile p (rev s))" by simp
  then show thesis using that by (metis set_rev set_takeWhileD)
qed

lemma trim_right_last: "trim_right p s \<noteq> [] \<Longrightarrow> \<not> p (last (trim_right p s))"
  unfolding trim_right_def by (metis hd_dropWhile last_rev rev_is_Nil_conv)

lemma unlines_chunks: "\<forall>l \<in> set ls. newline \<notin> set l \<Longrightarrow> chunks (unlines ls) = map (\<lambda>l. l @ [newline]) ls"
  by (induction ls) (simp_all add: unlines_def chunks_newline)

lemma append_block_reads:
  assumes "scan_keys line_start (chunks src) = Some (line_start, ks)"
    "scan_keys line_start (map (\<lambda>l. l @ [newline]) ls) = Some (line_start, ks')"
    "\<forall>l \<in> set ls. newline \<notin> set l" "ls \<noteq> []" "last ls \<noteq> []"
  shows "scan_keys line_start (chunks (append_block src (unlines ls))) = Some (line_start, ks @ ks')"
proof -
  have block: "trim_right (\<lambda>c. c = newline) (unlines ls) @ [newline] = unlines ls"
  proof -
    obtain ms l where ms: "ls = ms @ [l]" using assms(4) by (metis rev_exhaust)
    with assms(3,5) have "l \<noteq> []" "newline \<notin> set l" by auto
    then have "l \<noteq> []" "last l \<noteq> newline" by (auto dest: last_in_set)
    then have "rev l \<noteq> []" "hd (rev l) \<noteq> newline" by (simp_all add: hd_rev)
    then have "dropWhile (\<lambda>c. c = newline) (rev l @ z) = rev l @ z" for z by (cases "rev l") auto
    then show ?thesis by (simp add: ms trim_right_def unlines_def)
  qed
  have bl: "chunks (unlines ls) = map (\<lambda>l. l @ [newline]) ls" using assms(3) by (rule unlines_chunks)
  let ?body = "trim_right trailing_space src"
  obtain w where w: "src = ?body @ w" "\<forall>c \<in> set w. trailing_space c" by (rule trim_right_split)
  show ?thesis
  proof (cases "?body = []")
    case True
    have "\<forall>y \<in> set (chunks src). \<forall>c \<in> set y. trailing_space c"
    proof -
      have "(\<Union>y \<in> set (chunks src). set y) = set src" using concat_chunks [of src] by (metis set_concat)
      with w True show ?thesis by auto
    qed
    from blank_lines_pass [OF this _ assms(1)] have "ks = []" by simp
    with True block bl assms(2) show ?thesis by (simp add: append_block_def Let_def)
  next
    case False
    have "scan_keys line_start (chunks (?body @ [newline])) = Some (line_start, ks)"
      using assms(1) w False trim_right_last [OF False] by (intro tail_read [of ?body w]) simp_all
    moreover obtain fl l where l: "?body = concat fl @ l" "\<forall>x \<in> set fl. full_line x" "newline \<notin> set l"
      using chunks_last [OF False] trim_right_last [OF False] by (metis trailing_space_def)
    moreover from l have c1: "chunks (?body @ [newline]) = fl @ [l @ [newline]]"
      using chunks_append [OF l(2), of "l @ [newline]"] chunks_newline [OF l(3), of "[]"] by simp
    moreover from l have "chunks (?body @ newline # newline # unlines ls) = fl @ (l @ [newline]) # [newline] # chunks (unlines ls)"
      using chunks_append [OF l(2), of "l @ newline # newline # unlines ls"] chunks_newline [OF l(3)] by simp
    ultimately have c: "chunks (?body @ newline # newline # unlines ls) = chunks (?body @ [newline]) @ [[newline]] @ chunks (unlines ls)"
      "scan_keys line_start (chunks (?body @ [newline])) = Some (line_start, ks)" by simp_all
    have "scan_keys line_start [[newline]] = Some (line_start, [])"
      by (simp add: chunk_text_def header_of_def line_start_def)
    from scan_keys_appendI [OF c(2) scan_keys_appendI [OF this assms(2)]] False block bl show ?thesis
      by (simp add: append_block_def Let_def c(1))
  qed
qed

end
