(* ===== verification/Toml_Props.thy ===== *)
theory Toml_Props
  imports Toml_Tail
begin

text \<open>
  The Codex writer's edit of a TOML file: a rendered entry reads as its own tables, so the edited file
  has the tables that were not managed and then the new ones; and the text that was not a managed table
  is still there.
\<close>

section \<open>Quoted text\<close>

lemma byte_marks: "byte double_quote = 34" "byte back_slash = 92" "byte newline = 10"
  by (simp_all add: double_quote_def back_slash_def newline_def byte_def)

definition plain_in_quotes :: "string \<Rightarrow> bool" where
  "plain_in_quotes w \<longleftrightarrow> (\<forall>c \<in> set w. c \<noteq> double_quote \<and> c \<noteq> back_slash \<and> c \<noteq> newline)"

lemma plain_chr:
  assumes "n < 256" "n \<notin> {10, 34, 92}"
  shows "plain_in_quotes [chr n]"
  using byte_chr [OF assms(1)] assms(2) byte_marks by (auto simp: plain_in_quotes_def)

lemma plain_append: "plain_in_quotes (a @ b) \<longleftrightarrow> plain_in_quotes a \<and> plain_in_quotes b"
  by (auto simp: plain_in_quotes_def)

lemma plain_chrs: "\<forall>n \<in> set ns. n < 256 \<and> n \<notin> {10, 34, 92} \<Longrightarrow> plain_in_quotes (map chr ns)"
  using plain_chr by (induction ns) (auto simp: plain_in_quotes_def)

lemma plain_encode: "r \<notin> {10, 34, 92} \<Longrightarrow> plain_in_quotes (encode_rune r) \<and> encode_rune r \<noteq> []"
proof -
  assume r: "r \<notin> {10, 34, 92}"
  define q where "q = (if 1114111 < r \<or> (55296 \<le> r \<and> r \<le> 57343) then rune_error else r)"
  have q: "q \<notin> {10, 34, 92}" "q \<le> 1114111" using r by (auto simp: q_def rune_error_def)
  have m: "n mod 64 < 64" for n :: nat by simp
  have high: "plain_in_quotes (map chr ns)" if "\<forall>n \<in> set ns. 128 \<le> n \<and> n < 256" for ns
    using that by (intro plain_chrs) auto
  consider "q < 128" | "128 \<le> q" "q < 2048" | "2048 \<le> q" "q < 65536" | "65536 \<le> q" by linarith
  then show ?thesis
  proof cases
    case 1
    with q plain_chr [of q] show ?thesis by (simp add: encode_rune_def q_def [symmetric])
  next
    case 2
    then have "q div 64 < 64" by (simp add: less_mult_imp_div_less)
    then have "plain_in_quotes (map chr [192 + q div 64, 128 + q mod 64])" using m [of q] by (intro high) auto
    with 2 show ?thesis by (simp add: encode_rune_def q_def [symmetric])
  next
    case 3
    then have "q div 4096 < 32" by (simp add: less_mult_imp_div_less)
    then have "plain_in_quotes (map chr [224 + q div 4096, 128 + q div 64 mod 64, 128 + q mod 64])"
      using m [of q] m [of "q div 64"] by (intro high) auto
    with 3 show ?thesis by (simp add: encode_rune_def q_def [symmetric])
  next
    case 4
    have "q div 262144 < 16" using q(2) by (simp add: less_mult_imp_div_less)
    then have "plain_in_quotes (map chr [240 + q div 262144, 128 + q div 4096 mod 64, 128 + q div 64 mod 64, 128 + q mod 64])"
      using m [of q] m [of "q div 64"] m [of "q div 4096"] by (intro high) auto
    with 4 show ?thesis by (simp add: encode_rune_def q_def [symmetric])
  qed
qed

lemma plain_hex4: "plain_in_quotes (upper_hex4 n)"
proof -
  have "plain_in_quotes [chr (if d < 10 then 48 + d else 55 + d)]" if "d < 16" for d :: nat
    using that by (intro plain_chr) auto
  then have *: "plain_in_quotes (map (\<lambda>d. chr (if d < 10 then 48 + d else 55 + d)) ds)" if "\<forall>d \<in> set ds. d < 16" for ds :: "nat list"
    using that by (induction ds) (auto simp: plain_in_quotes_def)
  show ?thesis unfolding upper_hex4_def by (rule *) simp
qed

lemma skip_plain: "plain_in_quotes w \<Longrightarrow> skip_basic (w @ s) = skip_basic s"
  by (induction w) (auto simp: plain_in_quotes_def)

text \<open>What a rune is written as: an escape of one character, one of four digits, or its encoding.\<close>

lemma toml_rune_cases:
  obtains (escape) c where "toml_rune r = [back_slash, c]" "c \<noteq> newline"
  | (hex) n where "toml_rune r = back_slash # CHR ''u'' # upper_hex4 n"
  | (plain) "toml_rune r = encode_rune r" "plain_in_quotes (encode_rune r)" "encode_rune r \<noteq> []"
proof -
  consider "r \<in> {34, 92, 8, 9, 10, 12, 13}" | "r \<notin> {34, 92, 8, 9, 10, 12, 13}" "r = rune_error \<or> (is_control r \<and> r < 128)"
    | "r \<notin> {34, 92, 8, 9, 10, 12, 13}" "\<not> (r = rune_error \<or> (is_control r \<and> r < 128))" by blast
  then show thesis
  proof cases
    case 1
    then show thesis by (intro escape [of "hd (tl (toml_rune r))"])
      (auto simp: toml_rune_def double_quote_def back_slash_def newline_def)
  next
    case 2
    then show thesis by (intro hex [of r]) (auto simp: toml_rune_def)
  next
    case 3
    then show thesis using plain_encode [of r] by (intro plain) (auto simp: toml_rune_def)
  qed
qed

lemma skip_toml_rune: "skip_basic (toml_rune r @ s) = skip_basic s"
  by (cases r rule: toml_rune_cases)
    (use skip_plain [OF plain_hex4] in \<open>auto simp: skip_plain back_slash_def double_quote_def\<close>)

lemma toml_rune_newline: "newline \<notin> set (toml_rune r)"
  by (cases r rule: toml_rune_cases)
    (use plain_hex4 in \<open>auto simp: plain_in_quotes_def back_slash_def newline_def\<close>)

lemma toml_rune_head: "\<exists>c t. toml_rune r = c # t \<and> c \<noteq> double_quote"
proof (cases r rule: toml_rune_cases)
  case plain
  then show ?thesis by (cases "encode_rune r") (auto simp: plain_in_quotes_def)
qed (auto simp: back_slash_def double_quote_def)

lemma skip_quoted: "skip_basic (concat (map toml_rune rs) @ double_quote # s) = s"
  by (induction rs) (simp_all add: skip_toml_rune double_quote_def back_slash_def)

lemma quote_newline: "newline \<notin> set (quote_toml v)"
  using toml_rune_newline by (auto simp: quote_toml_def newline_def double_quote_def)

lemma quote_not_multi:
  assumes "s = [] \<or> hd s \<noteq> double_quote"
  shows "\<not> has_prefix (quote_toml v @ s) multi_basic"
proof (cases "runes v")
  case Nil
  with assms show ?thesis by (cases s) (auto simp: quote_toml_def has_prefix_def multi_basic_def)
next
  case (Cons r rs)
  obtain c t where "toml_rune r = c # t" "c \<noteq> double_quote" using toml_rune_head by blast
  with Cons show ?thesis by (auto simp: quote_toml_def has_prefix_def multi_basic_def)
qed

lemma scan_quoted:
  assumes "\<not> ls_in_multi st" "s = [] \<or> hd s \<noteq> double_quote"
  shows "scan_line st (quote_toml v @ s) = scan_line st s"
proof -
  have q: "quote_toml v @ s = double_quote # concat (map toml_rune (runes v)) @ double_quote # s"
    by (simp add: quote_toml_def)
  have "\<not> has_prefix (quote_toml v @ s) multi_basic" by (rule quote_not_multi [OF assms(2)])
  moreover have "\<not> has_prefix (quote_toml v @ s) multi_literal"
    by (simp add: q has_prefix_def multi_literal_def single_quote_def double_quote_def)
  ultimately show ?thesis
    using assms(1) skip_quoted [of "runes v" s] unfolding q
    by (simp add: scan_line_Cons double_quote_def)
qed

section \<open>Rendered lines\<close>

lemma bare_harmless: "bare_key_byte c \<Longrightarrow> harmless c \<and> \<not> blank c \<and> c \<notin> {CHR ''['', CHR '']'', double_quote, single_quote, newline}"
  by (auto simp: bare_key_byte_def is_alnum_def is_lower_alnum_def harmless_def blank_def tab_def double_quote_def
      single_quote_def newline_def byte_def)

definition bare_segment :: "string \<Rightarrow> bool" where
  "bare_segment s \<longleftrightarrow> s \<noteq> [] \<and> (\<forall>c \<in> set s. bare_key_byte c)"

lemma parse_bare_segment:
  assumes "bare_segment s" "t = [] \<or> \<not> bare_key_byte (hd t)"
  shows "parse_key_segment (s @ t) = Inr (s, t)" "dropWhile blank (s @ t) = s @ t"
    "\<exists>c r. s @ t = c # r \<and> c \<noteq> CHR '']'' \<and> \<not> blank c \<and> parse_key_segment (c # r) = Inr (s, t)"
proof -
  obtain c r where s: "s = c # r" using assms(1) by (cases s) (auto simp: bare_segment_def)
  have b: "bare_key_byte c" "\<forall>x \<in> set s. bare_key_byte x" using assms(1) s by (auto simp: bare_segment_def)
  have "takeWhile bare_key_byte (s @ t) = s" "dropWhile bare_key_byte (s @ t) = t"
    using b(2) assms(2) by (cases t; simp add: takeWhile_append2 dropWhile_append2)+
  then show *: "parse_key_segment (s @ t) = Inr (s, t)"
    using b(1) bare_harmless [OF b(1)] s by (simp add: parse_key_segment_def)
  show "dropWhile blank (s @ t) = s @ t" using bare_harmless [OF b(1)] s by simp
  show "\<exists>c r. s @ t = c # r \<and> c \<noteq> CHR '']'' \<and> \<not> blank c \<and> parse_key_segment (c # r) = Inr (s, t)"
    using * bare_harmless [OF b(1)] s by auto
qed

lemma parse_path_rest:
  assumes "segs \<noteq> []" "\<forall>s \<in> set segs. bare_segment s"
  shows "parse_segments True key (str_join ''.'' segs @ '']'' @ w) = Inr (key @ segs, w)"
  using assms
proof (induction "''.''" segs arbitrary: key rule: str_join.induct)
  case (2 x)
  have c: "CHR '']'' # w = [] \<or> \<not> bare_key_byte (hd (CHR '']'' # w))" by (simp add: bare_key_byte_def is_alnum_def is_lower_alnum_def byte_def)
  from parse_bare_segment [of x "CHR '']'' # w", OF _ c] 2 obtain c r where
    r: "x @ CHR '']'' # w = c # r" "c \<noteq> CHR '']''" "parse_key_segment (c # r) = Inr (x, CHR '']'' # w)" "\<not> blank c" by auto
  have "parse_segments True key (c # r) = parse_segments False (key @ [x]) (CHR '']'' # w)"
    by (subst parse_segments.simps) (simp add: r)
  also have "\<dots> = Inr (key @ [x], w)" by (subst parse_segments.simps) (simp add: blank_def tab_def)
  finally show ?case using r(1) by simp
next
  case (3 x y xs)
  let ?t = "CHR ''.'' # str_join ''.'' (y # xs) @ '']'' @ w"
  have c: "?t = [] \<or> \<not> bare_key_byte (hd ?t)" by (simp add: bare_key_byte_def is_alnum_def is_lower_alnum_def byte_def)
  from parse_bare_segment [of x ?t, OF _ c] 3 obtain c r where
    r: "x @ ?t = c # r" "c \<noteq> CHR '']''" "parse_key_segment (c # r) = Inr (x, ?t)" "\<not> blank c" by auto
  have "parse_segments True key (c # r) = parse_segments False (key @ [x]) ?t"
    by (subst parse_segments.simps) (simp add: r)
  also have "\<dots> = parse_segments True (key @ [x]) (str_join ''.'' (y # xs) @ '']'' @ w)"
    by (subst parse_segments.simps) (simp add: blank_def tab_def)
  also have "\<dots> = Inr (key @ x # y # xs, w)" using 3 by simp
  finally show ?case using r(1) by simp
qed simp

lemma parse_path:
  assumes "segs \<noteq> []" "\<forall>s \<in> set segs. bare_segment s"
  shows "parse_segments True key (str_join ''.'' segs @ '']'') = Inr (key @ segs, [])"
  using parse_path_rest [OF assms, of key "[]"] by simp

text \<open>A line that reads as one header, or as none, and leaves the state at the top.\<close>

definition reads_as :: "string \<Rightarrow> string list list \<Rightarrow> bool" where
  "reads_as l ks \<longleftrightarrow> newline \<notin> set l \<and> scan_keys line_start [l @ [newline]] = Some (line_start, ks)"

lemma lines_read:
  "list_all2 reads_as ls kss \<Longrightarrow> scan_keys line_start (map (\<lambda>l. l @ [newline]) ls) = Some (line_start, concat kss)
     \<and> (\<forall>l \<in> set ls. newline \<notin> set l)"
proof (induction rule: list_all2_induct)
  case (Cons l ls ks kss)
  then have "scan_keys line_start ([l @ [newline]] @ map (\<lambda>l. l @ [newline]) ls) = Some (line_start, ks @ concat kss)"
    by (intro scan_keys_appendI) (auto simp: reads_as_def)
  with Cons show ?case by (simp add: reads_as_def)
qed simp

lemma top_state: "\<not> ls_in_multi line_start" "ls_depth line_start = 0" "line_start\<lparr>ls_depth := 0\<rparr> = line_start"
  by (simp_all add: line_start_def)

lemma reads_plain:
  assumes "newline \<notin> set l" "dropWhile blank l = [] \<or> hd (dropWhile blank l) \<noteq> CHR ''[''" "scan_line line_start l = line_start"
  shows "reads_as l []"
proof -
  have "chunk_text (l @ [newline]) = l" using chunk_text_full [OF assms(1), of "[]"] by simp
  with assms show ?thesis by (auto simp: reads_as_def header_of_def top_state Let_def)
qed

lemma reads_empty: "reads_as [] []"
  by (rule reads_plain) simp_all

lemma segment_chars: "bare_segment s \<Longrightarrow> \<forall>c \<in> set s. harmless c \<and> c \<noteq> newline \<and> c \<noteq> CHR ''[''"
  unfolding bare_segment_def using bare_harmless by blast

lemma path_chars:
  assumes "\<forall>s \<in> set segs. bare_segment s"
  shows "\<forall>c \<in> set (str_join ''.'' segs). harmless c \<and> c \<noteq> newline \<and> c \<noteq> CHR ''[''"
  using assms
proof (induction segs rule: induct_list012)
  case (2 x)
  with segment_chars [of x] show ?case by simp
next
  case (3 x y xs)
  have "harmless (CHR ''.'') \<and> CHR ''.'' \<noteq> newline"
    by (simp add: harmless_def newline_def double_quote_def single_quote_def)
  with 3 segment_chars [of x] show ?case by (simp add: ball_Un)
qed simp

lemma reads_header:
  assumes "segs \<noteq> []" "\<forall>s \<in> set segs. bare_segment s"
  shows "reads_as (CHR ''['' # str_join ''.'' segs @ '']'') [segs]"
proof -
  let ?p = "str_join ''.'' segs" and ?st = "line_start\<lparr>ls_depth := 1\<rparr>"
  note p = path_chars [OF assms(2)]
  have nl: "newline \<notin> set (CHR ''['' # ?p @ '']'')" using p by (auto simp: newline_def)
  have "chunk_text ((CHR ''['' # ?p @ '']'') @ [newline]) = CHR ''['' # ?p @ '']''"
    using chunk_text_full [OF nl, of "[]"] by (simp only:)
  moreover have "\<not> has_prefix (?p @ '']'') ''[''"
    using p by (cases ?p) (auto simp: has_prefix_def)
  then have "parse_table_header (CHR ''['' # ?p @ '']'') = Inr (segs, False)"
    using parse_path [OF assms, of "[]"] by (simp add: parse_table_header_def)
  moreover have "scan_line line_start (CHR ''['' # ?p @ '']'') = line_start"
  proof -
    have "scan_line line_start (CHR ''['' # ?p @ '']'') = scan_line ?st (?p @ '']'')"
      by (simp add: scan_line_Cons top_state double_quote_def single_quote_def multi_basic_def multi_literal_def has_prefix_def)
    also have "\<dots> = scan_line ?st '']''" using p by (intro scan_line_harmless_text) (auto simp: top_state)
    also have "\<dots> = line_start"
      by (simp add: scan_line_Cons line_start_def double_quote_def single_quote_def multi_basic_def multi_literal_def has_prefix_def)
    finally show ?thesis .
  qed
  ultimately show ?thesis using nl
    by (simp add: reads_as_def header_of_def top_state blank_def tab_def Let_def)
qed

definition inline_text :: "string \<Rightarrow> bool" where
  "inline_text w \<longleftrightarrow> (\<forall>c \<in> set w. harmless c \<and> c \<noteq> newline)"

lemma scan_text_quoted:
  assumes "inline_text w" "\<not> ls_in_multi st" "s = [] \<or> hd s \<noteq> double_quote"
  shows "scan_line st (w @ quote_toml v @ s) = scan_line st s"
  using scan_line_harmless_text [OF assms(2), of w] scan_quoted [OF assms(2,3)] assms(1) by (simp add: inline_text_def)

lemma reads_assignment:
  assumes "inline_text w" "w \<noteq> []" "\<not> blank (hd w)"
  shows "reads_as (w @ quote_toml v) []"
proof (rule reads_plain)
  show "newline \<notin> set (w @ quote_toml v)" using assms(1) quote_newline by (auto simp: inline_text_def)
  have "dropWhile blank (w @ quote_toml v) = w @ quote_toml v" using assms(2,3) by (cases w) auto
  moreover have "hd (w @ quote_toml v) \<noteq> CHR ''[''" using assms(1,2) by (cases w) (auto simp: inline_text_def harmless_def)
  ultimately show "dropWhile blank (w @ quote_toml v) = [] \<or> hd (dropWhile blank (w @ quote_toml v)) \<noteq> CHR ''[''" by simp
  show "scan_line line_start (w @ quote_toml v) = line_start"
    using scan_text_quoted [of w line_start "[]" v] assms(1) top_state by simp
qed

lemma bare_inline: "\<forall>c \<in> set w. bare_key_byte c \<Longrightarrow> inline_text w"
  using bare_harmless by (auto simp: inline_text_def)

lemma inline_append [simp]: "inline_text (a @ b) \<longleftrightarrow> inline_text a \<and> inline_text b"
  by (auto simp: inline_text_def)

lemma inline_words: "inline_text '' = ''" "inline_text ''url = ''" "inline_text ''command = ''" "inline_text ''args = ''" "inline_text '', ''"
  by (simp_all add: inline_text_def harmless_def newline_def double_quote_def single_quote_def)

lemma reads_pair: "reads_as ((if is_bare_key k then k else quote_toml k) @ '' = '' @ quote_toml v) []"
proof (cases "is_bare_key k")
  case True
  then have k: "\<forall>c \<in> set k. bare_key_byte c" "k \<noteq> []" by (auto simp: is_bare_key_def list_all_iff)
  then have "\<not> blank (hd k)" using bare_harmless by (cases k) auto
  then have "reads_as ((k @ '' = '') @ quote_toml v) []"
    using k bare_inline inline_words by (intro reads_assignment) auto
  with True show ?thesis by simp
next
  case False
  have "reads_as (quote_toml k @ '' = '' @ quote_toml v) []"
  proof (rule reads_plain)
    show "newline \<notin> set (quote_toml k @ '' = '' @ quote_toml v)" using quote_newline by (auto simp: newline_def)
    show "dropWhile blank (quote_toml k @ '' = '' @ quote_toml v) = []
        \<or> hd (dropWhile blank (quote_toml k @ '' = '' @ quote_toml v)) \<noteq> CHR ''[''"
      by (simp add: quote_toml_def blank_def double_quote_def tab_def)
    show "scan_line line_start (quote_toml k @ '' = '' @ quote_toml v) = line_start"
      using scan_quoted [of line_start "'' = '' @ quote_toml v" k] scan_text_quoted [of "'' = ''" line_start "[]" v]
        top_state inline_words by (simp add: double_quote_def)
  qed
  with False show ?thesis by simp
qed

lemma scan_quoted_list:
  assumes "\<not> ls_in_multi st" "s = [] \<or> hd s \<noteq> double_quote" "vs \<noteq> []"
  shows "scan_line st (str_join '', '' (map quote_toml vs) @ s) = scan_line st s"
  using assms(3)
proof (induction vs rule: induct_list012)
  case (2 v)
  then show ?case using scan_quoted [OF assms(1,2), of v] by simp
next
  case (3 v u vs)
  have "scan_line st (quote_toml v @ '', '' @ str_join '', '' (map quote_toml (u # vs)) @ s)
      = scan_line st ('', '' @ str_join '', '' (map quote_toml (u # vs)) @ s)"
    by (rule scan_quoted [OF assms(1)]) (simp add: double_quote_def)
  also have "\<dots> = scan_line st (str_join '', '' (map quote_toml (u # vs)) @ s)"
    using inline_words(5) by (intro scan_line_harmless_text [OF assms(1)]) (auto simp: inline_text_def)
  also have "\<dots> = scan_line st s" using 3 by simp
  finally show ?case by simp
qed simp

lemma quoted_list_newline: "newline \<notin> set (str_join '', '' (map quote_toml vs))"
  by (induction vs rule: induct_list012) (use quote_newline in \<open>auto simp: newline_def\<close>)

lemma reads_args:
  assumes "vs \<noteq> []"
  shows "reads_as (''args = ['' @ str_join '', '' (map quote_toml vs) @ '']'') []"
proof (rule reads_plain)
  let ?l = "str_join '', '' (map quote_toml vs)" and ?st = "line_start\<lparr>ls_depth := 1\<rparr>"
  show "newline \<notin> set (''args = ['' @ ?l @ '']'')" using quoted_list_newline by (auto simp: newline_def)
  show "dropWhile blank (''args = ['' @ ?l @ '']'') = [] \<or> hd (dropWhile blank (''args = ['' @ ?l @ '']'')) \<noteq> CHR ''[''"
    by (simp add: blank_def tab_def)
  have "scan_line line_start (''args = '' @ CHR ''['' # ?l @ '']'') = scan_line line_start (CHR ''['' # ?l @ '']'')"
    using inline_words(4) by (intro scan_line_harmless_text) (auto simp: inline_text_def top_state)
  also have "\<dots> = scan_line ?st (?l @ '']'')"
    by (simp add: scan_line_Cons top_state double_quote_def single_quote_def multi_basic_def multi_literal_def has_prefix_def)
  also have "\<dots> = scan_line ?st '']''"
    by (rule scan_quoted_list [OF _ _ assms]) (simp_all add: top_state double_quote_def)
  also have "\<dots> = line_start"
    by (simp add: scan_line_Cons line_start_def double_quote_def single_quote_def multi_basic_def multi_literal_def has_prefix_def)
  finally show "scan_line line_start (''args = ['' @ ?l @ '']'') = line_start" by simp
qed

section \<open>A rendered entry\<close>

text \<open>The tables an entry is written as.\<close>

definition entry_tables :: "mcp_entry \<Rightarrow> string list list" where
  "entry_tables e =
     [codex_container, en_name e]
     # only_if (en_headers e \<noteq> []) [[codex_container, en_name e, ''http_headers'']]
     @ only_if (en_env e \<noteq> []) [[codex_container, en_name e, ''env'']]"

lemma bare_words: "bare_segment codex_container" "bare_segment ''http_headers''" "bare_segment ''env''"
  by (simp_all add: bare_segment_def codex_container_def bare_key_byte_def is_alnum_def is_lower_alnum_def byte_def)

lemma server_name_segment: "server_name_re n \<Longrightarrow> bare_segment n"
  by (auto simp: server_name_re_def matches_shape_def name_start_def bare_segment_def bare_key_byte_def list_all_iff
      split: list.splits)

lemma pairs_read: "list_all2 reads_as (toml_pair_lines ps) (map (\<lambda>p. []) (toml_pair_lines ps))"
proof -
  have "reads_as l []" if "l \<in> set (toml_pair_lines ps)" for l
  proof -
    from that obtain k where "l = (if is_bare_key k then k else quote_toml k) @ '' = '' @ quote_toml (the (map_of ps k))"
      unfolding toml_pair_lines_def by (auto simp only: set_map image_iff)
    then show ?thesis using reads_pair by (simp only:)
  qed
  then show ?thesis by (simp add: list_all2_map2 list_all2_same)
qed

lemma pair_lines_last: "ps \<noteq> [] \<Longrightarrow> toml_pair_lines ps \<noteq> [] \<and> last (toml_pair_lines ps) \<noteq> []"
proof -
  assume "ps \<noteq> []"
  then have "sort_strings (map fst ps) \<noteq> []" by (metis length_0_conv length_map length_sort_strings)
  then show ?thesis by (simp add: toml_pair_lines_def last_map)
qed

lemma concat_nothing: "concat (map (\<lambda>p. []) xs) = []"
  by (induction xs) auto

lemma entry_reads:
  assumes "entry_validate e = None"
  shows "scan_keys line_start (map (\<lambda>l. l @ [newline]) (toml_entry_lines [codex_container] e)) = Some (line_start, entry_tables e)"
    "\<forall>l \<in> set (toml_entry_lines [codex_container] e). newline \<notin> set l"
    "toml_entry_lines [codex_container] e \<noteq> [] \<and> last (toml_entry_lines [codex_container] e) \<noteq> []"
proof -
  let ?c = codex_container and ?n = "en_name e"
  have n: "bare_segment ?n" using assms by (auto simp: entry_validate_def intro: server_name_segment split: if_splits)
  let ?head = "[CHR ''['' # str_join ''.'' [?c, ?n] @ '']'']"
  let ?body = "if en_transport e = transport_http then [''url = '' @ quote_toml (en_url e)]
         else if en_transport e = transport_stdio then
           [''command = '' @ quote_toml (en_command e)]
           @ only_if (en_args e \<noteq> []) [''args = ['' @ str_join '', '' (map quote_toml (en_args e)) @ '']'']
         else []"
  let ?tab = "\<lambda>w ps. only_if (ps \<noteq> []) ([[], CHR ''['' # str_join ''.'' [?c, ?n, w] @ '']''] @ toml_pair_lines ps)"
  let ?keys = "\<lambda>w ps. only_if (ps \<noteq> []) ([[], [[?c, ?n, w]]] @ map (\<lambda>p. []) (toml_pair_lines ps))"
  have lines: "toml_entry_lines [?c] e = ?head @ ?body @ ?tab ''http_headers'' (en_headers e) @ ?tab ''env'' (en_env e)"
    by (simp add: toml_entry_lines_def only_if_def)
  have h: "list_all2 reads_as ?head [[[?c, ?n]]]"
    using reads_header [of "[?c, ?n]"] n bare_words by simp
  have url: "reads_as (''url = '' @ quote_toml v) []" and com: "reads_as (''command = '' @ quote_toml v) []" for v
    using reads_assignment [of "''url = ''"] reads_assignment [of "''command = ''"] inline_words by (simp_all add: blank_def tab_def)
  have b: "list_all2 reads_as ?body (map (\<lambda>p. []) ?body)"
    using url com reads_args [of "en_args e"] by (simp add: only_if_def)
  have t: "list_all2 reads_as (?tab w ps) (?keys w ps)" if "bare_segment w" for w ps
    using reads_header [of "[?c, ?n, w]"] n bare_words that reads_empty pairs_read [of ps] by (simp add: only_if_def)
  have all: "list_all2 reads_as (toml_entry_lines [?c] e)
      ([[[?c, ?n]]] @ map (\<lambda>p. []) ?body @ ?keys ''http_headers'' (en_headers e) @ ?keys ''env'' (en_env e))"
    unfolding lines using h b t bare_words by (intro list_all2_appendI)
  have keys: "concat ([[[?c, ?n]]] @ map (\<lambda>p. []) ?body @ ?keys ''http_headers'' (en_headers e) @ ?keys ''env'' (en_env e)) = entry_tables e"
    unfolding concat_append concat_nothing by (simp add: entry_tables_def only_if_def concat_nothing)
  from lines_read [OF all] keys show "scan_keys line_start (map (\<lambda>l. l @ [newline]) (toml_entry_lines [?c] e)) = Some (line_start, entry_tables e)"
    "\<forall>l \<in> set (toml_entry_lines [?c] e). newline \<notin> set l" by simp_all
  have "en_transport e = transport_http \<or> en_transport e = transport_stdio"
    using assms by (auto simp: entry_validate_def split: if_splits)
  then have "?body \<noteq> []" "last ?body \<noteq> []" by (auto simp: only_if_def)
  then show "toml_entry_lines [?c] e \<noteq> [] \<and> last (toml_entry_lines [?c] e) \<noteq> []"
    unfolding lines using pair_lines_last [of "en_headers e"] pair_lines_last [of "en_env e"]
    by (simp add: only_if_def last_append split: if_splits)
qed

lemma append_entries_reads:
  assumes "append_entries es out = Inr out'" "scan_keys line_start (chunks out) = Some (line_start, ks)"
  shows "scan_keys line_start (chunks out') = Some (line_start, ks @ concat (map entry_tables es))"
  using assms
proof (induction es arbitrary: out ks)
  case (Cons e es)
  then have v: "entry_validate e = None" by (auto simp: render_toml_entry_def split: option.splits)
  then have next_out: "append_entries es (append_block out (unlines (toml_entry_lines [codex_container] e))) = Inr out'"
    using Cons.prems(1) by (simp add: render_toml_entry_def)
  from entry_reads [OF v]
  have "scan_keys line_start (chunks (append_block out (unlines (toml_entry_lines [codex_container] e)))) = Some (line_start, ks @ entry_tables e)"
    by (intro append_block_reads [OF Cons.prems(2)]) simp_all
  from Cons.IH [OF next_out this] show ?case by simp
qed simp

lemma rewrite_codex_InrD:
  assumes "rewrite_codex orig entries managed = Inr after"
  obtains spans out where "scan_tables orig = Inr spans"
    "append_entries entries (remove_tables orig spans (managed_key managed)) = Inr out"
    "after = (if trim_space out = [] then [] else out)"
  using assms by (auto simp: rewrite_codex_def split: sum.splits if_splits)

text \<open>
  C28. The edited Codex configuration has exactly the tables it should: the file Homeplane writes is
  scanned without an error, and its table headers are, in order, the headers of the original that are not
  managed, followed by those of the new entries. No table of the user is lost, doubled or merged into
  another, whatever strings, nested arrays and comments the file holds, and every managed table is there
  once.
\<close>

theorem codex_rewrite_tables:
  assumes "rewrite_codex orig entries managed = Inr after"
  shows "\<exists>spans spans'. scan_tables orig = Inr spans \<and> scan_tables after = Inr spans'
     \<and> map sp_key spans' = filter (\<lambda>k. \<not> managed_key managed k) (map sp_key spans) @ concat (map entry_tables entries)"
proof -
  from assms obtain spans out where *: "scan_tables orig = Inr spans"
    "append_entries entries (remove_tables orig spans (managed_key managed)) = Inr out"
    "after = (if trim_space out = [] then [] else out)" by (rule rewrite_codex_InrD)
  let ?ks = "filter (\<lambda>k. \<not> managed_key managed k) (map sp_key spans) @ concat (map entry_tables entries)"
  from append_entries_reads [OF *(2) remove_tables_reads [OF *(1)]]
  have out: "scan_keys line_start (chunks out) = Some (line_start, ?ks)" .
  have "scan_keys line_start (chunks after) = Some (line_start, ?ks)"
  proof (cases "trim_space out = []")
    case True
    with blank_lines_no_keys [of "chunks out", OF _ out] have "?ks = []" by simp
    with True *(3) show ?thesis by simp
  next
    case False
    with out *(3) show ?thesis by simp
  qed
  from scan_keys_tables [OF this] *(1) show ?thesis by auto
qed

end
