(* ===== verification/Toml_Text.thy ===== *)
theory Toml_Text
  imports Toml_Props
begin

text \<open>
  What the Codex writer leaves of the file, byte for byte, the values a rendered entry holds when a TOML
  reader takes them back, and a valid file the scanner refuses.
\<close>

section \<open>The text that stays\<close>

datatype piece_kind = Kept | Removed | Separator

fun pieces :: "(string list \<Rightarrow> bool) \<Rightarrow> bool \<Rightarrow> string list \<Rightarrow> group list \<Rightarrow> (piece_kind \<times> string) list" where
  "pieces m b ls [] = [(Kept, concat ls)]"
| "pieces m b ls (g # gs) =
     (if \<not> m (grp_key g) then pieces m b (ls @ grp_lines g) gs
      else (if b \<and> trim_space (concat ls) = [] then Separator else Kept, concat ls)
           # (Removed, concat (own_lines g)) # pieces m True (grp_notes g) gs)"

definition piece_texts :: "piece_kind \<Rightarrow> (piece_kind \<times> string) list \<Rightarrow> string list" where
  "piece_texts k ps = map snd (filter (\<lambda>p. fst p = k) ps)"

lemma pieces_whole: "concat (map snd (pieces m b ls gs)) = concat (ls @ concat (map grp_lines gs))"
proof (induction gs arbitrary: b ls)
  case (Cons g gs)
  then show ?case by (simp add: own_notes [of g, symmetric])
qed simp

lemma pieces_kept: "concat (piece_texts Kept (pieces m b ls gs)) = concat (left_lines m b ls gs)"
  by (induction gs arbitrary: b ls) (auto simp: piece_texts_def)

lemma pieces_removed: "piece_texts Removed (pieces m b ls gs) = map (\<lambda>g. concat (own_lines g)) (filter (\<lambda>g. m (grp_key g)) gs)"
  by (induction gs arbitrary: b ls) (auto simp: piece_texts_def)

lemma pieces_separator: "t \<in> set (piece_texts Separator (pieces m b ls gs)) \<Longrightarrow> trim_space t = []"
  by (induction gs arbitrary: b ls) (auto simp: piece_texts_def split: if_splits)

definition span_text :: "string \<Rightarrow> toml_span \<Rightarrow> string" where
  "span_text src s = slice (sp_start s) (sp_end s) src"

lemma span_text_make [simp]:
  "span_text src \<lparr>sp_key = k, sp_array = b, sp_start = i, sp_end = j\<rparr> = slice i j src"
  by (simp add: span_text_def)

lemma span_list_texts:
  assumes "lines_ok (pre @ concat (map grp_lines gs))" "src = concat (pre @ concat (map grp_lines gs))"
  shows "map (span_text src) (filter (\<lambda>s. m (sp_key s)) (span_list src (length (concat pre)) True gs))
    = map (\<lambda>g. concat (own_lines g)) (filter (\<lambda>g. m (grp_key g)) gs)"
  using assms
proof (induction gs arbitrary: pre)
  case (Cons g gs)
  let ?p = "length (concat pre)"
  have e: "trim_attached src ?p (?p + length (concat (grp_lines g))) = ?p + length (concat (own_lines g))"
    using trim_group [of pre g "concat (map grp_lines gs)"] Cons.prems by simp
  have src: "src = concat pre @ concat (own_lines g) @ concat (grp_notes g @ concat (map grp_lines gs))"
    using Cons.prems(2) own_notes [of g, symmetric] by simp
  have t: "slice ?p (?p + length (concat (own_lines g))) src = concat (own_lines g)"
    unfolding src by (rule slice_middle)
  have "map (span_text src) (filter (\<lambda>s. m (sp_key s)) (span_list src (length (concat (pre @ grp_lines g))) True gs))
    = map (\<lambda>g. concat (own_lines g)) (filter (\<lambda>g. m (grp_key g)) gs)"
    using Cons.prems by (intro Cons.IH) simp_all
  then show ?case by (simp add: e t)
qed simp

theorem remove_tables_pieces:
  assumes "scan_tables src = Inr spans"
  shows "\<exists>ps. src = concat (map snd ps) \<and> remove_tables src spans m = concat (piece_texts Kept ps)
     \<and> piece_texts Removed ps = map (span_text src) (filter (\<lambda>s. m (sp_key s)) spans)
     \<and> (\<forall>t \<in> set (piece_texts Separator ps). trim_space t = [])"
proof -
  from scan_tables_groups [OF assms] obtain body gs where
    *: "chunks src = body @ concat (map grp_lines gs)" "spans = span_list src (length (concat body)) True gs" by blast
  have ok: "lines_ok (body @ concat (map grp_lines gs))" using lines_ok_chunks [of src] *(1) by simp
  have src: "src = concat (body @ concat (map grp_lines gs))" using *(1) concat_chunks by metis
  let ?ps = "pieces m False body gs"
  have "remove_tables src spans m = concat (left_lines m False body gs)"
    using remove_from_groups [of "[]" body gs src False None m] ok src *(2) by (simp add: remove_tables_def)
  moreover have "src = concat (map snd ?ps)" using pieces_whole src by metis
  ultimately show ?thesis
    using span_list_texts [OF ok src] pieces_separator *(2)
    by (intro exI [of _ ?ps]) (simp only: pieces_kept pieces_removed simp_thms, blast)
qed

lemma append_block_prefix: "has_prefix (append_block src block) (trim_right trailing_space src)"
  by (auto simp: append_block_def Let_def has_prefix_def)

lemma append_block_keeps:
  assumes "has_prefix src (trim_right trailing_space orig)"
  shows "has_prefix (append_block src block) (trim_right trailing_space orig)"
proof (cases "trim_right trailing_space orig = []")
  case True
  then show ?thesis by (simp add: has_prefix_def)
next
  case False
  let ?o = "trim_right trailing_space orig"
  obtain rest where src: "src = ?o @ rest" using has_prefixD [OF assms] by blast
  obtain t c where o: "?o = t @ [c]" "\<not> trailing_space c"
    using False trim_right_last [OF False] by (metis append_butlast_last_id)
  have keep: "dropWhile trailing_space (rev r @ c # z) = dropWhile trailing_space (rev r) @ c # z" for r z
    using o(2) by (induction r rule: rev_induct) auto
  have "trim_right trailing_space src = ?o @ trim_right trailing_space rest"
    unfolding trim_right_def [of _ src] src o(1) by (simp add: keep trim_right_def)
  then show ?thesis by (auto simp: append_block_def Let_def has_prefix_def)
qed

lemma append_entries_keeps:
  assumes "append_entries es out = Inr out'" "has_prefix out (trim_right trailing_space orig)"
  shows "has_prefix out' (trim_right trailing_space orig)"
  using assms
proof (induction es arbitrary: out)
  case (Cons e es)
  then show ?case by (auto split: sum.splits intro: append_block_keeps)
qed simp

lemma trim_right_prefix: "has_prefix s (trim_right p s)"
  using trim_right_split [of s p] has_prefix_append by metis

text \<open>
  Outside the managed tables the Codex configuration stays as it was, byte for byte: the original is
  the managed tables, each from its header to the end of its own lines, blank separators between two of
  them, and the rest; the rest, in its order and less the white space at its end, is what the written
  file begins with.
\<close>

theorem codex_rewrite_keeps_text:
  assumes "rewrite_codex orig entries managed = Inr after" "after \<noteq> []"
  shows "\<exists>spans ps. scan_tables orig = Inr spans \<and> orig = concat (map snd ps)
     \<and> piece_texts Removed ps = map (span_text orig) (filter (\<lambda>s. managed_key managed (sp_key s)) spans)
     \<and> (\<forall>t \<in> set (piece_texts Separator ps). trim_space t = [])
     \<and> has_prefix after (trim_right trailing_space (concat (piece_texts Kept ps)))"
proof -
  from assms(1) obtain spans out where *: "scan_tables orig = Inr spans"
    "append_entries entries (remove_tables orig spans (managed_key managed)) = Inr out"
    "after = (if trim_space out = [] then [] else out)" by (rule rewrite_codex_InrD)
  from remove_tables_pieces [OF *(1)] obtain ps where
    ps: "orig = concat (map snd ps)" "remove_tables orig spans (managed_key managed) = concat (piece_texts Kept ps)"
    "piece_texts Removed ps = map (span_text orig) (filter (\<lambda>s. managed_key managed (sp_key s)) spans)"
    "\<forall>t \<in> set (piece_texts Separator ps). trim_space t = []" by blast
  have "has_prefix out (trim_right trailing_space (concat (piece_texts Kept ps)))"
    using append_entries_keeps [OF *(2)] trim_right_prefix ps(2) by simp
  with assms(2) *(3) *(1) ps(1,3,4) show ?thesis by (auto split: if_splits)
qed

section \<open>The values\<close>

text \<open>
  A reader of a TOML basic string: the escapes TOML defines, no control characters, and nothing after
  the closing quote.
\<close>

definition toml_escape :: "char \<Rightarrow> string option" where
  "toml_escape e =
     (if e = CHR ''b'' then Some [chr 8] else if e = CHR ''t'' then Some [chr 9]
      else if e = CHR ''n'' then Some [chr 10] else if e = CHR ''f'' then Some [chr 12]
      else if e = CHR ''r'' then Some [chr 13]
      else if e = double_quote \<or> e = back_slash then Some [e] else None)"

function read_basic :: "string \<Rightarrow> string option" where
  "read_basic line =
     (case line of
        [] \<Rightarrow> None
      | c # s \<Rightarrow>
          if c = double_quote then (if s = [] then Some [] else None)
          else if c = back_slash then
            (case s of
               [] \<Rightarrow> None
             | e # s' \<Rightarrow>
                 if e = CHR ''u'' then
                   (case hex_number 0 (take 4 s') of
                      None \<Rightarrow> None
                    | Some r \<Rightarrow> (case rune_text r of
                        None \<Rightarrow> None
                      | Some t \<Rightarrow> if length s' < 4 then None else map_option (\<lambda>v. t @ v) (read_basic (drop 4 s'))))
                 else (case toml_escape e of None \<Rightarrow> None | Some t \<Rightarrow> map_option (\<lambda>v. t @ v) (read_basic s')))
          else if byte c < 32 \<and> c \<noteq> tab \<or> byte c = 127 then None
          else map_option (\<lambda>v. c # v) (read_basic s))"
  by pat_completeness auto
termination by (relation "measure length") auto

declare read_basic.simps [simp del]

definition read_toml_string :: "string \<Rightarrow> string option" where
  "read_toml_string s = (case s of c # t \<Rightarrow> if c = double_quote then read_basic t else None | [] \<Rightarrow> None)"

lemma read_basic_Cons:
  "read_basic (c # s) =
     (if c = double_quote then (if s = [] then Some [] else None)
      else if c = back_slash then
        (case s of
           [] \<Rightarrow> None
         | e # s' \<Rightarrow>
             if e = CHR ''u'' then
               (case hex_number 0 (take 4 s') of
                  None \<Rightarrow> None
                | Some r \<Rightarrow> (case rune_text r of
                    None \<Rightarrow> None
                  | Some t \<Rightarrow> if length s' < 4 then None else map_option (\<lambda>v. t @ v) (read_basic (drop 4 s'))))
             else (case toml_escape e of None \<Rightarrow> None | Some t \<Rightarrow> map_option (\<lambda>v. t @ v) (read_basic s')))
      else if byte c < 32 \<and> c \<noteq> tab \<or> byte c = 127 then None
      else map_option (\<lambda>v. c # v) (read_basic s))"
  by (subst read_basic.simps) simp

definition plain_text :: "string \<Rightarrow> bool" where
  "plain_text w \<longleftrightarrow> (\<forall>c \<in> set w. c \<noteq> double_quote \<and> c \<noteq> back_slash \<and> 32 \<le> byte c \<and> byte c \<noteq> 127)"

lemma read_plain: "plain_text w \<Longrightarrow> read_basic (w @ s) = map_option (\<lambda>v. w @ v) (read_basic s)"
proof (induction w)
  case Nil
  show ?case by (cases "read_basic s") simp_all
next
  case (Cons c w)
  then have "read_basic (c # (w @ s)) = map_option (\<lambda>v. c # v) (read_basic (w @ s))"
    by (auto simp: read_basic_Cons plain_text_def)
  with Cons show ?case by (simp add: plain_text_def option.map_comp comp_def)
qed

lemma plain_text_encode:
  assumes "plain_in_quotes (encode_rune r)" "32 \<le> r" "r \<noteq> 127"
  shows "plain_text (encode_rune r)"
proof -
  define q where "q = (if 1114111 < r \<or> (55296 \<le> r \<and> r \<le> 57343) then rune_error else r)"
  have q: "32 \<le> q" "q \<noteq> 127" "q \<le> 1114111" using assms(2,3) by (auto simp: q_def rune_error_def)
  have m: "n mod 64 < 64" for n :: nat by simp
  have ch: "32 \<le> byte (chr n) \<and> byte (chr n) \<noteq> 127" if "32 \<le> n" "n < 256" "n \<noteq> 127" for n
    using that by (simp add: byte_chr)
  have "\<forall>c \<in> set (encode_rune r). 32 \<le> byte c \<and> byte c \<noteq> 127"
  proof -
    consider "q < 128" | "128 \<le> q" "q < 2048" | "2048 \<le> q" "q < 65536" | "65536 \<le> q" by linarith
    then show ?thesis
    proof cases
      case 1
      with q ch [of q] show ?thesis by (simp add: encode_rune_def q_def [symmetric])
    next
      case 2
      then have "q div 64 < 64" by (simp add: less_mult_imp_div_less)
      with 2 m [of q] ch [of "192 + q div 64"] ch [of "128 + q mod 64"] show ?thesis
        by (simp add: encode_rune_def q_def [symmetric])
    next
      case 3
      then have "q div 4096 < 32" by (simp add: less_mult_imp_div_less)
      with 3 m [of q] m [of "q div 64"] ch [of "224 + q div 4096"] ch [of "128 + q div 64 mod 64"] ch [of "128 + q mod 64"]
      show ?thesis by (simp add: encode_rune_def q_def [symmetric])
    next
      case 4
      have "q div 262144 < 16" using q(3) by (simp add: less_mult_imp_div_less)
      with 4 m [of q] m [of "q div 64"] m [of "q div 4096"] ch [of "240 + q div 262144"] ch [of "128 + q div 4096 mod 64"]
        ch [of "128 + q div 64 mod 64"] ch [of "128 + q mod 64"]
      show ?thesis by (simp add: encode_rune_def q_def [symmetric])
    qed
  qed
  with assms(1) show ?thesis by (auto simp: plain_text_def plain_in_quotes_def)
qed

lemma hex_value_digit: "d < 16 \<Longrightarrow> hex_value (chr (if d < 10 then 48 + d else 55 + d)) = Some d"
  by (auto simp: hex_value_def is_digit_def byte_chr)

lemma hex_number_hex4:
  assumes "n < 65536"
  shows "hex_number 0 (upper_hex4 n) = Some n"
proof -
  define a b c where "a = n div 16" and "b = a div 16" and "c = b div 16"
  have m: "k mod 16 < 16" for k :: nat by simp
  have d: "n div 256 = b" "n div 4096 = c" by (simp_all add: a_def b_def c_def div_mult2_eq [symmetric])
  have c: "c mod 16 = c" using assms by (simp add: d [symmetric] less_mult_imp_div_less)
  have s: "16 * a + n mod 16 = n" "16 * b + a mod 16 = a" "16 * c + b mod 16 = b"
    by (simp_all add: a_def b_def c_def)
  have "16 * (16 * (16 * c + b mod 16) + a mod 16) + n mod 16 = n" by (simp only: s)
  moreover have "hex_number 0 (upper_hex4 n) = Some (16 * (16 * (16 * (16 * 0 + c mod 16) + b mod 16) + a mod 16) + n mod 16)"
    using hex_value_digit [OF m [of c]] hex_value_digit [OF m [of b]] hex_value_digit [OF m [of a]] hex_value_digit [OF m [of n]]
    by (simp only: upper_hex4_def list.map hex_number.simps option.case d a_def [symmetric])
  ultimately show ?thesis by (simp add: c)
qed

lemma escaped_chars: "chr 34 = double_quote" "chr 92 = back_slash"
  using chr_byte [of double_quote] chr_byte [of back_slash] byte_marks by simp_all

lemma read_escape:
  "toml_escape e = Some t \<Longrightarrow> e \<noteq> CHR ''u'' \<Longrightarrow> read_basic (back_slash # e # s) = map_option (\<lambda>v. t @ v) (read_basic s)"
  by (simp add: read_basic_Cons back_slash_def double_quote_def)

lemma read_rune: "read_basic (toml_rune r @ s) = map_option (\<lambda>v. encode_rune r @ v) (read_basic s)"
proof -
  consider (esc) "r \<in> {34, 92, 8, 9, 10, 12, 13}" | (hex) "r \<notin> {34, 92, 8, 9, 10, 12, 13}" "r = rune_error \<or> (is_control r \<and> r < 128)"
    | (pln) "r \<notin> {34, 92, 8, 9, 10, 12, 13}" "\<not> (r = rune_error \<or> (is_control r \<and> r < 128))" by blast
  then show ?thesis
  proof cases
    case esc
    then have "r < 128" by auto
    then have enc: "encode_rune r = [chr r]" by (simp add: encode_rune_def rune_error_def)
    from esc obtain e where "toml_rune r = [back_slash, e]" "e \<noteq> CHR ''u''" "toml_escape e = Some [chr r]"
      by (auto simp: toml_rune_def toml_escape_def escaped_chars back_slash_def double_quote_def)
    with enc read_escape show ?thesis by simp
  next
    case hex
    then have r: "r < 65536" "\<not> (55296 \<le> r \<and> r \<le> 57343)" by (auto simp: rune_error_def)
    have "length (upper_hex4 r) = 4" by (simp add: upper_hex4_def)
    with r hex hex_number_hex4 [OF r(1)] show ?thesis
      by (auto simp: toml_rune_def read_basic_Cons back_slash_def double_quote_def rune_text_def)
  next
    case pln
    then have "toml_rune r = encode_rune r" by (auto simp: toml_rune_def)
    moreover from pln have "32 \<le> r" "r \<noteq> 127" by (auto simp: is_control_def not_less)
    moreover from pln have "plain_in_quotes (encode_rune r)" using plain_encode [of r] by auto
    ultimately show ?thesis using read_plain plain_text_encode by simp
  qed
qed


section \<open>A file the scanner refuses\<close>

text \<open>
  The lines are split at the newline alone, so a table header whose line ends with a carriage return
  and a newline, which TOML allows, is refused for trailing content.
\<close>

lemma carriage_return_refused:
  assumes "segs \<noteq> []" "\<forall>s \<in> set segs. bare_segment s"
  shows "scan_tables (CHR ''['' # str_join ''.'' segs @ '']'' @ creturn # newline # rest) = Inl (BadHeader 1 (TrailingContent [creturn]))"
proof -
  let ?l = "CHR ''['' # str_join ''.'' segs @ '']'' @ [creturn]"
  note p = path_chars [OF assms(2)]
  have nl: "newline \<notin> set ?l" using p by (auto simp: newline_def creturn_def)
  have chunks: "chunks (?l @ newline # rest) = (?l @ [newline]) # chunks rest" by (rule chunks_newline [OF nl])
  have line: "chunk_text (?l @ [newline]) = ?l" using chunk_text_full [OF nl, of "[]"] by (simp only:)
  have "parse_segments True [] (str_join ''.'' segs @ '']'' @ w) = Inr (segs, w)" for w
    using parse_path_rest [OF assms, of "[]" w] by simp
  moreover have "\<not> has_prefix (str_join ''.'' segs @ '']'' @ [creturn]) ''[''"
    using p by (cases "str_join ''.'' segs") (auto simp: has_prefix_def)
  ultimately have "parse_table_header ?l = Inl (TrailingContent [creturn])"
    by (simp add: parse_table_header_def blank_def tab_def creturn_def)
  then show ?thesis
    using chunks line by (simp add: scan_tables_def header_of_def top_state blank_def tab_def Let_def)
qed

section \<open>Witnesses\<close>

definition sample_toml :: string where
  "sample_toml = ''# mine'' @ newline # ''[mcp_servers.homeplane]'' @ newline # ''y=1'' @ newline # ''# a'' @ newline # ''[a]'' @ [newline]"

definition sample_entry :: mcp_entry where
  "sample_entry = \<lparr>en_name = ''homeplane'', en_transport = transport_http, en_url = ''http://s/mcp'',
     en_headers = [(''Authorization'', ''Bearer t'')], en_command = [], en_args = [], en_env = []\<rparr>"

lemma sample_entry_valid: "entry_validate sample_entry = None"
  by code_simp

lemma sample_toml_spans:
  "scan_tables sample_toml = Inr
     [\<lparr>sp_key = [''mcp_servers'', ''homeplane''], sp_array = False, sp_start = 7, sp_end = 35\<rparr>,
      \<lparr>sp_key = [''a''], sp_array = False, sp_start = 39, sp_end = 43\<rparr>]"
  by code_simp

lemma sample_rewrite: "\<exists>after. rewrite_codex sample_toml [sample_entry] [''homeplane''] = Inr after"
  using sample_entry_valid by (simp add: rewrite_codex_def sample_toml_spans render_toml_entry_def)

lemma codex_rewrite_tables_witness:
  "\<exists>after spans'. rewrite_codex sample_toml [sample_entry] [''homeplane''] = Inr after \<and> scan_tables after = Inr spans'
     \<and> map sp_key spans' = [[''a''], [''mcp_servers'', ''homeplane''], [''mcp_servers'', ''homeplane'', ''http_headers'']]"
proof -
  obtain after where r: "rewrite_codex sample_toml [sample_entry] [''homeplane''] = Inr after" using sample_rewrite by blast
  from codex_rewrite_tables [OF r] r show ?thesis
    by (auto simp: sample_toml_spans managed_key_def codex_container_def entry_tables_def sample_entry_def only_if_def)
qed

lemma cut_sample: "remove_tables sample_toml
     [\<lparr>sp_key = [''mcp_servers'', ''homeplane''], sp_array = False, sp_start = 7, sp_end = 35\<rparr>,
      \<lparr>sp_key = [''a''], sp_array = False, sp_start = 39, sp_end = 43\<rparr>] (managed_key [''homeplane''])
   = ''# mine'' @ newline # ''# a'' @ newline # ''[a]'' @ [newline]"
  by code_simp

lemma codex_rewrite_keeps_text_witness:
  "\<exists>ps. sample_toml = concat (map snd ps) \<and> piece_texts Removed ps = [''[mcp_servers.homeplane]'' @ newline # ''y=1'' @ [newline]]"
proof -
  have "trim_space (''# mine'' @ newline # ''# a'' @ newline # ''[a]'' @ [newline]) \<noteq> []" by code_simp
  then have r: "rewrite_codex sample_toml [] [''homeplane''] = Inr (''# mine'' @ newline # ''# a'' @ newline # ''[a]'' @ [newline])"
    by (simp add: rewrite_codex_def sample_toml_spans cut_sample)
  have t: "slice 7 35 sample_toml = ''[mcp_servers.homeplane]'' @ newline # ''y=1'' @ [newline]" by code_simp
  from codex_rewrite_keeps_text [OF r] show ?thesis
    by (auto simp: sample_toml_spans managed_key_def codex_container_def t)
qed

end
