(* ===== verification/Configure_Props.thy ===== *)
theory Configure_Props
  imports Configure Config_Props Toml_Text
begin

text \<open>
  What one run does to a harness: what a harness reported as configured holds, what a run that writes nothing
  costs, and how a file the two readers judge differently loses its grant.
\<close>

section \<open>Steps that leave the server alone\<close>

lemma load_record_frame:
  "load_record e h w = (r, w1) \<Longrightarrow> cw_srv w1 = cw_srv w \<and> (quiet e \<longrightarrow> ow_disk (cw_os w1) = ow_disk (cw_os w))"
  by (auto simp: load_record_def case_prod_beta)

lemma save_record_frame:
  "save_record e r w = (ok, w1) \<Longrightarrow> cw_srv w1 = cw_srv w
     \<and> (quiet e \<longrightarrow> ow_disk (cw_os w1) = ow_disk (cw_os w))
     \<and> (ok \<longrightarrow> cw_records w1 (hr_harness r) = RecordHolds r)"
  by (auto simp: save_record_def case_prod_beta split: if_splits)

lemma preflight_frame:
  "quiet e \<Longrightarrow> preflight e fmt p w = (r, w1) \<Longrightarrow> ow_disk w1 = ow_disk w"
  by (auto simp: preflight_def dest: read_file_quiet split: prod.splits)

text \<open>Who has been reached by the time an outcome is known: the file only, or the server as well.\<close>

lemma configure_one_cases:
  assumes "configure_one cg issue e h engine w = (x, w')"
  obtains (no_grant) "cw_srv w' = cw_srv w" "oc_status x = StatusFailed \<or> oc_status x = StatusSkipped" "oc_grant_id x = []"
    | (refused) "cw_srv w' = snd (issue h (cw_srv w))" "oc_status x = StatusFailed" "oc_grant_id x = []"
    | (granted) d fmt prior w1 o2 g where
        "detect (view_at (cg_machine cg) (ow_disk (cw_os w))) (cg_locator cg) h = Inr d" "dt_installed d"
        "format_for cg h = Some fmt" "load_record e h w = (Some prior, w1)"
        "preflight e fmt (dt_config_path d) (cw_os w1) = (None, o2)"
        "issue h (cw_srv w) = (Some g, snd (issue h (cw_srv w)))"
        "trim_space (hg_token g) \<noteq> []" "trim_space (hg_endpoint g) \<noteq> []"
        "write_granted cg e fmt (granted_outcome ((fresh_outcome h (cg_now cg h))
            \<lparr>oc_config_path := dt_config_path d, oc_installed := dt_installed d\<rparr>) g engine prior) g engine
            (w1\<lparr>cw_os := o2, cw_srv := snd (issue h (cw_srv w))\<rparr>) = (x, w')"
proof (cases "detect (view_at (cg_machine cg) (ow_disk (cw_os w))) (cg_locator cg) h")
  case (Inl err)
  with assms no_grant show ?thesis by (auto simp: configure_one_def failed_def fresh_outcome_def)
next
  case D: (Inr d)
  show ?thesis
  proof (cases "dt_installed d \<and> format_for cg h \<noteq> None")
    case False
    with assms D no_grant show ?thesis
      by (auto simp: configure_one_def failed_def skipped_def fresh_outcome_def Let_def split: if_splits option.splits)
  next
    case True
    then obtain fmt where F: "dt_installed d" "format_for cg h = Some fmt" by blast
    obtain pr w1 where L: "load_record e h w = (pr, w1)" by fastforce
    note srv = load_record_frame [OF L, THEN conjunct1]
    show ?thesis
    proof (cases pr)
      case None
      with assms D F L srv no_grant show ?thesis by (auto simp: configure_one_def failed_def fresh_outcome_def Let_def)
    next
      case P: (Some prior)
      obtain pf o2 where PF: "preflight e fmt (dt_config_path d) (cw_os w1) = (pf, o2)" by fastforce
      note head = assms [unfolded configure_one_def Let_def D sum.case L [unfolded P] F(2) option.case prod.case PF, simplified F, simplified]
      show ?thesis
      proof (cases pf)
        case (Some err)
        with head srv no_grant show ?thesis
          by (auto simp: failed_def skipped_def fresh_outcome_def split: if_splits prod.splits option.splits)
      next
        case None
        obtain gr srv' where I: "issue h (cw_srv w) = (gr, srv')" by fastforce
        show ?thesis
        proof (cases gr)
          case None
          with head \<open>pf = None\<close> I srv refused show ?thesis by (auto simp: failed_def fresh_outcome_def)
        next
          case (Some g)
          with head \<open>pf = None\<close> I srv have step: "(x, w') =
              (if trim_space (hg_token g) = [] \<or> trim_space (hg_endpoint g) = []
               then (failed ((fresh_outcome h (cg_now cg h))\<lparr>oc_config_path := dt_config_path d, oc_installed := dt_installed d\<rparr>)
                      GrantIncomplete, w1\<lparr>cw_os := o2, cw_srv := srv'\<rparr>)
               else write_granted cg e fmt (granted_outcome ((fresh_outcome h (cg_now cg h))
                 \<lparr>oc_config_path := dt_config_path d, oc_installed := dt_installed d\<rparr>) g engine prior) g engine
                 (w1\<lparr>cw_os := o2, cw_srv := srv'\<rparr>))"
            using F by (auto split: if_splits)
          show ?thesis
          proof (cases "trim_space (hg_token g) = [] \<or> trim_space (hg_endpoint g) = []")
            case True
            with step I refused show ?thesis by (simp add: failed_def fresh_outcome_def)
          next
            case False
            show ?thesis
            proof (rule granted [OF D F L [unfolded P] PF [unfolded \<open>pf = None\<close>]])
              show "issue h (cw_srv w) = (Some g, snd (issue h (cw_srv w)))" using I Some by simp
              show "trim_space (hg_token g) \<noteq> []" "trim_space (hg_endpoint g) \<noteq> []" using False by auto
            qed (use step False I in simp)
          qed
        qed
      qed
    qed
  qed
qed

text \<open>The last part of a run, under no interference.\<close>

lemma write_granted_quiet:
  assumes q: "quiet e" and run: "write_granted cg e fmt x g engine w = (y, w')"
  defines "p \<equiv> oc_config_path x" and "entries \<equiv> granted_entries g engine"
    and "managed \<equiv> managed_names (granted_entries g engine) (oc_retired x)"
    and "orig \<equiv> content (ow_disk (cw_os w)) (oc_config_path x)"
  shows "cw_srv w' = cw_srv w \<and> oc_grant_id y = oc_grant_id x \<and> oc_config_path y = p \<and> oc_retired y = oc_retired x
      \<and> oc_managed y = oc_managed x
    \<and> (oc_status y = StatusConfigured \<longrightarrow> oc_status x \<noteq> StatusConfigured \<longrightarrow>
        (\<exists>f r. ow_disk (cw_os w') p = Some f \<and> df_mode f = file_perm
          \<and> cf_rewrite fmt orig entries managed = Inr (df_data f) \<and> verify (check_of fmt managed) orig (df_data f) = None
          \<and> cw_records w' (oc_harness x) = RecordHolds r \<and> hr_managed r = oc_managed x \<and> hr_grant_id r = hg_id g))
    \<and> (\<forall>err. cf_rewrite fmt orig entries managed = Inl err \<longrightarrow> left_alone (ow_disk (cw_os w)) (ow_disk (cw_os w')) p)"
proof -
  obtain r o1 where a: "apply_config (cg_machine cg) e fmt p entries (oc_retired x) (cw_os w) = (r, o1)" by fastforce
  have refused_alone: "left_alone (ow_disk (cw_os w)) (ow_disk o1) p" if "cf_rewrite fmt orig entries managed = Inl err" for err
    using q a
  proof (cases rule: apply_config_quiet)
    case refused
    then show ?thesis by (simp add: left_alone_def)
  next
    case (ran m w0)
    then show ?thesis using apply_once_quiet [OF q ran(2)] that unfolding orig_def managed_def entries_def p_def by auto
  qed
  have success: "\<exists>f. ow_disk o1 p = Some f \<and> df_mode f = file_perm \<and> cf_rewrite fmt orig entries managed = Inr (df_data f)
      \<and> verify (check_of fmt managed) orig (df_data f) = None" if "ar_error r = None"
    using q a
  proof (cases rule: apply_config_quiet)
    case refused
    then show ?thesis using that by simp
  next
    case (ran m w0)
    then show ?thesis using apply_once_quiet [OF q ran(2)] that unfolding orig_def managed_def entries_def p_def by auto
  qed
  note head = run [unfolded write_granted_def Let_def a [unfolded p_def entries_def] prod.case]
  show ?thesis
  proof (cases "ar_error r")
    case (Some err)
    then show ?thesis using head refused_alone by (auto simp: skipped_def failed_def p_def split: if_splits)
  next
    case None
    define rec where "rec = \<lparr>hr_schema = record_schema_version, hr_harness = oc_harness x, hr_config_path = oc_config_path x,
                   hr_managed = oc_managed x, hr_grant_id = hg_id g, hr_endpoint = hg_endpoint g,
                   hr_capabilities = hg_capabilities g, hr_at = oc_at x\<rparr>"
    obtain ok w2 where sv: "save_record e rec (w\<lparr>cw_os := o1\<rparr>) = (ok, w2)" by fastforce
    note f = save_record_frame [OF sv]
    have y: "w' = w2" "y = (if ok then x\<lparr>oc_backup_path := ar_backup r, oc_changed := ar_changed r, oc_status := StatusConfigured\<rparr>
        else failed (x\<lparr>oc_backup_path := ar_backup r, oc_changed := ar_changed r\<rparr>) RecordUnwritten)"
      using head None sv by (cases ok; simp add: rec_def)+
    show ?thesis
      using y f q refused_alone success [OF None] by (cases ok) (auto simp: failed_def p_def rec_def)
  qed
qed

section \<open>What a run gives a harness\<close>

text \<open>A granted run, seen from the disk and the server it started from.\<close>

lemma granted_quiet:
  assumes q: "quiet e" and run: "configure_one cg issue e h engine w = (x, w')" and held: "oc_grant_id x \<noteq> []"
  obtains g fmt where "fst (issue h (cw_srv w)) = Some g" "format_for cg h = Some fmt" "oc_grant_id x = hg_id g"
    "oc_managed x = sort_strings (map en_name (granted_entries g engine))"
    "cw_srv w' = snd (issue h (cw_srv w))"
    "oc_status x = StatusConfigured \<Longrightarrow> \<exists>f r. ow_disk (cw_os w') (oc_config_path x) = Some f \<and> df_mode f = file_perm
       \<and> cf_rewrite fmt (content (ow_disk (cw_os w)) (oc_config_path x)) (granted_entries g engine)
           (managed_names (granted_entries g engine) (oc_retired x)) = Inr (df_data f)
       \<and> verify (check_of fmt (managed_names (granted_entries g engine) (oc_retired x)))
           (content (ow_disk (cw_os w)) (oc_config_path x)) (df_data f) = None
       \<and> cw_records w' h = RecordHolds r \<and> hr_managed r = oc_managed x \<and> hr_grant_id r = hg_id g"
    "\<And>err. cf_rewrite fmt (content (ow_disk (cw_os w)) (oc_config_path x)) (granted_entries g engine)
           (managed_names (granted_entries g engine) (oc_retired x)) = Inl err
       \<Longrightarrow> left_alone (ow_disk (cw_os w)) (ow_disk (cw_os w')) (oc_config_path x)"
  using run
proof (cases rule: configure_one_cases)
  case no_grant
  with held show ?thesis by simp
next
  case refused
  with held show ?thesis by simp
next
  case (granted d fmt prior w1 o2 g)
  have disk: "ow_disk o2 = ow_disk (cw_os w)"
    using preflight_frame [OF q granted(5)] load_record_frame [OF granted(4)] q by simp
  note wr = write_granted_quiet [OF q granted(9), unfolded cfg_world.simps disk]
  show ?thesis
  proof (rule that [of g fmt])
    show "fst (issue h (cw_srv w)) = Some g" by (metis granted(6) fst_conv)
    show "format_for cg h = Some fmt" by (rule granted(3))
  qed (use wr in \<open>auto simp: disk granted_outcome_def fresh_outcome_def Let_def\<close>)
qed


text \<open>C26. A configuration its parser cannot read costs no authority: whatever fails during the run, the server is not
  asked for a grant, the harness is not reported as configured and its file is not touched; and if it is reported
  as skipped, a copy of the file is where the report says.\<close>

theorem malformed_config_costs_no_grant:
  assumes q: "quiet e" and run: "configure_one cg issue e h engine w = (x, w')"
    and at: "detect (view_at (cg_machine cg) (ow_disk (cw_os w))) (cg_locator cg) h = Inr d" "dt_installed d"
      "format_for cg h = Some fmt"
    and bad: "ow_disk (cw_os w) (dt_config_path d) = Some f" "trim_space (df_data f) \<noteq> []" "cf_parse fmt (df_data f) = None"
  shows "cw_srv w' = cw_srv w \<and> oc_status x \<noteq> StatusConfigured
    \<and> left_alone (ow_disk (cw_os w)) (ow_disk (cw_os w')) (dt_config_path d)
    \<and> (oc_status x = StatusSkipped \<longrightarrow>
        backed_up (ow_disk (cw_os w)) (ow_disk (cw_os w')) (dt_config_path d) (oc_backup_path x))"
proof -
  let ?p = "dt_config_path d"
  obtain pr w1 where L: "load_record e h w = (pr, w1)" by fastforce
  have w1: "cw_srv w1 = cw_srv w" "ow_disk (cw_os w1) = ow_disk (cw_os w)" using load_record_frame [OF L] q by auto
  obtain a o2 where A: "read_file e ?p (cw_os w1) = (a, o2)" by fastforce
  note rd = read_file_quiet [OF q A, unfolded w1 bad(1)]
  have pf: "preflight e fmt ?p (cw_os w1) = (Some (if a = ReadFault then HarnessIo ''read'' else MalformedConfig ?p), o2)"
    using A rd bad by (cases a) (auto simp: preflight_def)
  obtain b o3 where B: "backup_file e ?p o2 = (b, o3)" by fastforce
  note bk = backup_file_quiet [OF q B]
  have o2: "ow_disk o2 = ow_disk (cw_os w)" using rd by simp
  show ?thesis
    using run at bad(1) L w1 pf B bk o2
    by (cases pr; cases a; cases b)
      (auto simp: configure_one_def Let_def is_malformed_def failed_def skipped_def fresh_outcome_def left_alone_def backed_up_def)
qed


section \<open>Concrete runs\<close>

text \<open>A server that remembers the one live grant of each harness, and a machine with both harnesses installed.\<close>

definition one_live_grant :: "(string \<times> string) list grant_issuer" where
  "one_live_grant h live =
     (Some \<lparr>hg_id = ''new'', hg_capabilities = [], hg_endpoint = ''u'', hg_token = ''t'',
        hg_superseded = (case map_of live h of None \<Rightarrow> [] | Some g \<Rightarrow> g)\<rparr>, assoc_set h ''new'' live)"

definition sample_cg :: "(string \<times> string) list configurator" where
  "sample_cg = \<lparr>cg_state_dir = ''/s'', cg_locator = \<lparr>lo_home = ''/h'', lo_codex_home = [], lo_claude_dir = [], lo_look_path = (\<lambda>_. None)\<rparr>,
     cg_issuer = Some one_live_grant, cg_only = [], cg_lock = Some True, cg_now = (\<lambda>_. 0), cg_machine = plain_machine,
     cg_float64 = (\<lambda>_. None), cg_toml = (\<lambda>_. Some []), cg_descriptor = DescriptorAbsent\<rparr>"

definition sample_world :: "string \<Rightarrow> string \<Rightarrow> (string \<times> string) list cfg_world" where
  "sample_world p data = \<lparr>cw_os = \<lparr>ow_disk = [p \<mapsto> \<lparr>df_data = data, df_mode = 420\<rparr>], ow_step = 0\<rparr>,
     cw_srv = [(codex, ''old''), (claude_code, ''old'')], cw_records = (\<lambda>_. NoRecord)\<rparr>"

definition sample_one :: "string \<Rightarrow> string \<Rightarrow> string \<Rightarrow> harness_outcome \<times> (string \<times> string) list cfg_world" where
  "sample_one h p data = configure_one sample_cg one_live_grant calm h None (sample_world p data)"

lemma sample_one_pair: "configure_one sample_cg one_live_grant calm h None (sample_world p data) =
    (fst (sample_one h p data), snd (sample_one h p data))"
  by (simp add: sample_one_def)

lemma sample_claude:
  "oc_status (fst (sample_one claude_code ''/h/.claude.json'' ''{}'')) = StatusConfigured"
  "oc_grant_id (fst (sample_one claude_code ''/h/.claude.json'' ''{}'')) = ''new''"
  by code_simp+


definition claude_detection :: detection where
  "claude_detection = \<lparr>dt_harness = claude_code, dt_installed = True, dt_config_path = ''/h/.claude.json'',
     dt_config_exists = True, dt_binary_path = [], dt_reason = []\<rparr>"

lemma sample_detected:
  "detect (view_at (cg_machine sample_cg) (ow_disk (cw_os (sample_world ''/h/.claude.json'' ''{'')))) (cg_locator sample_cg) claude_code
     = Inr claude_detection"
  by code_simp

lemma sample_unread:
  "ow_disk (cw_os (sample_world ''/h/.claude.json'' ''{'')) (dt_config_path claude_detection) = Some \<lparr>df_data = ''{'', df_mode = 420\<rparr>"
  "trim_space (df_data \<lparr>df_data = ''{'', df_mode = 420\<rparr>) \<noteq> []"
  "cf_parse (claude_format (cg_float64 sample_cg)) (df_data \<lparr>df_data = ''{'', df_mode = 420\<rparr>) = None"
  "dt_installed claude_detection"
  by code_simp+

theorem malformed_config_costs_no_grant_witness:
  "cw_srv (snd (sample_one claude_code ''/h/.claude.json'' ''{'')) = cw_srv (sample_world ''/h/.claude.json'' ''{'')"
  using malformed_config_costs_no_grant [OF calm_quiet sample_one_pair sample_detected sample_unread(4) _ sample_unread(1,2,3)]
  by (simp add: format_for_def)

definition carriage_text :: string where
  "carriage_text = CHR ''['' # str_join ''.'' [''a''] @ '']'' @ creturn # newline # []"

lemma sample_carriage:
  "content (ow_disk (cw_os (sample_world ''/h/.codex/config.toml'' carriage_text)))
     (oc_config_path (fst (sample_one codex ''/h/.codex/config.toml'' carriage_text))) = carriage_text"
  "oc_grant_id (fst (sample_one codex ''/h/.codex/config.toml'' carriage_text)) = ''new''"
  "oc_status (fst (sample_one codex ''/h/.codex/config.toml'' carriage_text)) = StatusSkipped"
  "bare_segment ''a''"
  by code_simp+


end
