(* ===== verification/Skills.thy ===== *)
theory Skills
  imports Harness_Detect
begin

text \<open>
  \<open>internal/agent/skills\<close>, the reading half: \<open>profile.go\<close>, which says what skills a harness of a machine gets,
  and \<open>discover.go\<close>, which decides what directories of the vault are skills that may be linked. The TOML decoder,
  the RE2 engine and the file system are parameters.
\<close>

section \<open>The profile\<close>

record skill_set =
  ss_skills :: "string list"
  ss_set :: bool

record machine_profile =
  mp_skills :: "string list"
  mp_harness :: "(string \<times> skill_set) list"
  mp_set :: bool

record unsupported_skill =
  us_reason :: string
  us_harnesses :: "string list"

record profile =
  pf_schema :: int
  pf_name :: string
  pf_path :: string
  pf_default :: skill_set
  pf_harness :: "(string \<times> skill_set) list"
  pf_machine :: "(string \<times> machine_profile) list"
  pf_unsupported :: "(string \<times> unsupported_skill) list"

text \<open>What the decoder returns: the value, the keys it did not use, and which tables the file has.\<close>

record decoded_profile =
  dp_profile :: profile
  dp_undecoded :: "string list"
  dp_defined :: "string list \<Rightarrow> bool"

datatype profile_error = ProfileUnread | ProfileSyntax | UnknownKeys "string list" | SchemaUnsupported int | ProfileUnnamed
  | UnknownProfileHarness string | EmptyMachineName | UnexplainedMarking string | NotPlainName string | NoProfile

definition profile_schema_version :: int where "profile_schema_version = 1"

definition default_profile_path :: "string \<Rightarrow> string" where
  "default_profile_path root = path_join [root, ''homeplane.skills.toml'']"

definition marking_applies :: "unsupported_skill \<Rightarrow> string \<Rightarrow> bool" where
  "marking_applies u h \<longleftrightarrow> us_harnesses u = [] \<or> h \<in> set (us_harnesses u)"

definition unsupported_on :: "profile \<Rightarrow> string \<Rightarrow> string \<Rightarrow> string option" where
  "unsupported_on p slug h =
     (case map_of (pf_unsupported p) slug of
        Some u \<Rightarrow> if marking_applies u h then Some (us_reason u) else None
      | None \<Rightarrow> None)"

definition validate_harness :: "string \<Rightarrow> profile_error option" where
  "validate_harness n = (if n \<in> set known_harness_names then None else Some (UnknownProfileHarness n))"

definition validate_slug :: "string \<Rightarrow> profile_error option" where
  "validate_slug slug =
     (if trim_space slug = [] then Some (NotPlainName slug)
      else if slug \<noteq> path_base slug \<or> slug = ''.'' \<or> slug = ''..'' \<or> contains_any slug [slash, back_slash]
        \<or> has_prefix slug ''.'' then Some (NotPlainName slug)
      else None)"

definition all_slugs :: "profile \<Rightarrow> string list" where
  "all_slugs p = ss_skills (pf_default p) @ concat (map (\<lambda>(_, s). ss_skills s) (pf_harness p))
     @ concat (map (\<lambda>(_, m). mp_skills m @ concat (map (\<lambda>(_, s). ss_skills s) (mp_harness m))) (pf_machine p))"

text \<open>The checks of the loops, each in the order of its map's members.\<close>

fun first_error :: "profile_error option list \<Rightarrow> profile_error option" where
  "first_error [] = None"
| "first_error (None # xs) = first_error xs"
| "first_error (Some err # xs) = Some err"

definition machine_errors :: "string \<times> machine_profile \<Rightarrow> profile_error option list" where
  "machine_errors m = (if trim_space (fst m) = [] then Some EmptyMachineName else None)
     # map (\<lambda>(n, _). validate_harness n) (mp_harness (snd m))"

definition marking_errors :: "string \<times> unsupported_skill \<Rightarrow> profile_error option list" where
  "marking_errors m = [validate_slug (fst m),
      (if trim_space (us_reason (snd m)) = [] then Some (UnexplainedMarking (fst m)) else None)]
     @ map validate_harness (us_harnesses (snd m))"

definition profile_checks :: "profile \<Rightarrow> profile_error option" where
  "profile_checks p = first_error
     (map (\<lambda>(n, _). validate_harness n) (pf_harness p) @ concat (map machine_errors (pf_machine p))
      @ concat (map marking_errors (pf_unsupported p)) @ map validate_slug (all_slugs p))"

definition mark_set :: "(string list \<Rightarrow> bool) \<Rightarrow> profile \<Rightarrow> profile" where
  "mark_set defined p = p\<lparr>
     pf_default := (pf_default p)\<lparr>ss_set := defined [''defaults'']\<rparr>,
     pf_harness := map (\<lambda>(n, s). (n, s\<lparr>ss_set := defined [''harness'', n]\<rparr>)) (pf_harness p),
     pf_machine := map (\<lambda>(m, mp). (m, mp\<lparr>mp_set := defined [''machine'', m, ''skills''],
       mp_harness := map (\<lambda>(n, s). (n, s\<lparr>ss_set := defined [''machine'', m, ''harness'', n]\<rparr>)) (mp_harness mp)\<rparr>)) (pf_machine p)\<rparr>"

definition parse_profile :: "(string \<Rightarrow> decoded_profile option) \<Rightarrow> string \<Rightarrow> string \<Rightarrow> profile_error + profile" where
  "parse_profile toml path raw =
     (case toml raw of
        None \<Rightarrow> Inl ProfileSyntax
      | Some d \<Rightarrow>
          if dp_undecoded d \<noteq> [] then Inl (UnknownKeys (sort_strings (dp_undecoded d)))
          else (let p = (dp_profile d)\<lparr>pf_path := path\<rparr> in
            if pf_schema p \<noteq> profile_schema_version then Inl (SchemaUnsupported (pf_schema p))
            else if trim_space (pf_name p) = [] then Inl ProfileUnnamed
            else (case profile_checks p of Some err \<Rightarrow> Inl err | None \<Rightarrow> Inr (mark_set (dp_defined d) p))))"

text \<open>A profile's file: \<open>None\<close> is absent, \<open>Some None\<close> cannot be read.\<close>

definition load_profile :: "(string \<Rightarrow> decoded_profile option) \<Rightarrow> (string \<Rightarrow> string option option) \<Rightarrow> string
    \<Rightarrow> profile_error + profile" where
  "load_profile toml file path =
     (case file path of Some (Some raw) \<Rightarrow> parse_profile toml path raw | _ \<Rightarrow> Inl ProfileUnread)"

definition find_profile :: "(string \<Rightarrow> decoded_profile option) \<Rightarrow> (string \<Rightarrow> string option option) \<Rightarrow> string \<Rightarrow> string
    \<Rightarrow> profile_error + profile" where
  "find_profile toml file explicit root =
     (let path = trim_space explicit in
      if path = [] \<and> trim_space root = [] then Inl NoProfile
      else (let p = (if path = [] then default_profile_path root else path) in
            if file p = None then Inl NoProfile else load_profile toml file p))"

fun trimmed_once :: "string list \<Rightarrow> string list \<Rightarrow> string list" where
  "trimmed_once seen [] = []"
| "trimmed_once seen (s # ss) =
     (let t = trim_space s in
      if t = [] \<or> t \<in> set seen then trimmed_once seen ss else t # trimmed_once (t # seen) ss)"

definition normalize_slugs :: "string list \<Rightarrow> string list" where
  "normalize_slugs ss = sort_strings (trimmed_once [] ss)"

definition set_slugs :: "skill_set option \<Rightarrow> string list option" where
  "set_slugs s = (case s of Some x \<Rightarrow> if ss_set x then Some (normalize_slugs (ss_skills x)) else None | None \<Rightarrow> None)"

definition assign_skills :: "profile \<Rightarrow> string \<Rightarrow> string \<Rightarrow> string list" where
  "assign_skills p machine h =
     (let general = (case set_slugs (map_of (pf_harness p) h) of
            Some xs \<Rightarrow> xs
          | None \<Rightarrow> if ss_set (pf_default p) then normalize_slugs (ss_skills (pf_default p)) else [])
      in case map_of (pf_machine p) machine of
           None \<Rightarrow> general
         | Some mp \<Rightarrow>
             (case set_slugs (map_of (mp_harness mp) h) of
                Some xs \<Rightarrow> xs
              | None \<Rightarrow> if mp_set mp then normalize_slugs (mp_skills mp) else general))"

section \<open>Verdicts\<close>

datatype skill_status = StatusUnsupported | StatusRejected

datatype skill_rule = RuleNoSkillMD | RuleInvalidSkillMD | RuleNameMismatch | RuleCredential | RuleRuntimeState
  | RuleEscapesVault | RuleInitiativeSignal | RuleProfileUnsupported

record skill =
  sk_slug :: string
  sk_name :: string
  sk_description :: string
  sk_dir :: string
  sk_md :: string

record skill_finding =
  fi_slug :: string
  fi_status :: skill_status
  fi_rule :: skill_rule
  fi_evidence :: string

record catalog =
  ct_root :: string
  ct_skills :: "skill list"
  ct_findings :: "skill_finding list"

definition catalog_lookup :: "catalog \<Rightarrow> string \<Rightarrow> skill option" where
  "catalog_lookup c slug = List.find (\<lambda>s. sk_slug s = slug) (ct_skills c)"

definition catalog_finding :: "catalog \<Rightarrow> string \<Rightarrow> skill_finding option" where
  "catalog_finding c slug = List.find (\<lambda>f. fi_slug f = slug) (ct_findings c)"

definition reject :: "string \<Rightarrow> skill_rule \<Rightarrow> string \<Rightarrow> skill_finding" where
  "reject slug rule evidence = \<lparr>fi_slug = slug, fi_status = StatusRejected, fi_rule = rule, fi_evidence = evidence\<rparr>"

definition unsupported :: "string \<Rightarrow> skill_rule \<Rightarrow> string \<Rightarrow> skill_finding" where
  "unsupported slug rule evidence = \<lparr>fi_slug = slug, fi_status = StatusUnsupported, fi_rule = rule, fi_evidence = evidence\<rparr>"

section \<open>What a file may be\<close>

definition secret_file_names :: "string list" where
  "secret_file_names = [''.env'', ''.envrc'', ''.netrc'', ''auth.json'', ''credentials'', ''credentials.json'', ''id_dsa'',
     ''id_ecdsa'', ''id_ed25519'', ''id_rsa'', ''secrets.json'', ''service-account.json'']"

definition secret_file_suffixes :: "string list" where
  "secret_file_suffixes = [''.pem'', ''.key'', ''.p12'', ''.pfx'', ''.jks'', ''.keystore'', ''.kdbx'']"

definition state_file_suffixes :: "string list" where
  "state_file_suffixes = [''.sqlite'', ''.sqlite3'', ''.sqlite-wal'', ''.sqlite-shm'', ''.db'', ''.db-wal'', ''.db-shm'',
     ''.log'', ''.pid'', ''.sock'', ''.lock'']"

definition state_file_names :: "string list" where "state_file_names = [''state.json'']"

definition max_scan_bytes :: nat where "max_scan_bytes = 1048576"
definition max_files_per_skill :: nat where "max_files_per_skill = 2000"

text \<open>
  The named patterns with the RE2 engine: for each the start of the first match. \<open>sc_secrets\<close> are the credential
  shapes, \<open>sc_initiative\<close> the scheduling and service control words.
\<close>

record scanner =
  sc_secrets :: "(string \<times> (string \<Rightarrow> nat option)) list"
  sc_initiative :: "(string \<times> (string \<Rightarrow> nat option)) list"

fun first_match :: "(string \<times> (string \<Rightarrow> nat option)) list \<Rightarrow> string \<Rightarrow> (string \<times> nat) option" where
  "first_match [] data = None"
| "first_match ((name, re) # ps) data = (case re data of Some i \<Rightarrow> Some (name, i) | None \<Rightarrow> first_match ps data)"

definition line_number :: "string \<Rightarrow> nat \<Rightarrow> nat" where
  "line_number data i = Suc (length (filter (\<lambda>c. c = newline) (take i data)))"

definition match_secret :: "scanner \<Rightarrow> string \<Rightarrow> (string \<times> nat) option" where
  "match_secret sc data = map_option (\<lambda>(name, i). (name, line_number data i)) (first_match (sc_secrets sc) data)"

definition line_around :: "string \<Rightarrow> nat \<Rightarrow> string" where
  "line_around data i = rev (takeWhile (\<lambda>c. c \<noteq> newline) (rev (take i data))) @ takeWhile (\<lambda>c. c \<noteq> newline) (drop i data)"

definition cut_text :: "string \<Rightarrow> nat \<Rightarrow> string" where
  "cut_text s n = (if length s \<le> n then s else take n s @ [CHR 0xE2, CHR 0x80, CHR 0xA6])"

definition match_initiative :: "scanner \<Rightarrow> string \<Rightarrow> string \<Rightarrow> string \<Rightarrow> skill_finding option" where
  "match_initiative sc slug rel data =
     (case first_match (sc_initiative sc) data of
        None \<Rightarrow> None
      | Some (name, i) \<Rightarrow> Some (unsupported slug RuleInitiativeSignal
          (rel @ '':'' @ show_nat (line_number data i) @ '': '' @ trim_space (cut_text (line_around data i) 120))))"

text \<open>
  What the walk of a directory meets: its error, a link and where it leads, a directory, a regular file with its
  size and contents, and anything else.
\<close>

datatype walk_kind = WalkError | WalkLink "string option" | WalkDir | WalkFile "nat option" "string option" | WalkOther

record walk_entry =
  we_path :: string
  we_name :: string
  we_kind :: walk_kind

definition scan_file :: "scanner \<Rightarrow> string \<Rightarrow> string \<Rightarrow> string \<Rightarrow> nat option \<Rightarrow> string option \<Rightarrow> skill_finding + string" where
  "scan_file sc slug rel base fsize data =
     (let name = to_lower base in
      if name \<in> set secret_file_names \<or> list_ex (has_suffix name) secret_file_suffixes then Inl (reject slug RuleCredential rel)
      else if name \<in> set state_file_names \<or> list_ex (has_suffix name) state_file_suffixes then Inl (reject slug RuleRuntimeState rel)
      else (case fsize of
        None \<Rightarrow> Inl (reject slug RuleRuntimeState rel)
      | Some n \<Rightarrow>
          if n \<ge> max_scan_bytes then Inl (reject slug RuleRuntimeState rel)
          else (case data of
            None \<Rightarrow> Inl (reject slug RuleRuntimeState rel)
          | Some text \<Rightarrow>
              if CHR 0x00 \<in> set text then Inl (reject slug RuleRuntimeState rel)
              else (case match_secret sc text of
                Some (kind, line) \<Rightarrow> Inl (reject slug RuleCredential (rel @ '':'' @ show_nat line))
              | None \<Rightarrow> Inr text))))"

definition within :: "string \<Rightarrow> string \<Rightarrow> bool" where
  "within root path =
     (case path_rel root path of
        None \<Rightarrow> False
      | Some rel \<Rightarrow> rel = ''.'' \<or> (\<not> has_prefix rel ''../'' \<and> rel \<noteq> ''..''))"

text \<open>The walk: the first containment verdict ends it, the first initiative verdict is kept.\<close>

fun scan_walk :: "scanner \<Rightarrow> string \<Rightarrow> string \<Rightarrow> walk_entry list \<Rightarrow> nat \<Rightarrow> skill_finding option
    \<Rightarrow> skill_finding + skill_finding option" where
  "scan_walk sc slug dir [] files initiative = Inr initiative"
| "scan_walk sc slug dir (w # ws) files initiative =
     (let rel = (case path_rel dir (we_path w) of None \<Rightarrow> we_path w | Some r \<Rightarrow> r) in
      if we_kind w = WalkError then Inl (reject slug RuleRuntimeState (we_path w))
      else if we_path w = dir then scan_walk sc slug dir ws files initiative
      else (case we_kind w of
        WalkLink leads \<Rightarrow>
          (case leads of
             None \<Rightarrow> Inl (reject slug RuleEscapesVault rel)
           | Some t \<Rightarrow> if within dir t then scan_walk sc slug dir ws files initiative
                        else Inl (reject slug RuleEscapesVault rel))
      | WalkFile fsize data \<Rightarrow>
          if Suc files > max_files_per_skill then Inl (reject slug RuleRuntimeState rel)
          else (case scan_file sc slug rel (we_name w) fsize data of
            Inl bad \<Rightarrow> Inl bad
          | Inr text \<Rightarrow> scan_walk sc slug dir ws (Suc files)
              (if initiative = None then match_initiative sc slug rel text else initiative))
      | WalkDir \<Rightarrow> scan_walk sc slug dir ws files initiative
      | _ \<Rightarrow> Inl (reject slug RuleRuntimeState rel)))"

section \<open>The front matter\<close>

definition strip_returns :: "string \<Rightarrow> string" where
  "strip_returns s = (let cs = zip s (tl s @ [CHR 0x00]) in
     map fst (filter (\<lambda>(c, d). \<not> (c = creturn \<and> d = newline)) cs))"

definition unquote_scalar :: "string \<Rightarrow> string" where
  "unquote_scalar s =
     (if 2 \<le> length s \<and> ((hd s = double_quote \<and> last s = double_quote) \<or> (hd s = single_quote \<and> last s = single_quote))
      then butlast (tl s) else s)"

definition block_indicator :: "string \<Rightarrow> bool" where
  "block_indicator v \<longleftrightarrow> v \<in> {''>'', ''>-'', ''>+'', ''|'', ''|-'', ''|+''}"

text \<open>A line that goes on with a block: blank, or indented.\<close>

definition block_line :: "string \<Rightarrow> bool" where
  "block_line l \<longleftrightarrow> trim_space l = [] \<or> has_prefix l '' '' \<or> has_prefix l [tab]"

definition block_value :: "bool \<Rightarrow> string list \<Rightarrow> string" where
  "block_value folded ls = trim_space (str_join (if folded then '' '' else [newline]) (map trim_space ls))"

text \<open>The name and the description, as far as they have been read.\<close>

function front_fields :: "string list \<Rightarrow> string \<times> string \<Rightarrow> string \<times> string" where
  "front_fields [] acc = acc"
| "front_fields (l # ls) acc =
     (let t = trim_space l in
      if t = [] \<or> has_prefix t ''#'' then front_fields ls acc
      else (case str_cut t '':'' of (k, v, found) \<Rightarrow>
        if \<not> found then front_fields ls acc
        else (let key = trim_space k; value = trim_space v;
                  block = block_indicator value;
                  text = (if block then block_value (hd value = CHR ''>'') (takeWhile block_line ls) else unquote_scalar value);
                  rest = (if block then dropWhile block_line ls else ls);
                  acc' = (if key = ''name'' then (text, snd acc) else if key = ''description'' then (fst acc, text) else acc)
              in front_fields rest acc')))"
  by pat_completeness auto
termination
  by (relation "measure (\<lambda>(ls, _). length ls)") (auto simp: le_imp_less_Suc length_dropWhile_le)

datatype front_error = NoFrontMatter | OpenFrontMatter | NoSkillName | NoSkillDescription | NotPlainDirectory string

definition parse_frontmatter :: "string \<Rightarrow> front_error + string \<times> string" where
  "parse_frontmatter raw =
     (let txt = strip_returns raw; head = ''---'' @ [newline] in
      if \<not> has_prefix txt head then Inl NoFrontMatter
      else (let rest = drop (length head) txt in
        case index_of rest (newline # ''---'') of
          None \<Rightarrow> Inl OpenFrontMatter
        | Some i \<Rightarrow>
            (case front_fields (split_on newline (take i rest)) ([], []) of (name, description) \<Rightarrow>
               if name = [] then Inl NoSkillName
               else if description = [] then Inl NoSkillDescription
               else if name \<noteq> path_base name \<or> contains_any name [slash, back_slash] \<or> name = ''.'' \<or> name = ''..''
               then Inl (NotPlainDirectory name)
               else Inr (name, description))))"

section \<open>Discovery\<close>

text \<open>
  What the file system answers during a scan: where a path leads, what a path is, the names in a directory, the
  contents of a file, and the walk of a directory.
\<close>

datatype resolve_answer = Resolves string | Dangling | ResolveFault

record skill_fs =
  sf_resolve :: "string \<Rightarrow> resolve_answer"
  sf_stat :: "string \<Rightarrow> stat_answer"
  sf_names :: "string \<Rightarrow> string list option"
  sf_read :: "string \<Rightarrow> string option"
  sf_walk :: "string \<Rightarrow> walk_entry list"

definition classify :: "skill_fs \<Rightarrow> scanner \<Rightarrow> string \<Rightarrow> string \<Rightarrow> skill_finding + skill" where
  "classify fs sc slug dir =
     (case scan_walk sc slug dir (sf_walk fs dir) 0 None of
        Inl containment \<Rightarrow> Inl containment
      | Inr initiative \<Rightarrow>
          (let md = path_join [dir, ''SKILL.md''] in
           if sf_stat fs md \<noteq> StatFile then Inl (unsupported slug RuleNoSkillMD md)
           else (case sf_read fs md of
             None \<Rightarrow> Inl (reject slug RuleInvalidSkillMD md)
           | Some raw \<Rightarrow>
               (case parse_frontmatter raw of
                  Inl err \<Rightarrow> Inl (reject slug RuleInvalidSkillMD md)
                | Inr (name, description) \<Rightarrow>
                    if name \<noteq> slug then Inl (unsupported slug RuleNameMismatch md)
                    else (case initiative of
                      Some f \<Rightarrow> Inl f
                    | None \<Rightarrow> Inr \<lparr>sk_slug = slug, sk_name = name, sk_description = description, sk_dir = dir, sk_md = md\<rparr>)))))"

datatype discover_error = EmptyRoot | RootUnresolved | RootUnread | RootNotDirectory | CandidateUnresolved string | CandidateUnread string

text \<open>One entry of the directory: nothing, a finding or a skill.\<close>

definition candidate :: "skill_fs \<Rightarrow> scanner \<Rightarrow> string \<Rightarrow> string \<Rightarrow> discover_error + (skill_finding + skill) option" where
  "candidate fs sc root slug =
     (if has_prefix slug ''.'' then Inr None
      else (case sf_resolve fs (path_join [root, slug]) of
        Dangling \<Rightarrow> Inr (Some (Inl (reject slug RuleEscapesVault (path_join [root, slug]))))
      | ResolveFault \<Rightarrow> Inl (CandidateUnresolved slug)
      | Resolves dir \<Rightarrow>
          if \<not> within root dir then Inr (Some (Inl (reject slug RuleEscapesVault dir)))
          else (case sf_stat fs dir of
            StatDir \<Rightarrow> Inr (Some (classify fs sc slug dir))
          | StatFile \<Rightarrow> Inr None
          | _ \<Rightarrow> Inl (CandidateUnread slug))))"

fun scan_entries :: "skill_fs \<Rightarrow> scanner \<Rightarrow> string \<Rightarrow> string list \<Rightarrow> discover_error + (skill_finding + skill) list" where
  "scan_entries fs sc root [] = Inr []"
| "scan_entries fs sc root (n # ns) =
     (case candidate fs sc root n of
        Inl err \<Rightarrow> Inl err
      | Inr c \<Rightarrow>
          (case scan_entries fs sc root ns of
             Inl err \<Rightarrow> Inl err
           | Inr cs \<Rightarrow> Inr ((case c of None \<Rightarrow> [] | Some x \<Rightarrow> [x]) @ cs)))"

definition verdict_skills :: "(skill_finding + skill) list \<Rightarrow> skill list" where
  "verdict_skills vs = concat (map (\<lambda>v. case v of Inr s \<Rightarrow> [s] | Inl _ \<Rightarrow> []) vs)"

definition verdict_findings :: "(skill_finding + skill) list \<Rightarrow> skill_finding list" where
  "verdict_findings vs = concat (map (\<lambda>v. case v of Inl f \<Rightarrow> [f] | Inr _ \<Rightarrow> []) vs)"

definition discover :: "skill_fs \<Rightarrow> scanner \<Rightarrow> string \<Rightarrow> discover_error + catalog" where
  "discover fs sc root =
     (if trim_space root = [] then Inl EmptyRoot
      else (case sf_resolve fs root of
        Resolves r \<Rightarrow>
          (case sf_stat fs r of
             StatDir \<Rightarrow>
               (case sf_names fs r of
                  None \<Rightarrow> Inl RootUnread
                | Some names \<Rightarrow>
                    (case scan_entries fs sc r names of
                       Inl err \<Rightarrow> Inl err
                     | Inr vs \<Rightarrow> Inr \<lparr>ct_root = r, ct_skills = sort_key sk_slug (verdict_skills vs),
                                     ct_findings = sort_key fi_slug (verdict_findings vs)\<rparr>))
           | StatFile \<Rightarrow> Inl RootNotDirectory
           | _ \<Rightarrow> Inl RootUnread)
      | _ \<Rightarrow> Inl RootUnresolved))"

end
