(* ===== verification/Skill_Link.thy ===== *)
theory Skill_Link
  imports Skills
begin

text \<open>
  \<open>internal/agent/skills/link.go\<close>: the links of the harnesses' skill directories and the record of those that are
  Homeplane's. The run holds the agent's state lock, so no other run changes the record; every system call may
  fail.
\<close>

section \<open>Directories, entries and the record\<close>

datatype link_entry = SymLink string | RealEntry

record link_record =
  lr_harness :: string
  lr_slug :: string
  lr_path :: string
  lr_target :: string
  lr_at :: int

record link_manifest =
  lm_schema :: int
  lm_profile :: string
  lm_links :: "link_record list"

definition manifest_schema_version :: int where "manifest_schema_version = 1"

datatype manifest_file = NoManifest | UnreadManifest | NotAManifest | ManifestHolds link_manifest

text \<open>The entries of the skill directories by path, the record's file, and the number of system calls made.\<close>

record link_world =
  lw_entries :: "string \<Rightarrow> link_entry option"
  lw_saved :: manifest_file
  lw_step :: nat

record link_env =
  le_fault :: "nat \<Rightarrow> bool"
  le_clock :: "nat \<Rightarrow> int"

definition link_step :: "link_env \<Rightarrow> link_world \<Rightarrow> bool \<times> link_world" where
  "link_step e w = (le_fault e (lw_step w), w\<lparr>lw_step := Suc (lw_step w)\<rparr>)"

primrec link_steps :: "nat \<Rightarrow> link_env \<Rightarrow> link_world \<Rightarrow> bool \<times> link_world" where
  "link_steps 0 e w = (False, w)"
| "link_steps (Suc n) e w = (case link_step e w of (bad, w1) \<Rightarrow> if bad then (True, w1) else link_steps n e w1)"

definition put_entry :: "string \<Rightarrow> link_entry option \<Rightarrow> link_world \<Rightarrow> link_world" where
  "put_entry p x w = w\<lparr>lw_entries := (lw_entries w)(p := x)\<rparr>"

definition skills_dir :: "machine_view \<Rightarrow> locator \<Rightarrow> string \<Rightarrow> string option" where
  "skills_dir mv l h =
     (if h = claude_code then
        map_option (\<lambda>d. path_join [d, ''skills''])
          (config_dir mv (lo_claude_dir l) env_claude_config_dir (map_option (\<lambda>x. path_join [x, ''.claude'']) (locator_home mv l)))
      else if h = codex then
        map_option (\<lambda>d. path_join [d, ''skills''])
          (config_dir mv (lo_codex_home l) env_codex_home (map_option (\<lambda>x. path_join [x, ''.codex'']) (locator_home mv l)))
      else None)"

datatype provision_error = UnknownSkillHarness string | NoLinkStateDir | LinkLockFailed | ManifestUnread | ManifestSyntax
  | ManifestSchema int | ManifestUnsaved | SkillsDirUnmade string

definition empty_manifest :: link_manifest where
  "empty_manifest = \<lparr>lm_schema = manifest_schema_version, lm_profile = [], lm_links = []\<rparr>"

definition load_manifest :: "link_env \<Rightarrow> link_world \<Rightarrow> (provision_error + link_manifest) \<times> link_world" where
  "load_manifest e w =
     (case link_step e w of (bad, w1) \<Rightarrow>
        ((if bad then Inl ManifestUnread
          else case lw_saved w1 of
            NoManifest \<Rightarrow> Inr empty_manifest
          | UnreadManifest \<Rightarrow> Inl ManifestUnread
          | NotAManifest \<Rightarrow> Inl ManifestSyntax
          | ManifestHolds m \<Rightarrow> if lm_schema m \<noteq> manifest_schema_version then Inl (ManifestSchema (lm_schema m)) else Inr m), w1))"

text \<open>The links in the order they are saved in. Sorting is in place: the caller's list is sorted too.\<close>

definition sort_links :: "link_record list \<Rightarrow> link_record list" where
  "sort_links ls = sort_key lr_harness (sort_key lr_slug ls)"

definition sorted_manifest :: "link_manifest \<Rightarrow> link_manifest" where
  "sorted_manifest m = m\<lparr>lm_links := sort_links (lm_links m)\<rparr>"

text \<open>Five calls precede the rename that puts the new record in place.\<close>

definition save_manifest :: "link_env \<Rightarrow> link_manifest \<Rightarrow> link_world \<Rightarrow> bool \<times> link_world" where
  "save_manifest e m w =
     (case link_steps 6 e w of (bad, w1) \<Rightarrow>
        if bad then (False, w1)
        else (True, w1\<lparr>lw_saved := ManifestHolds ((sorted_manifest m)\<lparr>lm_schema := manifest_schema_version\<rparr>)\<rparr>))"

definition is_record :: "string \<Rightarrow> string \<Rightarrow> link_record \<Rightarrow> bool" where
  "is_record h p r \<longleftrightarrow> lr_harness r = h \<and> lr_path r = p"

definition recorded :: "link_manifest \<Rightarrow> string \<Rightarrow> string \<Rightarrow> link_record option" where
  "recorded m h p = List.find (is_record h p) (lm_links m)"

definition read_link :: "link_env \<Rightarrow> string \<Rightarrow> link_world \<Rightarrow> string option \<times> link_world" where
  "read_link e p w =
     (case link_step e w of (bad, w1) \<Rightarrow>
        ((if bad then None else case lw_entries w1 p of Some (SymLink t) \<Rightarrow> Some t | _ \<Rightarrow> None), w1))"

text \<open>The record of an entry that is still ours: recorded, and pointing where the record says.\<close>

definition owns :: "link_env \<Rightarrow> link_manifest \<Rightarrow> string \<Rightarrow> string \<Rightarrow> link_world \<Rightarrow> link_record option \<times> link_world" where
  "owns e m h p w =
     (case recorded m h p of
        None \<Rightarrow> (None, w)
      | Some r \<Rightarrow> (case read_link e p w of (t, w1) \<Rightarrow> ((if t = Some (lr_target r) then Some r else None), w1)))"

fun set_record :: "link_record \<Rightarrow> link_record list \<Rightarrow> link_record list" where
  "set_record r [] = [r]"
| "set_record r (x # xs) = (if is_record (lr_harness r) (lr_path r) x then r # xs else x # set_record r xs)"

definition record_link :: "link_record \<Rightarrow> link_manifest \<Rightarrow> link_manifest" where
  "record_link r m = m\<lparr>lm_links := set_record r (lm_links m)\<rparr>"

definition forget_link :: "string \<Rightarrow> string \<Rightarrow> link_manifest \<Rightarrow> link_manifest" where
  "forget_link h p m = m\<lparr>lm_links := filter (\<lambda>r. \<not> is_record h p r) (lm_links m)\<rparr>"

definition installed_slugs :: "link_env \<Rightarrow> link_world \<Rightarrow> (provision_error + string list) \<times> link_world" where
  "installed_slugs e w =
     (case load_manifest e w of
        (Inl err, w1) \<Rightarrow> (Inl err, w1)
      | (Inr m, w1) \<Rightarrow> (Inr (sort_strings (remdups (map lr_slug (lm_links m)))), w1))"

section \<open>One link\<close>

datatype link_action = ActionLinked | ActionUnchanged | ActionRepointed | ActionRemoved | ActionSkipped

datatype link_reason = NoLinkReason | NotCreated | NotInspected | TakenOver | NotOurs | NotReplaced | NotRecreated | RealEntryHere
  | MarkedUnsupported string | FoundUnlinkable | NoSuchSkill | AlreadyGone | NotALink | NotRemoved | NoLongerFound | NoLongerAssigned

record link_result =
  li_harness :: string
  li_slug :: string
  li_action :: link_action
  li_path :: string
  li_target :: string
  li_reason :: link_reason
  li_rule :: "skill_rule option"

definition link_answer :: "string \<Rightarrow> string \<Rightarrow> string \<Rightarrow> string \<Rightarrow> link_action \<Rightarrow> link_reason \<Rightarrow> link_result" where
  "link_answer h slug p targ action reason = \<lparr>li_harness = h, li_slug = slug, li_action = action, li_path = p, li_target = targ,
     li_reason = reason, li_rule = None\<rparr>"

definition make_symlink :: "link_env \<Rightarrow> string \<Rightarrow> string \<Rightarrow> link_world \<Rightarrow> bool \<times> link_world" where
  "make_symlink e targ p w =
     (case link_step e w of (bad, w1) \<Rightarrow>
        if bad \<or> lw_entries w1 p \<noteq> None then (False, w1) else (True, put_entry p (Some (SymLink targ)) w1))"

definition remove_entry :: "link_env \<Rightarrow> string \<Rightarrow> link_world \<Rightarrow> bool \<times> link_world" where
  "remove_entry e p w = (case link_step e w of (bad, w1) \<Rightarrow> if bad then (False, w1) else (True, put_entry p None w1))"

definition new_record :: "link_env \<Rightarrow> string \<Rightarrow> skill \<Rightarrow> string \<Rightarrow> link_world \<Rightarrow> link_record" where
  "new_record e h s p w = \<lparr>lr_harness = h, lr_slug = sk_slug s, lr_path = p, lr_target = sk_dir s, lr_at = le_clock e (lw_step w)\<rparr>"

text \<open>The result, whether anything on the disk or in the record has to be saved, the record and the world.\<close>

definition link_skill :: "link_env \<Rightarrow> link_manifest \<Rightarrow> string \<Rightarrow> skill \<Rightarrow> string \<Rightarrow> link_world
    \<Rightarrow> link_result \<times> bool \<times> link_manifest \<times> link_world" where
  "link_skill e m h s p w =
     (let answer = link_answer h (sk_slug s) p (sk_dir s) in
      case link_step e w of (bad, w1) \<Rightarrow>
        if bad then (answer ActionSkipped NotInspected, False, m, w1)
        else (case lw_entries w1 p of
          None \<Rightarrow>
            (case make_symlink e (sk_dir s) p w1 of
               (False, w2) \<Rightarrow> (answer ActionSkipped NotCreated, False, m, w2)
             | (True, w2) \<Rightarrow> (answer ActionLinked NoLinkReason, True, record_link (new_record e h s p w2) m, w2))
        | Some RealEntry \<Rightarrow> (answer ActionSkipped RealEntryHere, False, m, w1)
        | Some (SymLink t) \<Rightarrow>
            (case owns e m h p w1 of (ours, w2) \<Rightarrow>
               case read_link e p w2 of (current, w3) \<Rightarrow>
                 (case ours of
                    None \<Rightarrow> (answer ActionSkipped (if recorded m h p = None then NotOurs else TakenOver), False, m, w3)
                  | Some r \<Rightarrow>
                      if current = Some (sk_dir s)
                      then (answer ActionUnchanged NoLinkReason, False,
                            record_link ((new_record e h s p w3)\<lparr>lr_at := lr_at r\<rparr>) m, w3)
                      else (case remove_entry e p w3 of
                        (False, w4) \<Rightarrow> (answer ActionSkipped NotReplaced, False, m, w4)
                      | (True, w4) \<Rightarrow>
                          (case make_symlink e (sk_dir s) p w4 of
                             (False, w5) \<Rightarrow> (answer ActionSkipped NotRecreated, True, forget_link h p m, w5)
                           | (True, w5) \<Rightarrow> (answer ActionRepointed NoLinkReason, True, record_link (new_record e h s p w5) m, w5)))))))"

section \<open>Withdrawing links\<close>

definition stale_links :: "link_manifest \<Rightarrow> string \<Rightarrow> string \<Rightarrow> string list \<Rightarrow> link_record list" where
  "stale_links m h dir wanted =
     filter (\<lambda>r. lr_harness r = h \<and> lr_path r \<notin> set wanted \<and> path_dir (lr_path r) = dir) (lm_links m)"

definition prune_one :: "link_env \<Rightarrow> catalog \<Rightarrow> string \<Rightarrow> link_record \<Rightarrow> link_manifest \<Rightarrow> link_world
    \<Rightarrow> link_result \<times> bool \<times> link_manifest \<times> link_world" where
  "prune_one e cat h r m w =
     (let p = lr_path r; answer = link_answer h (lr_slug r) p (lr_target r) in
      case link_step e w of (bad, w1) \<Rightarrow>
        if bad then (answer ActionSkipped NotInspected, False, m, w1)
        else (case lw_entries w1 p of
          None \<Rightarrow> (answer ActionRemoved AlreadyGone, True, forget_link h p m, w1)
        | Some RealEntry \<Rightarrow> (answer ActionSkipped NotALink, False, m, w1)
        | Some (SymLink t) \<Rightarrow>
            (case owns e m h p w1 of
               (None, w2) \<Rightarrow> (answer ActionSkipped TakenOver, False, m, snd (read_link e p w2))
             | (Some _, w2) \<Rightarrow>
                 (case remove_entry e p w2 of
                    (False, w3) \<Rightarrow> (answer ActionSkipped NotRemoved, False, m, w3)
                  | (True, w3) \<Rightarrow>
                      (answer ActionRemoved (if catalog_lookup cat (lr_slug r) = None then NoLongerFound else NoLongerAssigned),
                       True, forget_link h p m, w3)))))"

text \<open>A change is saved before the next one is made; a save that fails ends the run.\<close>

definition save_changed :: "link_env \<Rightarrow> bool \<Rightarrow> link_manifest \<Rightarrow> link_world \<Rightarrow> bool \<times> link_manifest \<times> link_world" where
  "save_changed e changed m w =
     (if changed then (case save_manifest e m w of (ok, w1) \<Rightarrow> (ok, sorted_manifest m, w1)) else (True, m, w))"

fun prune_loop :: "link_env \<Rightarrow> catalog \<Rightarrow> string \<Rightarrow> link_record list \<Rightarrow> link_manifest \<Rightarrow> link_world
    \<Rightarrow> (link_result list option) \<times> link_manifest \<times> link_world" where
  "prune_loop e cat h [] m w = (Some [], m, w)"
| "prune_loop e cat h (r # rs) m w =
     (case prune_one e cat h r m w of (x, changed, m1, w1) \<Rightarrow>
        case save_changed e changed m1 w1 of (ok, m2, w2) \<Rightarrow>
          if \<not> ok then (None, m2, w2)
          else (case prune_loop e cat h rs m2 w2 of (xs, m3, w3) \<Rightarrow> (map_option (Cons x) xs, m3, w3)))"

section \<open>A run\<close>

record provisioner =
  pv_locator :: locator
  pv_state_dir :: string
  pv_machine :: string
  pv_harnesses :: "string list"
  pv_prune :: bool
  pv_lock :: "bool option"

record harness_links =
  hl_harness :: string
  hl_dir :: string
  hl_results :: "link_result list"
  hl_verified :: "string list"
  hl_verify_error :: "string option"

text \<open>The assigned slugs of a harness, with the paths that are wanted.\<close>

fun assign_loop :: "link_env \<Rightarrow> catalog \<Rightarrow> profile \<Rightarrow> string \<Rightarrow> string \<Rightarrow> string list \<Rightarrow> link_manifest \<Rightarrow> link_world
    \<Rightarrow> (link_result list \<times> string list) option \<times> link_manifest \<times> link_world" where
  "assign_loop e cat prof h dir [] m w = (Some ([], []), m, w)"
| "assign_loop e cat prof h dir (slug # slugs) m w =
     (let p = path_join [dir, slug];
          skip = (\<lambda>reason rule. case assign_loop e cat prof h dir slugs m w of (r, m1, w1) \<Rightarrow>
                   (map_option (apfst (Cons ((link_answer h slug p [] ActionSkipped reason)\<lparr>li_rule := Some rule\<rparr>))) r, m1, w1))
      in case unsupported_on prof slug h of
           Some reason \<Rightarrow> skip (MarkedUnsupported reason) RuleProfileUnsupported
         | None \<Rightarrow>
             (case catalog_lookup cat slug of
                None \<Rightarrow> (case catalog_finding cat slug of
                    Some f \<Rightarrow> skip FoundUnlinkable (fi_rule f)
                  | None \<Rightarrow> skip NoSuchSkill RuleNoSkillMD)
              | Some s \<Rightarrow>
                  (case link_skill e m h s p w of (x, changed, m1, w1) \<Rightarrow>
                     case save_changed e changed m1 w1 of (ok, m2, w2) \<Rightarrow>
                       if \<not> ok then (None, m2, w2)
                       else (case assign_loop e cat prof h dir slugs m2 w2 of (r, m3, w3) \<Rightarrow>
                               (map_option (\<lambda>(xs, ps). (x # xs, p # ps)) r, m3, w3)))))"

definition provision_one :: "machine_view \<Rightarrow> link_env \<Rightarrow> provisioner \<Rightarrow> catalog \<Rightarrow> profile \<Rightarrow> string \<Rightarrow> link_manifest \<Rightarrow> link_world
    \<Rightarrow> (provision_error + harness_links) \<times> link_manifest \<times> link_world" where
  "provision_one mv e pv cat prof h m w =
     (case skills_dir mv (pv_locator pv) h of
        None \<Rightarrow> (Inl (UnknownSkillHarness h), m, w)
      | Some dir \<Rightarrow>
          (let assigned = assign_skills prof (pv_machine pv) h in
           case (if assigned = [] then (False, w) else link_step e w) of (bad, w1) \<Rightarrow>
             if bad then (Inl (SkillsDirUnmade h), m, w1)
             else (case assign_loop e cat prof h dir assigned m w1 of
               (None, m2, w2) \<Rightarrow> (Inl ManifestUnsaved, m2, w2)
             | (Some (xs, wanted), m2, w2) \<Rightarrow>
                 (case (if pv_prune pv then prune_loop e cat h (stale_links m2 h dir wanted) m2 w2 else (Some [], m2, w2)) of
                    (None, m3, w3) \<Rightarrow> (Inl ManifestUnsaved, m3, w3)
                  | (Some ys, m3, w3) \<Rightarrow>
                      (Inr \<lparr>hl_harness = h, hl_dir = dir, hl_results = sort_key li_slug (xs @ ys), hl_verified = [],
                            hl_verify_error = None\<rparr>, m3, w3)))))"

fun provision_all :: "machine_view \<Rightarrow> link_env \<Rightarrow> provisioner \<Rightarrow> catalog \<Rightarrow> profile \<Rightarrow> string list \<Rightarrow> link_manifest \<Rightarrow> link_world
    \<Rightarrow> (provision_error + harness_links list) \<times> link_manifest \<times> link_world" where
  "provision_all mv e pv cat prof [] m w = (Inr [], m, w)"
| "provision_all mv e pv cat prof (h # hs) m w =
     (case provision_one mv e pv cat prof h m w of
        (Inl err, m1, w1) \<Rightarrow> (Inl err, m1, w1)
      | (Inr x, m1, w1) \<Rightarrow>
          (case provision_all mv e pv cat prof hs m1 w1 of
             (Inl err, m2, w2) \<Rightarrow> (Inl err, m2, w2)
           | (Inr xs, m2, w2) \<Rightarrow> (Inr (x # xs), m2, w2)))"

definition provision :: "machine_view \<Rightarrow> link_env \<Rightarrow> provisioner \<Rightarrow> catalog \<Rightarrow> profile \<Rightarrow> link_world
    \<Rightarrow> (provision_error + harness_links list) \<times> link_world" where
  "provision mv e pv cat prof w =
     (let targets = (if pv_harnesses pv = [] then known_harness_names else pv_harnesses pv) in
      case List.find (\<lambda>h. skills_dir mv (pv_locator pv) h = None) targets of
        Some h \<Rightarrow> (Inl (UnknownSkillHarness h), w)
      | None \<Rightarrow>
          if trim_space (pv_state_dir pv) = [] then (Inl NoLinkStateDir, w)
          else if pv_lock pv = Some False then (Inl LinkLockFailed, w)
          else (case load_manifest e w of
            (Inl err, w1) \<Rightarrow> (Inl err, w1)
          | (Inr m0, w1) \<Rightarrow>
              (let m = m0\<lparr>lm_profile := pf_name prof\<rparr> in
               case save_manifest e m w1 of
                 (False, w2) \<Rightarrow> (Inl ManifestUnsaved, w2)
               | (True, w2) \<Rightarrow>
                   (case provision_all mv e pv cat prof targets (sorted_manifest m) w2 of
                      (Inl err, m3, w3) \<Rightarrow> (Inl err, w3)
                    | (Inr hs, m3, w3) \<Rightarrow>
                        (case save_manifest e m3 w3 of
                           (False, w4) \<Rightarrow> (Inl ManifestUnsaved, w4)
                         | (True, w4) \<Rightarrow> (Inr hs, w4))))))"

end
