(* ===== verification/Skill_Props.thy ===== *)
theory Skill_Props
  imports Skill_Link
begin

text \<open>
  What may be linked, and what a run does to the directories: nothing to an entry that is not Homeplane's, links
  only to assigned skills that passed the scan, and every link it leaves on record.
\<close>

section \<open>What the scan lets through\<close>

definition clean_file :: "scanner \<Rightarrow> string \<Rightarrow> nat \<Rightarrow> string \<Rightarrow> bool" where
  "clean_file sc base fsize data \<longleftrightarrow>
     to_lower base \<notin> set secret_file_names \<and> \<not> list_ex (has_suffix (to_lower base)) secret_file_suffixes
     \<and> to_lower base \<notin> set state_file_names \<and> \<not> list_ex (has_suffix (to_lower base)) state_file_suffixes
     \<and> fsize < max_scan_bytes \<and> CHR 0x00 \<notin> set data
     \<and> first_match (sc_secrets sc) data = None \<and> first_match (sc_initiative sc) data = None"

definition clean_entry :: "scanner \<Rightarrow> string \<Rightarrow> walk_entry \<Rightarrow> bool" where
  "clean_entry sc dir x \<longleftrightarrow>
     (case we_kind x of
        WalkError \<Rightarrow> False
      | WalkLink leads \<Rightarrow> we_path x = dir \<or> (case leads of None \<Rightarrow> False | Some t \<Rightarrow> within dir t)
      | WalkDir \<Rightarrow> True
      | WalkFile fsize data \<Rightarrow> we_path x = dir \<or> (case (fsize, data) of (Some n, Some d) \<Rightarrow> clean_file sc (we_name x) n d | _ \<Rightarrow> False)
      | WalkOther \<Rightarrow> we_path x = dir)"

lemma scan_file_InrD:
  "scan_file sc slug rel base fsize data = Inr t \<Longrightarrow> \<exists>n. fsize = Some n \<and> data = Some t \<and>
     (match_initiative sc slug rel' t = None \<longrightarrow> clean_file sc base n t)"
  by (auto simp: scan_file_def clean_file_def match_secret_def match_initiative_def Let_def
      split: if_splits option.splits)

lemma scan_walk_clean:
  "scan_walk sc slug dir ws files initiative = Inr None \<Longrightarrow>
     initiative = None \<and> (\<forall>x \<in> set ws. clean_entry sc dir x)"
proof (induction sc slug dir ws files initiative rule: scan_walk.induct)
  case (2 sc slug dir w ws files initiative)
  let ?rel = "case path_rel dir (we_path w) of None \<Rightarrow> we_path w | Some r \<Rightarrow> r"
  show ?case
  proof (cases "we_kind w = WalkError \<or> we_path w = dir")
    case True
    have no: "we_kind w \<noteq> WalkError" using 2(5) by (auto simp: Let_def)
    with True have d: "we_path w = dir" by blast
    have "scan_walk sc slug dir ws files initiative = Inr None" using 2(5) no d by (simp add: Let_def)
    from 2(1) [OF refl no d this] show ?thesis using no d by (cases "we_kind w") (simp_all add: clean_entry_def)
  next
    case False
    show ?thesis
    proof (cases "we_kind w")
      case (WalkFile fsize data)
      obtain t where t: "scan_file sc slug ?rel (we_name w) fsize data = Inr t" "\<not> Suc files > max_files_per_skill"
        "scan_walk sc slug dir ws (Suc files) (if initiative = None then match_initiative sc slug ?rel t else initiative) = Inr None"
        using 2(5) False WalkFile by (auto simp: Let_def split: if_splits sum.splits)
      then have "(if initiative = None then match_initiative sc slug ?rel t else initiative) = None
          \<and> (\<forall>x \<in> set ws. clean_entry sc dir x)"
        using 2(4) [OF refl _ _ WalkFile t(2) t(1) t(3)] False by blast
      moreover from this have "initiative = None" "match_initiative sc slug ?rel t = None" by (auto split: if_splits)
      moreover obtain n where "fsize = Some n \<and> data = Some t
        \<and> (match_initiative sc slug ?rel t = None \<longrightarrow> clean_file sc (we_name w) n t)"
        using scan_file_InrD [OF t(1), of ?rel] ..
      ultimately show ?thesis using WalkFile by (simp add: clean_entry_def)
    next
      case (WalkLink leads)
      then obtain t where t: "leads = Some t" "within dir t" "scan_walk sc slug dir ws files initiative = Inr None"
        using 2(5) False by (auto simp: Let_def split: if_splits option.splits)
      from 2(2) [OF refl _ _ WalkLink t(1,2,3)] False show ?thesis using WalkLink t by (simp add: clean_entry_def)
    next
      case WalkDir
      then have "scan_walk sc slug dir ws files initiative = Inr None" using 2(5) False by (simp add: Let_def)
      from 2(3) [OF refl _ _ WalkDir this] False show ?thesis using WalkDir by (simp add: clean_entry_def)
    qed (use 2(5) False in \<open>auto simp: Let_def\<close>)
  qed
qed simp

lemma classify_InrD:
  "classify fs sc slug dir = Inr s \<Longrightarrow> sk_slug s = slug \<and> sk_name s = slug \<and> sk_dir s = dir
     \<and> (\<forall>x \<in> set (sf_walk fs dir). clean_entry sc dir x)"
  by (auto simp: classify_def Let_def dest!: scan_walk_clean split: sum.splits option.splits if_splits prod.splits)

lemma candidate_skill:
  "candidate fs sc root slug = Inr (Some (Inr s)) \<Longrightarrow>
     sk_slug s = slug \<and> sk_name s = slug \<and> \<not> has_prefix slug ''.'' \<and> within root (sk_dir s)
     \<and> (\<forall>x \<in> set (sf_walk fs (sk_dir s)). clean_entry sc (sk_dir s) x)"
  by (auto simp: candidate_def dest!: classify_InrD split: if_splits resolve_answer.splits stat_answer.splits)

lemma scan_entries_skill:
  "scan_entries fs sc root names = Inr vs \<Longrightarrow> Inr s \<in> set vs \<Longrightarrow> \<exists>slug \<in> set names. candidate fs sc root slug = Inr (Some (Inr s))"
  by (induction names arbitrary: vs) (auto split: sum.splits option.splits)

lemma discovered_skill:
  assumes "discover fs sc root = Inr cat" "s \<in> set (ct_skills cat)"
  shows "sk_name s = sk_slug s \<and> \<not> has_prefix (sk_slug s) ''.'' \<and> within (ct_root cat) (sk_dir s)
    \<and> (\<forall>x \<in> set (sf_walk fs (sk_dir s)). clean_entry sc (sk_dir s) x)"
proof -
  from assms obtain r names vs where "scan_entries fs sc r names = Inr vs" "ct_root cat = r" "Inr s \<in> set vs"
    by (auto simp: discover_def verdict_skills_def split: if_splits resolve_answer.splits stat_answer.splits option.splits sum.splits)
  from scan_entries_skill [OF this(1,3)] candidate_skill this(2) show ?thesis by metis
qed

section \<open>What the steps of a run change\<close>

text \<open>Every operation only makes or removes entries, and makes only allowed links.\<close>

definition only_allowed :: "(string \<Rightarrow> string \<Rightarrow> bool) \<Rightarrow> link_world \<Rightarrow> link_world \<Rightarrow> bool" where
  "only_allowed A w w' \<longleftrightarrow>
     (\<forall>p. lw_entries w' p = lw_entries w p \<or> lw_entries w' p = None \<or> (\<exists>t. A p t \<and> lw_entries w' p = Some (SymLink t)))"

lemma only_allowed_refl: "lw_entries w' = lw_entries w \<Longrightarrow> only_allowed A w w'"
  by (simp add: only_allowed_def)

lemma only_allowed_trans: "only_allowed A w w' \<Longrightarrow> only_allowed A w' w'' \<Longrightarrow> only_allowed A w w''"
  unfolding only_allowed_def by metis

lemma link_step_entries [simp]: "lw_entries (snd (link_step e w)) = lw_entries w"
  by (simp add: link_step_def)

lemma link_steps_entries [simp]: "lw_entries (snd (link_steps n e w)) = lw_entries w"
  by (induction n arbitrary: w) (auto simp: case_prod_beta)

lemma save_manifest_entries [simp]: "lw_entries (snd (save_manifest e m w)) = lw_entries w"
  by (auto simp: save_manifest_def case_prod_beta)

lemma read_link_entries [simp]: "lw_entries (snd (read_link e p w)) = lw_entries w"
  by (simp add: read_link_def case_prod_beta)

lemma owns_entries [simp]: "lw_entries (snd (owns e m h p w)) = lw_entries w"
  by (simp add: owns_def case_prod_beta split: option.splits)

lemma recordedD: "recorded m h p = Some r \<Longrightarrow> r \<in> set (lm_links m) \<and> lr_harness r = h \<and> lr_path r = p"
  by (auto simp: recorded_def is_record_def find_Some_iff)

lemma ownsD:
  "owns e m h p w = (Some r, w1) \<Longrightarrow> r \<in> set (lm_links m) \<and> lr_path r = p \<and> lw_entries w p = Some (SymLink (lr_target r))"
  by (auto simp: owns_def read_link_def case_prod_beta dest!: recordedD split: option.splits if_splits link_entry.splits)

lemma put_entry_entries [simp]: "lw_entries (put_entry p x w) = (lw_entries w)(p := x)"
  by (simp add: put_entry_def)

lemma make_symlink_cases:
  "make_symlink e t p w = (ok, w1) \<Longrightarrow>
     lw_entries w1 = (if ok then (lw_entries w)(p \<mapsto> SymLink t) else lw_entries w)"
  by (auto simp: make_symlink_def case_prod_beta split: if_splits)

lemma remove_entry_cases:
  "remove_entry e p w = (ok, w1) \<Longrightarrow> lw_entries w1 = (if ok then (lw_entries w)(p := None) else lw_entries w)"
  by (auto simp: remove_entry_def case_prod_beta split: if_splits)

text \<open>The ways one link ends, with the entries before and after.\<close>

lemma link_skill_cases:
  assumes "link_skill e m h s p w = (x, changed, m', w')"
  obtains (kept) "lw_entries w' = lw_entries w" "m' = m"
    | (made) r where "lw_entries w p = None" "lw_entries w' = (lw_entries w)(p \<mapsto> SymLink (sk_dir s))"
        "m' = record_link r m" "lr_harness r = h" "lr_path r = p" "lr_target r = sk_dir s" "changed"
    | (same) r0 r where "r0 \<in> set (lm_links m)" "lr_path r0 = p" "lw_entries w p = Some (SymLink (lr_target r0))"
        "lw_entries w' = lw_entries w" "lw_entries w p = Some (SymLink (sk_dir s))"
        "m' = record_link r m" "lr_harness r = h" "lr_path r = p" "lr_target r = sk_dir s"
    | (lost) r0 where "r0 \<in> set (lm_links m)" "lr_path r0 = p" "lw_entries w p = Some (SymLink (lr_target r0))"
        "lw_entries w' = (lw_entries w)(p := None)" "m' = forget_link h p m" "changed"
    | (moved) r0 r where "r0 \<in> set (lm_links m)" "lr_path r0 = p" "lw_entries w p = Some (SymLink (lr_target r0))"
        "lw_entries w' = (lw_entries w)(p \<mapsto> SymLink (sk_dir s))"
        "m' = record_link r m" "lr_harness r = h" "lr_path r = p" "lr_target r = sk_dir s" "changed"
proof -
  obtain bad w1 where st: "link_step e w = (bad, w1)" by fastforce
  have w1: "lw_entries w1 = lw_entries w" using link_step_entries [of e w] st by simp
  show ?thesis
  proof (cases "bad \<or> lw_entries w p = Some RealEntry")
    case True
    then show ?thesis using assms st w1 kept by (cases bad) (auto simp: link_skill_def Let_def)
  next
    case good: False
    show ?thesis
    proof (cases "lw_entries w p")
      case None
      obtain ok w2 where mk: "make_symlink e (sk_dir s) p w1 = (ok, w2)" by fastforce
      note w2 = make_symlink_cases [OF mk]
      show ?thesis
      proof (cases ok)
        case True
        show ?thesis
          by (rule made [of "new_record e h s p w2"])
            (use assms st w1 good None mk w2 True in \<open>auto simp: link_skill_def Let_def new_record_def\<close>)
      next
        case False
        then show ?thesis using assms st w1 good None mk w2 kept by (simp add: link_skill_def Let_def)
      qed
    next
      case (Some y)
      then obtain t where y: "y = SymLink t" using good by (cases y) auto
      obtain ours w2 where ow: "owns e m h p w1 = (ours, w2)" by fastforce
      obtain current w3 where rd: "read_link e p w2 = (current, w3)" by fastforce
      have w3: "lw_entries w3 = lw_entries w" using owns_entries [of e m h p w1] read_link_entries [of e p w2] ow rd w1 by simp
      note head = assms [unfolded link_skill_def Let_def st prod.case w1 Some y option.case link_entry.case ow rd]
      show ?thesis
      proof (cases ours)
        case None
        then show ?thesis using head good w3 kept by simp
      next
        case r: (Some r)
        note ownD = ownsD [OF ow [unfolded r], unfolded w1]
        show ?thesis
        proof (cases "current = Some (sk_dir s)")
          case True
          have "current = None \<or> current = Some t"
            using rd Some y w1 owns_entries [of e m h p w1] ow by (auto simp: read_link_def case_prod_beta split: if_splits)
          then have t: "t = sk_dir s" using True by simp
          show ?thesis
            by (rule same [of r "(new_record e h s p w3)\<lparr>lr_at := lr_at r\<rparr>"])
              (use head r True good w3 Some y t ownD in \<open>auto simp: new_record_def\<close>)
        next
          case False
          obtain ok w4 where rm: "remove_entry e p w3 = (ok, w4)" by fastforce
          note w4 = remove_entry_cases [OF rm]
          obtain ok2 w5 where mk: "make_symlink e (sk_dir s) p w4 = (ok2, w5)" by fastforce
          note w5 = make_symlink_cases [OF mk]
          show ?thesis
          proof (cases ok)
            case False
            then show ?thesis using head r good w3 w4 rm \<open>current \<noteq> Some (sk_dir s)\<close> kept by simp
          next
            case True
            show ?thesis
            proof (cases ok2)
              case True
              show ?thesis
                by (rule moved [of r "new_record e h s p w5"])
                  (use head r good w3 w4 w5 rm mk \<open>ok\<close> True False ownD in \<open>auto simp: new_record_def\<close>)
            next
              case no: False
              show ?thesis
                by (rule lost [of r]) (use head r good w3 w4 w5 rm mk \<open>ok\<close> no False ownD in auto)
            qed
          qed
        qed
      qed
    qed
  qed
qed

lemma prune_one_cases:
  assumes "prune_one e cat h r m w = (x, changed, m', w')"
  obtains (kept) "lw_entries w' = lw_entries w" "m' = m"
    | (gone) "lw_entries w (lr_path r) = None" "lw_entries w' = lw_entries w" "m' = forget_link h (lr_path r) m" "changed"
    | (withdrawn) r0 where "r0 \<in> set (lm_links m)" "lr_path r0 = lr_path r"
        "lw_entries w (lr_path r) = Some (SymLink (lr_target r0))" "lw_entries w' = (lw_entries w)(lr_path r := None)"
        "m' = forget_link h (lr_path r) m" "changed"
proof -
  let ?p = "lr_path r"
  obtain bad w1 where st: "link_step e w = (bad, w1)" by fastforce
  have w1: "lw_entries w1 = lw_entries w" using link_step_entries [of e w] st by simp
  obtain ours w2 where ow: "owns e m h ?p w1 = (ours, w2)" by fastforce
  have w2: "lw_entries w2 = lw_entries w" using owns_entries [of e m h ?p w1] ow w1 by simp
  obtain ok w3 where rm: "remove_entry e ?p w2 = (ok, w3)" by fastforce
  note w3 = remove_entry_cases [OF rm]
  show ?thesis
  proof (cases "bad \<or> lw_entries w ?p = Some RealEntry")
    case True
    then show ?thesis using assms st w1 kept by (cases bad) (auto simp: prune_one_def Let_def)
  next
    case good: False
    show ?thesis
    proof (cases "lw_entries w ?p")
      case None
      then show ?thesis using assms st w1 good gone by (auto simp: prune_one_def Let_def)
    next
      case (Some y)
      then obtain t where y: "y = SymLink t" using good by (cases y) auto
      note head = assms [unfolded prune_one_def Let_def st prod.case w1 Some y option.case link_entry.case ow rm]
      show ?thesis
      proof (cases "ours = None \<or> \<not> ok")
        case True
        have "lw_entries (snd (read_link e ?p w2)) = lw_entries w" using w2 by simp
        then show ?thesis using head good True w2 w3 kept by (cases ours; cases ok) auto
      next
        case False
        then obtain r0 where r0: "ours = Some r0" "ok" by auto
        note ownD = ownsD [OF ow [unfolded r0], unfolded w1]
        show ?thesis
          by (rule withdrawn [of r0]) (use head good r0 w2 w3 ownD in auto)
      qed
    qed
  qed
qed

section \<open>Entries of others\<close>

text \<open>An entry that is there and is not a link that some record still describes.\<close>

definition foreign :: "(string \<Rightarrow> link_entry option) \<Rightarrow> link_record list \<Rightarrow> string \<Rightarrow> link_entry \<Rightarrow> bool" where
  "foreign entries ls p x \<longleftrightarrow> entries p = Some x \<and> (\<forall>r \<in> set ls. lr_path r = p \<longrightarrow> x \<noteq> SymLink (lr_target r))"

lemma set_set_record: "set (set_record r ls) \<subseteq> insert r (set ls)"
  by (induction ls) auto

lemma links_record_link [simp]: "lm_links (record_link r m) = set_record r (lm_links m)"
  by (simp add: record_link_def)

lemma links_forget_link [simp]: "lm_links (forget_link h p m) = filter (\<lambda>r. \<not> is_record h p r) (lm_links m)"
  by (simp add: forget_link_def)

lemma foreign_fewer: "foreign entries ls p x \<Longrightarrow> {r \<in> set ls'. lr_path r = p} \<subseteq> set ls \<Longrightarrow> foreign entries ls' p x"
  by (auto simp: foreign_def)

lemma foreign_record:
  "foreign entries ls p x \<Longrightarrow> lr_path r \<noteq> p \<Longrightarrow> foreign entries (set_record r ls) p x"
  by (rule foreign_fewer) (use set_set_record in auto)

lemma foreign_other [simp]: "q \<noteq> p \<Longrightarrow> foreign (entries(q := y)) ls p x = foreign entries ls p x"
  by (simp add: foreign_def)

text \<open>The record and the world, as one state for the statements about a run.\<close>

definition foreign_in :: "string \<Rightarrow> link_entry \<Rightarrow> link_manifest \<Rightarrow> link_world \<Rightarrow> bool" where
  "foreign_in p x m w \<longleftrightarrow> foreign (lw_entries w) (lm_links m) p x"

lemma link_skill_foreign:
  assumes run: "link_skill e m h s q w = (a, changed, m', w')" and f: "foreign_in p x m w"
  shows "foreign_in p x m' w'"
  using run
proof (cases rule: link_skill_cases)
  case kept
  with f show ?thesis by (simp add: foreign_in_def)
next
  case (made r)
  then have "q \<noteq> p" using f by (auto simp: foreign_in_def foreign_def)
  with made f show ?thesis by (simp add: foreign_in_def foreign_record)
next
  case (same r0 r)
  then have "q \<noteq> p" using f by (auto simp: foreign_in_def foreign_def)
  with same f show ?thesis by (simp add: foreign_in_def foreign_record)
next
  case (lost r0)
  then have "q \<noteq> p" using f by (auto simp: foreign_in_def foreign_def)
  with lost f show ?thesis by (auto simp: foreign_in_def foreign_def)
next
  case (moved r0 r)
  then have "q \<noteq> p" using f by (auto simp: foreign_in_def foreign_def)
  with moved f show ?thesis by (simp add: foreign_in_def foreign_record)
qed

lemma prune_one_foreign:
  assumes run: "prune_one e cat h r m w = (a, changed, m', w')" and f: "foreign_in p x m w"
  shows "foreign_in p x m' w'"
  using run
proof (cases rule: prune_one_cases)
  case kept
  with f show ?thesis by (simp add: foreign_in_def)
next
  case gone
  with f show ?thesis by (auto simp: foreign_in_def foreign_def)
next
  case (withdrawn r0)
  then have "lr_path r \<noteq> p" using f by (auto simp: foreign_in_def foreign_def)
  with withdrawn f show ?thesis by (auto simp: foreign_in_def foreign_def)
qed

section \<open>From the steps to the run\<close>

text \<open>The links a run may make: an assigned slug that is not marked unsupported and that the catalog has as a skill.\<close>

definition assigned_link :: "machine_view \<Rightarrow> provisioner \<Rightarrow> catalog \<Rightarrow> profile \<Rightarrow> string \<Rightarrow> skill \<Rightarrow> string \<Rightarrow> bool" where
  "assigned_link mv pv cat prof h s p \<longleftrightarrow>
     (\<exists>dir slug. skills_dir mv (pv_locator pv) h = Some dir \<and> slug \<in> set (assign_skills prof (pv_machine pv) h)
        \<and> unsupported_on prof slug h = None \<and> catalog_lookup cat slug = Some s \<and> p = path_join [dir, slug])"

text \<open>What every step keeps, the run keeps: a relation between two states that the steps satisfy.\<close>

locale link_change =
  fixes mv :: machine_view and pv :: provisioner and cat :: catalog and prof :: profile
    and T :: "link_manifest \<Rightarrow> link_world \<Rightarrow> link_manifest \<Rightarrow> link_world \<Rightarrow> bool"
  assumes frame: "lw_entries w' = lw_entries w \<Longrightarrow> set (lm_links m') = set (lm_links m) \<Longrightarrow> T m w m' w'"
    and trans: "T m w m1 w1 \<Longrightarrow> T m1 w1 m2 w2 \<Longrightarrow> T m w m2 w2"
    and link: "assigned_link mv pv cat prof h s p \<Longrightarrow> link_skill e m h s p w = (x, changed, m', w') \<Longrightarrow> T m w m' w'"
    and prune: "prune_one e cat h r m w = (x, changed, m', w') \<Longrightarrow> T m w m' w'"
begin

lemma save: "save_changed e changed m w = (ok, m', w') \<Longrightarrow> T m w m' w'"
  by (rule frame) (auto simp: save_changed_def sorted_manifest_def sort_links_def case_prod_beta split: if_splits)

lemma prune_all: "prune_loop e cat h rs m w = (r, m', w') \<Longrightarrow> T m w m' w'"
proof (induction rs arbitrary: m w r)
  case Nil
  then show ?case by (auto intro: frame)
next
  case (Cons y rs)
  obtain x changed m1 w1 where p: "prune_one e cat h y m w = (x, changed, m1, w1)" by (metis prod_cases4)
  obtain ok m2 w2 where s: "save_changed e changed m1 w1 = (ok, m2, w2)" by (metis prod_cases3)
  have two: "T m w m2 w2" using trans prune [OF p] save [OF s] by blast
  show ?case
  proof (cases ok)
    case False
    with Cons.prems p s two show ?thesis by simp
  next
    case True
    obtain xs m3 w3 where l: "prune_loop e cat h rs m2 w2 = (xs, m3, w3)" by (metis prod_cases3)
    with Cons.prems p s True have "m' = m3" "w' = w3" by simp_all
    with Cons.IH [OF l [folded this]] two trans show ?thesis by blast
  qed
qed

lemma assign_all:
  "skills_dir mv (pv_locator pv) h = Some dir \<Longrightarrow> set slugs \<subseteq> set (assign_skills prof (pv_machine pv) h) \<Longrightarrow>
     assign_loop e cat prof h dir slugs m w = (r, m', w') \<Longrightarrow> T m w m' w'"
proof (induction slugs arbitrary: m w r)
  case Nil
  then show ?case by (auto intro: frame)
next
  case (Cons slug slugs)
  show ?case
  proof (cases "unsupported_on prof slug h = None \<and> catalog_lookup cat slug \<noteq> None")
    case False
    obtain r1 m1 w1 where l: "assign_loop e cat prof h dir slugs m w = (r1, m1, w1)" by (metis prod_cases3)
    with Cons.prems(3) False have "m' = m1" "w' = w1" by (auto simp: Let_def split: option.splits)
    with Cons.IH [OF Cons.prems(1) _ l [folded this]] Cons.prems(2) show ?thesis by simp
  next
    case True
    then obtain s where s: "unsupported_on prof slug h = None" "catalog_lookup cat slug = Some s" by blast
    let ?p = "path_join [dir, slug]"
    have may: "assigned_link mv pv cat prof h s ?p"
      using Cons.prems(1,2) s unfolding assigned_link_def by auto
    obtain x changed m1 w1 where p: "link_skill e m h s ?p w = (x, changed, m1, w1)" by (metis prod_cases4)
    obtain ok m2 w2 where sv: "save_changed e changed m1 w1 = (ok, m2, w2)" by (metis prod_cases3)
    have two: "T m w m2 w2" using trans link [OF may p] save [OF sv] by blast
    show ?thesis
    proof (cases ok)
      case False
      with Cons.prems(3) s p sv two show ?thesis by (simp add: Let_def del: path_join.simps)
    next
      case True
      obtain r1 m3 w3 where l: "assign_loop e cat prof h dir slugs m2 w2 = (r1, m3, w3)" by (metis prod_cases3)
      with Cons.prems(3) s p sv True have "m' = m3" "w' = w3" by (simp_all add: Let_def del: path_join.simps)
      with Cons.IH [OF Cons.prems(1) _ l [folded this]] Cons.prems(2) two trans show ?thesis by (metis set_subset_Cons subset_trans)
    qed
  qed
qed

lemma provision_one:
  assumes "provision_one mv e pv cat prof h m w = (r, m', w')"
  shows "T m w m' w'"
proof (cases "skills_dir mv (pv_locator pv) h")
  case None
  with assms show ?thesis by (auto simp: provision_one_def intro: frame)
next
  case (Some dir)
  let ?as = "assign_skills prof (pv_machine pv) h"
  obtain bad w1 where st: "(if ?as = [] then (False, w) else link_step e w) = (bad, w1)" by fastforce
  then have w1: "lw_entries w1 = lw_entries w" by (auto simp: link_step_def split: if_splits)
  show ?thesis
  proof (cases bad)
    case True
    with assms Some st w1 show ?thesis by (auto simp: provision_one_def Let_def intro: frame)
  next
    case False
    obtain a m2 w2 where l: "assign_loop e cat prof h dir ?as m w1 = (a, m2, w2)" by (metis prod_cases3)
    have two: "T m w m2 w2" using trans [OF frame assign_all [OF Some order.refl l]] w1 by simp
    show ?thesis
    proof (cases a)
      case None
      with assms Some st False l two show ?thesis by (auto simp: provision_one_def Let_def)
    next
      case xs: (Some b)
      obtain xs wanted where b: "b = (xs, wanted)" by fastforce
      obtain ys m3 w3 where pr: "(if pv_prune pv then prune_loop e cat h (stale_links m2 h dir wanted) m2 w2 else (Some [], m2, w2)) = (ys, m3, w3)"
        by (metis prod_cases3)
      have "T m2 w2 m3 w3" using pr prune_all by (auto intro: frame split: if_splits)
      moreover have "m' = m3 \<and> w' = w3"
        using assms Some st False l xs b pr by (auto simp: provision_one_def Let_def split: option.splits)
      ultimately show ?thesis using two trans by blast
    qed
  qed
qed

lemma provision_all: "provision_all mv e pv cat prof hs m w = (r, m', w') \<Longrightarrow> T m w m' w'"
proof (induction hs arbitrary: m w r)
  case Nil
  then show ?case by (auto intro: frame)
next
  case (Cons h hs)
  obtain a m1 w1 where o1: "provision_one mv e pv cat prof h m w = (a, m1, w1)" by (metis prod_cases3)
  note one = provision_one [OF o1]
  show ?case
  proof (cases a)
    case (Inl err)
    with Cons.prems o1 one show ?thesis by simp
  next
    case (Inr x)
    obtain b m2 w2 where o2: "provision_all mv e pv cat prof hs m1 w1 = (b, m2, w2)" by (metis prod_cases3)
    with Cons.prems o1 Inr have same: "m' = m2 \<and> w' = w2" by (auto split: sum.splits)
    have "T m1 w1 m' w'" by (rule Cons.IH) (simp add: o2 same)
    with one trans show ?thesis by blast
  qed
qed

end

text \<open>A run either ends before it changes an entry, or starts its harnesses with the record it read.\<close>

lemma provision_cases:
  assumes "provision mv e pv cat prof w = (r, w')"
  obtains (nothing) "lw_entries w' = lw_entries w" "\<exists>err. r = Inl err"
    | (ran) m0 w2 a m3 w3 where "lw_entries w2 = lw_entries w"
        "lw_saved w = NoManifest \<and> m0 = empty_manifest \<or> lw_saved w = ManifestHolds m0"
        "provision_all mv e pv cat prof (if pv_harnesses pv = [] then known_harness_names else pv_harnesses pv)
           (sorted_manifest (m0\<lparr>lm_profile := pf_name prof\<rparr>)) w2 = (a, m3, w3)"
        "lw_entries w' = lw_entries w3"
        "\<And>hs. r = Inr hs \<Longrightarrow> a = Inr hs \<and> lw_saved w' = ManifestHolds ((sorted_manifest m3)\<lparr>lm_schema := manifest_schema_version\<rparr>)"
proof -
  let ?targets = "if pv_harnesses pv = [] then known_harness_names else pv_harnesses pv"
  obtain l w1 where L: "load_manifest e w = (l, w1)" by fastforce
  have w1: "lw_entries w1 = lw_entries w" using L by (auto simp: load_manifest_def case_prod_beta)
  show ?thesis
  proof (cases "List.find (\<lambda>h. skills_dir mv (pv_locator pv) h = None) ?targets \<noteq> None \<or> trim_space (pv_state_dir pv) = []
      \<or> pv_lock pv = Some False \<or> (\<exists>err. l = Inl err)")
    case True
    show ?thesis
      by (rule nothing) (use assms L w1 True in \<open>auto simp: provision_def Let_def split: option.splits if_splits\<close>)
  next
    case False
    then obtain m0 where m0: "l = Inr m0" by (cases l) auto
    let ?m = "m0\<lparr>lm_profile := pf_name prof\<rparr>"
    obtain ok w2 where S: "save_manifest e ?m w1 = (ok, w2)" by fastforce
    have w2: "lw_entries w2 = lw_entries w" using save_manifest_entries [of e ?m w1] S w1 by simp
    note head = assms [unfolded provision_def Let_def]
    show ?thesis
    proof (cases ok)
      case no: False
      show ?thesis by (rule nothing) (use head L m0 False S w2 no in auto)
    next
      case True
      obtain a m3 w3 where A: "provision_all mv e pv cat prof ?targets (sorted_manifest ?m) w2 = (a, m3, w3)" by (metis prod_cases3)
      obtain ok2 w4 where S2: "save_manifest e m3 w3 = (ok2, w4)" by fastforce
      have w4: "lw_entries w4 = lw_entries w3" using save_manifest_entries [of e m3 w3] S2 by simp
      have saved: "lw_saved w = NoManifest \<and> m0 = empty_manifest \<or> lw_saved w = ManifestHolds m0"
        using L m0 by (auto simp: load_manifest_def link_step_def split: if_splits manifest_file.splits)
      show ?thesis
      proof (rule ran [OF w2 saved A])
        show "lw_entries w' = lw_entries w3"
          using head L m0 False S True A S2 w4 by (cases a; cases ok2) auto
        show "a = Inr hs \<and> lw_saved w' = ManifestHolds ((sorted_manifest m3)\<lparr>lm_schema := manifest_schema_version\<rparr>)"
          if "r = Inr hs" for hs
          using head L m0 False S True A S2 that
          by (cases a; cases ok2) (auto simp: save_manifest_def case_prod_beta split: if_splits)
      qed
    qed
  qed
qed

section \<open>The three uses\<close>

interpretation foreign_run: link_change mv pv cat prof "\<lambda>m w m' w'. foreign_in p x m w \<longrightarrow> foreign_in p x m' w'"
  for mv pv cat prof p x
proof (rule link_change.intro, goal_cases)
  case 1
  then show ?case by (simp add: foreign_in_def foreign_def)
next
  case 2
  then show ?case by blast
next
  case 3
  then show ?case by (intro impI) (rule link_skill_foreign)
next
  case 4
  then show ?case by (intro impI) (rule prune_one_foreign)
qed

definition may_link :: "machine_view \<Rightarrow> provisioner \<Rightarrow> catalog \<Rightarrow> profile \<Rightarrow> string \<Rightarrow> string \<Rightarrow> bool" where
  "may_link mv pv cat prof p t \<longleftrightarrow> (\<exists>h s. assigned_link mv pv cat prof h s p \<and> t = sk_dir s)"

lemma link_skill_allowed:
  assumes "assigned_link mv pv cat prof h s p" "link_skill e m h s p w = (x, changed, m', w')"
  shows "only_allowed (may_link mv pv cat prof) w w'"
proof -
  have "may_link mv pv cat prof p (sk_dir s)" using assms(1) by (auto simp: may_link_def)
  from assms(2) this show ?thesis by (cases rule: link_skill_cases) (simp_all add: only_allowed_def)
qed

lemma prune_one_allowed: "prune_one e cat h r m w = (x, changed, m', w') \<Longrightarrow> only_allowed A w w'"
  by (erule prune_one_cases) (auto simp: only_allowed_def)

interpretation allowed_run: link_change mv pv cat prof "\<lambda>m w m' w'. only_allowed (may_link mv pv cat prof) w w'"
  for mv pv cat prof
proof (rule link_change.intro, goal_cases)
  case 1
  then show ?case by (simp add: only_allowed_refl)
next
  case 2
  then show ?case by (rule only_allowed_trans)
next
  case 3
  then show ?case by (rule link_skill_allowed)
next
  case 4
  then show ?case by (rule prune_one_allowed)
qed

text \<open>A link that is there is described by a record, or was there undescribed before.\<close>

definition described :: "link_manifest \<Rightarrow> link_world \<Rightarrow> string \<Rightarrow> string \<Rightarrow> bool" where
  "described m w p t \<longleftrightarrow> (lw_entries w p = Some (SymLink t) \<longrightarrow> (\<exists>r \<in> set (lm_links m). lr_path r = p \<and> lr_target r = t))"

lemma set_record_has [simp]: "r \<in> set (set_record r ls)"
  by (induction ls) auto

lemma set_record_other: "x \<in> set ls \<Longrightarrow> lr_path x \<noteq> lr_path r \<Longrightarrow> x \<in> set (set_record r ls)"
  by (induction ls) (auto simp: is_record_def)

lemma described_record:
  assumes "described m w p t" "lw_entries w' = lw_entries w \<or> lw_entries w' = (lw_entries w)(lr_path r \<mapsto> SymLink (lr_target r))"
    "lw_entries w' (lr_path r) = Some (SymLink (lr_target r))"
  shows "described (record_link r m) w' p t"
proof (cases "p = lr_path r")
  case True
  then show ?thesis using assms(3) by (auto simp: described_def)
next
  case False
  then show ?thesis using assms by (auto simp: described_def intro: set_record_other)
qed

lemma described_forget:
  "described m w p t \<Longrightarrow> lw_entries w' = lw_entries w \<or> lw_entries w' = (lw_entries w)(q := None) \<Longrightarrow> lw_entries w' q = None \<Longrightarrow>
     described (forget_link h q m) w' p t"
  by (cases "p = q") (auto simp: described_def is_record_def)

lemma link_skill_described:
  assumes run: "link_skill e m h s q w = (a, changed, m', w')" and d: "described m w p t"
  shows "described m' w' p t"
  using run
proof (cases rule: link_skill_cases)
  case kept
  with d show ?thesis by (simp add: described_def)
next
  case (lost r0)
  with described_forget [OF d, of w' q] show ?thesis by simp
qed (use described_record [OF d, of w'] in auto)

lemma prune_one_described:
  assumes run: "prune_one e cat h r m w = (a, changed, m', w')" and d: "described m w p t"
  shows "described m' w' p t"
  using run
proof (cases rule: prune_one_cases)
  case kept
  with d show ?thesis by (simp add: described_def)
qed (use described_forget [OF d, of w' "lr_path r"] in simp_all)

interpretation described_run: link_change mv pv cat prof "\<lambda>m w m' w'. described m w p t \<longrightarrow> described m' w' p t"
  for mv pv cat prof p t
proof (rule link_change.intro, goal_cases)
  case 1
  then show ?case by (simp add: described_def)
next
  case 2
  then show ?case by blast
next
  case 3
  then show ?case by (intro impI) (rule link_skill_described)
next
  case 4
  then show ?case by (intro impI) (rule prune_one_described)
qed

lemma sorted_manifest_links [simp]: "set (lm_links (sorted_manifest m)) = set (lm_links m)"
  by (simp add: sorted_manifest_def sort_links_def)

section \<open>What a run promises\<close>

definition saved_links :: "link_world \<Rightarrow> link_record list" where
  "saved_links w = (case lw_saved w of ManifestHolds m \<Rightarrow> lm_links m | _ \<Rightarrow> [])"

lemma catalog_lookup_in: "catalog_lookup cat slug = Some s \<Longrightarrow> s \<in> set (ct_skills cat) \<and> sk_slug s = slug"
  by (auto simp: catalog_lookup_def find_Some_iff)

lemma saved_start:
  "lw_saved w = NoManifest \<and> m0 = empty_manifest \<or> lw_saved w = ManifestHolds m0 \<Longrightarrow> lm_links m0 = saved_links w"
  by (auto simp: saved_links_def empty_manifest_def)

lemma foreign_in_start:
  assumes "lw_entries w p = Some x" "\<forall>r \<in> set (saved_links w). lr_path r = p \<longrightarrow> x \<noteq> SymLink (lr_target r)"
    "lw_entries w2 = lw_entries w" "lm_links m0 = saved_links w"
  shows "foreign_in p x (sorted_manifest (m0\<lparr>lm_profile := n\<rparr>)) w2"
  using assms by (simp add: foreign_in_def foreign_def)

text \<open>
  C38. A run of the provisioner leaves every entry of a skill directory alone that is not one of its own links: an
  entry that the saved record does not describe, or that it describes with another target, is the same afterwards,
  whatever is assigned, pruned or found, and whatever system calls fail.
\<close>

theorem operators_entries_kept:
  assumes there: "lw_entries w p = Some x"
    and not_ours: "\<forall>r \<in> set (saved_links w). lr_path r = p \<longrightarrow> x \<noteq> SymLink (lr_target r)"
  shows "lw_entries (snd (provision mv e pv cat prof w)) p = Some x"
proof -
  obtain r w' where run: "provision mv e pv cat prof w = (r, w')" by fastforce
  then show ?thesis
  proof (cases rule: provision_cases)
    case nothing
    with run there show ?thesis by simp
  next
    case (ran m0 w2 a m3 w3)
    note start = foreign_in_start [OF there not_ours ran(1) saved_start [OF ran(2)]]
    have "foreign_in p x m3 w3" using foreign_run.provision_all [OF ran(3)] start by blast
    with run ran(4) show ?thesis by (simp add: foreign_in_def foreign_def)
  qed
qed

text \<open>
  C39. Every link a run makes leads to a skill that may be there: if an entry differs afterwards and is present, it is
  a link in the directory of some harness to the directory of a skill that the profile assigns to that harness on
  this machine and does not mark unsupported, that the scan of the vault found under this slug inside the vault,
  and whose every entry passed the scan, with no credential, no runtime state and no link out of the skill.
\<close>

theorem links_lead_to_clean_skills:
  assumes found: "discover fs sc root = Inr cat" and run: "provision mv e pv cat prof w = (r, w')"
    and new: "lw_entries w' p = Some y" "lw_entries w p \<noteq> Some y"
  shows "\<exists>h s. y = SymLink (sk_dir s) \<and> assigned_link mv pv cat prof h s p \<and> s \<in> set (ct_skills cat)
    \<and> within (ct_root cat) (sk_dir s) \<and> list_all (clean_entry sc (sk_dir s)) (sf_walk fs (sk_dir s))"
  using run
proof (cases rule: provision_cases)
  case nothing
  with new show ?thesis by simp
next
  case (ran m0 w2 a m3 w3)
  have "only_allowed (may_link mv pv cat prof) w2 w3" using allowed_run.provision_all [OF ran(3)] .
  with new ran(1,4) obtain t where t: "may_link mv pv cat prof p t" "y = SymLink t"
    by (metis only_allowed_def option.distinct(1) option.inject)
  then obtain h s where hs: "assigned_link mv pv cat prof h s p" "t = sk_dir s" by (auto simp: may_link_def)
  then have "s \<in> set (ct_skills cat)" by (auto simp: assigned_link_def dest: catalog_lookup_in)
  with discovered_skill [OF found] hs t show ?thesis unfolding list_all_iff by blast
qed

text \<open>
  C40. A run that reports success has every link it made on record: each link of a skill directory that was not there
  before is described by an entry of the saved record, path and target, so that a later run knows it as its own.
\<close>

theorem made_links_recorded:
  assumes run: "provision mv e pv cat prof w = (Inr hs, w')"
    and new: "lw_entries w' p = Some (SymLink t)" "lw_entries w p \<noteq> Some (SymLink t)"
  shows "\<exists>r \<in> set (saved_links w'). lr_path r = p \<and> lr_target r = t"
  using run
proof (cases rule: provision_cases)
  case nothing
  then show ?thesis by simp
next
  case (ran m0 w2 a m3 w3)
  have "described m3 w3 p t"
    using described_run.provision_all [OF ran(3)] ran(1) new(2) by (auto simp: described_def)
  with ran(4) ran(5) [OF refl] new(1) show ?thesis by (simp add: described_def saved_links_def)
qed

section \<open>A concrete run\<close>

definition sample_view :: machine_view where
  "sample_view = \<lparr>mv_stat = (\<lambda>_. StatMissing), mv_git_entry = (\<lambda>_. False), mv_symlinks = (\<lambda>_. None),
     mv_git_ignores = (\<lambda>_ _. False), mv_env = (\<lambda>_. []), mv_home = Some ''/h''\<rparr>"

definition sample_provisioner :: provisioner where
  "sample_provisioner = \<lparr>pv_locator = \<lparr>lo_home = [], lo_codex_home = [], lo_claude_dir = ''/c'', lo_look_path = (\<lambda>_. None)\<rparr>,
     pv_state_dir = ''/s'', pv_machine = ''m'', pv_harnesses = [claude_code], pv_prune = True, pv_lock = None\<rparr>"

definition sample_profile :: profile where
  "sample_profile = \<lparr>pf_schema = 1, pf_name = ''p'', pf_path = [], pf_default = \<lparr>ss_skills = [''a'', ''b''], ss_set = True\<rparr>,
     pf_harness = [], pf_machine = [], pf_unsupported = []\<rparr>"

definition sample_md :: string where
  "sample_md = ''---'' @ newline # ''name: a'' @ newline # ''description: d'' @ newline # ''---''"

definition sample_fs :: skill_fs where
  "sample_fs = \<lparr>sf_resolve = Resolves, sf_stat = (\<lambda>p. if p \<in> {''/v'', ''/v/a''} then StatDir else StatFile),
     sf_names = (\<lambda>_. Some [''a'']),
     sf_read = (\<lambda>_. Some sample_md),
     sf_walk = (\<lambda>_. [\<lparr>we_path = ''/v/a'', we_name = ''a'', we_kind = WalkDir\<rparr>,
        \<lparr>we_path = ''/v/a/SKILL.md'', we_name = ''SKILL.md'', we_kind = WalkFile (Some 3) (Some ''x'')\<rparr>])\<rparr>"

definition sample_scanner :: scanner where
  "sample_scanner = \<lparr>sc_secrets = [], sc_initiative = []\<rparr>"

definition calm_env :: link_env where
  "calm_env = \<lparr>le_fault = (\<lambda>_. False), le_clock = int\<rparr>"

definition sample_skill :: skill where
  "sample_skill = \<lparr>sk_slug = ''a'', sk_name = ''a'', sk_description = ''d'', sk_dir = ''/v/a'', sk_md = ''/v/a/SKILL.md''\<rparr>"

definition sample_catalog :: catalog where
  "sample_catalog = \<lparr>ct_root = ''/v'', ct_skills = [sample_skill], ct_findings = []\<rparr>"

definition sample_links :: link_world where
  "sample_links = \<lparr>lw_entries = [''/c/skills/b'' \<mapsto> SymLink ''/own/b''], lw_saved = NoManifest, lw_step = 0\<rparr>"

lemma sample_paths:
  "path_join [''/v'', ''a''] = ''/v/a''" "path_join [''/v/a'', ''SKILL.md''] = ''/v/a/SKILL.md''" "within ''/v'' ''/v/a''"
  by code_simp+

lemma sample_front:
  "parse_frontmatter sample_md = Inr (''a'', ''d'')"
  by code_simp

lemma sample_names:
  "to_lower ''SKILL.md'' \<notin> set secret_file_names" "\<not> list_ex (has_suffix (to_lower ''SKILL.md'')) secret_file_suffixes"
  "to_lower ''SKILL.md'' \<notin> set state_file_names" "\<not> list_ex (has_suffix (to_lower ''SKILL.md'')) state_file_suffixes"
  "trim_space ''/v'' \<noteq> []" "\<not> has_prefix ''a'' ''.''"
  by code_simp+

lemma sample_walk: "scan_walk sample_scanner ''a'' ''/v/a'' (sf_walk sample_fs ''/v/a'') 0 None = Inr None"
  by (simp add: sample_fs_def sample_scanner_def scan_file_def Let_def match_secret_def match_initiative_def max_scan_bytes_def
      max_files_per_skill_def sample_names)

lemma sample_fs_answers:
  "sf_resolve sample_fs p = Resolves p" "sf_stat sample_fs ''/v'' = StatDir" "sf_stat sample_fs ''/v/a'' = StatDir"
  "sf_stat sample_fs ''/v/a/SKILL.md'' = StatFile" "sf_names sample_fs p = Some [''a'']" "sf_read sample_fs p = Some sample_md"
  by (simp_all add: sample_fs_def)

lemma sample_found: "discover sample_fs sample_scanner ''/v'' = Inr sample_catalog"
proof -
  have "candidate sample_fs sample_scanner ''/v'' ''a'' = Inr (Some (Inr sample_skill))"
    using sample_walk by (simp add: candidate_def classify_def sample_paths sample_names sample_fs_answers sample_front
      sample_skill_def)
  then show ?thesis using sample_names
    by (simp add: discover_def sample_fs_answers sample_catalog_def verdict_skills_def verdict_findings_def)
qed

lemma sample_entries:
  "lw_entries sample_links ''/c/skills/b'' = Some (SymLink ''/own/b'')" "lw_entries sample_links ''/c/skills/a'' = None"
  "saved_links sample_links = []"
  by (simp_all add: sample_links_def saved_links_def)

lemma sample_run:
  "case provision sample_view calm_env sample_provisioner sample_catalog sample_profile sample_links of (r, w') \<Rightarrow>
     lw_entries w' ''/c/skills/a'' = Some (SymLink ''/v/a'') \<and> (\<not> isl r)"
  by code_simp

lemma sample_run_end:
  obtains hs w' where "provision sample_view calm_env sample_provisioner sample_catalog sample_profile sample_links = (Inr hs, w')"
    "lw_entries w' ''/c/skills/a'' = Some (SymLink ''/v/a'')"
proof -
  obtain r w' where run: "provision sample_view calm_env sample_provisioner sample_catalog sample_profile sample_links = (r, w')"
    by fastforce
  from that sample_run show ?thesis by (cases r) (simp_all add: run)
qed

theorem operators_entries_kept_witness:
  "lw_entries (snd (provision sample_view calm_env sample_provisioner sample_catalog sample_profile sample_links)) ''/c/skills/b''
     = Some (SymLink ''/own/b'')"
  by (rule operators_entries_kept) (simp_all add: sample_entries)

theorem links_lead_to_clean_skills_witness:
  "\<exists>h s. SymLink ''/v/a'' = SymLink (sk_dir s)
     \<and> assigned_link sample_view sample_provisioner sample_catalog sample_profile h s ''/c/skills/a'' \<and> s \<in> set (ct_skills sample_catalog)
     \<and> within (ct_root sample_catalog) (sk_dir s)
     \<and> list_all (clean_entry sample_scanner (sk_dir s)) (sf_walk sample_fs (sk_dir s))"
proof -
  obtain hs w' where run: "provision sample_view calm_env sample_provisioner sample_catalog sample_profile sample_links = (Inr hs, w')"
    "lw_entries w' ''/c/skills/a'' = Some (SymLink ''/v/a'')"
    by (rule sample_run_end)
  show ?thesis
    by (rule links_lead_to_clean_skills [OF sample_found run]) (simp add: sample_entries)
qed

theorem made_links_recorded_witness:
  "\<exists>r \<in> set (saved_links (snd (provision sample_view calm_env sample_provisioner sample_catalog sample_profile sample_links))).
     lr_path r = ''/c/skills/a'' \<and> lr_target r = ''/v/a''"
proof -
  obtain hs w' where run: "provision sample_view calm_env sample_provisioner sample_catalog sample_profile sample_links = (Inr hs, w')"
    "lw_entries w' ''/c/skills/a'' = Some (SymLink ''/v/a'')"
    by (rule sample_run_end)
  from made_links_recorded [OF run] show ?thesis using run by (simp add: sample_entries)
qed

section \<open>A link without a record\<close>

text \<open>
  The link is made and its record is saved by two calls, and a failing save ends the run without undoing the link:
  the saved record does not have it, and the next run, with no fault, takes it for somebody else's and leaves it.
\<close>

definition failing_env :: "nat \<Rightarrow> link_env" where
  "failing_env n = \<lparr>le_fault = (\<lambda>k. k = n), le_clock = int\<rparr>"

lemma unrecorded_link_left:
  "case provision sample_view (failing_env 10) sample_provisioner sample_catalog sample_profile sample_links of (r1, w1) \<Rightarrow>
   case provision sample_view calm_env sample_provisioner sample_catalog sample_profile w1 of (r2, w2) \<Rightarrow>
     r1 = Inl ManifestUnsaved \<and> lw_entries w1 ''/c/skills/a'' = Some (SymLink ''/v/a'') \<and> saved_links w1 = []
     \<and> saved_links w2 = [] \<and> map (\<lambda>h. map (\<lambda>x. (li_slug x, li_action x, li_reason x)) (hl_results h)) (case r2 of Inr hs \<Rightarrow> hs | Inl _ \<Rightarrow> [])
       = [[(''a'', ActionSkipped, NotOurs), (''b'', ActionSkipped, NoSuchSkill)]]"
  by code_simp

section \<open>Names\<close>

text \<open>The name of a skill is checked as it is written and used as it is trimmed.\<close>

lemma padded_slug_accepted:
  "validate_slug '' ..'' = None" "normalize_slugs ['' ..''] = [''..'']" "path_join [''/c/skills'', ''..''] = ''/c''"
  by code_simp+

text \<open>A key that belongs to another one is read as the skill's own.\<close>

lemma nested_name_wins:
  "parse_frontmatter (''---'' @ newline # ''name: a'' @ newline # ''description: d'' @ newline # ''metadata:'' @ newline
     # ''  name: b'' @ newline # ''---'') = Inr (''b'', ''d'')"
  by code_simp

end
