(* ===== verification/Spec2Isabelle.thy ===== *)
theory Spec2Isabelle
  imports Control_Props Health Broker Edge_Props Flow_Props Workload_Props Ledger_Props Supervise_Props Configure_Props Skill_Props
begin

text \<open>
  Homeplane.
\<close>

end
